(* ===== verification/Svec_Prelude.thy ===== *)
theory Svec_Prelude
  imports Main "HOL-Library.Word" "HOL-Library.State_Monad"
begin

text \<open>
  Types and generic facts shared by every component: the fixed-width integers of the C code, the
  error numbers of the kernel, bytes and byte order of a 32-bit word, and the conversions of
  \<open>printf\<close> that the code uses.  The host is little-endian and LP64 (x86-64), as the machines
  the driver runs on: \<open>htonl\<close> and \<open>__builtin_bswap32\<close> are the same byte swap.
\<close>

unbundle bit_operations_syntax

named_theorems run_simps \<open>equations that evaluate one operation of the state monad\<close>
named_theorems byte_simps \<open>byte selection and byte order\<close>
named_theorems reg_defs \<open>register offsets and bit masks\<close>

section \<open>Machine integers and error numbers\<close>

type_synonym u8 = "8 word"
type_synonym u16 = "16 word"
type_synonym u32 = "32 word"
type_synonym u64 = "64 word"

abbreviation (input) EPERM :: int where "EPERM \<equiv> 1"
abbreviation (input) EIO :: int where "EIO \<equiv> 5"
abbreviation (input) ENXIO :: int where "ENXIO \<equiv> 6"
abbreviation (input) ENOMEM :: int where "ENOMEM \<equiv> 12"
abbreviation (input) EBUSY :: int where "EBUSY \<equiv> 16"
abbreviation (input) ENODEV :: int where "ENODEV \<equiv> 19"
abbreviation (input) EINVAL :: int where "EINVAL \<equiv> 22"

text \<open>A bit test of C: \<open>x & m\<close> used as a condition.\<close>

definition tst :: "'w::len word \<Rightarrow> 'w word \<Rightarrow> bool" where
  "tst x m \<longleftrightarrow> x AND m \<noteq> 0"

lemma tst_0 [simp]: "\<not> tst 0 m"
  by (simp add: tst_def)

text \<open>\<open>BIT(n)\<close> of the kernel headers.\<close>

definition BIT :: "nat \<Rightarrow> u32" where
  "BIT n = push_bit n 1"

lemma tst_BIT [simp]: "tst x (BIT n) = bit x n"
  by (simp add: tst_def BIT_def bit_iff_and_push_bit_not_eq_0)

lemma bit_BIT: "bit (BIT n) k \<longleftrightarrow> k = n \<and> n < 32"
  unfolding BIT_def bit_push_bit_iff by (auto simp: bit_1_iff)

lemma uint_pos_iff: "0 < uint w \<longleftrightarrow> uint w \<noteq> 0"
  by (simp add: order.strict_iff_order)

section \<open>Bytes of a word, byte order\<close>

definition byte_of :: "nat \<Rightarrow> u32 \<Rightarrow> u8" where
  "byte_of k w = ucast (drop_bit (8 * k) w)"

definition word_of_bytes :: "u8 \<Rightarrow> u8 \<Rightarrow> u8 \<Rightarrow> u8 \<Rightarrow> u32" where
  \<comment> \<open>least significant byte first\<close>
  "word_of_bytes b0 b1 b2 b3 =
     ucast b0 OR push_bit 8 (ucast b1) OR push_bit 16 (ucast b2) OR push_bit 24 (ucast b3)"

definition le_bytes :: "u32 \<Rightarrow> u8 list" where
  "le_bytes w = [byte_of 0 w, byte_of 1 w, byte_of 2 w, byte_of 3 w]"

definition be_bytes :: "u32 \<Rightarrow> u8 list" where
  "be_bytes w = [byte_of 3 w, byte_of 2 w, byte_of 1 w, byte_of 0 w]"

definition bswap32 :: "u32 \<Rightarrow> u32" where
  "bswap32 w = word_of_bytes (byte_of 3 w) (byte_of 2 w) (byte_of 1 w) (byte_of 0 w)"

abbreviation (input) htonl :: "u32 \<Rightarrow> u32" where "htonl \<equiv> bswap32"
abbreviation (input) ntohl :: "u32 \<Rightarrow> u32" where "ntohl \<equiv> bswap32"

lemma bit_byte_of: "bit (byte_of k w) n \<longleftrightarrow> n < 8 \<and> bit w (8 * k + n)"
  by (auto simp: byte_of_def bit_simps)

lemma bit_word_of_bytes:
  "bit (word_of_bytes b0 b1 b2 b3) n \<longleftrightarrow>
     (if n < 8 then bit b0 n else if n < 16 then bit b1 (n - 8)
      else if n < 24 then bit b2 (n - 16) else n < 32 \<and> bit b3 (n - 24))"
  by (auto simp: word_of_bytes_def bit_simps dest: bit_imp_le_length)

lemma byte_of_word_of_bytes [simp, byte_simps]:
  "byte_of 0 (word_of_bytes b0 b1 b2 b3) = b0"
  "byte_of (Suc 0) (word_of_bytes b0 b1 b2 b3) = b1"
  "byte_of 2 (word_of_bytes b0 b1 b2 b3) = b2"
  "byte_of 3 (word_of_bytes b0 b1 b2 b3) = b3"
  by (rule bit_word_eqI; simp add: bit_byte_of bit_word_of_bytes; fail)+

lemma word_of_bytes_byte_of [simp, byte_simps]:
  "word_of_bytes (byte_of 0 w) (byte_of (Suc 0) w) (byte_of 2 w) (byte_of 3 w) = w"
  by (rule bit_word_eqI) (auto simp: bit_byte_of bit_word_of_bytes)

lemma byte_of_bswap32 [simp, byte_simps]:
  "byte_of 0 (bswap32 w) = byte_of 3 w" "byte_of (Suc 0) (bswap32 w) = byte_of 2 w"
  "byte_of 2 (bswap32 w) = byte_of (Suc 0) w" "byte_of 3 (bswap32 w) = byte_of 0 w"
  by (simp_all add: bswap32_def)

lemma bswap32_bswap32 [simp, byte_simps]: "bswap32 (bswap32 w) = w"
  unfolding bswap32_def [of "bswap32 w"] by simp

lemma bswap32_eq_iff: "bswap32 a = b \<longleftrightarrow> a = bswap32 b"
  by (metis bswap32_bswap32)

lemma be_bytes_bswap32 [simp, byte_simps]: "be_bytes (bswap32 w) = le_bytes w"
  by (simp add: be_bytes_def le_bytes_def)

lemma le_bytes_bswap32 [simp, byte_simps]: "le_bytes (bswap32 w) = be_bytes w"
  by (simp add: be_bytes_def le_bytes_def)

lemma le_bytes_word_of_bytes [simp, byte_simps]:
  "le_bytes (word_of_bytes b0 b1 b2 b3) = [b0, b1, b2, b3]"
  by (simp add: le_bytes_def)

lemma le_bytes_inject [simp]: "le_bytes v = le_bytes w \<longleftrightarrow> v = w"
  by (auto simp: le_bytes_def) (metis word_of_bytes_byte_of)

lemma be_bytes_inject [simp]: "be_bytes v = be_bytes w \<longleftrightarrow> v = w"
  by (auto simp: be_bytes_def) (metis word_of_bytes_byte_of)

lemma length_le_bytes [simp]: "length (le_bytes w) = 4"
  and length_be_bytes [simp]: "length (be_bytes w) = 4"
  by (simp_all add: le_bytes_def be_bytes_def)

section \<open>Buffers\<close>

text \<open>
  A C buffer is the memory from its first byte on: a function from the offset to the byte there.
  The caller states how many bytes belong to it; what lies beyond is arbitrary, so a read past the
  end is visible in the model.
\<close>

type_synonym mem = "nat \<Rightarrow> u8"

definition bytes_at :: "mem \<Rightarrow> nat \<Rightarrow> nat \<Rightarrow> u8 list" where
  "bytes_at m off n = map (\<lambda>k. m (off + k)) [0..<n]"

definition mem_of :: "u8 list \<Rightarrow> mem \<Rightarrow> mem" where
  \<comment> \<open>a buffer holding \<open>bs\<close>, followed by \<open>rest\<close>\<close>
  "mem_of bs rest = (\<lambda>k. if k < length bs then bs ! k else rest (k - length bs))"

definition load32 :: "mem \<Rightarrow> nat \<Rightarrow> u32" where
  \<comment> \<open>\<open>*(uint32_t *)(m + off)\<close> on a little-endian host\<close>
  "load32 m off = word_of_bytes (m off) (m (off + 1)) (m (off + 2)) (m (off + 3))"

lemma length_bytes_at [simp]: "length (bytes_at m off n) = n"
  by (simp add: bytes_at_def)

lemma bytes_at_0 [simp]: "bytes_at m off 0 = []"
  by (simp add: bytes_at_def)

lemma bytes_at_add: "bytes_at m off (a + b) = bytes_at m off a @ bytes_at m (off + a) b"
proof (induction b)
  case 0
  then show ?case by simp
next
  case (Suc b)
  then show ?case by (simp add: bytes_at_def add.assoc)
qed

lemma bytes_at_split:
  assumes "a \<le> n"
  shows "bytes_at m off n = bytes_at m off a @ bytes_at m (off + a) (n - a)"
  using bytes_at_add [of m off a "n - a"] assms by simp

lemma bytes_at_mem_of: "bytes_at (mem_of bs rest) 0 (length bs) = bs"
  by (rule nth_equalityI) (auto simp: bytes_at_def mem_of_def)

lemma take_bytes_at: "take k (bytes_at m off n) = bytes_at m off (min k n)"
  by (simp add: bytes_at_def take_map take_upt min_def)

lemma le_bytes_load32: "le_bytes (load32 m off) = bytes_at m off 4"
  by (simp add: load32_def bytes_at_def upt_rec numeral_eq_Suc)

section \<open>Conversions of printf\<close>

definition digit_char :: "nat \<Rightarrow> char" where
  "digit_char n = (if n < 10 then char_of (48 + n) else char_of (87 + n))"

definition nibble :: "nat \<Rightarrow> u32 \<Rightarrow> nat" where
  "nibble k w = unat (drop_bit (4 * k) w) mod 16"

definition fmt_08x :: "u32 \<Rightarrow> string" where
  \<comment> \<open>\<open>%08x\<close>\<close>
  "fmt_08x w = map (\<lambda>k. digit_char (nibble k w)) [7, 6, 5, 4, 3, 2, 1, 0]"

fun fmt_base :: "nat \<Rightarrow> nat \<Rightarrow> string" where
  \<comment> \<open>digits of a number without leading zeros\<close>
  "fmt_base b n =
     (if b < 2 \<or> n < b then [digit_char n] else fmt_base b (n div b) @ [digit_char (n mod b)])"

declare fmt_base.simps [simp del]

definition fmt_u :: "nat \<Rightarrow> string" where
  \<comment> \<open>\<open>%u\<close>, and \<open>%d\<close> of a number that is not negative\<close>
  "fmt_u n = fmt_base 10 n"

definition fmt_d :: "int \<Rightarrow> string" where
  \<comment> \<open>\<open>%d\<close>\<close>
  "fmt_d i = (if i < 0 then CHR ''-'' # fmt_u (nat (- i)) else fmt_u (nat i))"

definition fmt_x :: "u32 \<Rightarrow> string" where
  \<comment> \<open>\<open>%x\<close>\<close>
  "fmt_x w = fmt_base 16 (unat w)"

lemma digit_char_inject [simp]:
  "m < 16 \<Longrightarrow> n < 16 \<Longrightarrow> digit_char m = digit_char n \<longleftrightarrow> m = n"
  by (auto simp: digit_char_def char_of_eq_iff take_bit_eq_mod split: if_splits)

lemma digit_char_numerals [simp]:
  "digit_char 0 = CHR ''0''" "digit_char (Suc 0) = CHR ''1''" "digit_char 2 = CHR ''2''"
  "digit_char 3 = CHR ''3''" "digit_char 4 = CHR ''4''" "digit_char 5 = CHR ''5''"
  "digit_char 6 = CHR ''6''" "digit_char 7 = CHR ''7''" "digit_char 8 = CHR ''8''"
  "digit_char 9 = CHR ''9''" "digit_char 10 = CHR ''a''" "digit_char 11 = CHR ''b''"
  "digit_char 12 = CHR ''c''" "digit_char 13 = CHR ''d''" "digit_char 14 = CHR ''e''"
  "digit_char 15 = CHR ''f''"
  by (simp_all add: digit_char_def char_of_def bit_0)

lemma nibble_less [simp]: "nibble k w < 16"
  by (simp add: nibble_def)

lemma length_fmt_08x [simp]: "length (fmt_08x w) = 8"
  by (simp add: fmt_08x_def)

end
