(* ===== verification/Machine.thy ===== *)
theory Machine
  imports Svec_Prelude
begin

text \<open>
  The environment every component runs in.  The code acts on the world by register accesses, by
  sleeping, by reading the clock and by calling functions of the kernel or of the C library; the
  world answers.  An execution is the list of these events, newest first.  The environment is a
  parameter: what a register read, the clock or a call returns is an arbitrary function of all
  that happened before, so a theorem over every environment holds for every deterministic device
  and kernel, and a device is modelled by giving its function.

  The type of the calls is a parameter \<open>'c\<close> that each component instantiates.  Components
  extend the record \<open>machine\<close> by their own variables, so the operations below act on
  the state of every component.
\<close>

section \<open>Events and the environment\<close>

datatype ioaddr =
    CR u32   \<comment> \<open>an offset in the VME CR/CSR window (\<open>vdev->map_cr\<close>)\<close>
  | BAR u32  \<comment> \<open>an offset in the memory window of the FPGA (\<open>svec_fpga->fpga\<close>)\<close>

datatype 'c event =
    Rd ioaddr u32     \<comment> \<open>a 32-bit read and the big-endian value of the bus cycle\<close>
  | Wr ioaddr u32     \<comment> \<open>a 32-bit write and the big-endian value of the bus cycle\<close>
  | Sleep nat         \<comment> \<open>at least so many microseconds pass\<close>
  | Jiffies u64       \<comment> \<open>a reading of the tick counter\<close>
  | Call 'c int       \<comment> \<open>a call and what it returned\<close>

record 'c env =
  env_read :: "'c event list \<Rightarrow> ioaddr \<Rightarrow> u32"
  env_jiffies :: "'c event list \<Rightarrow> u64"
  env_call :: "'c event list \<Rightarrow> 'c \<Rightarrow> int"

record 'c machine =
  trace :: "'c event list"

section \<open>Operations\<close>

definition ioread32be :: "'c env \<Rightarrow> ioaddr \<Rightarrow> (('c, 'z) machine_scheme, u32) state" where
  "ioread32be E a =
     State (\<lambda>s. let v = env_read E (trace s) a in (v, s\<lparr>trace := Rd a v # trace s\<rparr>))"

definition ioread32 :: "'c env \<Rightarrow> ioaddr \<Rightarrow> (('c, 'z) machine_scheme, u32) state" where
  \<comment> \<open>the same access, its bytes taken in the order of the little-endian host\<close>
  "ioread32 E a = do { v \<leftarrow> ioread32be E a; State_Monad.return (bswap32 v) }"

definition iowrite32be :: "u32 \<Rightarrow> ioaddr \<Rightarrow> (('c, 'z) machine_scheme, unit) state" where
  "iowrite32be v a = State (\<lambda>s. ((), s\<lparr>trace := Wr a v # trace s\<rparr>))"

definition sleep_us :: "nat \<Rightarrow> (('c, 'z) machine_scheme, unit) state" where
  "sleep_us n = State (\<lambda>s. ((), s\<lparr>trace := Sleep n # trace s\<rparr>))"

definition get_jiffies_64 :: "'c env \<Rightarrow> (('c, 'z) machine_scheme, u64) state" where
  "get_jiffies_64 E =
     State (\<lambda>s. let t = env_jiffies E (trace s) in (t, s\<lparr>trace := Jiffies t # trace s\<rparr>))"

definition call :: "'c env \<Rightarrow> 'c \<Rightarrow> (('c, 'z) machine_scheme, int) state" where
  "call E c =
     State (\<lambda>s. let r = env_call E (trace s) c in (r, s\<lparr>trace := Call c r # trace s\<rparr>))"

definition gets :: "('s \<Rightarrow> 'a) \<Rightarrow> ('s, 'a) state" where
  "gets f = State (\<lambda>s. (f s, s))"

definition modify :: "('s \<Rightarrow> 's) \<Rightarrow> ('s, unit) state" where
  "modify f = State (\<lambda>s. ((), f s))"

lemma run_ioread32be [simp, run_simps]:
  "run_state (ioread32be E a) s =
     (env_read E (trace s) a, s\<lparr>trace := Rd a (env_read E (trace s) a) # trace s\<rparr>)"
  by (simp add: ioread32be_def Let_def)

lemma run_ioread32 [simp, run_simps]:
  "run_state (ioread32 E a) s =
     (bswap32 (env_read E (trace s) a), s\<lparr>trace := Rd a (env_read E (trace s) a) # trace s\<rparr>)"
  by (simp add: ioread32_def)

lemma run_iowrite32be [simp, run_simps]:
  "run_state (iowrite32be v a) s = ((), s\<lparr>trace := Wr a v # trace s\<rparr>)"
  by (simp add: iowrite32be_def)

lemma run_sleep_us [simp, run_simps]:
  "run_state (sleep_us n) s = ((), s\<lparr>trace := Sleep n # trace s\<rparr>)"
  by (simp add: sleep_us_def)

lemma run_get_jiffies_64 [simp, run_simps]:
  "run_state (get_jiffies_64 E) s =
     (env_jiffies E (trace s), s\<lparr>trace := Jiffies (env_jiffies E (trace s)) # trace s\<rparr>)"
  by (simp add: get_jiffies_64_def Let_def)

lemma run_call [simp, run_simps]:
  "run_state (call E c) s =
     (env_call E (trace s) c, s\<lparr>trace := Call c (env_call E (trace s) c) # trace s\<rparr>)"
  by (simp add: call_def Let_def)

lemma run_gets [simp, run_simps]: "run_state (gets f) s = (f s, s)"
  by (simp add: gets_def)

lemma run_modify [simp, run_simps]: "run_state (modify f) s = ((), f s)"
  by (simp add: modify_def)

lemmas [run_simps] = run_state_return run_state_bind

section \<open>Projections of a trace\<close>

text \<open>The writes of an execution and its calls, oldest first.\<close>

fun writes :: "'c event list \<Rightarrow> (ioaddr \<times> u32) list" where
  "writes [] = []"
| "writes (Wr a v # h) = writes h @ [(a, v)]"
| "writes (Rd a v # h) = writes h"
| "writes (Sleep n # h) = writes h"
| "writes (Jiffies t # h) = writes h"
| "writes (Call c r # h) = writes h"

fun calls :: "'c event list \<Rightarrow> ('c \<times> int) list" where
  "calls [] = []"
| "calls (Call c r # h) = calls h @ [(c, r)]"
| "calls (Wr a v # h) = calls h"
| "calls (Rd a v # h) = calls h"
| "calls (Sleep n # h) = calls h"
| "calls (Jiffies t # h) = calls h"

fun reads :: "'c event list \<Rightarrow> (ioaddr \<times> u32) list" where
  "reads [] = []"
| "reads (Rd a v # h) = reads h @ [(a, v)]"
| "reads (Wr a v # h) = reads h"
| "reads (Sleep n # h) = reads h"
| "reads (Jiffies t # h) = reads h"
| "reads (Call c r # h) = reads h"

lemma writes_append [simp]: "writes (h @ h') = writes h' @ writes h"
  by (induction h rule: writes.induct) auto

lemma calls_append [simp]: "calls (h @ h') = calls h' @ calls h"
  by (induction h rule: calls.induct) auto

lemma reads_append [simp]: "reads (h @ h') = reads h' @ reads h"
  by (induction h rule: reads.induct) auto

section \<open>Executions only add events\<close>

text \<open>
  An operation extends a trace: it never rewrites history.  The rules follow the structure of a
  monadic program, so every operation of the library has this property by one application.
\<close>

definition extends :: "(('c, 'z) machine_scheme, 'a) state \<Rightarrow> bool" where
  "extends m \<longleftrightarrow> (\<forall>s. \<exists>new. trace (snd (run_state m s)) = new @ trace s)"

named_theorems extends_intros \<open>the trace of an operation extends the trace before\<close>

lemma extendsE:
  assumes "extends m" and "run_state m s = (a, s')"
  obtains new where "trace s' = new @ trace s"
  using assms unfolding extends_def by (metis snd_conv)

lemma extends_return [extends_intros]: "extends (State_Monad.return x)"
  by (simp add: extends_def)

lemma extends_bind [extends_intros]:
  assumes "extends m" and "\<And>x. extends (f x)"
  shows "extends (State_Monad.bind m f)"
  unfolding extends_def
proof
  fix s
  obtain a s' where run: "run_state m s = (a, s')" by fastforce
  obtain n1 where "trace s' = n1 @ trace s" using extendsE [OF assms(1) run] .
  moreover obtain n2 where "trace (snd (run_state (f a) s')) = n2 @ trace s'"
    using assms(2) unfolding extends_def by blast
  ultimately show "\<exists>new. trace (snd (run_state (State_Monad.bind m f) s)) = new @ trace s"
    using run by simp
qed

lemma extends_if [extends_intros]: "extends m \<Longrightarrow> extends n \<Longrightarrow> extends (if b then m else n)"
  by simp

lemma extends_prims [extends_intros]:
  "extends (ioread32be E a)" "extends (ioread32 E a)" "extends (iowrite32be v a)"
  "extends (sleep_us n)" "extends (get_jiffies_64 E)" "extends (call E c)" "extends (gets f)"
  by (auto simp: extends_def)

lemma extends_modify [extends_intros]: "(\<And>s. trace (f s) = trace s) \<Longrightarrow> extends (modify f)"
  by (simp add: extends_def)

section \<open>Accounts\<close>

text \<open>
  What an execution holds: a call may acquire a resource, depending on what it returned, and may
  release one.  The balance of a resource is how often it was acquired less how often it was
  released.  Which calls do so is a parameter.
\<close>

definition own :: "'r option \<Rightarrow> 'r \<Rightarrow> int" where
  "own x r = (if x = Some r then 1 else 0)"

lemma own_None [simp]: "own None = (\<lambda>r. 0)"
  by (simp add: own_def fun_eq_iff)

fun account :: "('c \<Rightarrow> int \<Rightarrow> 'r option) \<Rightarrow> ('c \<Rightarrow> 'r option) \<Rightarrow> 'c event list \<Rightarrow> 'r \<Rightarrow> int" where
  "account acq rel [] r = 0"
| "account acq rel (Call c v # h) r = account acq rel h r + own (acq c v) r - own (rel c) r"
| "account acq rel (e # h) r = account acq rel h r"

end
