(* ===== verification/C_String.thy ===== *)
theory C_String
  imports Svec_Prelude
begin

text \<open>
  The string functions of the C library that the code calls, on byte strings without their
  terminator: reading past the end of the list is reading the terminating zero.
\<close>

definition cstr :: "string \<Rightarrow> u8 list" where
  "cstr s = map of_char s"

fun strncmp :: "u8 list \<Rightarrow> u8 list \<Rightarrow> nat \<Rightarrow> int" where
  "strncmp s t 0 = 0"
| "strncmp s t (Suc n) =
     (let a = (case s of [] \<Rightarrow> 0 | c # _ \<Rightarrow> c); b = (case t of [] \<Rightarrow> 0 | c # _ \<Rightarrow> c)
      in if a \<noteq> b then uint a - uint b else if a = 0 then 0 else strncmp (tl s) (tl t) n)"

fun strcmp :: "u8 list \<Rightarrow> u8 list \<Rightarrow> int" where
  "strcmp [] [] = 0"
| "strcmp (a # s) [] = uint a"
| "strcmp [] (b # t) = - uint b"
| "strcmp (a # s) (b # t) = (if a \<noteq> b then uint a - uint b else if a = 0 then 0 else strcmp s t)"

definition strncpy :: "u8 list \<Rightarrow> u8 list \<Rightarrow> nat \<Rightarrow> u8 list" where
  \<comment> \<open>destination, source, count: pads with zeros, writes no terminator when the source is long\<close>
  "strncpy dst src n =
     (let p = takeWhile (\<lambda>c. c \<noteq> 0) (take n src)
      in p @ replicate (n - length p) 0 @ drop n dst)"

text \<open>A bounded comparison with a literal shorter than the bound or as long as it.\<close>

lemma uint_diff_0_iff: "uint a - uint b = 0 \<longleftrightarrow> a = (b :: 'w::len word)"
  by (simp add: word_uint_eq_iff)

lemma strncmp_0_iff:
  assumes "0 \<notin> set t" and "length t = n"
  shows "strncmp s t n = 0 \<longleftrightarrow> take n s = t"
  using assms
proof (induction n arbitrary: s t)
  case 0
  then show ?case by simp
next
  case (Suc n)
  then obtain b t' where t: "t = b # t'" by (cases t) auto
  show ?case
  proof (cases s)
    case Nil
    then show ?thesis using Suc.prems by (auto simp: t word_uint_eq_iff)
  next
    case (Cons a s')
    then show ?thesis using Suc by (auto simp: t word_uint_eq_iff)
  qed
qed

lemma strcmp_0_iff:
  assumes "0 \<notin> set s" and "0 \<notin> set t"
  shows "strcmp s t = 0 \<longleftrightarrow> s = t"
  using assms by (induction s t rule: strcmp.induct) (auto simp: word_uint_eq_iff)

lemma take_strncpy_0:
  assumes "0 \<notin> set (take n src)" and "n \<le> length src"
  shows "take n (strncpy dst src n) = take n src"
proof -
  have eq: "takeWhile (\<lambda>c. c \<noteq> 0) (take n src) = take n src"
    using assms(1) by (auto simp: takeWhile_eq_all_conv)
  show ?thesis using assms(2) unfolding strncpy_def Let_def eq by simp
qed

lemma strncmp_strncpy_0_iff:
  assumes t: "0 \<notin> set t" "length t = n" and len: "n \<le> length src"
  shows "strncmp (strncpy dst src n) t n = 0 \<longleftrightarrow> take n src = t"
proof (cases "0 \<in> set (take n src)")
  case False
  then show ?thesis using take_strncpy_0 [OF _ len] by (simp add: strncmp_0_iff [OF t])
next
  case True
  define p where "p = takeWhile (\<lambda>c. c \<noteq> 0) (take n src)"
  have "length p < n"
  proof (rule ccontr)
    assume "\<not> length p < n"
    then have "length p = length (take n src)" using len length_takeWhile_le [of _ "take n src"]
      unfolding p_def by (metis length_take min.absorb2 nat_less_le not_less)
    then have "p = take n src" unfolding p_def by (metis takeWhile_eq_take take_all order_refl)
    then show False using True by (metis (mono_tags, lifting) p_def set_takeWhileD)
  qed
  then have "0 \<in> set (take n (strncpy dst src n))"
    by (simp add: strncpy_def p_def [symmetric])
  then show ?thesis using t True by (auto simp: strncmp_0_iff [OF t])
qed

end
