(* ===== verification/Svec_Header.thy ===== *)
theory Svec_Header
  imports Machine C_String
begin

text \<open>
  The declarations the driver and the tools share: the metadata record and its constants
  (\<open>include/uapi/linux/svec.h\<close>), the offsets, versions and structures of the driver
  (\<open>kernel/svec.h\<close>).  A pointer returned by the kernel is the signed view of its 64 bits, so
  that the error pointers are the numbers from \<open>-4095\<close> to \<open>-1\<close> and NULL is 0.
\<close>

section \<open>uapi/linux/svec.h\<close>

definition SVEC_FMC_SLOTS :: nat where "SVEC_FMC_SLOTS = 2"
definition SVEC_FUNC_NR :: nat where "SVEC_FUNC_NR = 1"
definition PCI_VENDOR_ID_CERN :: u32 where "PCI_VENDOR_ID_CERN = 0x10DC"
definition SVEC_META_VENDOR_ID :: u32 where "SVEC_META_VENDOR_ID = PCI_VENDOR_ID_CERN"
definition SVEC_META_DEVICE_ID :: u32 where "SVEC_META_DEVICE_ID = 0x53564543"
definition SVEC_META_BOM_BE :: u32 where "SVEC_META_BOM_BE = 0xFFFE0000"
definition SVEC_META_BOM_END_MASK :: u32 where "SVEC_META_BOM_END_MASK = 0xFFFF0000"
definition SVEC_META_BOM_VER_MASK :: u32 where "SVEC_META_BOM_VER_MASK = 0x0000FFFF"
definition SVEC_META_VERSION_MASK :: u32 where "SVEC_META_VERSION_MASK = 0xFFFF0000"
definition SVEC_META_CAP_VIC :: u32 where "SVEC_META_CAP_VIC = BIT 0"
definition SVEC_META_CAP_THERM :: u32 where "SVEC_META_CAP_THERM = BIT 1"
definition SVEC_META_CAP_SPI :: u32 where "SVEC_META_CAP_SPI = BIT 2"
definition SVEC_META_CAP_WR :: u32 where "SVEC_META_CAP_WR = BIT 3"
definition SVEC_META_CAP_BLD :: u32 where "SVEC_META_CAP_BLD = BIT 4"

record svec_meta_id =
  meta_vendor :: u32
  meta_device :: u32
  meta_version :: u32
  meta_bom :: u32
  meta_src :: "u32 list"   \<comment> \<open>four words\<close>
  meta_cap :: u32
  meta_uuid :: "u32 list"  \<comment> \<open>four words\<close>

definition SVEC_META_VERSION_MAJ :: "u32 \<Rightarrow> u32" where
  "SVEC_META_VERSION_MAJ v = drop_bit 24 v AND 0xFF"
definition SVEC_META_VERSION_MIN :: "u32 \<Rightarrow> u32" where
  "SVEC_META_VERSION_MIN v = drop_bit 16 v AND 0xFF"
definition SVEC_META_VERSION_PATCH :: "u32 \<Rightarrow> u32" where
  "SVEC_META_VERSION_PATCH v = v AND 0xFFFF"

section \<open>svec.h: constants\<close>

definition SVEC_BASE_LOADER :: u32 where "SVEC_BASE_LOADER = 0x70000"

definition boot_unlock_sequence :: "u32 list" where
  "boot_unlock_sequence = [0xde, 0xad, 0xbe, 0xef, 0xca, 0xfe, 0xba, 0xbe]"

definition FPGA_META_VENDOR :: u32 where "FPGA_META_VENDOR = 0x00"
definition FPGA_META_DEVICE :: u32 where "FPGA_META_DEVICE = 0x04"
definition FPGA_META_VERSION :: u32 where "FPGA_META_VERSION = 0x08"
definition FPGA_META_BOM :: u32 where "FPGA_META_BOM = 0x0C"
definition FPGA_META_SRC :: u32 where "FPGA_META_SRC = 0x10"
definition FPGA_META_CAP :: u32 where "FPGA_META_CAP = 0x20"
definition FPGA_META_UUID :: u32 where "FPGA_META_UUID = 0x30"

definition SVEC_VERSION_MAJ :: "u32 \<Rightarrow> u32" where
  "SVEC_VERSION_MAJ v = drop_bit 24 v AND 0xFF"
definition SVEC_VERSION_MIN :: "u32 \<Rightarrow> u32" where
  "SVEC_VERSION_MIN v = drop_bit 16 v AND 0xFF"
definition SVEC_VERSION_PATCH :: "u32 \<Rightarrow> u32" where
  "SVEC_VERSION_PATCH v = v AND 0xFFFF"

section \<open>Pointers\<close>

type_synonym ptr = int

abbreviation (input) NULL :: ptr where "NULL \<equiv> 0"

definition IS_ERR :: "ptr \<Rightarrow> bool" where
  "IS_ERR p \<longleftrightarrow> - 4095 \<le> p \<and> p < 0"

definition IS_ERR_OR_NULL :: "ptr \<Rightarrow> bool" where
  "IS_ERR_OR_NULL p \<longleftrightarrow> p = NULL \<or> IS_ERR p"

definition PTR_ERR :: "ptr \<Rightarrow> int" where
  "PTR_ERR p = p"

section \<open>svec.h: structures\<close>

record fmc_slot_info =
  i2c_bus_nr :: int
  slot_ga :: nat
  slot_lun :: nat

record svec_fpga =
  fpga_addr :: ptr          \<comment> \<open>the address of the structure\<close>
  meta_app :: svec_meta_id
  function_nr :: nat
  fpga_va :: ptr
  vic_pdev :: ptr
  app_pdev :: ptr
  slot_info :: "fmc_slot_info list"
  fpga_dbg_dir :: ptr
  fpga_dbg_csr :: ptr
  fpga_dbg_bld_info :: ptr

record 'c svec_dev = "'c machine" +
  dev_addr :: ptr           \<comment> \<open>the address of the structure\<close>
  dev_meta :: svec_meta_id
  mgr :: ptr
  bitstream_last_word :: u32
  bitstream_last_word_size :: u32
  fpga_status :: int
  dev_dbg_dir :: ptr
  dev_dbg_meta :: ptr
  svec_fpga :: "svec_fpga option"  \<comment> \<open>None is the NULL pointer\<close>

text \<open>A structure as the allocator returns it, for examples.\<close>

definition fresh_dev :: "'c event list \<Rightarrow> 'c svec_dev" where
  "fresh_dev h =
     \<lparr>trace = h, dev_addr = 0x1000, dev_meta = \<lparr>meta_vendor = 0, meta_device = 0, meta_version = 0, meta_bom = 0,
        meta_src = [0, 0, 0, 0], meta_cap = 0, meta_uuid = [0, 0, 0, 0]\<rparr>, mgr = 0,
      bitstream_last_word = 0, bitstream_last_word_size = 0, fpga_status = 0, dev_dbg_dir = 0,
      dev_dbg_meta = 0, svec_fpga = None\<rparr>"

end
