(* ===== verification/Xloader_Regs.thy ===== *)
theory Xloader_Regs
  imports Svec_Prelude
begin

text \<open>
  The registers of the System FPGA bootloader, as the two headers generated from its register
  description give them: \<open>XLDR_*\<close> for the kernel driver (\<open>hw/xloader_regs.h\<close>) and
  \<open>SXLDR_*\<close> for the flasher (\<open>sxldr_regs.h\<close>).  Every constant and accessor
  macro is a definition of the same name.
\<close>

section \<open>The wbgen2 macros\<close>

definition WBGEN2_GEN_MASK :: "nat \<Rightarrow> nat \<Rightarrow> u32" where
  "WBGEN2_GEN_MASK offset width = push_bit offset (push_bit width 1 - 1)"

definition WBGEN2_GEN_WRITE :: "u32 \<Rightarrow> nat \<Rightarrow> nat \<Rightarrow> u32" where
  "WBGEN2_GEN_WRITE val offset width = push_bit offset (val AND (push_bit width 1 - 1))"

definition WBGEN2_GEN_READ :: "u32 \<Rightarrow> nat \<Rightarrow> nat \<Rightarrow> u32" where
  "WBGEN2_GEN_READ reg offset width = drop_bit offset reg AND (push_bit width 1 - 1)"

section \<open>Registers as the kernel driver sees them\<close>

definition XLDR_CSR_START :: u32 where "XLDR_CSR_START = WBGEN2_GEN_MASK 0 1"

definition XLDR_CSR_DONE :: u32 where "XLDR_CSR_DONE = WBGEN2_GEN_MASK 1 1"

definition XLDR_CSR_ERROR :: u32 where "XLDR_CSR_ERROR = WBGEN2_GEN_MASK 2 1"

definition XLDR_CSR_BUSY :: u32 where "XLDR_CSR_BUSY = WBGEN2_GEN_MASK 3 1"

definition XLDR_CSR_MSBF :: u32 where "XLDR_CSR_MSBF = WBGEN2_GEN_MASK 4 1"

definition XLDR_CSR_SWRST :: u32 where "XLDR_CSR_SWRST = WBGEN2_GEN_MASK 5 1"

definition XLDR_CSR_EXIT :: u32 where "XLDR_CSR_EXIT = WBGEN2_GEN_MASK 6 1"

definition XLDR_CSR_CLKDIV_MASK :: u32 where "XLDR_CSR_CLKDIV_MASK = WBGEN2_GEN_MASK 8 6"

definition XLDR_CSR_CLKDIV_SHIFT :: nat where "XLDR_CSR_CLKDIV_SHIFT = 8"

definition XLDR_CSR_CLKDIV_W :: "u32 \<Rightarrow> u32" where
  "XLDR_CSR_CLKDIV_W val = WBGEN2_GEN_WRITE val 8 6"

definition XLDR_CSR_CLKDIV_R :: "u32 \<Rightarrow> u32" where
  "XLDR_CSR_CLKDIV_R reg = WBGEN2_GEN_READ reg 8 6"

definition XLDR_CSR_VERSION_MASK :: u32 where "XLDR_CSR_VERSION_MASK = WBGEN2_GEN_MASK 14 8"

definition XLDR_CSR_VERSION_SHIFT :: nat where "XLDR_CSR_VERSION_SHIFT = 14"

definition XLDR_CSR_VERSION_R :: "u32 \<Rightarrow> u32" where
  "XLDR_CSR_VERSION_R reg = WBGEN2_GEN_READ reg 14 8"

definition XLDR_FIFO_R0_XSIZE_MASK :: u32 where "XLDR_FIFO_R0_XSIZE_MASK = WBGEN2_GEN_MASK 0 2"

definition XLDR_FIFO_R0_XSIZE_SHIFT :: nat where "XLDR_FIFO_R0_XSIZE_SHIFT = 0"

definition XLDR_FIFO_R0_XSIZE_W :: "u32 \<Rightarrow> u32" where
  "XLDR_FIFO_R0_XSIZE_W val = WBGEN2_GEN_WRITE val 0 2"

definition XLDR_FIFO_R0_XSIZE_R :: "u32 \<Rightarrow> u32" where
  "XLDR_FIFO_R0_XSIZE_R reg = WBGEN2_GEN_READ reg 0 2"

definition XLDR_FIFO_R0_XLAST :: u32 where "XLDR_FIFO_R0_XLAST = WBGEN2_GEN_MASK 2 1"

definition XLDR_FIFO_R1_XDATA_MASK :: u32 where "XLDR_FIFO_R1_XDATA_MASK = WBGEN2_GEN_MASK 0 32"

definition XLDR_FIFO_R1_XDATA_SHIFT :: nat where "XLDR_FIFO_R1_XDATA_SHIFT = 0"

definition XLDR_FIFO_R1_XDATA_W :: "u32 \<Rightarrow> u32" where
  "XLDR_FIFO_R1_XDATA_W val = WBGEN2_GEN_WRITE val 0 32"

definition XLDR_FIFO_R1_XDATA_R :: "u32 \<Rightarrow> u32" where
  "XLDR_FIFO_R1_XDATA_R reg = WBGEN2_GEN_READ reg 0 32"

definition XLDR_FIFO_CSR_FULL :: u32 where "XLDR_FIFO_CSR_FULL = WBGEN2_GEN_MASK 16 1"

definition XLDR_FIFO_CSR_EMPTY :: u32 where "XLDR_FIFO_CSR_EMPTY = WBGEN2_GEN_MASK 17 1"

definition XLDR_FIFO_CSR_CLEAR_BUS :: u32 where "XLDR_FIFO_CSR_CLEAR_BUS = WBGEN2_GEN_MASK 18 1"

definition XLDR_FIFO_CSR_USEDW_MASK :: u32 where "XLDR_FIFO_CSR_USEDW_MASK = WBGEN2_GEN_MASK 0 8"

definition XLDR_FIFO_CSR_USEDW_SHIFT :: nat where "XLDR_FIFO_CSR_USEDW_SHIFT = 0"

definition XLDR_FIFO_CSR_USEDW_W :: "u32 \<Rightarrow> u32" where
  "XLDR_FIFO_CSR_USEDW_W val = WBGEN2_GEN_WRITE val 0 8"

definition XLDR_FIFO_CSR_USEDW_R :: "u32 \<Rightarrow> u32" where
  "XLDR_FIFO_CSR_USEDW_R reg = WBGEN2_GEN_READ reg 0 8"

definition XLDR_REG_CSR :: u32 where "XLDR_REG_CSR = 0x0"

definition XLDR_REG_BTRIGR :: u32 where "XLDR_REG_BTRIGR = 0x4"

definition XLDR_REG_GPIOR :: u32 where "XLDR_REG_GPIOR = 0x8"

definition XLDR_REG_IDR :: u32 where "XLDR_REG_IDR = 0xc"

definition XLDR_REG_FIFO_R0 :: u32 where "XLDR_REG_FIFO_R0 = 0x10"

definition XLDR_REG_FIFO_R1 :: u32 where "XLDR_REG_FIFO_R1 = 0x14"

definition XLDR_REG_FIFO_CSR :: u32 where "XLDR_REG_FIFO_CSR = 0x18"

section \<open>Registers as the flasher sees them\<close>

definition SXLDR_CSR_START :: u32 where "SXLDR_CSR_START = WBGEN2_GEN_MASK 0 1"

definition SXLDR_CSR_DONE :: u32 where "SXLDR_CSR_DONE = WBGEN2_GEN_MASK 1 1"

definition SXLDR_CSR_ERROR :: u32 where "SXLDR_CSR_ERROR = WBGEN2_GEN_MASK 2 1"

definition SXLDR_CSR_BUSY :: u32 where "SXLDR_CSR_BUSY = WBGEN2_GEN_MASK 3 1"

definition SXLDR_CSR_MSBF :: u32 where "SXLDR_CSR_MSBF = WBGEN2_GEN_MASK 4 1"

definition SXLDR_CSR_SWRST :: u32 where "SXLDR_CSR_SWRST = WBGEN2_GEN_MASK 5 1"

definition SXLDR_CSR_EXIT :: u32 where "SXLDR_CSR_EXIT = WBGEN2_GEN_MASK 6 1"

definition SXLDR_CSR_CLKDIV_MASK :: u32 where "SXLDR_CSR_CLKDIV_MASK = WBGEN2_GEN_MASK 8 6"

definition SXLDR_CSR_CLKDIV_SHIFT :: nat where "SXLDR_CSR_CLKDIV_SHIFT = 8"

definition SXLDR_CSR_CLKDIV_W :: "u32 \<Rightarrow> u32" where
  "SXLDR_CSR_CLKDIV_W val = WBGEN2_GEN_WRITE val 8 6"

definition SXLDR_CSR_CLKDIV_R :: "u32 \<Rightarrow> u32" where
  "SXLDR_CSR_CLKDIV_R reg = WBGEN2_GEN_READ reg 8 6"

definition SXLDR_CSR_VERSION_MASK :: u32 where "SXLDR_CSR_VERSION_MASK = WBGEN2_GEN_MASK 14 8"

definition SXLDR_CSR_VERSION_SHIFT :: nat where "SXLDR_CSR_VERSION_SHIFT = 14"

definition SXLDR_CSR_VERSION_W :: "u32 \<Rightarrow> u32" where
  "SXLDR_CSR_VERSION_W val = WBGEN2_GEN_WRITE val 14 8"

definition SXLDR_CSR_VERSION_R :: "u32 \<Rightarrow> u32" where
  "SXLDR_CSR_VERSION_R reg = WBGEN2_GEN_READ reg 14 8"

definition SXLDR_FAR_DATA_MASK :: u32 where "SXLDR_FAR_DATA_MASK = WBGEN2_GEN_MASK 0 8"

definition SXLDR_FAR_DATA_SHIFT :: nat where "SXLDR_FAR_DATA_SHIFT = 0"

definition SXLDR_FAR_DATA_W :: "u32 \<Rightarrow> u32" where
  "SXLDR_FAR_DATA_W val = WBGEN2_GEN_WRITE val 0 8"

definition SXLDR_FAR_DATA_R :: "u32 \<Rightarrow> u32" where
  "SXLDR_FAR_DATA_R reg = WBGEN2_GEN_READ reg 0 8"

definition SXLDR_FAR_XFER :: u32 where "SXLDR_FAR_XFER = WBGEN2_GEN_MASK 8 1"

definition SXLDR_FAR_READY :: u32 where "SXLDR_FAR_READY = WBGEN2_GEN_MASK 9 1"

definition SXLDR_FAR_CS :: u32 where "SXLDR_FAR_CS = WBGEN2_GEN_MASK 10 1"

definition SXLDR_FIFO_R0_XSIZE_MASK :: u32 where "SXLDR_FIFO_R0_XSIZE_MASK = WBGEN2_GEN_MASK 0 2"

definition SXLDR_FIFO_R0_XSIZE_SHIFT :: nat where "SXLDR_FIFO_R0_XSIZE_SHIFT = 0"

definition SXLDR_FIFO_R0_XSIZE_W :: "u32 \<Rightarrow> u32" where
  "SXLDR_FIFO_R0_XSIZE_W val = WBGEN2_GEN_WRITE val 0 2"

definition SXLDR_FIFO_R0_XSIZE_R :: "u32 \<Rightarrow> u32" where
  "SXLDR_FIFO_R0_XSIZE_R reg = WBGEN2_GEN_READ reg 0 2"

definition SXLDR_FIFO_R0_XLAST :: u32 where "SXLDR_FIFO_R0_XLAST = WBGEN2_GEN_MASK 2 1"

definition SXLDR_FIFO_R1_XDATA_MASK :: u32 where "SXLDR_FIFO_R1_XDATA_MASK = WBGEN2_GEN_MASK 0 32"

definition SXLDR_FIFO_R1_XDATA_SHIFT :: nat where "SXLDR_FIFO_R1_XDATA_SHIFT = 0"

definition SXLDR_FIFO_R1_XDATA_W :: "u32 \<Rightarrow> u32" where
  "SXLDR_FIFO_R1_XDATA_W val = WBGEN2_GEN_WRITE val 0 32"

definition SXLDR_FIFO_R1_XDATA_R :: "u32 \<Rightarrow> u32" where
  "SXLDR_FIFO_R1_XDATA_R reg = WBGEN2_GEN_READ reg 0 32"

definition SXLDR_FIFO_CSR_FULL :: u32 where "SXLDR_FIFO_CSR_FULL = WBGEN2_GEN_MASK 16 1"

definition SXLDR_FIFO_CSR_EMPTY :: u32 where "SXLDR_FIFO_CSR_EMPTY = WBGEN2_GEN_MASK 17 1"

definition SXLDR_FIFO_CSR_CLEAR_BUS :: u32 where "SXLDR_FIFO_CSR_CLEAR_BUS = WBGEN2_GEN_MASK 18 1"

definition SXLDR_FIFO_CSR_USEDW_MASK :: u32 where "SXLDR_FIFO_CSR_USEDW_MASK = WBGEN2_GEN_MASK 0 8"

definition SXLDR_FIFO_CSR_USEDW_SHIFT :: nat where "SXLDR_FIFO_CSR_USEDW_SHIFT = 0"

definition SXLDR_FIFO_CSR_USEDW_W :: "u32 \<Rightarrow> u32" where
  "SXLDR_FIFO_CSR_USEDW_W val = WBGEN2_GEN_WRITE val 0 8"

definition SXLDR_FIFO_CSR_USEDW_R :: "u32 \<Rightarrow> u32" where
  "SXLDR_FIFO_CSR_USEDW_R reg = WBGEN2_GEN_READ reg 0 8"

definition SXLDR_REG_CSR :: u32 where "SXLDR_REG_CSR = 0x0"

definition SXLDR_REG_BTRIGR :: u32 where "SXLDR_REG_BTRIGR = 0x4"

definition SXLDR_REG_FAR :: u32 where "SXLDR_REG_FAR = 0x8"

definition SXLDR_REG_IDR :: u32 where "SXLDR_REG_IDR = 0xc"

definition SXLDR_REG_FIFO_R0 :: u32 where "SXLDR_REG_FIFO_R0 = 0x10"

definition SXLDR_REG_FIFO_R1 :: u32 where "SXLDR_REG_FIFO_R1 = 0x14"

definition SXLDR_REG_FIFO_CSR :: u32 where "SXLDR_REG_FIFO_CSR = 0x18"

section \<open>Fields\<close>

lemma wbgen2_mask_eq: "push_bit width 1 - 1 = (mask width :: u32)"
  by (simp add: mask_eq_exp_minus_1)

lemma bit_WBGEN2_GEN_MASK: "bit (WBGEN2_GEN_MASK off width) n \<longleftrightarrow> off \<le> n \<and> n < off + width \<and> n < 32"
  unfolding WBGEN2_GEN_MASK_def wbgen2_mask_eq
  by (auto simp: bit_simps)

lemma bit_WBGEN2_GEN_WRITE:
  "bit (WBGEN2_GEN_WRITE v off width) n \<longleftrightarrow> off \<le> n \<and> n < off + width \<and> n < 32 \<and> bit v (n - off)"
  unfolding WBGEN2_GEN_WRITE_def wbgen2_mask_eq
  by (auto simp: bit_simps)

lemma bit_WBGEN2_GEN_READ:
  "bit (WBGEN2_GEN_READ r off width) n \<longleftrightarrow> n < width \<and> bit r (off + n)"
  unfolding WBGEN2_GEN_READ_def wbgen2_mask_eq
  by (auto simp: bit_simps dest: bit_imp_le_length)

text \<open>Reading a field back from a register into which it was written, whatever the other bits.\<close>

lemma WBGEN2_READ_WRITE:
  assumes "off + width \<le> 32" and "rest AND WBGEN2_GEN_MASK off width = 0"
  shows "WBGEN2_GEN_READ (WBGEN2_GEN_WRITE v off width OR rest) off width = v AND mask width"
proof (rule bit_word_eqI)
  fix n
  have no_rest: "\<not> bit rest (off + n)" if "n < width"
  proof -
    have "\<not> bit (rest AND WBGEN2_GEN_MASK off width) (off + n)" using assms(2) by simp
    then show ?thesis using that assms(1) by (simp add: bit_simps bit_WBGEN2_GEN_MASK)
  qed
  show "bit (WBGEN2_GEN_READ (WBGEN2_GEN_WRITE v off width OR rest) off width) n =
        bit (v AND mask width) n"
    using no_rest assms(1)
    by (auto simp: bit_WBGEN2_GEN_READ bit_WBGEN2_GEN_WRITE bit_simps)
qed

text \<open>The single-bit masks are \<open>BIT\<close>.\<close>

lemma WBGEN2_GEN_MASK_1: "WBGEN2_GEN_MASK n 1 = BIT n"
  by (simp add: WBGEN2_GEN_MASK_def BIT_def)

lemmas xldr_bits =
  XLDR_CSR_START_def XLDR_CSR_DONE_def XLDR_CSR_ERROR_def XLDR_CSR_BUSY_def XLDR_CSR_MSBF_def
  XLDR_CSR_SWRST_def XLDR_CSR_EXIT_def XLDR_FIFO_R0_XLAST_def XLDR_FIFO_CSR_FULL_def
  XLDR_FIFO_CSR_EMPTY_def XLDR_FIFO_CSR_CLEAR_BUS_def

lemmas sxldr_bits =
  SXLDR_CSR_START_def SXLDR_CSR_DONE_def SXLDR_CSR_ERROR_def SXLDR_CSR_BUSY_def
  SXLDR_CSR_MSBF_def SXLDR_CSR_SWRST_def SXLDR_CSR_EXIT_def SXLDR_FAR_XFER_def
  SXLDR_FAR_READY_def SXLDR_FAR_CS_def SXLDR_FIFO_R0_XLAST_def SXLDR_FIFO_CSR_FULL_def
  SXLDR_FIFO_CSR_EMPTY_def SXLDR_FIFO_CSR_CLEAR_BUS_def

lemmas xldr_offsets [reg_defs] =
  XLDR_REG_CSR_def XLDR_REG_BTRIGR_def XLDR_REG_GPIOR_def XLDR_REG_IDR_def XLDR_REG_FIFO_R0_def
  XLDR_REG_FIFO_R1_def XLDR_REG_FIFO_CSR_def

lemmas sxldr_offsets [reg_defs] =
  SXLDR_REG_CSR_def SXLDR_REG_BTRIGR_def SXLDR_REG_FAR_def SXLDR_REG_IDR_def
  SXLDR_REG_FIFO_R0_def SXLDR_REG_FIFO_R1_def SXLDR_REG_FIFO_CSR_def

end
