(* ===== verification/Svec_Loader.thy ===== *)
theory Svec_Loader
  imports Svec_Header Xloader_Regs
begin

text \<open>
  The FPGA manager operations of \<open>kernel/svec-core.c\<close>: entering the bootloader, feeding a
  bitstream to its FIFO, waiting for the configuration to end.  Messages to the kernel log are
  left out.  Register addresses are offsets in the CR/CSR window of the card.  The wait for the
  end of the configuration reads the clock until a deadline: whether it returns depends on the
  clock, so its result is an option, \<open>None\<close> where it never returns.
\<close>

section \<open>The operations\<close>

definition loader_reg :: "u32 \<Rightarrow> ioaddr" where
  \<comment> \<open>\<open>vdev->map_cr.kernel_va + SVEC_BASE_LOADER + reg\<close>\<close>
  "loader_reg r = CR (SVEC_BASE_LOADER + r)"

primrec svec_fpga_reset_loop :: "u32 list \<Rightarrow> (('c, 'z) machine_scheme, unit) state" where
  "svec_fpga_reset_loop [] = State_Monad.return ()"
| "svec_fpga_reset_loop (w # ws) = do {
     iowrite32be w (loader_reg XLDR_REG_BTRIGR);
     sleep_us 1000;
     svec_fpga_reset_loop ws }"

definition svec_fpga_reset :: "(('c, 'z) machine_scheme, int) state" where
  "svec_fpga_reset = do { svec_fpga_reset_loop boot_unlock_sequence; State_Monad.return 0 }"

definition svec_fpga_loader_is_active :: "'c env \<Rightarrow> (('c, 'z) machine_scheme, int) state" where
  "svec_fpga_loader_is_active E = do {
     csr \<leftarrow> ioread32be E (loader_reg XLDR_REG_CSR);
     idc \<leftarrow> ioread32be E (loader_reg XLDR_REG_IDR);
     let idc = htonl idc;
     let buf = strncpy (replicate 5 0) (le_bytes idc) 4;
     State_Monad.return (if strncmp buf (cstr ''SVEC'') 4 = 0 then 1 else 0) }"

fun fifo_poll :: "'c env \<Rightarrow> nat \<Rightarrow> (('c, 'z) machine_scheme, u32) state" where
  \<comment> \<open>\<open>do rv = ioread32be(FIFO_CSR); while (rv & FULL && --try >= 0);\<close>\<close>
  "fifo_poll E 0 = ioread32be E (loader_reg XLDR_REG_FIFO_CSR)"
| "fifo_poll E (Suc try) = do {
     rv \<leftarrow> ioread32be E (loader_reg XLDR_REG_FIFO_CSR);
     if tst rv XLDR_FIFO_CSR_FULL then fifo_poll E try else State_Monad.return rv }"

definition svec_fpga_write_word ::
  "'c env \<Rightarrow> u32 \<Rightarrow> int \<Rightarrow> u32 \<Rightarrow> (('c, 'z) machine_scheme, int) state" where
  "svec_fpga_write_word E word size' is_last =
     (if size' \<le> 0 \<or> size' \<ge> 5 then State_Monad.return (- EINVAL)
      else do {
        let xldr_fifo_r0 =
          (word_of_int (size' - 1) AND 0x3) OR (if is_last \<noteq> 0 then XLDR_FIFO_R0_XLAST else 0);
        let xldr_fifo_r1 = htonl word;
        rv \<leftarrow> fifo_poll E 10000;
        if tst rv XLDR_FIFO_CSR_FULL then State_Monad.return (- EBUSY)
        else do {
          iowrite32be xldr_fifo_r0 (loader_reg XLDR_REG_FIFO_R0);
          iowrite32be xldr_fifo_r1 (loader_reg XLDR_REG_FIFO_R1);
          State_Monad.return 0 } })"

definition svec_fpga_write_start :: "'c env \<Rightarrow> (('c, 'z) machine_scheme, int) state" where
  "svec_fpga_write_start E = do {
     err \<leftarrow> svec_fpga_reset;
     if err \<noteq> 0 then State_Monad.return err
     else do {
       succ \<leftarrow> svec_fpga_loader_is_active E;
       if succ = 0 then State_Monad.return (- ENXIO)
       else do {
         iowrite32be XLDR_CSR_SWRST (loader_reg XLDR_REG_CSR);
         iowrite32be (XLDR_CSR_START OR XLDR_CSR_MSBF) (loader_reg XLDR_REG_CSR);
         State_Monad.return err } } }"

text \<open>
  The word held back is passed with its size converted from \<open>uint32_t\<close> to \<open>ssize_t\<close>, which
  is 64 bits wide: the invalid size \<open>(uint32_t)-1\<close> becomes a number that is too large.
\<close>

definition write_held_word ::
  "'c env \<Rightarrow> u32 \<Rightarrow> (('c, 'z) svec_dev_scheme, int) state" where
  "write_held_word E is_last = do {
     w \<leftarrow> gets bitstream_last_word;
     n \<leftarrow> gets bitstream_last_word_size;
     svec_fpga_write_word E w (uint n) is_last }"

definition reset_held_word :: "(('c, 'z) svec_dev_scheme, unit) state" where
  "reset_held_word =
     modify (\<lambda>s. s\<lparr>bitstream_last_word := - 1, bitstream_last_word_size := - 1\<rparr>)"

function svec_fpga_write_buf_loop ::
  "'c env \<Rightarrow> mem \<Rightarrow> nat \<Rightarrow> nat \<Rightarrow> (('c, 'z) svec_dev_scheme, int) state" where
  "svec_fpga_write_buf_loop E buf count i =
     (if i < count then do {
        err \<leftarrow> write_held_word E 0;
        if err \<noteq> 0 \<and> \<not> (err = - EINVAL \<and> i = 0) then State_Monad.return err
        else do {
          let n = (if count - i > 4 then 4 else count - i);
          modify (\<lambda>s. s\<lparr>bitstream_last_word := load32 buf (4 * (i div 4)),
                        bitstream_last_word_size := of_nat n\<rparr>);
          svec_fpga_write_buf_loop E buf count (i + n) } }
      else State_Monad.return 0)"
  by pat_completeness auto
termination
  by (relation "measure (\<lambda>(E, buf, count, i). count - i)") auto

declare svec_fpga_write_buf_loop.simps [simp del]

definition svec_fpga_write_buf ::
  "'c env \<Rightarrow> mem \<Rightarrow> nat \<Rightarrow> (('c, 'z) svec_dev_scheme, int) state" where
  "svec_fpga_write_buf E buf count = svec_fpga_write_buf_loop E buf count 0"

definition svec_fpga_write_init :: "'c env \<Rightarrow> (('c, 'z) svec_dev_scheme, int) state" where
  "svec_fpga_write_init E = do { reset_held_word; svec_fpga_write_start E }"

definition svec_fpga_write ::
  "'c env \<Rightarrow> mem \<Rightarrow> nat \<Rightarrow> (('c, 'z) svec_dev_scheme, int) state" where
  "svec_fpga_write E buf count = svec_fpga_write_buf E buf count"

text \<open>\<open>time_before64\<close> compares the wrapped difference of two tick counts.\<close>

definition time_before64 :: "u64 \<Rightarrow> u64 \<Rightarrow> bool" where
  "time_before64 a b \<longleftrightarrow> sint (a - b) < 0"

partial_function (option) wait_done ::
  "'c env \<Rightarrow> u64 \<Rightarrow> u32 \<Rightarrow> ('c, 'z) machine_scheme \<Rightarrow> (u32 \<times> ('c, 'z) machine_scheme) option"
where
  "wait_done E timeout rval s =
     (let (now, s1) = run_state (get_jiffies_64 E) s in
      if time_before64 now timeout then
        (let (rval', s2) = run_state (ioread32be E (loader_reg XLDR_REG_CSR)) s1 in
         if tst rval' XLDR_CSR_DONE then Some (rval', s2)
         else wait_done E timeout rval' (snd (run_state (sleep_us 900) s2)))
      else Some (rval, s1))"

definition write_stop_out :: "int \<Rightarrow> (('c, 'z) machine_scheme, int) state" where
  \<comment> \<open>the label \<open>out\<close>\<close>
  "write_stop_out err = do {
     iowrite32be XLDR_CSR_EXIT (loader_reg XLDR_REG_CSR);
     sleep_us 10000;
     State_Monad.return err }"

record fpga_image_info =
  config_complete_timeout_us :: u32

definition svec_fpga_write_stop ::
  "(u32 \<Rightarrow> u64) \<Rightarrow> 'c env \<Rightarrow> fpga_image_info \<Rightarrow> ('c, 'z) svec_dev_scheme \<Rightarrow>
   (int \<times> ('c, 'z) svec_dev_scheme) option" where
  \<comment> \<open>the first argument is \<open>usecs_to_jiffies\<close> of the kernel\<close>
  "svec_fpga_write_stop usecs_to_jiffies E info s =
     (let (err, s) = run_state (write_held_word E 1) s;
          err = (if err = - EINVAL then 0 else err)
      in if err \<noteq> 0 then Some (run_state (write_stop_out err) s)
         else
           let (_, s) = run_state reset_held_word s;
               (now, s) = run_state (get_jiffies_64 E) s;
               timeout = now +
                 (if config_complete_timeout_us info \<noteq> 0
                  then usecs_to_jiffies (config_complete_timeout_us info)
                  else usecs_to_jiffies 100)
           in case wait_done E timeout 0 s of
                None \<Rightarrow> None
              | Some (rval, s) \<Rightarrow>
                  let err = (if \<not> tst rval XLDR_CSR_DONE then - EIO else err);
                      err = (if tst rval XLDR_CSR_ERROR then - EINVAL else err)
                  in Some (run_state (write_stop_out err) s))"

definition svec_fpga_write_complete ::
  "(u32 \<Rightarrow> u64) \<Rightarrow> 'c env \<Rightarrow> fpga_image_info \<Rightarrow> ('c, 'z) svec_dev_scheme \<Rightarrow>
   (int \<times> ('c, 'z) svec_dev_scheme) option" where
  "svec_fpga_write_complete usecs_to_jiffies E info s =
     svec_fpga_write_stop usecs_to_jiffies E info s"

end
