(* ===== verification/Loader_Interface.thy ===== *)
theory Loader_Interface
  imports Svec_Loader
begin

text \<open>
  The interface between the software that feeds a bitstream and the FIFO of the bootloader: what
  a device promises (the locale \<open>loader_fifo\<close>) and what the driver's FPGA manager operations
  then guarantee.  The operations themselves are in \<open>Svec_Loader\<close>.
\<close>

section \<open>FIFO entries\<close>

datatype fifo_entry = Fifo_Entry (xsize: "2 word") (xlast: bool) (xdata: u32)

definition entry_bytes :: "bool \<Rightarrow> fifo_entry \<Rightarrow> u8 list" where
  \<comment> \<open>the bytes shifted out for an entry: most significant first, or swapped when MSBF is 0\<close>
  "entry_bytes msbf e =
     take (unat (xsize e) + 1) (if msbf then be_bytes (xdata e) else le_bytes (xdata e))"

section \<open>What one call of an operation does to the driver's state\<close>

text \<open>Operations on the registers change nothing but the trace.\<close>

definition pure_io :: "(('c, 'z) machine_scheme, 'a) state \<Rightarrow> bool" where
  "pure_io m \<longleftrightarrow> (\<forall>s. \<exists>t. snd (run_state m s) = s\<lparr>trace := t\<rparr>)"

lemma pure_ioE:
  assumes "pure_io m" and "run_state m s = (a, s')"
  obtains t where "s' = s\<lparr>trace := t\<rparr>"
  using assms unfolding pure_io_def by (metis snd_conv)

lemma pure_io_return: "pure_io (State_Monad.return x)"
  unfolding pure_io_def by (rule allI, rule_tac x = "trace s" in exI) simp

lemma pure_io_bind:
  assumes "pure_io m" and "\<And>x. pure_io (f x)"
  shows "pure_io (State_Monad.bind m f)"
  unfolding pure_io_def
proof
  fix s
  obtain a s' where run: "run_state m s = (a, s')" by fastforce
  obtain t where "s' = s\<lparr>trace := t\<rparr>" using pure_ioE [OF assms(1) run] .
  moreover obtain t' where "snd (run_state (f a) s') = s'\<lparr>trace := t'\<rparr>"
    using assms(2) unfolding pure_io_def by blast
  ultimately show "\<exists>t. snd (run_state (State_Monad.bind m f) s) = s\<lparr>trace := t\<rparr>"
    using run by auto
qed

lemma pure_io_prims:
  "pure_io (ioread32be E a)" "pure_io (iowrite32be v a)" "pure_io (sleep_us n)"
  by (auto simp: pure_io_def)

lemmas pure_io_intros = pure_io_return pure_io_bind pure_io_prims

lemma pure_io_fifo_poll: "pure_io (fifo_poll E n)"
  by (induction n) (auto intro!: pure_io_intros)

lemma pure_io_write_word: "pure_io (svec_fpga_write_word E w n l)"
  unfolding svec_fpga_write_word_def
  by (auto intro!: pure_io_intros pure_io_fifo_poll simp: Let_def)

section \<open>Polling the FIFO\<close>

abbreviation fifo_csr :: ioaddr where "fifo_csr \<equiv> loader_reg XLDR_REG_FIFO_CSR"

lemma fifo_poll_spec:
  assumes "run_state (fifo_poll E n) s = (rv, s')"
  shows "\<exists>vs. trace s' = Rd fifo_csr rv # map (Rd fifo_csr) vs @ trace s \<and>
           rv = env_read E (map (Rd fifo_csr) vs @ trace s) fifo_csr \<and> length vs \<le> n \<and>
           (\<forall>v \<in> set vs. tst v XLDR_FIFO_CSR_FULL) \<and>
           (tst rv XLDR_FIFO_CSR_FULL \<longrightarrow> length vs = n)"
  using assms
proof (induction n arbitrary: s)
  case 0
  then show ?case by (auto intro!: exI [of _ "[]"])
next
  case (Suc n)
  let ?v = "env_read E (trace s) fifo_csr"
  show ?case
  proof (cases "tst ?v XLDR_FIFO_CSR_FULL")
    case False
    then show ?thesis using Suc.prems by (auto intro!: exI [of _ "[]"])
  next
    case True
    then have "run_state (fifo_poll E n) (s\<lparr>trace := Rd fifo_csr ?v # trace s\<rparr>) = (rv, s')"
      using Suc.prems by simp
    from Suc.IH [OF this] obtain vs where
      "trace s' = Rd fifo_csr rv # map (Rd fifo_csr) vs @ Rd fifo_csr ?v # trace s"
      "rv = env_read E (map (Rd fifo_csr) vs @ Rd fifo_csr ?v # trace s) fifo_csr"
      "length vs \<le> n" "\<forall>v \<in> set vs. tst v XLDR_FIFO_CSR_FULL"
      "tst rv XLDR_FIFO_CSR_FULL \<longrightarrow> length vs = n" by auto
    with True show ?thesis by (auto intro!: exI [of _ "vs @ [?v]"])
  qed
qed

text \<open>One word, on every device: which events it adds in each of its three outcomes.\<close>

definition word_entry :: "u32 \<Rightarrow> int \<Rightarrow> u32 \<Rightarrow> fifo_entry" where
  "word_entry w n l = Fifo_Entry (word_of_int (n - 1)) (l \<noteq> 0) (htonl w)"

lemma xlast_control:
  "bit ((word_of_int k AND 0x3) OR (if b then XLDR_FIFO_R0_XLAST else 0)) 2 = b"
  by (auto simp: bit_simps XLDR_FIFO_R0_XLAST_def bit_WBGEN2_GEN_MASK)

lemma xsize_control:
  "(ucast ((word_of_int k AND 0x3 :: u32) OR (if b then XLDR_FIFO_R0_XLAST else 0)) :: 2 word) =
     word_of_int k"
proof (rule bit_word_eqI)
  fix n assume "n < LENGTH(2)"
  then have "n = 0 \<or> n = 1" by auto
  then show "bit (ucast ((word_of_int k AND 0x3 :: u32) OR
                (if b then XLDR_FIFO_R0_XLAST else 0)) :: 2 word) n = bit (word_of_int k :: 2 word) n"
    by (auto simp: bit_simps XLDR_FIFO_R0_XLAST_def bit_WBGEN2_GEN_MASK)
qed

section \<open>The contract of the device\<close>

fun quiet :: "'c event \<Rightarrow> bool" where
  \<comment> \<open>events that push nothing\<close>
  "quiet (Rd a v) = True"
| "quiet (Sleep n) = True"
| "quiet (Jiffies t) = True"
| "quiet (Wr a v) = False"
| "quiet (Call c r) = False"

locale loader_fifo =
  fixes E :: "'c env"
    and ready :: "'c event list \<Rightarrow> bool"
    and accepted :: "'c event list \<Rightarrow> fifo_entry list"
  assumes ready_quiet: "ready h \<Longrightarrow> quiet e \<Longrightarrow> ready (e # h)"
    and accepted_quiet: "quiet e \<Longrightarrow> accepted (e # h) = accepted h"
    and accepted_exit: "accepted (Wr (loader_reg XLDR_REG_CSR) XLDR_CSR_EXIT # h) = accepted h"
    and push:
      "\<And>h v c d h'. ready h \<Longrightarrow> v = env_read E h fifo_csr \<Longrightarrow> \<not> tst v XLDR_FIFO_CSR_FULL \<Longrightarrow>
         h' = Wr (loader_reg XLDR_REG_FIFO_R1) d # Wr (loader_reg XLDR_REG_FIFO_R0) c #
              Rd fifo_csr v # h \<Longrightarrow>
         ready h' \<and> accepted h' = accepted h @ [Fifo_Entry (ucast c) (bit c 2) d]"
begin

lemma quiet_reads:
  "ready h \<Longrightarrow> ready (map (Rd a) vs @ h) \<and> accepted (map (Rd a) vs @ h) = accepted h"
  by (induction vs) (auto simp: ready_quiet accepted_quiet)

lemma write_word:
  assumes ready: "ready (trace s)"
    and run: "run_state (svec_fpga_write_word E w n l) s = (r, s')"
  shows "ready (trace s') \<and>
     (r = - EINVAL \<and> (n \<le> 0 \<or> n \<ge> 5) \<and> accepted (trace s') = accepted (trace s) \<or>
      r = - EBUSY \<and> 0 < n \<and> n < 5 \<and> accepted (trace s') = accepted (trace s) \<or>
      r = 0 \<and> 0 < n \<and> n < 5 \<and> accepted (trace s') = accepted (trace s) @ [word_entry w n l])"
proof (cases "n \<le> 0 \<or> n \<ge> 5")
  case True
  then show ?thesis using ready run by (auto simp: svec_fpga_write_word_def)
next
  case False
  obtain rv s1 where poll: "run_state (fifo_poll E 10000) s = (rv, s1)" by fastforce
  from fifo_poll_spec [OF poll] obtain vs where
    tr: "trace s1 = Rd fifo_csr rv # map (Rd fifo_csr) vs @ trace s"
    and rv: "rv = env_read E (map (Rd fifo_csr) vs @ trace s) fifo_csr" by auto
  let ?h = "map (Rd fifo_csr) vs @ trace s"
  have rdy: "ready ?h" and acc: "accepted ?h = accepted (trace s)"
    using quiet_reads [OF ready] by auto
  show ?thesis
  proof (cases "tst rv XLDR_FIFO_CSR_FULL")
    case True
    then have "r = - EBUSY \<and> s' = s1"
      using run False poll by (simp add: svec_fpga_write_word_def Let_def)
    then show ?thesis
      using False rdy acc tr by (simp add: ready_quiet accepted_quiet)
  next
    case nfull: False
    define c where "c = (word_of_int (n - 1) AND 0x3) OR (if l \<noteq> 0 then XLDR_FIFO_R0_XLAST else 0)"
    have "r = 0 \<and> trace s' = Wr (loader_reg XLDR_REG_FIFO_R1) (htonl w) #
            Wr (loader_reg XLDR_REG_FIFO_R0) c # Rd fifo_csr rv # ?h"
      using run False poll nfull tr by (auto simp: svec_fpga_write_word_def Let_def c_def)
    moreover have "Fifo_Entry (ucast c) (bit c 2) (htonl w) = word_entry w n l"
      unfolding c_def word_entry_def xlast_control xsize_control ..
    ultimately show ?thesis
      using False push [OF rdy rv nfull refl, of "htonl w" c] acc by auto
  qed
qed

end

section \<open>Feeding a buffer\<close>

definition held_valid :: "('c, 'z) svec_dev_scheme \<Rightarrow> bool" where
  "held_valid s \<longleftrightarrow> 0 < bitstream_last_word_size s \<and> bitstream_last_word_size s < 5"

definition held_bytes :: "('c, 'z) svec_dev_scheme \<Rightarrow> u8 list" where
  \<comment> \<open>the bytes of the bitstream that the driver keeps back\<close>
  "held_bytes s =
     (if held_valid s
      then take (unat (bitstream_last_word_size s)) (le_bytes (bitstream_last_word s)) else [])"

definition payload :: "fifo_entry list \<Rightarrow> u8 list" where
  \<comment> \<open>the bytes that entries put on the wire when the most significant byte goes first\<close>
  "payload es = concat (map (entry_bytes True) es)"

lemma payload_simps [simp]:
  "payload [] = []" "payload (e # es) = entry_bytes True e @ payload es"
  "payload (es @ fs) = payload es @ payload fs"
  by (simp_all add: payload_def)

lemma held_valid_iff:
  "held_valid s \<longleftrightarrow> 0 < uint (bitstream_last_word_size s) \<and> uint (bitstream_last_word_size s) < 5"
  by (simp add: held_valid_def word_less_def)

lemma held_valid_trace [simp]: "held_valid (s\<lparr>trace := t\<rparr>) = held_valid s"
  and held_bytes_trace [simp]: "held_bytes (s\<lparr>trace := t\<rparr>) = held_bytes s"
  by (simp_all add: held_valid_def held_bytes_def)

lemma xsize_word_entry:
  assumes "0 < n" and "n < 5"
  shows "unat (xsize (word_entry w n l)) + 1 = nat n"
proof -
  have "n = 1 \<or> n = 2 \<or> n = 3 \<or> n = 4" using assms by auto
  then show ?thesis by (auto simp: word_entry_def)
qed

lemma entry_bytes_word_entry:
  assumes "0 < n" and "n < 5"
  shows "entry_bytes True (word_entry w n l) = take (nat n) (le_bytes w)"
  using xsize_word_entry [OF assms, of w l] by (simp add: entry_bytes_def word_entry_def)

lemma xlast_word_entry [simp]: "xlast (word_entry w n l) \<longleftrightarrow> l \<noteq> 0"
  by (simp add: word_entry_def)

lemma held_entry:
  assumes "held_valid s"
  shows "entry_bytes True
           (word_entry (bitstream_last_word s) (uint (bitstream_last_word_size s)) l) = held_bytes s"
  using assms by (simp add: held_valid_iff held_bytes_def entry_bytes_word_entry)

lemma held_bytes_nonempty: "held_valid s \<Longrightarrow> held_bytes s \<noteq> []"
  by (auto simp: held_bytes_def held_valid_def le_bytes_def unat_gt_0 word_gt_0)

lemma held_after_store:
  assumes "0 < n" and "n \<le> 4" and "4 dvd i"
    and "s' = s\<lparr>bitstream_last_word := load32 buf (4 * (i div 4)), bitstream_last_word_size := of_nat n\<rparr>"
  shows "held_valid s' \<and> held_bytes s' = bytes_at buf i n"
proof -
  have "n = 1 \<or> n = 2 \<or> n = 3 \<or> n = 4" using assms(1,2) by auto
  then have u: "unat (of_nat n :: u32) = n" and v: "held_valid s'"
    by (auto simp: assms(4) held_valid_def)
  have "take n (le_bytes (load32 buf i)) = bytes_at buf i n"
    using assms(2) by (simp add: le_bytes_load32 take_bytes_at min_def)
  then show ?thesis using u v assms(3) by (simp add: held_bytes_def assms(4))
qed

context loader_fifo
begin

lemma write_held_word:
  assumes "ready (trace s)" and run: "run_state (write_held_word E l) s = (r, s')"
  shows "\<exists>t new. s' = s\<lparr>trace := t\<rparr> \<and> ready t \<and> accepted t = accepted (trace s) @ new \<and>
     (r = - EINVAL \<and> \<not> held_valid s \<and> new = [] \<or>
      r = - EBUSY \<and> held_valid s \<and> new = [] \<or>
      r = 0 \<and> held_valid s \<and> (\<exists>e. new = [e] \<and> xlast e = (l \<noteq> 0) \<and> entry_bytes True e = held_bytes s))"
proof -
  let ?w = "bitstream_last_word s" and ?n = "uint (bitstream_last_word_size s)"
  have run': "run_state (svec_fpga_write_word E ?w ?n l) s = (r, s')"
    using run by (simp add: write_held_word_def)
  obtain t where s': "s' = s\<lparr>trace := t\<rparr>" using pure_ioE [OF pure_io_write_word run'] .
  have valid: "held_valid s \<longleftrightarrow> 0 < ?n \<and> ?n < 5" by (rule held_valid_iff)
  show ?thesis
    using write_word [OF assms(1) run'] valid held_entry [of s l] s'
    by (auto intro!: exI [of _ t])
qed

lemma write_buf_loop:
  assumes "ready (trace s)" and "i \<le> count" and "i < count \<longrightarrow> 4 dvd i" and "0 < i \<longrightarrow> held_valid s"
    and "run_state (svec_fpga_write_buf_loop E buf count i) s = (r, s')"
  shows "\<exists>new j. ready (trace s') \<and> accepted (trace s') = accepted (trace s) @ new \<and>
     (\<forall>e \<in> set new. \<not> xlast e) \<and> i \<le> j \<and> j \<le> count \<and>
     payload new @ held_bytes s' = held_bytes s @ bytes_at buf i (j - i) \<and>
     (0 < j \<longrightarrow> held_valid s') \<and> (r = 0 \<and> j = count \<or> r = - EBUSY)"
  using assms
proof (induction "count - i" arbitrary: i s rule: less_induct)
  case less
  note step = svec_fpga_write_buf_loop.simps [of E buf count i]
  show ?case
  proof (cases "i < count")
    case False
    then have "run_state (svec_fpga_write_buf_loop E buf count i) s = (0, s)"
      by (subst step) simp
    then have "r = 0 \<and> s' = s \<and> i = count" using False less.prems by auto
    with less.prems show ?thesis by (auto intro!: exI [of _ "[]"] exI [of _ count])
  next
    case True
    define n where "n = (if count - i > 4 then 4 else count - i)"
    have n: "0 < n" "n \<le> 4" "i + n \<le> count" and dec: "count - (i + n) < count - i"
      and al: "i + n < count \<longrightarrow> 4 dvd (i + n)"
      using True less.prems(3) by (auto simp: n_def)
    obtain err s1 where held: "run_state (write_held_word E 0) s = (err, s1)" by fastforce
    from write_held_word [OF less.prems(1) held] obtain t new1 where
      s1: "s1 = s\<lparr>trace := t\<rparr>" and rdy1: "ready t" and
      acc1: "accepted t = accepted (trace s) @ new1" and
      res: "err = - EINVAL \<and> \<not> held_valid s \<and> new1 = [] \<or>
        err = - EBUSY \<and> held_valid s \<and> new1 = [] \<or>
        err = 0 \<and> held_valid s \<and>
          (\<exists>e. new1 = [e] \<and> \<not> xlast e \<and> entry_bytes True e = held_bytes s)" by auto
    show ?thesis
    proof (cases "err = - EBUSY")
      case True
      then have "run_state (svec_fpga_write_buf_loop E buf count i) s = (- EBUSY, s1)"
        using \<open>i < count\<close> held by (subst step) simp
      then have "r = - EBUSY \<and> s' = s1" using less.prems(5) by simp
      with True res s1 rdy1 acc1 less.prems show ?thesis
        by (auto intro!: exI [of _ "[]"] exI [of _ i])
    next
      case False
      have cont: "\<not> (err \<noteq> 0 \<and> \<not> (err = - EINVAL \<and> i = 0))"
        using False res less.prems(4) by (cases "i = 0") auto
      have new1: "payload new1 = held_bytes s" "\<forall>e \<in> set new1. \<not> xlast e"
        using False res by (auto simp: held_bytes_def)
      define s2 where "s2 = s1\<lparr>bitstream_last_word := load32 buf (4 * (i div 4)),
                               bitstream_last_word_size := of_nat n\<rparr>"
      have "run_state (svec_fpga_write_buf_loop E buf count i) s =
            run_state (svec_fpga_write_buf_loop E buf count (i + n)) s2"
        by (subst step) (use True held cont in \<open>auto simp: Let_def s2_def n_def\<close>)
      then have run2: "run_state (svec_fpga_write_buf_loop E buf count (i + n)) s2 = (r, s')"
        using less.prems(5) by simp
      have st: "held_valid s2 \<and> held_bytes s2 = bytes_at buf i n"
        by (rule held_after_store [OF n(1,2) _ s2_def]) (use less.prems(3) True in simp)
      have tr2: "trace s2 = t" by (simp add: s2_def s1)
      from less.hyps [OF dec, of s2] obtain new2 j where
        ih: "ready (trace s')" "accepted (trace s') = accepted t @ new2"
          "\<forall>e \<in> set new2. \<not> xlast e" "i + n \<le> j" "j \<le> count"
          "payload new2 @ held_bytes s' = held_bytes s2 @ bytes_at buf (i + n) (j - (i + n))"
          "0 < j \<longrightarrow> held_valid s'" "r = 0 \<and> j = count \<or> r = - EBUSY"
        using n rdy1 st al run2 tr2 by auto
      have "bytes_at buf i (j - i) = bytes_at buf i n @ bytes_at buf (i + n) (j - (i + n))"
        using bytes_at_split [of n "j - i" buf i] ih(4) by auto
      then show ?thesis
        using ih acc1 new1 st n by (intro exI [of _ "new1 @ new2"] exI [of _ j]) auto
    qed
  qed
qed

lemma write_buf:
  assumes "ready (trace s)" and "run_state (svec_fpga_write E buf count) s = (r, s')"
  shows "\<exists>new j. ready (trace s') \<and> accepted (trace s') = accepted (trace s) @ new \<and>
     (\<forall>e \<in> set new. \<not> xlast e) \<and> j \<le> count \<and>
     payload new @ held_bytes s' = held_bytes s @ bytes_at buf 0 j \<and>
     (0 < j \<longrightarrow> held_valid s') \<and> (count = 0 \<longrightarrow> s' = s) \<and> (r = 0 \<and> j = count \<or> r = - EBUSY)"
proof -
  have "run_state (svec_fpga_write_buf_loop E buf 0 0) s = (0, s)"
    by (subst svec_fpga_write_buf_loop.simps) simp
  then have "count = 0 \<longrightarrow> s' = s"
    using assms(2) by (auto simp: svec_fpga_write_def svec_fpga_write_buf_def)
  then show ?thesis
    using write_buf_loop [of s 0 count buf r s'] assms
    by (auto simp: svec_fpga_write_def svec_fpga_write_buf_def)
qed

end

text \<open>
  The FPGA manager framework hands a bitstream over in one or several calls of the write
  operation and stops at the first that fails.
\<close>

primrec write_chunks :: "'c env \<Rightarrow> (mem \<times> nat) list \<Rightarrow> (('c, 'z) svec_dev_scheme, int) state" where
  "write_chunks E [] = State_Monad.return 0"
| "write_chunks E (c # cs) = do {
     err \<leftarrow> svec_fpga_write E (fst c) (snd c);
     if err \<noteq> 0 then State_Monad.return err else write_chunks E cs }"

definition chunk_bytes :: "(mem \<times> nat) list \<Rightarrow> u8 list" where
  "chunk_bytes cs = concat (map (\<lambda>c. bytes_at (fst c) 0 (snd c)) cs)"

lemma chunk_bytes_simps [simp]:
  "chunk_bytes [] = []" "chunk_bytes (c # cs) = bytes_at (fst c) 0 (snd c) @ chunk_bytes cs"
  by (simp_all add: chunk_bytes_def)

lemma wait_done_quiet:
  assumes "wait_done E timeout rval s = Some (rv, s')"
  shows "\<exists>evs. s' = s\<lparr>trace := evs @ trace s\<rparr> \<and> list_all quiet evs"
proof (rule wait_done.raw_induct [where P = "\<lambda>E timeout rval s res.
    \<exists>evs. snd res = s\<lparr>trace := evs @ trace s\<rparr> \<and> list_all quiet evs", OF _ assms, simplified snd_conv])
  fix f :: "'a env \<Rightarrow> u64 \<Rightarrow> u32 \<Rightarrow> ('a, 'b) machine_scheme \<Rightarrow> (u32 \<times> ('a, 'b) machine_scheme) option"
  fix E timeout rval s res
  assume IH: "\<And>E timeout rval s res. f E timeout rval s = Some res \<Longrightarrow>
      \<exists>evs. snd res = s\<lparr>trace := evs @ trace s\<rparr> \<and> list_all quiet evs"
    and eq: "(let (now, s1) = run_state (get_jiffies_64 E) s in
      if time_before64 now timeout then
        (let (rval', s2) = run_state (ioread32be E (loader_reg XLDR_REG_CSR)) s1 in
         if tst rval' XLDR_CSR_DONE then Some (rval', s2)
         else f E timeout rval' (snd (run_state (sleep_us 900) s2)))
      else Some (rval, s1)) = Some res"
  let ?j = "Jiffies (env_jiffies E (trace s))"
  let ?r = "Rd (loader_reg XLDR_REG_CSR) (env_read E (?j # trace s) (loader_reg XLDR_REG_CSR))"
  show "\<exists>evs. snd res = s\<lparr>trace := evs @ trace s\<rparr> \<and> list_all quiet evs"
  proof (cases "time_before64 (env_jiffies E (trace s)) timeout")
    case False
    then show ?thesis using eq by (auto simp: Let_def intro!: exI [of _ "[?j]"])
  next
    case before: True
    show ?thesis
    proof (cases "tst (env_read E (?j # trace s) (loader_reg XLDR_REG_CSR)) XLDR_CSR_DONE")
      case True
      then show ?thesis using eq before by (auto simp: Let_def intro!: exI [of _ "[?r, ?j]"])
    next
      case False
      then have "f E timeout (env_read E (?j # trace s) (loader_reg XLDR_REG_CSR))
          (s\<lparr>trace := Sleep 900 # ?r # ?j # trace s\<rparr>) = Some res"
        using eq before by (simp add: Let_def)
      from IH [OF this] obtain evs where
        "snd res = s\<lparr>trace := evs @ Sleep 900 # ?r # ?j # trace s\<rparr>" "list_all quiet evs" by auto
      then show ?thesis by (auto intro!: exI [of _ "evs @ [Sleep 900, ?r, ?j]"])
    qed
  qed
qed

context loader_fifo
begin

lemma quiet_events:
  "ready h \<Longrightarrow> list_all quiet evs \<Longrightarrow> ready (evs @ h) \<and> accepted (evs @ h) = accepted h"
  by (induction evs) (auto simp: ready_quiet accepted_quiet)

lemma write_chunks:
  assumes "ready (trace s)" and "run_state (write_chunks E cs) s = (0, s')"
  shows "\<exists>new. ready (trace s') \<and> accepted (trace s') = accepted (trace s) @ new \<and>
     (\<forall>e \<in> set new. \<not> xlast e) \<and> payload new @ held_bytes s' = held_bytes s @ chunk_bytes cs \<and>
     (held_valid s \<or> chunk_bytes cs \<noteq> [] \<longrightarrow> held_valid s')"
  using assms
proof (induction cs arbitrary: s)
  case Nil
  then show ?case by auto
next
  case (Cons c cs)
  obtain err s1 where w: "run_state (svec_fpga_write E (fst c) (snd c)) s = (err, s1)" by fastforce
  then have err: "err = 0" and rest: "run_state (write_chunks E cs) s1 = (0, s')"
    using Cons.prems(2) by (auto split: if_splits)
  from write_buf [OF Cons.prems(1) w] err obtain new1 where
    1: "ready (trace s1)" "accepted (trace s1) = accepted (trace s) @ new1"
      "\<forall>e \<in> set new1. \<not> xlast e"
      "payload new1 @ held_bytes s1 = held_bytes s @ bytes_at (fst c) 0 (snd c)"
      "0 < snd c \<longrightarrow> held_valid s1" "snd c = 0 \<longrightarrow> s1 = s" by auto
  from Cons.IH [OF 1(1) rest] obtain new2 where
    2: "ready (trace s')" "accepted (trace s') = accepted (trace s1) @ new2"
      "\<forall>e \<in> set new2. \<not> xlast e" "payload new2 @ held_bytes s' = held_bytes s1 @ chunk_bytes cs"
    "held_valid s1 \<or> chunk_bytes cs \<noteq> [] \<longrightarrow> held_valid s'"
    by auto
  have "payload (new1 @ new2) @ held_bytes s' = held_bytes s @ chunk_bytes (c # cs)"
    using 1(4) 2(4) by (metis append.assoc chunk_bytes_simps(2) payload_simps(3))
  moreover have "held_valid s \<or> chunk_bytes (c # cs) \<noteq> [] \<longrightarrow> held_valid s'"
    using 1(5,6) 2(5) by (cases "snd c = 0") auto
  ultimately show ?case using 1 2 by (auto intro!: exI [of _ "new1 @ new2"])
qed

text \<open>
  The end of the session: the word held back goes out with the mark of the last word, then only
  quiet events happen until the loader is left.
\<close>

lemma write_complete:
  assumes rdy: "ready (trace s)" and run: "svec_fpga_write_complete u E info s = Some (r, s')"
  shows "\<exists>h new. trace s' = Sleep 10000 # Wr (loader_reg XLDR_REG_CSR) XLDR_CSR_EXIT # h \<and>
     ready h \<and> accepted h = accepted (trace s) @ new \<and>
     (held_valid s \<and> r = - EBUSY \<and> new = [] \<or>
      held_valid s \<and> (\<exists>e. new = [e] \<and> xlast e \<and> entry_bytes True e = held_bytes s) \<or>
      \<not> held_valid s \<and> new = [])"
proof -
  obtain err s1 where w: "run_state (write_held_word E 1) s = (err, s1)" by fastforce
  from write_held_word [OF rdy w] obtain t new where s1: "s1 = s\<lparr>trace := t\<rparr>" and
    t: "ready t" "accepted t = accepted (trace s) @ new" and
    res: "err = - EINVAL \<and> \<not> held_valid s \<and> new = [] \<or> err = - EBUSY \<and> held_valid s \<and> new = [] \<or>
      err = 0 \<and> held_valid s \<and> (\<exists>e. new = [e] \<and> xlast e \<and> entry_bytes True e = held_bytes s)"
    by auto
  show ?thesis
  proof (cases "err = - EBUSY")
    case True
    then have "run_state (write_stop_out (- EBUSY)) s1 = (r, s')"
      using run w by (simp add: svec_fpga_write_complete_def svec_fpga_write_stop_def Let_def)
    then show ?thesis using True res t s1
      by (auto simp: write_stop_out_def intro!: exI [of _ t])
  next
    case False
    let ?now = "env_jiffies E t"
    define timeout where "timeout = ?now + (if config_complete_timeout_us info \<noteq> 0
      then u (config_complete_timeout_us info) else u 100)"
    define s2 where "s2 = s1\<lparr>bitstream_last_word := - 1, bitstream_last_word_size := - 1,
                             trace := Jiffies ?now # t\<rparr>"
    obtain rv s3 where wd: "wait_done E timeout 0 s2 = Some (rv, s3)" and
      out: "trace s' = Sleep 10000 # Wr (loader_reg XLDR_REG_CSR) XLDR_CSR_EXIT # trace s3"
      using run w False res s1
      by (auto simp: svec_fpga_write_complete_def svec_fpga_write_stop_def Let_def
          reset_held_word_def s2_def timeout_def write_stop_out_def split: option.splits)
    from wait_done_quiet [OF wd] obtain evs where
      evs: "trace s3 = evs @ Jiffies ?now # t" "list_all quiet evs" by (auto simp: s2_def)
    then have "ready (trace s3) \<and> accepted (trace s3) = accepted t"
      using quiet_events [of t "evs @ [Jiffies ?now]"] t by simp
    then show ?thesis using out res False t by (intro exI [of _ "trace s3"] exI [of _ new]) auto
  qed
qed

end

section \<open>The register protocol as a provider\<close>

text \<open>
  What the two data registers of the FIFO make of a trace: the first latches size and last mark,
  a write of the second pushes an entry with what is latched (\<open>sxldr_fifo_in_int\<close> of the
  register bank).  Every environment is a device for this reading of its trace.
\<close>

fun fifo_latch :: "'c event list \<Rightarrow> 2 word \<times> bool" where
  "fifo_latch (Wr a v # h) =
     (if a = loader_reg XLDR_REG_FIFO_R0 then (ucast v, bit v 2) else fifo_latch h)"
| "fifo_latch (e # h) = fifo_latch h"
| "fifo_latch [] = (0, False)"

fun entries_of :: "'c event list \<Rightarrow> fifo_entry list" where
  "entries_of (Wr a v # h) =
     (if a = loader_reg XLDR_REG_FIFO_R1
      then entries_of h @ [Fifo_Entry (fst (fifo_latch h)) (snd (fifo_latch h)) v]
      else entries_of h)"
| "entries_of (e # h) = entries_of h"
| "entries_of [] = []"

lemma entries_of_quiet: "quiet e \<Longrightarrow> entries_of (e # h) = entries_of h"
  by (cases e) auto

lemma loader_reg_inject [simp]: "loader_reg a = loader_reg b \<longleftrightarrow> a = b"
  by (simp add: loader_reg_def)

interpretation proto: loader_fifo E "\<lambda>_. True" entries_of for E
  by unfold_locales (auto simp: entries_of_quiet reg_defs)

text \<open>Entering the loader pushes nothing.\<close>

lemma entries_of_reset_loop:
  "entries_of (trace (snd (run_state (svec_fpga_reset_loop ws) s))) = entries_of (trace s)"
  by (induction ws arbitrary: s) (auto simp: reg_defs)

lemma entries_of_write_init:
  assumes "run_state (svec_fpga_write_init E) s = (r, s')"
  shows "entries_of (trace s') = entries_of (trace s) \<and> \<not> held_valid s' \<and> held_bytes s' = []"
proof -
  let ?s1 = "s\<lparr>bitstream_last_word := - 1, bitstream_last_word_size := - 1\<rparr>"
  have io: "pure_io (svec_fpga_reset_loop ws)" for ws
    by (induction ws) (auto intro!: pure_io_intros)
  define s2 where "s2 = snd (run_state (svec_fpga_reset_loop boot_unlock_sequence) ?s1)"
  have reset: "run_state (svec_fpga_reset_loop boot_unlock_sequence) ?s1 = ((), s2)"
    by (simp add: s2_def prod_eq_iff)
  obtain t where s2: "s2 = ?s1\<lparr>trace := t\<rparr>" using pure_ioE [OF io reset] .
  have "entries_of (trace s2) = entries_of (trace s)"
    using entries_of_reset_loop [of boot_unlock_sequence ?s1] reset by simp
  then show ?thesis
    using assms reset s2
    by (auto simp: svec_fpga_write_init_def reset_held_word_def svec_fpga_write_start_def
        svec_fpga_reset_def svec_fpga_loader_is_active_def Let_def held_valid_def held_bytes_def
        reg_defs split: if_splits)
qed

end
