(* ===== verification/Bootloader_Hw.thy ===== *)
theory Bootloader_Hw
  imports Loader_Interface
begin

text \<open>
  The System FPGA bootloader at the level of bus transactions, from its VHDL: the detector of the
  trigger sequence and the loader multiplexer (\<open>sfpga_bootloader.vhd\<close>), the register bank with
  its FIFO (\<open>svec_xloader_wb.vhd\<close>), the serial loader (\<open>xilinx_loader.vhd\<close>) and the
  enable flag (\<open>svec_sfpga_top.vhd\<close>).  A bus write is one step; between two events of the
  host the loader takes a number of steps of its own, which a schedule gives: how fast it empties
  the FIFO and when the Application FPGA raises DONE is the schedule's choice, so a theorem over
  every schedule covers every interleaving of the host and the loader.

  The pulse that erases the Application FPGA (100 clock cycles) is taken to be over before the
  next event of the host.  What the FIFO does with a push while it is full is not described by
  the sources: the model marks it with the flag \<open>overflow\<close>.
\<close>

section \<open>The trigger sequence\<close>

datatype t_bootseq_state =
  TWORD0 | TWORD1 | TWORD2 | TWORD3 | TWORD4 | TWORD5 | TWORD6 | TWORD7 | BOOT_READY

definition f_bootseq_step :: "t_bootseq_state \<Rightarrow> u8 \<Rightarrow> u8 \<Rightarrow> t_bootseq_state" where
  "f_bootseq_step nstate match_val btrigr = (if btrigr = match_val then nstate else TWORD0)"

fun detect_boot_trigger :: "t_bootseq_state \<Rightarrow> u8 \<Rightarrow> t_bootseq_state" where
  \<comment> \<open>the reaction to one write of BTRIGR; \<open>BOOT_READY\<close> falls back by itself\<close>
  "detect_boot_trigger TWORD0 v = f_bootseq_step TWORD1 0xde v"
| "detect_boot_trigger TWORD1 v = f_bootseq_step TWORD2 0xad v"
| "detect_boot_trigger TWORD2 v = f_bootseq_step TWORD3 0xbe v"
| "detect_boot_trigger TWORD3 v = f_bootseq_step TWORD4 0xef v"
| "detect_boot_trigger TWORD4 v = f_bootseq_step TWORD5 0xca v"
| "detect_boot_trigger TWORD5 v = f_bootseq_step TWORD6 0xfe v"
| "detect_boot_trigger TWORD6 v = f_bootseq_step TWORD7 0xba v"
| "detect_boot_trigger TWORD7 v = f_bootseq_step BOOT_READY 0xbe v"
| "detect_boot_trigger BOOT_READY v = TWORD0"

section \<open>State\<close>

datatype t_xloader_state = XIDLE | XLOAD | XWAIT_DONE | XGOT_DONE

record bootldr =
  boot_state :: t_bootseq_state
  boot_host :: bool        \<comment> \<open>\<open>boot_source = HOST\<close>\<close>
  boot_en :: bool          \<comment> \<open>the VME interface answers\<close>
  csr_msbf :: bool
  csr_clkdiv :: u32
  csr_done :: bool
  csr_error :: bool
  fifo_in_size :: "2 word" \<comment> \<open>\<open>sxldr_fifo_in_int(1 downto 0)\<close>\<close>
  fifo_in_last :: bool
  fifo :: "fifo_entry list"
  overflow :: bool
  xl_state :: t_xloader_state
  pushed :: "fifo_entry list"   \<comment> \<open>entries in the FIFO at the last start, or pushed since\<close>
  shifted :: "fifo_entry list"  \<comment> \<open>entries shifted into the Application FPGA since then\<close>
  wire :: "u8 list"             \<comment> \<open>their bytes, in the order of the DIN pin\<close>

definition FIFO_SIZE :: nat where "FIFO_SIZE = 256"

definition bootldr_reset :: bootldr where
  "bootldr_reset =
     \<lparr>boot_state = TWORD0, boot_host = False, boot_en = False, csr_msbf = False, csr_clkdiv = 0,
      csr_done = False, csr_error = False, fifo_in_size = 0, fifo_in_last = False, fifo = [],
      overflow = False, xl_state = XIDLE, pushed = [],
      shifted = [], wire = []\<rparr>"

section \<open>Bus writes\<close>

definition hw_write_btrigr :: "u32 \<Rightarrow> bootldr \<Rightarrow> bootldr" where
  "hw_write_btrigr v b =
     (case detect_boot_trigger (boot_state b) (ucast v) of
        BOOT_READY \<Rightarrow> b\<lparr>boot_state := TWORD0, boot_host := True, boot_en := True\<rparr>
      | st \<Rightarrow> b\<lparr>boot_state := st\<rparr>)"

definition hw_write_csr :: "u32 \<Rightarrow> bootldr \<Rightarrow> bootldr" where
  "hw_write_csr v b =
     (let b = b\<lparr>csr_msbf := bit v 4, csr_clkdiv := drop_bit 8 v AND mask 6\<rparr>;
          b = (if boot_host b \<and> bit v 5
               then b\<lparr>xl_state := XIDLE, csr_done := False, csr_error := False\<rparr>
               else if boot_host b \<and> boot_en b \<and> bit v 0 \<and> xl_state b = XIDLE
               then b\<lparr>xl_state := XLOAD, csr_done := False, csr_error := False,
                      pushed := fifo b, shifted := [], wire := []\<rparr>
               else b)
      in if bit v 6 then b\<lparr>boot_en := False\<rparr> else b)"

definition hw_write_r0 :: "u32 \<Rightarrow> bootldr \<Rightarrow> bootldr" where
  "hw_write_r0 v b = b\<lparr>fifo_in_size := ucast v, fifo_in_last := bit v 2\<rparr>"

definition hw_write_r1 :: "u32 \<Rightarrow> bootldr \<Rightarrow> bootldr" where
  "hw_write_r1 v b =
     (if length (fifo b) < FIFO_SIZE
      then let e = Fifo_Entry (fifo_in_size b) (fifo_in_last b) v
           in b\<lparr>fifo := fifo b @ [e], pushed := pushed b @ [e]\<rparr>
      else b\<lparr>overflow := True\<rparr>)"

definition hw_write_fifo_csr :: "u32 \<Rightarrow> bootldr \<Rightarrow> bootldr" where
  "hw_write_fifo_csr v b = (if bit v 18 then b\<lparr>fifo := [], pushed := shifted b\<rparr> else b)"

definition hw_reg :: "u32 \<Rightarrow> ioaddr" where
  \<comment> \<open>the user CSR area of the VME core starts at 0x70000\<close>
  "hw_reg r = CR (0x70000 + r)"

definition hw_write :: "ioaddr \<Rightarrow> u32 \<Rightarrow> bootldr \<Rightarrow> bootldr" where
  "hw_write a v b =
     (if a = hw_reg 0x0 then hw_write_csr v b
      else if a = hw_reg 0x4 then hw_write_btrigr v b
      else if a = hw_reg 0x10 then hw_write_r0 v b
      else if a = hw_reg 0x14 then hw_write_r1 v b
      else if a = hw_reg 0x18 then hw_write_fifo_csr v b
      else b)"

section \<open>Steps of the serial loader\<close>

datatype xl_action =
    Pop            \<comment> \<open>take an entry of the FIFO\<close>
  | Done_pin       \<comment> \<open>the Application FPGA raises DONE\<close>
  | Init_timeout   \<comment> \<open>no INIT_B after PROGRAM_B\<close>
  | Done_timeout   \<comment> \<open>no DONE after the last entry\<close>
  | Startup_end    \<comment> \<open>the start-up clock cycles after EXIT are over\<close>

fun xl_act :: "xl_action \<Rightarrow> bootldr \<Rightarrow> bootldr" where
  "xl_act Pop b =
     (if \<not> boot_host b then b
      else case (fifo b, xl_state b) of
        (e # es, XIDLE) \<Rightarrow> b\<lparr>fifo := es\<rparr>
      | (e # es, XLOAD) \<Rightarrow>
          b\<lparr>fifo := es, shifted := shifted b @ [e],
            wire := wire b @ entry_bytes (csr_msbf b) e,
            xl_state := (if xlast e then XWAIT_DONE else XLOAD)\<rparr>
      | _ \<Rightarrow> b)"
| "xl_act Done_pin b =
     (case xl_state b of
        XLOAD \<Rightarrow> b\<lparr>xl_state := XGOT_DONE, csr_done := True, csr_error := False\<rparr>
      | XWAIT_DONE \<Rightarrow> b\<lparr>xl_state := XIDLE, csr_done := True, csr_error := False\<rparr>
      | _ \<Rightarrow> b)"
| "xl_act Init_timeout b =
     (case xl_state b of
        XLOAD \<Rightarrow> b\<lparr>xl_state := XIDLE, csr_done := True, csr_error := True\<rparr> | _ \<Rightarrow> b)"
| "xl_act Done_timeout b =
     (case xl_state b of
        XWAIT_DONE \<Rightarrow> b\<lparr>xl_state := XIDLE, csr_done := True, csr_error := True\<rparr> | _ \<Rightarrow> b)"
| "xl_act Startup_end b =
     (case xl_state b of XGOT_DONE \<Rightarrow> b\<lparr>xl_state := XIDLE\<rparr> | _ \<Rightarrow> b)"

section \<open>The device as an environment\<close>

record 'c hw_par =
  hw_sched :: "'c event list \<Rightarrow> xl_action list"    \<comment> \<open>steps of the loader before the next event\<close>
  hw_bus :: "'c event list \<Rightarrow> ioaddr \<Rightarrow> u32"      \<comment> \<open>what a read returns while it is passive\<close>
  hw_undef :: "'c event list \<Rightarrow> u32"                \<comment> \<open>the bits the register bank leaves undefined\<close>

primrec hw_state :: "('c, 'y) hw_par_scheme \<Rightarrow> bootldr \<Rightarrow> 'c event list \<Rightarrow> bootldr" where
  "hw_state P b0 [] = b0"
| "hw_state P b0 (e # h) =
     (let b = fold xl_act (hw_sched P h) (hw_state P b0 h)
      in case e of Wr a v \<Rightarrow> hw_write a v b | _ \<Rightarrow> b)"

definition hw_now :: "('c, 'y) hw_par_scheme \<Rightarrow> bootldr \<Rightarrow> 'c event list \<Rightarrow> bootldr" where
  \<comment> \<open>the state in which the next event finds the device\<close>
  "hw_now P b0 h = fold xl_act (hw_sched P h) (hw_state P b0 h)"

definition csr_value :: "u32 \<Rightarrow> bootldr \<Rightarrow> u32" where
  "csr_value x b =
     (if boot_host b \<and> csr_done b then BIT 1 else 0) OR
     (if boot_host b \<and> csr_error b then BIT 2 else 0) OR
     (if \<not> boot_host b \<or> xl_state b \<noteq> XIDLE then BIT 3 else 0) OR (if csr_msbf b then BIT 4 else 0) OR
     push_bit 8 (csr_clkdiv b) OR push_bit 14 3 OR (x AND 0xFFC00080)"

definition fifo_csr_value :: "u32 \<Rightarrow> bootldr \<Rightarrow> u32" where
  "fifo_csr_value x b =
     (if length (fifo b) \<ge> FIFO_SIZE then BIT 16 else 0) OR (if fifo b = [] then BIT 17 else 0) OR
     (of_nat (length (fifo b)) AND mask 8) OR (x AND 0xFFF8FF00)"

definition hw_read :: "('c, 'y) hw_par_scheme \<Rightarrow> bootldr \<Rightarrow> 'c event list \<Rightarrow> ioaddr \<Rightarrow> u32" where
  "hw_read P b0 h a =
     (let b = hw_now P b0 h
      in if \<not> boot_en b then hw_bus P h a
         else if a = hw_reg 0x0 then csr_value (hw_undef P h) b
         else if a = hw_reg 0xc then 0x53564543
         else if a = hw_reg 0x18 then fifo_csr_value (hw_undef P h) b
         else hw_undef P h)"

definition hw_env ::
  "('c, 'y) hw_par_scheme \<Rightarrow> bootldr \<Rightarrow> ('c event list \<Rightarrow> u64) \<Rightarrow> ('c event list \<Rightarrow> 'c \<Rightarrow> int) \<Rightarrow> 'c env"
where
  "hw_env P b0 clk kern = \<lparr>env_read = hw_read P b0, env_jiffies = clk, env_call = kern\<rparr>"

lemma hw_env_sel [simp]:
  "env_read (hw_env P b0 clk kern) = hw_read P b0"
  "env_jiffies (hw_env P b0 clk kern) = clk" "env_call (hw_env P b0 clk kern) = kern"
  by (simp_all add: hw_env_def)

section \<open>What the loader's own steps leave alone\<close>

lemma xl_act_frame [simp]:
  "boot_state (xl_act x b) = boot_state b" "boot_host (xl_act x b) = boot_host b"
  "boot_en (xl_act x b) = boot_en b" "csr_msbf (xl_act x b) = csr_msbf b"
  "fifo_in_size (xl_act x b) = fifo_in_size b" "fifo_in_last (xl_act x b) = fifo_in_last b"
  "overflow (xl_act x b) = overflow b" "pushed (xl_act x b) = pushed b"
  by (cases x; simp split: t_xloader_state.split list.split)+

lemma xl_act_fifo_length: "length (fifo (xl_act x b)) \<le> length (fifo b)"
  by (cases x) (simp_all split: t_xloader_state.split list.split)

lemma fold_xl_act_frame [simp]:
  "boot_state (fold xl_act xs b) = boot_state b" "boot_host (fold xl_act xs b) = boot_host b"
  "boot_en (fold xl_act xs b) = boot_en b" "csr_msbf (fold xl_act xs b) = csr_msbf b"
  "fifo_in_size (fold xl_act xs b) = fifo_in_size b"
  "fifo_in_last (fold xl_act xs b) = fifo_in_last b"
  "overflow (fold xl_act xs b) = overflow b" "pushed (fold xl_act xs b) = pushed b"
  by (induction xs arbitrary: b) simp_all

lemma fold_xl_act_fifo_length: "length (fifo (fold xl_act xs b)) \<le> length (fifo b)"
proof (induction xs arbitrary: b)
  case (Cons x xs)
  then show ?case using xl_act_fifo_length [of x b] by (metis fold_simps(2) le_trans)
qed simp

lemma hw_now_frame [simp]:
  "boot_state (hw_now P b0 h) = boot_state (hw_state P b0 h)"
  "boot_en (hw_now P b0 h) = boot_en (hw_state P b0 h)"
  "pushed (hw_now P b0 h) = pushed (hw_state P b0 h)"
  "overflow (hw_now P b0 h) = overflow (hw_state P b0 h)"
  by (simp_all add: hw_now_def)

lemma hw_state_Cons:
  "hw_state P b0 (e # h) = (case e of Wr a v \<Rightarrow> hw_write a v (hw_now P b0 h) | _ \<Rightarrow> hw_now P b0 h)"
  by (cases e) (simp_all add: hw_now_def Let_def)

declare hw_state.simps(2) [simp del]

lemma hw_state_quiet: "quiet e \<Longrightarrow> hw_state P b0 (e # h) = hw_now P b0 h"
  by (cases e) (simp_all add: hw_state_Cons)

section \<open>The wire carries what was accepted, in order\<close>

text \<open>
  While the loader runs, what it shifted followed by what is queued is what was accepted; at all
  times what it shifted is the beginning of what was accepted, and the FIFO is within its size.
  It waits for DONE only when the last entry it shifted carries the mark.
\<close>

definition hw_inv :: "bootldr \<Rightarrow> bool" where
  "hw_inv b \<longleftrightarrow>
     (\<exists>rest. pushed b = shifted b @ rest) \<and> length (fifo b) \<le> FIFO_SIZE \<and>
     (xl_state b \<noteq> XIDLE \<longrightarrow> pushed b = shifted b @ fifo b) \<and>
     (xl_state b = XWAIT_DONE \<longrightarrow> shifted b \<noteq> [] \<and> xlast (last (shifted b)))"

lemma hw_inv_xl_act: "hw_inv b \<Longrightarrow> hw_inv (xl_act x b)"
  by (cases x) (auto simp: hw_inv_def split: t_xloader_state.split list.split)

lemma hw_inv_fold: "hw_inv b \<Longrightarrow> hw_inv (fold xl_act xs b)"
  by (induction xs arbitrary: b) (auto simp: hw_inv_xl_act)

lemma hw_inv_cong:
  assumes "hw_inv b" and "pushed b' = pushed b" and "shifted b' = shifted b"
    and "fifo b' = fifo b" and "xl_state b' = xl_state b \<or> xl_state b' = XIDLE"
  shows "hw_inv b'"
  using assms by (auto simp: hw_inv_def)

lemma hw_inv_write_btrigr: "hw_inv b \<Longrightarrow> hw_inv (hw_write_btrigr v b)"
  by (erule hw_inv_cong) (simp_all add: hw_write_btrigr_def split: t_bootseq_state.split)

lemma hw_inv_write_csr: "hw_inv b \<Longrightarrow> hw_inv (hw_write_csr v b)"
  by (simp add: hw_inv_def hw_write_csr_def Let_def)

lemma hw_inv_write_r0: "hw_inv b \<Longrightarrow> hw_inv (hw_write_r0 v b)"
  by (erule hw_inv_cong) (simp_all add: hw_write_r0_def)

lemma hw_inv_write_r1: "hw_inv b \<Longrightarrow> hw_inv (hw_write_r1 v b)"
  by (auto simp: hw_inv_def hw_write_r1_def Let_def)

lemma hw_inv_write_fifo_csr: "hw_inv b \<Longrightarrow> hw_inv (hw_write_fifo_csr v b)"
  by (simp add: hw_inv_def hw_write_fifo_csr_def)

lemma hw_inv_write: "hw_inv b \<Longrightarrow> hw_inv (hw_write a v b)"
  by (simp add: hw_write_def hw_inv_write_btrigr hw_inv_write_csr hw_inv_write_r0
      hw_inv_write_r1 hw_inv_write_fifo_csr)

lemma hw_inv_state: "hw_inv b0 \<Longrightarrow> hw_inv (hw_state P b0 h)"
  by (induction h) (auto simp: hw_state_Cons hw_now_def hw_inv_fold hw_inv_write split: event.split)

lemma hw_inv_now: "hw_inv b0 \<Longrightarrow> hw_inv (hw_now P b0 h)"
  by (simp add: hw_now_def hw_inv_fold hw_inv_state)

section \<open>The bootloader keeps the contract of the FIFO\<close>

definition wire_ok :: "bootldr \<Rightarrow> bool" where
  \<comment> \<open>active, most significant byte first, nothing lost, the wire in step with the entries\<close>
  "wire_ok b \<longleftrightarrow> boot_en b \<and> csr_msbf b \<and> \<not> overflow b \<and> wire b = payload (shifted b)"

lemma wire_ok_xl_act: "wire_ok b \<Longrightarrow> wire_ok (xl_act x b)"
  by (cases x) (auto simp: wire_ok_def split: t_xloader_state.split list.split)

lemma wire_ok_fold: "wire_ok b \<Longrightarrow> wire_ok (fold xl_act xs b)"
  by (induction xs arbitrary: b) (auto simp: wire_ok_xl_act)

lemma wire_ok_now: "wire_ok (hw_state P b0 h) \<Longrightarrow> wire_ok (hw_now P b0 h)"
  by (simp add: hw_now_def wire_ok_fold)

lemma hw_reg_loader_reg: "loader_reg r = hw_reg r"
  by (simp add: loader_reg_def hw_reg_def SVEC_BASE_LOADER_def)

lemma hw_reg_inject [simp]: "hw_reg a = hw_reg b \<longleftrightarrow> a = b"
  by (simp add: hw_reg_def)

lemma hw_state_Wr [simp]:
  "hw_state P b0 (Wr (loader_reg XLDR_REG_CSR) v # h) = hw_write_csr v (hw_now P b0 h)"
  "hw_state P b0 (Wr (loader_reg XLDR_REG_BTRIGR) v # h) = hw_write_btrigr v (hw_now P b0 h)"
  "hw_state P b0 (Wr (loader_reg XLDR_REG_FIFO_R0) v # h) = hw_write_r0 v (hw_now P b0 h)"
  "hw_state P b0 (Wr (loader_reg XLDR_REG_FIFO_R1) v # h) = hw_write_r1 v (hw_now P b0 h)"
  by (simp_all add: hw_state_Cons hw_write_def hw_reg_loader_reg reg_defs)

lemma fifo_csr_full:
  "tst (fifo_csr_value x b) XLDR_FIFO_CSR_FULL \<longleftrightarrow> FIFO_SIZE \<le> length (fifo b)"
proof -
  have "bit (fifo_csr_value x b) 16 \<longleftrightarrow> FIFO_SIZE \<le> length (fifo b)"
    by (auto simp: fifo_csr_value_def bit_simps BIT_def bit_1_iff)
  then show ?thesis by (simp only: XLDR_FIFO_CSR_FULL_def WBGEN2_GEN_MASK_1 tst_BIT)
qed

lemma hw_push:
  assumes ok: "wire_ok (hw_state P b0 h)"
    and nf: "\<not> tst (hw_read P b0 h fifo_csr) XLDR_FIFO_CSR_FULL"
    and h': "h' = Wr (loader_reg XLDR_REG_FIFO_R1) d # Wr (loader_reg XLDR_REG_FIFO_R0) c # Rd fifo_csr v # h"
  shows "wire_ok (hw_state P b0 h') \<and>
     pushed (hw_state P b0 h') = pushed (hw_state P b0 h) @ [Fifo_Entry (ucast c) (bit c 2) d]"
proof -
  let ?h1 = "Rd fifo_csr v # h" and ?h2 = "Wr (loader_reg XLDR_REG_FIFO_R0) c # Rd fifo_csr v # h"
  have "boot_en (hw_now P b0 h)" using ok by (simp add: wire_ok_def)
  then have room: "length (fifo (hw_now P b0 h)) < FIFO_SIZE"
    using nf by (simp add: hw_read_def Let_def hw_reg_loader_reg XLDR_REG_FIFO_CSR_def
        fifo_csr_full [unfolded XLDR_REG_FIFO_CSR_def])
  have s1: "hw_state P b0 ?h1 = hw_now P b0 h" by (simp add: hw_state_Cons)
  have s2: "hw_state P b0 ?h2 = hw_write_r0 c (hw_now P b0 ?h1)"
    by simp
  have s3: "hw_state P b0 h' = hw_write_r1 d (hw_now P b0 ?h2)"
    unfolding h' by simp
  have ok1: "wire_ok (hw_now P b0 ?h1)" using ok by (simp add: s1 wire_ok_now)
  then have "wire_ok (hw_state P b0 ?h2)" by (simp add: s2 hw_write_r0_def wire_ok_def)
  then have ok2: "wire_ok (hw_now P b0 ?h2)" by (rule wire_ok_now)
  have "length (fifo (hw_now P b0 ?h2)) \<le> length (fifo (hw_now P b0 h))"
    using fold_xl_act_fifo_length [of "hw_sched P ?h2" "hw_state P b0 ?h2"]
      fold_xl_act_fifo_length [of "hw_sched P ?h1" "hw_state P b0 ?h1"]
    by (simp add: hw_now_def [of P b0 ?h2] s2 hw_write_r0_def hw_now_def [of P b0 ?h1] s1)
  then have room2: "length (fifo (hw_now P b0 ?h2)) < FIFO_SIZE" using room by simp
  have "fifo_in_size (hw_now P b0 ?h2) = ucast c" "fifo_in_last (hw_now P b0 ?h2) = bit c 2"
    "pushed (hw_now P b0 ?h2) = pushed (hw_state P b0 h)"
    by (simp_all add: hw_now_def [of P b0 ?h2] s2 hw_write_r0_def hw_now_def [of P b0 ?h1] s1)
  then show ?thesis
    using s3 room2 ok2 by (simp add: hw_write_r1_def Let_def wire_ok_def)
qed

interpretation hw: loader_fifo "hw_env P b0 clk kern"
  "\<lambda>h. wire_ok (hw_state P b0 h)" "\<lambda>h. pushed (hw_state P b0 h)"
  for P :: "('c, 'y) hw_par_scheme" and b0 clk kern
proof unfold_locales
  fix h :: "'c event list" and e :: "'c event"
  assume "wire_ok (hw_state P b0 h)" and "quiet e"
  then show "wire_ok (hw_state P b0 (e # h))" by (simp add: hw_state_quiet wire_ok_now)
next
  fix h :: "'c event list" and e :: "'c event"
  assume "quiet e"
  then show "pushed (hw_state P b0 (e # h)) = pushed (hw_state P b0 h)"
    by (simp add: hw_state_quiet)
next
  fix h :: "'c event list"
  show "pushed (hw_state P b0 (Wr (loader_reg XLDR_REG_CSR) XLDR_CSR_EXIT # h)) =
        pushed (hw_state P b0 h)"
    by (simp add: hw_write_csr_def Let_def XLDR_CSR_EXIT_def bit_WBGEN2_GEN_MASK)
next
  fix h h' :: "'c event list" and v c d
  assume "wire_ok (hw_state P b0 h)" and "v = env_read (hw_env P b0 clk kern) h fifo_csr"
    and "\<not> tst v XLDR_FIFO_CSR_FULL"
    and "h' = Wr (loader_reg XLDR_REG_FIFO_R1) d # Wr (loader_reg XLDR_REG_FIFO_R0) c # Rd fifo_csr v # h"
  then show "wire_ok (hw_state P b0 h') \<and>
     pushed (hw_state P b0 h') = pushed (hw_state P b0 h) @ [Fifo_Entry (ucast c) (bit c 2) d]"
    using hw_push [of P b0 h h' d c v] by simp
qed

section \<open>The state is well formed\<close>

lemma hw_inv_reset: "hw_inv bootldr_reset"
  by (simp add: hw_inv_def bootldr_reset_def)



end
