(* ===== verification/Loader_Session.thy ===== *)
theory Loader_Session
  imports Bootloader_Hw
begin

text \<open>
  A whole programming session of the FPGA manager, \<open>write_init\<close>, the calls of \<open>write\<close> and
  \<open>write_complete\<close>: on every device that follows the register protocol, and on the model of
  the bootloader for every schedule of its serial loader.  Besides, the outcomes of the single
  operations and the end of the wait for DONE.
\<close>

section \<open>Entering the bootloader\<close>

lemma hw_reset_loop_frame:
  "fifo_in_size (hw_write_btrigr v b) = fifo_in_size b" "overflow (hw_write_btrigr v b) = overflow b"
  "fifo (hw_write_btrigr v b) = fifo b"
  by (simp_all add: hw_write_btrigr_def split: t_bootseq_state.split)

text \<open>The trigger detector sees only the writes of BTRIGR.\<close>

definition trig :: "u32 \<Rightarrow> t_bootseq_state \<times> bool \<Rightarrow> t_bootseq_state \<times> bool" where
  "trig v st =
     (case detect_boot_trigger (fst st) (ucast v) of
        BOOT_READY \<Rightarrow> (TWORD0, True) | q \<Rightarrow> (q, snd st))"

definition trig_of :: "bootldr \<Rightarrow> t_bootseq_state \<times> bool" where
  "trig_of b = (boot_state b, boot_host b \<and> boot_en b)"

lemma trig_of_write: "trig_of (hw_write_btrigr v b) = trig v (trig_of b)"
  by (simp add: trig_of_def trig_def hw_write_btrigr_def split: t_bootseq_state.split)

lemma boot_host_now [simp]: "boot_host (hw_now P b0 h) = boot_host (hw_state P b0 h)"
  by (simp add: hw_now_def)

lemma trig_of_now [simp]: "trig_of (hw_now P b0 h) = trig_of (hw_state P b0 h)"
  by (simp add: trig_of_def)

lemma trig_of_reset_loop:
  "trig_of (hw_state P b0 (trace (snd (run_state (svec_fpga_reset_loop ws) s)))) =
   fold trig ws (trig_of (hw_state P b0 (trace s)))"
  by (induction ws arbitrary: s) (simp_all add: hw_state_quiet trig_of_write)

lemma trig_unlock:
  "fold trig boot_unlock_sequence (q, u) = (TWORD0, q = TWORD0 \<or> u)"
  by (cases q) (simp_all add: boot_unlock_sequence_def trig_def f_bootseq_step_def)

lemma trig_of_reset:
  assumes "run_state svec_fpga_reset s = (r, s')"
  shows "r = 0 \<and> trig_of (hw_state P b0 (trace s')) =
           (TWORD0, boot_state (hw_state P b0 (trace s)) = TWORD0 \<or>
                    boot_host (hw_state P b0 (trace s)) \<and> boot_en (hw_state P b0 (trace s)))"
  using assms trig_of_reset_loop [of P b0 boot_unlock_sequence s]
  by (auto simp: svec_fpga_reset_def trig_unlock split: prod.splits)
     (auto simp: trig_of_def [of "hw_state P b0 (trace s)"] trig_unlock)

text \<open>
  C9.  On the bootloader, whatever its loader does meanwhile, \<open>svec_fpga_reset\<close> succeeds, it
  always leaves the trigger detector in its first state, and afterwards the bootloader answers for
  the host exactly if it did before or the detector was in its first state: a sequence interrupted
  half-way spoils the next attempt, and only that one.
\<close>
theorem svec_fpga_reset_unlocks:
  assumes "run_state svec_fpga_reset s = (r, s')"
    and "b = hw_state P b0 (trace s)" and "b' = hw_state P b0 (trace s')"
  shows "r = 0 \<and> boot_state b' = TWORD0 \<and>
         (boot_host b' \<and> boot_en b' \<longleftrightarrow> boot_state b = TWORD0 \<or> boot_host b \<and> boot_en b)"
  using trig_of_reset [OF assms(1), of P b0] assms(2,3) by (auto simp: trig_of_def)

definition still_hw :: "'c hw_par" where
  \<comment> \<open>a loader that never moves on a bus that reads ones\<close>
  "still_hw = \<lparr>hw_sched = (\<lambda>_. []), hw_bus = (\<lambda>_ _. 0xFFFFFFFF), hw_undef = (\<lambda>_. 0)\<rparr>"

theorem svec_fpga_reset_unlocks_witness:
  "\<exists>(s' :: unit machine) b'. b' = hw_state still_hw bootldr_reset (trace s') \<and>
     boot_state b' = TWORD0 \<and> boot_host b' \<and> boot_en b'"
proof -
  obtain r s' where "run_state svec_fpga_reset \<lparr>trace = [] :: unit event list\<rparr> = (r, s')" by fastforce
  from svec_fpga_reset_unlocks [OF this refl refl, of still_hw bootldr_reset]
  show ?thesis by (auto simp: bootldr_reset_def)
qed

section \<open>The check that the loader answers\<close>

lemma SVEC_id:
  "strncmp (strncpy (replicate 5 0) (le_bytes (bswap32 v)) 4) (cstr ''SVEC'') 4 = 0 \<longleftrightarrow>
     v = 0x53564543"
proof -
  have lit: "be_bytes 0x53564543 = [0x53, 0x56, 0x45, 0x43]"
    by (simp add: be_bytes_def byte_of_def)
  have "strncmp (strncpy (replicate 5 0) (be_bytes v) 4) (cstr ''SVEC'') 4 = 0 \<longleftrightarrow>
          take 4 (be_bytes v) = cstr ''SVEC''"
    by (rule strncmp_strncpy_0_iff) (simp_all add: cstr_def)
  also have "\<dots> \<longleftrightarrow> v = 0x53564543"
    unfolding be_bytes_inject [symmetric, of v] lit by (simp add: cstr_def)
  finally show ?thesis by simp
qed

text \<open>
  On every device the check reads CSR and IDR and nothing else, and it answers 1 exactly if
  the value of IDR on the bus is 0x53564543, the four characters SVEC; otherwise it answers 0.
\<close>
theorem svec_fpga_loader_is_active_iff:
  "\<exists>csr idr. run_state (svec_fpga_loader_is_active E) s =
     (if idr = 0x53564543 then 1 else 0,
      s\<lparr>trace := Rd (loader_reg XLDR_REG_IDR) idr # Rd (loader_reg XLDR_REG_CSR) csr # trace s\<rparr>) \<and>
     idr = env_read E (Rd (loader_reg XLDR_REG_CSR) csr # trace s) (loader_reg XLDR_REG_IDR)"
  by (auto simp: svec_fpga_loader_is_active_def Let_def SVEC_id simp del: le_bytes_bswap32)

section \<open>Starting a session\<close>

lemma run_is_active:
  obtains csr idr where "run_state (svec_fpga_loader_is_active E) s =
     (if idr = 0x53564543 then 1 else 0,
      s\<lparr>trace := Rd (loader_reg XLDR_REG_IDR) idr # Rd (loader_reg XLDR_REG_CSR) csr # trace s\<rparr>)"
    and "idr = env_read E (Rd (loader_reg XLDR_REG_CSR) csr # trace s) (loader_reg XLDR_REG_IDR)"
  by (auto simp: svec_fpga_loader_is_active_def Let_def SVEC_id simp del: le_bytes_bswap32)

lemma writes_reset_loop:
  "writes (trace (snd (run_state (svec_fpga_reset_loop ws) s))) =
     writes (trace s) @ map (\<lambda>w. (loader_reg XLDR_REG_BTRIGR, w)) ws \<and>
   reads (trace (snd (run_state (svec_fpga_reset_loop ws) s))) = reads (trace s)"
  by (induction ws arbitrary: s) simp_all

lemma writes_reset:
  assumes "run_state svec_fpga_reset s = (r, s')"
  shows "r = 0 \<and> writes (trace s') =
     writes (trace s) @ map (\<lambda>w. (loader_reg XLDR_REG_BTRIGR, w)) boot_unlock_sequence \<and>
   reads (trace s') = reads (trace s)"
  using assms writes_reset_loop [of boot_unlock_sequence s]
  by (auto simp: svec_fpga_reset_def split: prod.splits)

text \<open>
  C8.  Starting a session writes the unlock sequence to BTRIGR and then reads CSR and the identifier:
  where that is wrong the operation fails with \<open>-ENXIO\<close> and has written no other register;
  where it is right it succeeds, having written the software reset and then the start bit together
  with the byte order, in this order and nothing else.
\<close>
theorem svec_fpga_write_start_outcomes:
  assumes "run_state (svec_fpga_write_start E) s = (r, s')"
  shows "\<exists>csr idr. reads (trace s') = reads (trace s) @
             [(loader_reg XLDR_REG_CSR, csr), (loader_reg XLDR_REG_IDR, idr)] \<and>
           writes (trace s') = writes (trace s) @
             map (\<lambda>w. (loader_reg XLDR_REG_BTRIGR, w)) boot_unlock_sequence @
             (if idr = 0x53564543
              then [(loader_reg XLDR_REG_CSR, XLDR_CSR_SWRST),
                    (loader_reg XLDR_REG_CSR, XLDR_CSR_START OR XLDR_CSR_MSBF)] else []) \<and>
           r = (if idr = 0x53564543 then 0 else - ENXIO)"
proof -
  obtain r1 s1 where reset: "run_state svec_fpga_reset s = (r1, s1)" by fastforce
  note w = writes_reset [OF reset]
  obtain csr idr where act: "run_state (svec_fpga_loader_is_active E) s1 =
     (if idr = 0x53564543 then 1 else 0,
      s1\<lparr>trace := Rd (loader_reg XLDR_REG_IDR) idr # Rd (loader_reg XLDR_REG_CSR) csr # trace s1\<rparr>)"
    using run_is_active [of E s1] by metis
  show ?thesis
    using assms reset w act
    by (intro exI [of _ csr] exI [of _ idr], cases "idr = 0x53564543") (auto simp: svec_fpga_write_start_def)
qed

theorem svec_fpga_write_start_outcomes_witness:
  "\<exists>r s'. run_state (svec_fpga_write_start
       \<lparr>env_read = (\<lambda>_ _. 0x53564543), env_jiffies = (\<lambda>_. 0), env_call = (\<lambda>_ (_ :: unit). 0)\<rparr>)
       \<lparr>trace = []\<rparr> = (r, s') \<and> length (writes (trace s')) = 10"
proof -
  let ?E = "\<lparr>env_read = (\<lambda>_ _. 0x53564543), env_jiffies = (\<lambda>_. 0), env_call = (\<lambda>_ (_ :: unit). 0)\<rparr>"
  obtain r s' where run: "run_state (svec_fpga_write_start ?E) \<lparr>trace = []\<rparr> = (r, s')" by fastforce
  have "r = 0"
    using run by (simp add: svec_fpga_write_start_def svec_fpga_reset_def boot_unlock_sequence_def
      svec_fpga_loader_is_active_def Let_def SVEC_id del: le_bytes_bswap32)
  then show ?thesis
    using svec_fpga_write_start_outcomes [OF run] run by (auto simp: boot_unlock_sequence_def split: if_splits)
qed

text \<open>On the bootloader: from an idle detector and an empty FIFO the session starts.\<close>

lemma csr_start_bits:
  "bit (XLDR_CSR_START OR XLDR_CSR_MSBF) n \<longleftrightarrow> n = 0 \<or> n = 4"
  "bit XLDR_CSR_SWRST n \<longleftrightarrow> n = 5" "bit XLDR_CSR_EXIT n \<longleftrightarrow> n = 6"
  by (auto simp: bit_simps XLDR_CSR_START_def XLDR_CSR_MSBF_def XLDR_CSR_SWRST_def
      XLDR_CSR_EXIT_def bit_WBGEN2_GEN_MASK)

lemma fold_xl_act_keep:
  "csr_msbf (fold xl_act xs b) = csr_msbf b \<and> (fifo b = [] \<longrightarrow> fifo (fold xl_act xs b) = [])
   \<and> (xl_state b = XIDLE \<longrightarrow> xl_state (fold xl_act xs b) = XIDLE)"
proof (induction xs arbitrary: b)
  case (Cons x xs)
  have "csr_msbf (xl_act x b) = csr_msbf b \<and> (fifo b = [] \<longrightarrow> fifo (xl_act x b) = [])
    \<and> (xl_state b = XIDLE \<longrightarrow> xl_state (xl_act x b) = XIDLE)"
    by (cases x) (auto split: t_xloader_state.split list.split)
  then show ?case using Cons.IH [of "xl_act x b"] by simp
qed simp

lemma hw_now_keep [simp]:
  "csr_msbf (hw_now P b0 h) = csr_msbf (hw_state P b0 h)"
  "fifo (hw_state P b0 h) = [] \<Longrightarrow> fifo (hw_now P b0 h) = []"
  "xl_state (hw_state P b0 h) = XIDLE \<Longrightarrow> xl_state (hw_now P b0 h) = XIDLE"
  by (simp_all add: hw_now_def fold_xl_act_keep)

lemma hw_reset_loop_fifo:
  assumes "fifo (hw_state P b0 (trace s)) = []"
  shows "fifo (hw_state P b0 (trace (snd (run_state (svec_fpga_reset_loop ws) s)))) = [] \<and>
         overflow (hw_state P b0 (trace (snd (run_state (svec_fpga_reset_loop ws) s)))) =
         overflow (hw_state P b0 (trace s))"
  using assms
proof (induction ws arbitrary: s)
  case (Cons w ws)
  let ?s = "s\<lparr>trace := Sleep 1000 # Wr (loader_reg XLDR_REG_BTRIGR) w # trace s\<rparr>"
  have "fifo (hw_state P b0 (trace ?s)) = [] \<and>
        overflow (hw_state P b0 (trace ?s)) = overflow (hw_state P b0 (trace s))"
    using Cons.prems by (simp add: hw_state_quiet hw_reset_loop_frame)
  then show ?case using Cons.IH [of ?s] by simp
qed simp

lemma hw_write_start:
  assumes run: "run_state (svec_fpga_write_start (hw_env P b0 clk kern)) s = (r, s')"
    and b: "b = hw_state P b0 (trace s)"
    and pre: "boot_state b = TWORD0 \<or> boot_host b \<and> boot_en b" "fifo b = []" "\<not> overflow b"
  shows "r = 0 \<and> wire_ok (hw_state P b0 (trace s')) \<and> pushed (hw_state P b0 (trace s')) = [] \<and>
         fifo (hw_state P b0 (trace s')) = []"
proof -
  let ?E = "hw_env P b0 clk kern"
  obtain s1 where reset: "run_state svec_fpga_reset s = (0, s1)"
    using writes_reset [of s] by (metis surj_pair)
  let ?b1 = "hw_state P b0 (trace s1)"
  have trig: "boot_host ?b1 \<and> boot_en ?b1"
    using trig_of_reset [OF reset, of P b0] pre(1) b by (auto simp: trig_of_def)
  have keep: "fifo ?b1 = []" "\<not> overflow ?b1"
    using hw_reset_loop_fifo [of P b0 s boot_unlock_sequence] reset pre b
    by (auto simp: svec_fpga_reset_def split: prod.splits)
  obtain csr idr where act: "run_state (svec_fpga_loader_is_active ?E) s1 =
       (if idr = 0x53564543 then 1 else 0,
        s1\<lparr>trace := Rd (loader_reg XLDR_REG_IDR) idr # Rd (loader_reg XLDR_REG_CSR) csr # trace s1\<rparr>)"
    and idr: "idr = env_read ?E (Rd (loader_reg XLDR_REG_CSR) csr # trace s1) (loader_reg XLDR_REG_IDR)"
    using run_is_active [of ?E s1] by metis
  let ?h = "Rd (loader_reg XLDR_REG_IDR) idr # Rd (loader_reg XLDR_REG_CSR) csr # trace s1"
  have id_ok: "idr = 0x53564543"
    using trig by (simp add: idr hw_read_def Let_def hw_state_quiet hw_reg_loader_reg reg_defs)
  have h: "boot_host (hw_state P b0 ?h)" "boot_en (hw_state P b0 ?h)" "fifo (hw_state P b0 ?h) = []"
    "\<not> overflow (hw_state P b0 ?h)"
    using trig keep by (simp_all add: hw_state_quiet)
  let ?h2 = "Wr (loader_reg XLDR_REG_CSR) XLDR_CSR_SWRST # ?h"
  have h2: "boot_host (hw_state P b0 ?h2)" "boot_en (hw_state P b0 ?h2)"
    "fifo (hw_state P b0 ?h2) = []" "\<not> overflow (hw_state P b0 ?h2)"
    "xl_state (hw_state P b0 ?h2) = XIDLE"
    using h by (simp_all add: hw_write_csr_def Let_def csr_start_bits)
  have "r = 0 \<and> trace s' = Wr (loader_reg XLDR_REG_CSR) (XLDR_CSR_START OR XLDR_CSR_MSBF) # ?h2"
    using run reset act id_ok by (auto simp: svec_fpga_write_start_def)
  then show ?thesis
    using h2 by (simp add: hw_write_csr_def Let_def csr_start_bits wire_ok_def)
qed

lemma write_init_start:
  assumes "run_state (svec_fpga_write_init E) s = (r, s')"
  shows "run_state (svec_fpga_write_start E)
           (s\<lparr>bitstream_last_word := - 1, bitstream_last_word_size := - 1\<rparr>) = (r, s')"
  using assms by (simp add: svec_fpga_write_init_def reset_held_word_def)

section \<open>The whole session\<close>

text \<open>
  What the session puts into a device: the old entries, then those of the bitstream, of which
  exactly the last carries the mark, and whose bytes are the bitstream.
\<close>

definition one_last :: "fifo_entry list \<Rightarrow> bool" where
  "one_last es \<longleftrightarrow> es \<noteq> [] \<and> xlast (last es) \<and> (\<forall>e \<in> set (butlast es). \<not> xlast e)"

context loader_fifo
begin

lemma session:
  assumes rdy: "ready (trace s1)" and held: "\<not> held_valid s1"
    and w: "run_state (write_chunks E cs) s1 = (0, s2)"
    and c: "svec_fpga_write_complete u E info s2 = Some (r, s3)"
    and ok: "r \<noteq> - EBUSY" and ne: "chunk_bytes cs \<noteq> []"
  shows "\<exists>h es. trace s3 = Sleep 10000 # Wr (loader_reg XLDR_REG_CSR) XLDR_CSR_EXIT # h \<and>
     ready h \<and> accepted h = accepted (trace s1) @ es \<and> one_last es \<and> payload es = chunk_bytes cs"
proof -
  obtain body where body: "ready (trace s2)" "accepted (trace s2) = accepted (trace s1) @ body"
      "\<forall>e \<in> set body. \<not> xlast e" "payload body @ held_bytes s2 = chunk_bytes cs" "held_valid s2"
    using write_chunks [OF rdy w] held ne by (auto simp: held_bytes_def)
  obtain h new where h: "trace s3 = Sleep 10000 # Wr (loader_reg XLDR_REG_CSR) XLDR_CSR_EXIT # h"
    "ready h" "accepted h = accepted (trace s2) @ new" and
    new: "held_valid s2 \<and> (\<exists>e. new = [e] \<and> xlast e \<and> entry_bytes True e = held_bytes s2) \<or>
          \<not> held_valid s2 \<and> new = []"
    using write_complete [OF body(1) c] ok by auto
  obtain e where "new = [e]" "xlast e" "entry_bytes True e = held_bytes s2"
    using new body(5) by auto
  then have "one_last (body @ new) \<and> payload (body @ new) = chunk_bytes cs"
    using body by (auto simp: one_last_def butlast_append)
  then show ?thesis using h body by (intro exI [of _ h] exI [of _ "body @ new"]) simp
qed

end

text \<open>
  C1.  A session that starts, hands over a non-empty bitstream without an error and ends with
  anything but \<open>-EBUSY\<close> has, on every device, written through the two data registers of the FIFO
  the bitstream and nothing else: the entries carry its bytes in its order, however it was cut
  into calls of \<open>write\<close>, and the mark of the last word is on the last entry only.
\<close>
theorem session_transfers_bitstream:
  assumes "run_state (svec_fpga_write_init E) s0 = (0, s1)"
    and "run_state (write_chunks E cs) s1 = (0, s2)"
    and "svec_fpga_write_complete u E info s2 = Some (r, s3)"
    and "r \<noteq> - EBUSY" and "chunk_bytes cs \<noteq> []"
  shows "\<exists>es. entries_of (trace s3) = entries_of (trace s0) @ es \<and> one_last es \<and>
           payload es = chunk_bytes cs"
  using proto.session [OF TrueI _ assms(2-5)] entries_of_write_init [OF assms(1)]
  by (auto simp: reg_defs)

lemma one_last_prefix:
  assumes "one_last (sh @ rest)" and "sh \<noteq> []" and "xlast (last sh)"
  shows "rest = []"
proof (rule ccontr)
  assume "rest \<noteq> []"
  then have "last sh \<in> set (butlast (sh @ rest))" using assms(2) by (simp add: butlast_append)
  then show False using assms(1,3) by (auto simp: one_last_def)
qed

section \<open>A device that always has room\<close>

definition never_full :: "'c env \<Rightarrow> bool" where
  "never_full E \<longleftrightarrow> (\<forall>h. \<not> tst (env_read E h fifo_csr) XLDR_FIFO_CSR_FULL)"

lemma fifo_poll_ready:
  "\<not> tst (env_read E (trace s) fifo_csr) XLDR_FIFO_CSR_FULL \<Longrightarrow>
     run_state (fifo_poll E n) s =
     (env_read E (trace s) fifo_csr, s\<lparr>trace := Rd fifo_csr (env_read E (trace s) fifo_csr) # trace s\<rparr>)"
  by (cases n) simp_all

lemma write_held_word_ready:
  assumes "\<not> tst (env_read E (trace s) fifo_csr) XLDR_FIFO_CSR_FULL"
  shows "fst (run_state (write_held_word E l) s) = (if held_valid s then 0 else - EINVAL)"
  using assms by (auto simp: write_held_word_def svec_fpga_write_word_def fifo_poll_ready Let_def
      held_valid_iff uint_pos_iff)

lemma write_held_word_room:
  "never_full E \<Longrightarrow>
     fst (run_state (write_held_word E l) s) = (if held_valid s then 0 else - EINVAL)"
  by (rule write_held_word_ready) (simp add: never_full_def)

lemma write_buf_loop_room:
  assumes "never_full E" and "0 < i \<longrightarrow> held_valid s"
  shows "fst (run_state (svec_fpga_write_buf_loop E buf count i) s) = 0"
  using assms(2)
proof (induction "count - i" arbitrary: i s rule: less_induct)
  case less
  show ?case
  proof (cases "i < count")
    case False
    then show ?thesis by (subst svec_fpga_write_buf_loop.simps) simp
  next
    case True
    define n where "n = (if count - i > 4 then 4 else count - i)"
    have n: "0 < n" "n \<le> 4" using True by (auto simp: n_def)
    obtain err s1 where w: "run_state (write_held_word E 0) s = (err, s1)" by fastforce
    then have err: "err = (if held_valid s then 0 else - EINVAL)"
      using write_held_word_room [OF assms(1), of 0 s] by simp
    define s2 where "s2 = s1\<lparr>bitstream_last_word := load32 buf (4 * (i div 4)),
                             bitstream_last_word_size := of_nat n\<rparr>"
    have cont: "\<not> (err \<noteq> 0 \<and> \<not> (err = - EINVAL \<and> i = 0))"
      using err less.prems by (cases "i = 0") auto
    have "n = 1 \<or> n = 2 \<or> n = 3 \<or> n = 4" using n by auto
    then have "held_valid s2" by (auto simp: s2_def held_valid_def)
    then have "fst (run_state (svec_fpga_write_buf_loop E buf count (i + n)) s2) = 0"
      using less.hyps [of "i + n" s2] True n by simp
    moreover have "run_state (svec_fpga_write_buf_loop E buf count i) s =
                   run_state (svec_fpga_write_buf_loop E buf count (i + n)) s2"
      by (subst svec_fpga_write_buf_loop.simps)
         (use True w cont in \<open>auto simp: Let_def s2_def n_def\<close>)
    ultimately show ?thesis by simp
  qed
qed

lemma write_chunks_room: "never_full E \<Longrightarrow> fst (run_state (write_chunks E cs) s) = 0"
proof (induction cs arbitrary: s)
  case (Cons c cs)
  have "fst (run_state (svec_fpga_write E (fst c) (snd c)) s) = 0"
    using write_buf_loop_room [OF Cons.prems, of 0]
    by (simp add: svec_fpga_write_def svec_fpga_write_buf_def)
  then show ?case using Cons by (auto split: prod.splits)
qed simp

text \<open>A device that identifies itself, has room and has always finished the configuration.\<close>

definition good_env :: "unit env" where
  "good_env = \<lparr>env_read = (\<lambda>h a. if a = loader_reg XLDR_REG_IDR then 0x53564543
                               else if a = loader_reg XLDR_REG_CSR then XLDR_CSR_DONE else 0),
              env_jiffies = (\<lambda>_. 0), env_call = (\<lambda>_ _. 0)\<rparr>"

lemma good_env_sel [simp]:
  "env_read good_env h (loader_reg XLDR_REG_IDR) = 0x53564543"
  "env_read good_env h (loader_reg XLDR_REG_CSR) = XLDR_CSR_DONE"
  "env_read good_env h fifo_csr = 0" "env_jiffies good_env h = 0"
  by (simp_all add: good_env_def reg_defs)

lemma good_env_never_full: "never_full good_env"
  by (simp add: never_full_def tst_def)

lemma good_env_init: "fst (run_state (svec_fpga_write_init good_env) s) = 0"
  by (simp add: svec_fpga_write_init_def svec_fpga_write_start_def reset_held_word_def
      svec_fpga_reset_def svec_fpga_loader_is_active_def boot_unlock_sequence_def Let_def SVEC_id
      del: le_bytes_bswap32)

lemma tst_DONE: "tst XLDR_CSR_DONE XLDR_CSR_DONE" "\<not> tst XLDR_CSR_DONE XLDR_CSR_ERROR"
  by (simp_all add: tst_def XLDR_CSR_DONE_def XLDR_CSR_ERROR_def WBGEN2_GEN_MASK_def)

lemma good_env_complete:
  "\<exists>s'. svec_fpga_write_complete (\<lambda>_. 10) good_env \<lparr>config_complete_timeout_us = 0\<rparr> s = Some (0, s')"
proof -
  obtain err s1 where w: "run_state (write_held_word good_env 1) s = (err, s1)" by fastforce
  then have "err = 0 \<or> err = - EINVAL"
    using write_held_word_room [OF good_env_never_full, of 1 s] by auto
  then show ?thesis using w
    by (auto simp: svec_fpga_write_complete_def svec_fpga_write_stop_def Let_def
        reset_held_word_def wait_done.simps [of good_env] time_before64_def
        write_stop_out_def tst_DONE)
qed

theorem session_transfers_bitstream_witness:
  "\<exists>(s3 :: unit svec_dev) es. entries_of (trace s3) = [] @ es \<and> one_last es \<and>
           payload es = [1, 2, 3, 4, 5]"
proof -
  let ?E = good_env and ?cs = "[(mem_of [1, 2, 3, 4, 5] (\<lambda>_. 0), 5 :: nat)]"
  obtain s1 where 1: "run_state (svec_fpga_write_init ?E) (fresh_dev [] :: unit svec_dev) = (0, s1)"
    using good_env_init by (metis prod.collapse)
  obtain s2 where 2: "run_state (write_chunks ?E ?cs) s1 = (0, s2)"
    using write_chunks_room [OF good_env_never_full] by (metis prod.collapse)
  obtain s3 where 3: "svec_fpga_write_complete (\<lambda>_. 10) ?E \<lparr>config_complete_timeout_us = 0\<rparr> s2 =
      Some (0, s3)" using good_env_complete by blast
  have "chunk_bytes ?cs = [1, 2, 3, 4, 5]"
    using bytes_at_mem_of [of "[1, 2, 3, 4, 5]" "\<lambda>_. 0"] by (simp add: eval_nat_numeral)
  then show ?thesis using session_transfers_bitstream [OF 1 2 3] by (auto simp: fresh_dev_def)
qed


lemma write_stop_expired:
  assumes room: "\<not> tst (env_read E (trace s) fifo_csr) XLDR_FIFO_CSR_FULL"
    and clk: "env_jiffies E = (\<lambda>h. of_nat (length h))"
  shows "\<exists>r s'. svec_fpga_write_complete (\<lambda>_. 1) E info s = Some (r, s') \<and> r \<noteq> - EBUSY"
proof -
  obtain err s1 where w: "run_state (write_held_word E 1) s = (err, s1)" by fastforce
  then have "err = 0 \<or> err = - EINVAL"
    using write_held_word_ready [OF room, of 1] by auto
  then show ?thesis using w
    by (auto simp: svec_fpga_write_complete_def svec_fpga_write_stop_def Let_def
        reset_held_word_def wait_done.simps [of E] clk time_before64_def
        write_stop_out_def)
qed

text \<open>One byte, with a loader that takes an entry between any two events.\<close>

definition eager_loader :: "unit hw_par" where
  "eager_loader = \<lparr>hw_sched = (\<lambda>_. [Pop]), hw_bus = (\<lambda>_ _. 0), hw_undef = (\<lambda>_. 0)\<rparr>"

lemma write_one_byte:
  assumes "\<not> held_valid s"
  shows "\<exists>s'. run_state (write_chunks E [(m, 1)]) s = (0, s') \<and> trace s' = trace s"
proof -
  have "run_state (write_held_word E 0) s = (- EINVAL, s)"
    using assms by (auto simp: write_held_word_def svec_fpga_write_word_def held_valid_iff
        uint_pos_iff)
  then show ?thesis
    by (simp add: svec_fpga_write_def svec_fpga_write_buf_def Let_def
        svec_fpga_write_buf_loop.simps [of E m 1] svec_fpga_write_buf_loop.simps [of E m "Suc 0"])
qed


end
