(* ===== verification/Loader_Outcomes.thy ===== *)
theory Loader_Outcomes
  imports Loader_Session
begin

text \<open>
  What single operations of the FPGA manager do in each of their outcomes, on every device: one
  word, the end of a session, and the wait for DONE, which ends when the clock advances.
\<close>

section \<open>One word\<close>

lemma write_word_outcomes:
  assumes "run_state (svec_fpga_write_word E w n l) s = (r, s')"
  shows "(r = - EINVAL \<and> (n \<le> 0 \<or> 5 \<le> n) \<and> s' = s) \<or>
    (0 < n \<and> n < 5 \<and> (\<exists>vs. length vs \<le> 10001 \<and>
       (r = - EBUSY \<and> length vs = 10001 \<and> (\<forall>v \<in> set vs. tst v XLDR_FIFO_CSR_FULL) \<and>
          trace s' = map (Rd fifo_csr) vs @ trace s \<or>
        r = 0 \<and> (\<exists>v us. vs = v # us \<and> \<not> tst v XLDR_FIFO_CSR_FULL) \<and>
          trace s' = Wr (loader_reg XLDR_REG_FIFO_R1) (htonl w) #
            Wr (loader_reg XLDR_REG_FIFO_R0)
              ((word_of_int (n - 1) AND 0x3) OR (if l \<noteq> 0 then XLDR_FIFO_R0_XLAST else 0)) #
            map (Rd fifo_csr) vs @ trace s)))"
proof (cases "n \<le> 0 \<or> n \<ge> 5")
  case True
  then show ?thesis using assms by (auto simp: svec_fpga_write_word_def)
next
  case False
  obtain rv s1 where poll: "run_state (fifo_poll E 10000) s = (rv, s1)" by fastforce
  from fifo_poll_spec [OF poll] obtain vs where
    tr: "trace s1 = map (Rd fifo_csr) (rv # vs) @ trace s" and
    vs: "length vs \<le> 10000" "\<forall>v \<in> set vs. tst v XLDR_FIFO_CSR_FULL"
      "tst rv XLDR_FIFO_CSR_FULL \<longrightarrow> length vs = 10000" by auto
  have range: "0 < n \<and> n < 5" using False by auto
  have run: "run_state (svec_fpga_write_word E w n l) s =
      run_state (if tst rv XLDR_FIFO_CSR_FULL then State_Monad.return (- EBUSY) else do {
        iowrite32be ((word_of_int (n - 1) AND 0x3) OR (if l \<noteq> 0 then XLDR_FIFO_R0_XLAST else 0))
          (loader_reg XLDR_REG_FIFO_R0);
        iowrite32be (htonl w) (loader_reg XLDR_REG_FIFO_R1);
        State_Monad.return 0 }) s1"
    using False poll by (simp add: svec_fpga_write_word_def Let_def)
  show ?thesis
    by (rule disjI2, intro conjI exI [of _ "rv # vs"])
       (use range assms run tr vs in \<open>auto split: if_splits\<close>)
qed

text \<open>
  C5.  Writing a word reads the status of the FIFO at most 10001 times and touches nothing else
  before it knows that there is room: with a size outside 1 to 4 it does nothing and answers
  \<open>-EINVAL\<close>; if the FIFO is full at each of 10001 reads it answers \<open>-EBUSY\<close> and has written nothing;
  otherwise it answers 0, having written size and mark to R0 and then the data, its bytes in
  memory order from the most significant one, to R1.
\<close>
theorem svec_fpga_write_word_outcomes:
  assumes "run_state (svec_fpga_write_word E w n l) s = (r, s')"
  shows "(r = - EINVAL \<and> (n \<le> 0 \<or> 5 \<le> n) \<and> s' = s) \<or>
    (0 < n \<and> n < 5 \<and> (\<exists>vs. length vs \<le> 10001 \<and>
       (r = - EBUSY \<and> length vs = 10001 \<and> (\<forall>v \<in> set vs. tst v XLDR_FIFO_CSR_FULL) \<and>
          trace s' = map (Rd fifo_csr) vs @ trace s \<or>
        r = 0 \<and> (\<exists>v us. vs = v # us \<and> \<not> tst v XLDR_FIFO_CSR_FULL) \<and>
          trace s' = Wr (loader_reg XLDR_REG_FIFO_R1) (htonl w) #
            Wr (loader_reg XLDR_REG_FIFO_R0)
              ((word_of_int (n - 1) AND 0x3) OR (if l \<noteq> 0 then XLDR_FIFO_R0_XLAST else 0)) #
            map (Rd fifo_csr) vs @ trace s)))"
  by (rule write_word_outcomes [OF assms])

theorem svec_fpga_write_word_outcomes_witness:
  "\<exists>r s' vs. run_state (svec_fpga_write_word good_env 0x04030201 4 1) (fresh_dev []) = (r, s') \<and>
     length vs \<le> 10001 \<and>
     trace s' = Wr (loader_reg XLDR_REG_FIFO_R1) 0x01020304 # Wr (loader_reg XLDR_REG_FIFO_R0) 7 #
                map (Rd fifo_csr) vs"
proof -
  obtain r s' where run: "run_state (svec_fpga_write_word good_env 0x04030201 4 1) (fresh_dev []) = (r, s')"
    by fastforce
  have "r = 0"
    using run by (simp add: svec_fpga_write_word_def Let_def fifo_poll_ready)
  moreover have "bswap32 0x04030201 = 0x01020304"
    by (simp add: bswap32_def word_of_bytes_def byte_of_def)
  ultimately show ?thesis
    using svec_fpga_write_word_outcomes [OF run] run
    by (auto simp: fresh_dev_def XLDR_FIFO_R0_XLAST_def WBGEN2_GEN_MASK_def)
qed

section \<open>The wait for DONE\<close>

lemma wait_done_step:
  "wait_done E timeout rval s =
     (let now = env_jiffies E (trace s);
          v = env_read E (Jiffies now # trace s) (loader_reg XLDR_REG_CSR)
      in if time_before64 now timeout
         then if tst v XLDR_CSR_DONE
              then Some (v, s\<lparr>trace := Rd (loader_reg XLDR_REG_CSR) v # Jiffies now # trace s\<rparr>)
              else wait_done E timeout v (s\<lparr>trace := Sleep 900 # Rd (loader_reg XLDR_REG_CSR) v #
                                                    Jiffies now # trace s\<rparr>)
         else Some (rval, s\<lparr>trace := Jiffies now # trace s\<rparr>))"
  by (subst wait_done.simps) (simp add: Let_def)

fun slept :: "'c event list \<Rightarrow> nat" where
  \<comment> \<open>the microseconds an execution has slept at least\<close>
  "slept [] = 0"
| "slept (Sleep n # h) = n + slept h"
| "slept (e # h) = slept h"

definition clock_ticks :: "'c env \<Rightarrow> nat \<Rightarrow> nat \<Rightarrow> nat \<Rightarrow> bool" where
  \<comment> \<open>up to \<open>lim\<close> ticks the counter, which was \<open>t0\<close> at boot, is not behind the time slept\<close>
  "clock_ticks E tick t0 lim \<longleftrightarrow>
     (\<forall>h. slept h div tick \<le> lim \<longrightarrow>
        t0 + slept h div tick \<le> unat (env_jiffies E h) \<and> unat (env_jiffies E h) < 2 ^ 63)"

lemma not_before:
  assumes "b \<le> a" and "unat a < 2 ^ 63"
  shows "\<not> time_before64 a b"
proof -
  have "unat (a - b) < 2 ^ 63" using assms by (simp add: unat_sub)
  then have "\<not> bit (unat (a - b)) 63" by (simp add: bit_iff_odd)
  then have "\<not> bit (a - b) 63" by (simp add: bit_unsigned_iff)
  then show ?thesis using bit_last_iff [of "a - b"] by (simp add: time_before64_def)
qed

lemma slept_quiet_reads [simp]: "slept (map (Rd a) vs @ h) = slept h"
  by (induction vs) auto

lemma wait_done_returns:
  assumes clk: "clock_ticks E tick t0 lim" and tick: "900 \<le> tick"
    and lim: "unat timeout \<le> t0 + lim" and s: "slept (trace s) div tick \<le> lim"
  shows "\<exists>rv s'. wait_done E timeout rval s = Some (rv, s') \<and>
           slept (trace s') \<le> max (slept (trace s)) ((unat timeout - t0) * tick + 900)"
  using s
proof (induction "(unat timeout - t0) * tick - slept (trace s)" arbitrary: rval s rule: less_induct)
  case less
  let ?now = "env_jiffies E (trace s)" and ?K = "unat timeout - t0"
  let ?v = "env_read E (Jiffies ?now # trace s) (loader_reg XLDR_REG_CSR)"
  let ?s = "s\<lparr>trace := Sleep 900 # Rd (loader_reg XLDR_REG_CSR) ?v # Jiffies ?now # trace s\<rparr>"
  show ?case
  proof (cases "?K \<le> slept (trace s) div tick")
    case True
    then have "unat timeout \<le> unat ?now" "unat ?now < 2 ^ 63"
      using clk less.prems by (fastforce simp: clock_ticks_def)+
    then have "\<not> time_before64 ?now timeout" by (intro not_before) (simp_all add: word_le_nat_alt)
    then show ?thesis by (subst wait_done_step) (simp add: Let_def)
  next
    case False
    then have small: "slept (trace s) < ?K * tick"
      using tick by (simp add: div_less_iff_less_mult not_le)
    have "(slept (trace s) + tick) div tick = slept (trace s) div tick + 1"
      using tick by (intro div_add_self2) simp
    then have "(slept (trace s) + tick) div tick \<le> ?K" using False by simp
    then have "(900 + slept (trace s)) div tick \<le> ?K"
      using div_le_mono [of "900 + slept (trace s)" "slept (trace s) + tick" tick] tick by simp
    then have pre: "slept (trace ?s) div tick \<le> lim" using lim by simp
    have dec: "?K * tick - slept (trace ?s) < ?K * tick - slept (trace s)" using small by simp
    obtain rv s' where rec: "wait_done E timeout ?v ?s = Some (rv, s')"
      and bound: "slept (trace s') \<le> max (slept (trace ?s)) (?K * tick + 900)"
      using less.hyps [OF dec pre, of ?v] by blast
    have "max (slept (trace ?s)) (?K * tick + 900) = ?K * tick + 900"
      using small by simp
    then show ?thesis using rec bound small
      by (subst wait_done_step) (auto simp: Let_def)
  qed
qed

text \<open>
  What the wait does: it polls CSR until it reads DONE or the deadline has passed, and its result
  is the last value it read.
\<close>

definition wait_end :: "u64 \<Rightarrow> u32 \<Rightarrow> 'c event list \<Rightarrow> u32 \<Rightarrow> 'c event list \<Rightarrow> bool" where
  "wait_end timeout rval h0 rv h \<longleftrightarrow>
     (\<exists>evs vs. h = evs @ h0 \<and> reads evs = map (Pair (loader_reg XLDR_REG_CSR)) vs \<and> writes evs = [] \<and>
        (\<forall>v\<in>set (butlast vs). \<not> tst v XLDR_CSR_DONE) \<and> rv = last (rval # vs) \<and>
        (vs \<noteq> [] \<and> tst rv XLDR_CSR_DONE \<or>
         (vs = [] \<or> \<not> tst rv XLDR_CSR_DONE) \<and>
         (\<exists>now t. h = Jiffies now # t \<and> \<not> time_before64 now timeout)))"

lemma wait_end_now:
  assumes "\<not> time_before64 now timeout"
  shows "wait_end timeout rval h0 rval (Jiffies now # h0)"
  unfolding wait_end_def using assms by (intro exI [of _ "[Jiffies now]"] exI [of _ "[]"]) simp

lemma wait_end_done:
  assumes "tst v XLDR_CSR_DONE"
  shows "wait_end timeout rval h0 v (Rd (loader_reg XLDR_REG_CSR) v # Jiffies now # h0)"
  unfolding wait_end_def using assms
  by (intro exI [of _ "[Rd (loader_reg XLDR_REG_CSR) v, Jiffies now]"] exI [of _ "[v]"]) simp

lemma wait_end_step:
  assumes "wait_end timeout v (Sleep n # Rd (loader_reg XLDR_REG_CSR) v # Jiffies now # h0) rv h"
    and "\<not> tst v XLDR_CSR_DONE"
  shows "wait_end timeout rval h0 rv h"
proof -
  let ?new = "[Sleep n, Rd (loader_reg XLDR_REG_CSR) v, Jiffies now]"
  obtain evs vs where "h = evs @ ?new @ h0" "reads evs = map (Pair (loader_reg XLDR_REG_CSR)) vs"
      "writes evs = []" "\<forall>v\<in>set (butlast vs). \<not> tst v XLDR_CSR_DONE" "rv = last (v # vs)"
      "vs \<noteq> [] \<and> tst rv XLDR_CSR_DONE \<or> (vs = [] \<or> \<not> tst rv XLDR_CSR_DONE) \<and>
         (\<exists>now t. h = Jiffies now # t \<and> \<not> time_before64 now timeout)"
    using assms(1) by (auto simp: wait_end_def)
  then show ?thesis
    unfolding wait_end_def using assms(2)
    by (intro exI [of _ "evs @ ?new"] exI [of _ "v # vs"]) auto
qed

lemma wait_done_end:
  assumes "wait_done E timeout rval s = Some (rv, s')"
  shows "wait_end timeout rval (trace s) rv (trace s')"
proof (rule wait_done.raw_induct [where P = "\<lambda>E timeout rval s res.
    wait_end timeout rval (trace s) (fst res) (trace (snd res))", OF _ assms, simplified fst_conv snd_conv])
  fix f :: "'a env \<Rightarrow> u64 \<Rightarrow> u32 \<Rightarrow> ('a, 'b) machine_scheme \<Rightarrow> (u32 \<times> ('a, 'b) machine_scheme) option"
  fix E timeout rval s res
  assume IH: "\<And>E timeout rval s res. f E timeout rval s = Some res \<Longrightarrow>
      wait_end timeout rval (trace s) (fst res) (trace (snd res))"
    and eq: "(let (now, s1) = run_state (get_jiffies_64 E) s in
      if time_before64 now timeout then
        (let (rval', s2) = run_state (ioread32be E (loader_reg XLDR_REG_CSR)) s1 in
         if tst rval' XLDR_CSR_DONE then Some (rval', s2)
         else f E timeout rval' (snd (run_state (sleep_us 900) s2)))
      else Some (rval, s1)) = Some res"
  let ?j = "Jiffies (env_jiffies E (trace s))"
  let ?v = "env_read E (?j # trace s) (loader_reg XLDR_REG_CSR)"
  let ?r = "Rd (loader_reg XLDR_REG_CSR) ?v"
  show "wait_end timeout rval (trace s) (fst res) (trace (snd res))"
  proof (cases "time_before64 (env_jiffies E (trace s)) timeout \<and> \<not> tst ?v XLDR_CSR_DONE")
    case False
    then show ?thesis using eq by (auto simp: Let_def wait_end_now wait_end_done split: if_splits)
  next
    case True
    then have "f E timeout ?v (s\<lparr>trace := Sleep 900 # ?r # ?j # trace s\<rparr>) = Some res"
      using eq by (simp add: Let_def)
    from IH [OF this] True show ?thesis by (auto intro: wait_end_step)
  qed
qed

section \<open>The end of a session\<close>

lemma held_word_slept:
  assumes "run_state (write_held_word E l) s = (err, s')"
  shows "slept (trace s') = slept (trace s) \<and> (err = 0 \<or> err = - EINVAL \<or> err = - EBUSY) \<and>
         (\<exists>t. s' = s\<lparr>trace := t\<rparr>)"
proof -
  have run: "run_state (svec_fpga_write_word E (bitstream_last_word s)
      (uint (bitstream_last_word_size s)) l) s = (err, s')"
    using assms by (simp add: write_held_word_def)
  obtain t where t: "s' = s\<lparr>trace := t\<rparr>" using pure_ioE [OF pure_io_write_word run] .
  have "slept (trace s') = slept (trace s) \<and> (err = 0 \<or> err = - EINVAL \<or> err = - EBUSY)"
    using write_word_outcomes [OF run]
    by (elim disjE conjE exE) (simp_all del: slept.simps, simp_all)
  then show ?thesis using t by blast
qed

lemma held_word_busy:
  assumes "run_state (write_held_word E l) s = (- EBUSY, s')"
  shows "\<exists>vs. length vs = 10001 \<and> (\<forall>v\<in>set vs. tst v XLDR_FIFO_CSR_FULL) \<and> trace s' = map (Rd fifo_csr) vs @ trace s"
proof -
  have "run_state (svec_fpga_write_word E (bitstream_last_word s)
      (uint (bitstream_last_word_size s)) l) s = (- EBUSY, s')"
    using assms by (simp add: write_held_word_def)
  from write_word_outcomes [OF this] show ?thesis by auto
qed

lemma write_stop_cases:
  assumes w: "run_state (write_held_word E 1) s = (err, s1)"
    and s2: "s2 = s1\<lparr>bitstream_last_word := - 1, bitstream_last_word_size := - 1,
                    trace := Jiffies (env_jiffies E (trace s1)) # trace s1\<rparr>"
    and timeout: "timeout = env_jiffies E (trace s1) +
                    (if config_complete_timeout_us info \<noteq> 0
                     then u (config_complete_timeout_us info) else u 100)"
  shows "svec_fpga_write_stop u E info s =
     (if err = - EBUSY then Some (run_state (write_stop_out (- EBUSY)) s1)
      else case wait_done E timeout 0 s2 of
        None \<Rightarrow> None
      | Some (rv, s3) \<Rightarrow>
          Some (run_state (write_stop_out (if tst rv XLDR_CSR_ERROR then - EINVAL
                                           else if tst rv XLDR_CSR_DONE then 0 else - EIO)) s3))"
proof (cases "err = - EBUSY")
  case True
  then show ?thesis using w by (simp add: svec_fpga_write_stop_def Let_def)
next
  case False
  have e: "err = 0 \<or> err = - EINVAL" using held_word_slept [OF w] False by auto
  have st: "run_state reset_held_word s1 =
      ((), s1\<lparr>bitstream_last_word := - 1, bitstream_last_word_size := - 1\<rparr>)"
    by (simp add: reset_held_word_def)
  have "svec_fpga_write_stop u E info s =
     (case wait_done E timeout 0 s2 of
        None \<Rightarrow> None
      | Some (rval, s) \<Rightarrow>
          let err = (if \<not> tst rval XLDR_CSR_DONE then - EIO else 0);
              err = (if tst rval XLDR_CSR_ERROR then - EINVAL else err)
          in Some (run_state (write_stop_out err) s))"
    using e by (elim disjE) (simp_all add: svec_fpga_write_stop_def Let_def w st s2 timeout [symmetric])
  then show ?thesis using False by (cases "wait_done E timeout 0 s2") (auto simp: Let_def)
qed



text \<open>
  C7.  The end of a session returns on every device and never waits for ever, provided the tick
  counter advances while the driver sleeps (a tick lasts at least 900 microseconds and the counter
  is not near its 63rd bit); it then sleeps no longer than the time to the deadline and 10.9 ms.
\<close>
theorem svec_fpga_write_stop_returns:
  assumes clk: "clock_ticks E tick t0 lim" and tick: "900 \<le> tick"
    and s: "slept (trace s) div tick \<le> lim"
    and deadline: "\<And>h. slept h = slept (trace s) \<Longrightarrow> \<exists>d. env_jiffies E h +
        (if config_complete_timeout_us info \<noteq> 0
         then u (config_complete_timeout_us info) else u 100) = of_nat (t0 + d) \<and>
        t0 + d < 2 ^ 63 \<and> d \<le> lim \<and> slept (trace s) \<le> d * tick"
  shows "\<exists>r s'. svec_fpga_write_stop u E info s = Some (r, s') \<and>
     slept (trace s') \<le> lim * tick + 10900"
proof -
  obtain err s1 where w: "run_state (write_held_word E 1) s = (err, s1)" by fastforce
  note held = held_word_slept [OF w]
  define s2 where "s2 = s1\<lparr>bitstream_last_word := - 1, bitstream_last_word_size := - 1,
                    trace := Jiffies (env_jiffies E (trace s1)) # trace s1\<rparr>"
  define timeout where "timeout = env_jiffies E (trace s1) +
                    (if config_complete_timeout_us info \<noteq> 0
                     then u (config_complete_timeout_us info) else u 100)"
  note stop = write_stop_cases [OF w s2_def timeout_def]
  obtain d where d: "timeout = of_nat (t0 + d)" "t0 + d < 2 ^ 63" "d \<le> lim" "slept (trace s) \<le> d * tick"
    using deadline [of "trace s1"] held by (auto simp: timeout_def)
  have t: "unat timeout = t0 + d"
    unfolding d(1) using d(2) by (subst unsigned_of_nat, subst take_bit_nat_eq_self) auto
  have s2: "slept (trace s2) = slept (trace s)" using held by (simp add: s2_def)
  obtain rv s3 where wd: "wait_done E timeout 0 s2 = Some (rv, s3)" and
    b: "slept (trace s3) \<le> max (slept (trace s2)) ((unat timeout - t0) * tick + 900)"
    using wait_done_returns [OF clk tick, of timeout s2 0] t d(3) s s2 by auto
  have m: "d * tick \<le> lim * tick" using d(3) by simp
  have "slept (trace s3) \<le> d * tick + 900" using b t d(4) s2 by simp
  then have "slept (trace s3) \<le> lim * tick + 900" using m by linarith
  moreover have "slept (trace s1) \<le> lim * tick" using order_trans [OF d(4) m] held by simp
  ultimately show ?thesis using stop wd by (auto simp: write_stop_out_def)
qed

text \<open>A clock of one tick per millisecond slept, and a device that is never done.\<close>

definition ms_env :: "unit env" where
  "ms_env = \<lparr>env_read = (\<lambda>_ _. 0), env_jiffies = (\<lambda>h. of_nat (slept h div 1000)),
             env_call = (\<lambda>_ _. 0)\<rparr>"

lemma ms_env_clock: "clock_ticks ms_env 1000 0 20"
  unfolding clock_ticks_def
proof (intro allI impI)
  fix h :: "unit event list"
  assume "slept h div 1000 \<le> 20"
  then have "unat (of_nat (slept h div 1000) :: u64) = slept h div 1000"
    by (subst unsigned_of_nat, subst take_bit_nat_eq_self) auto
  then show "0 + slept h div 1000 \<le> unat (env_jiffies ms_env h) \<and> unat (env_jiffies ms_env h) < 2 ^ 63"
    using \<open>slept h div 1000 \<le> 20\<close> by (simp add: ms_env_def)
qed

theorem svec_fpga_write_stop_returns_witness:
  "\<exists>r s'. svec_fpga_write_stop (\<lambda>_. 10) ms_env \<lparr>config_complete_timeout_us = 0\<rparr>
            (fresh_dev [] :: unit svec_dev) = Some (r, s') \<and> slept (trace s') \<le> 30900"
  using svec_fpga_write_stop_returns [OF ms_env_clock, of "fresh_dev [] :: unit svec_dev"
      "\<lparr>config_complete_timeout_us = 0\<rparr>" "\<lambda>_. 10"]
  by (simp add: fresh_dev_def ms_env_def exI [of _ "10 :: nat"])

end
