(* ===== verification/Kernel_Api.thy ===== *)
theory Kernel_Api
  imports Svec_Header
begin

text \<open>
  What the driver uses of the kernel: the calls it makes (one constructor each, recorded in the
  trace with what they returned), the resources it passes, the VME device it is bound to, and the
  register map of the base gateware.  The map is generated from \<open>svec_base_regs.cheby\<close> when the
  driver is built, so it is a parameter of the definitions that use it; \<open>svec_base_regs\<close>
  is the map that file describes.
\<close>

section \<open>Resources and devices\<close>

record resource =
  res_name :: string
  res_flags :: u32
  res_start :: u64
  res_end :: u64

definition IORESOURCE_MEM :: u32 where "IORESOURCE_MEM = 0x200"
definition IORESOURCE_IRQ :: u32 where "IORESOURCE_IRQ = 0x400"
definition IORESOURCE_IRQ_HIGHLEVEL :: u32 where "IORESOURCE_IRQ_HIGHLEVEL = 0x4"

definition zero_resource :: resource where
  "zero_resource = \<lparr>res_name = [], res_flags = 0, res_start = 0, res_end = 0\<rparr>"

definition resource_size :: "resource \<Rightarrow> u64" where
  "resource_size r = res_end r - res_start r + 1"

record mfd_cell =
  cell_name :: string
  cell_num_resources :: nat
  cell_resources :: "resource list"

record vme_dev =
  vdev_irq :: u64
  vdev_irq_vector :: u32
  vdev_irq_level :: u32
  vdev_resource :: "nat \<Rightarrow> resource"
  vme_resource_start :: "nat \<Rightarrow> u64"  \<comment> \<open>function of the VME bus driver\<close>
  vme_resource_end :: "nat \<Rightarrow> u64"    \<comment> \<open>function of the VME bus driver\<close>

datatype device = Svec_Device | Fpga_Device

section \<open>Calls\<close>

datatype (plugins only: code) kcall =
    Kzalloc_svec_dev | Kzalloc_svec_fpga | Kcalloc_res nat | Devm_kzalloc_mfd
  | Kfree ptr | Devm_kfree ptr
  | Ioremap u64 u64 | Iounmap ptr
  | Dev_set_name device | Device_register device | Device_unregister device
  | Dev_set_drvdata ptr
  | Debugfs_create_dir device ptr | Debugfs_create_regset32 ptr | Debugfs_create_file string ptr
  | Debugfs_remove_recursive ptr
  | Platform_device_register string "resource list" | Platform_device_unregister ptr
  | Irq_find_host ptr | Irq_find_mapping ptr int
  | Mfd_add_devices "mfd_cell list" resource ptr | Mfd_remove_devices
  | Fmc_carrier_register "fmc_slot_info list" | Fmc_carrier_unregister
  | Vme_disable_device | Vme_enable_device | Vme_unregister_device
  | Fpga_mgr_create | Fpga_mgr_register ptr | Fpga_mgr_unregister ptr | Fpga_mgr_free ptr
  | Fpga_mgr_get | Fpga_mgr_put ptr | Fpga_mgr_lock ptr | Fpga_mgr_unlock ptr
  | Fpga_mgr_load ptr string | Fpga_mgr_firmware_load ptr bool string
  | Mutex_lock | Mutex_unlock | Device_remove_file_self
  | Class_find_device | To_fpga_manager ptr | Mutex_trylock ptr | Try_module_get
  | Mutex_unlock_mgr ptr | Put_device ptr
  | Vme_register_driver nat | Vme_unregister_driver

text \<open>A call whose result nothing looks at.\<close>

definition call_void :: "'c env \<Rightarrow> 'c \<Rightarrow> (('c, 'z) machine_scheme, unit) state" where
  "call_void E c = do { r \<leftarrow> call E c; State_Monad.return () }"

lemma run_call_void [simp, run_simps]:
  "run_state (call_void E c) s = ((), s\<lparr>trace := Call c (env_call E (trace s) c) # trace s\<rparr>)"
  by (simp add: call_def call_void_def Let_def)

lemma extends_call_void [extends_intros]: "extends (call_void E c)"
  by (simp add: extends_def)

section \<open>The register map of the base gateware\<close>

record regmap =
  SVEC_BASE_REGS_METADATA :: u32
  SVEC_BASE_REGS_CSR :: u32
  SVEC_BASE_REGS_THERM_ID :: u32
  SVEC_BASE_REGS_FMC_I2C :: u32
  SVEC_BASE_REGS_FMC_I2C_SIZE :: u32
  SVEC_BASE_REGS_FLASH_SPI :: u32
  SVEC_BASE_REGS_FLASH_SPI_SIZE :: u32
  SVEC_BASE_REGS_VIC :: u32
  SVEC_BASE_REGS_BUILDINFO :: u32
  SVEC_BASE_REGS_BUILDINFO_SIZE :: u32

definition svec_base_regs :: regmap where
  "svec_base_regs =
     \<lparr>SVEC_BASE_REGS_METADATA = 0x0, SVEC_BASE_REGS_CSR = 0x40, SVEC_BASE_REGS_THERM_ID = 0x80,
      SVEC_BASE_REGS_FMC_I2C = 0xa0, SVEC_BASE_REGS_FMC_I2C_SIZE = 0x20,
      SVEC_BASE_REGS_FLASH_SPI = 0xc0, SVEC_BASE_REGS_FLASH_SPI_SIZE = 0x20,
      SVEC_BASE_REGS_VIC = 0x100, SVEC_BASE_REGS_BUILDINFO = 0x200,
      SVEC_BASE_REGS_BUILDINFO_SIZE = 0x100\<rparr>"

definition SVEC_FPGA_CSR_APP_OFF :: "regmap \<Rightarrow> u32" where
  "SVEC_FPGA_CSR_APP_OFF M = SVEC_BASE_REGS_CSR M + 0x00"
definition SVEC_FPGA_CSR_RESETS :: "regmap \<Rightarrow> u32" where
  "SVEC_FPGA_CSR_RESETS M = SVEC_BASE_REGS_CSR M + 0x04"
definition SVEC_FPGA_CSR_FMC_PRESENT :: "regmap \<Rightarrow> u32" where
  "SVEC_FPGA_CSR_FMC_PRESENT M = SVEC_BASE_REGS_CSR M + 0x08"
definition SVEC_FPGA_CSR_UNUSED :: "regmap \<Rightarrow> u32" where
  "SVEC_FPGA_CSR_UNUSED M = SVEC_BASE_REGS_CSR M + 0x0C"
definition SVEC_FPGA_CSR_DDR_STATUS :: "regmap \<Rightarrow> u32" where
  "SVEC_FPGA_CSR_DDR_STATUS M = SVEC_BASE_REGS_CSR M + 0x10"
definition SVEC_FPGA_CSR_PCB_REV :: "regmap \<Rightarrow> u32" where
  "SVEC_FPGA_CSR_PCB_REV M = SVEC_BASE_REGS_CSR M + 0x14"
definition SVEC_FPGA_CSR_DDR4_ADDR :: "regmap \<Rightarrow> u32" where
  "SVEC_FPGA_CSR_DDR4_ADDR M = SVEC_BASE_REGS_CSR M + 0x18"
definition SVEC_FPGA_CSR_DDR4_DATA :: "regmap \<Rightarrow> u32" where
  "SVEC_FPGA_CSR_DDR4_DATA M = SVEC_BASE_REGS_CSR M + 0x1C"
definition SVEC_FPGA_CSR_DDR5_ADDR :: "regmap \<Rightarrow> u32" where
  "SVEC_FPGA_CSR_DDR5_ADDR M = SVEC_BASE_REGS_CSR M + 0x20"
definition SVEC_FPGA_CSR_DDR5_DATA :: "regmap \<Rightarrow> u32" where
  "SVEC_FPGA_CSR_DDR5_DATA M = SVEC_BASE_REGS_CSR M + 0x24"
definition SVEC_FPGA_THERM_SERID_MSB :: "regmap \<Rightarrow> u32" where
  "SVEC_FPGA_THERM_SERID_MSB M = SVEC_BASE_REGS_THERM_ID M + 0x0"
definition SVEC_FPGA_THERM_SERID_LSB :: "regmap \<Rightarrow> u32" where
  "SVEC_FPGA_THERM_SERID_LSB M = SVEC_BASE_REGS_THERM_ID M + 0x4"
definition SVEC_FPGA_THERM_TEMP :: "regmap \<Rightarrow> u32" where
  "SVEC_FPGA_THERM_TEMP M = SVEC_BASE_REGS_THERM_ID M + 0x8"

lemmas fpga_offsets =
  SVEC_FPGA_CSR_APP_OFF_def SVEC_FPGA_CSR_RESETS_def SVEC_FPGA_CSR_FMC_PRESENT_def
  SVEC_FPGA_CSR_UNUSED_def SVEC_FPGA_CSR_DDR_STATUS_def SVEC_FPGA_CSR_PCB_REV_def
  SVEC_FPGA_CSR_DDR4_ADDR_def SVEC_FPGA_CSR_DDR4_DATA_def SVEC_FPGA_CSR_DDR5_ADDR_def
  SVEC_FPGA_CSR_DDR5_DATA_def SVEC_FPGA_THERM_SERID_MSB_def SVEC_FPGA_THERM_SERID_LSB_def
  SVEC_FPGA_THERM_TEMP_def

end
