(* ===== verification/Fpga_Meta.thy ===== *)
theory Fpga_Meta
  imports Kernel_Api
begin

text \<open>
  The metadata and the build information of a gateware (\<open>kernel/svec-core-fpga.c\<close>,
  \<open>kernel/svec-core.c\<close>): reading the metadata record, the tests that decide whether the driver
  accepts it, the identifier it builds for the application and the texts it prints.
\<close>

section \<open>Reading the record\<close>

primrec metadata_get_loop :: "'c env \<Rightarrow> u32 \<Rightarrow> nat list \<Rightarrow> (('c, 'z) machine_scheme, u32 list) state" where
  "metadata_get_loop E fpga [] = State_Monad.return []"
| "metadata_get_loop E fpga (i # is) = do {
     w \<leftarrow> ioread32be E (BAR (fpga + of_nat (i * 4)));
     ws \<leftarrow> metadata_get_loop E fpga is;
     State_Monad.return (w # ws) }"

definition svec_meta_id_words :: nat where
  \<comment> \<open>\<open>sizeof(struct svec_meta_id) / 4\<close>\<close>
  "svec_meta_id_words = 13"

definition meta_of_words :: "u32 list \<Rightarrow> svec_meta_id" where
  \<comment> \<open>the words of the structure in memory order\<close>
  "meta_of_words ws =
     \<lparr>meta_vendor = ws ! 0, meta_device = ws ! 1, meta_version = ws ! 2, meta_bom = ws ! 3,
      meta_src = take 4 (drop 4 ws), meta_cap = ws ! 8, meta_uuid = take 4 (drop 9 ws)\<rparr>"

definition svec_fpga_metadata_get :: "'c env \<Rightarrow> u32 \<Rightarrow> (('c, 'z) machine_scheme, svec_meta_id) state" where
  "svec_fpga_metadata_get E fpga = do {
     ws \<leftarrow> metadata_get_loop E fpga [0..<svec_meta_id_words];
     State_Monad.return (meta_of_words ws) }"

section \<open>Accepting it\<close>

definition svec_fpga_is_valid_version :: "bool \<Rightarrow> u32 \<Rightarrow> u32 \<Rightarrow> bool" where
  \<comment> \<open>the first argument is the module parameter\<close>
  "svec_fpga_is_valid_version version_ignore expected found =
     (if version_ignore then True
      else if SVEC_VERSION_MAJ found \<noteq> SVEC_VERSION_MAJ expected then False
      else if SVEC_VERSION_MIN found < SVEC_VERSION_MIN expected then False
      else True)"

definition svec_fpga_is_valid :: "bool \<Rightarrow> u32 \<Rightarrow> svec_meta_id \<Rightarrow> bool" where
  "svec_fpga_is_valid version_ignore SVEC_VERSION_DRV meta =
     (if meta_bom meta AND SVEC_META_BOM_END_MASK \<noteq> SVEC_META_BOM_BE then False
      else if meta_bom meta AND SVEC_META_BOM_VER_MASK \<noteq> 0 then False
      else if meta_vendor meta \<noteq> SVEC_META_VENDOR_ID \<or> meta_device meta \<noteq> SVEC_META_DEVICE_ID
      then False
      else if \<not> svec_fpga_is_valid_version version_ignore SVEC_VERSION_DRV (meta_version meta)
      then False
      else True)"

section \<open>The identifier of the application\<close>

definition fmt_phN :: "u8 list \<Rightarrow> string" where
  \<comment> \<open>\<open>%phN\<close>: the bytes in memory order, two digits each\<close>
  "fmt_phN bs = concat (map (\<lambda>b. [digit_char (unat b div 16), digit_char (unat b mod 16)]) bs)"

definition svec_fpga_app_id_build ::
  "'c env \<Rightarrow> u32 \<Rightarrow> nat \<Rightarrow> (('c, 'z) machine_scheme, int \<times> string) state" where
  "svec_fpga_app_id_build E app_off sz = do {
     vendor \<leftarrow> ioread32 E (BAR (app_off + FPGA_META_VENDOR));
     device \<leftarrow> ioread32 E (BAR (app_off + FPGA_META_DEVICE));
     if vendor = 0xFF000000 then State_Monad.return (- ENODEV, [])
     else State_Monad.return
       (0, take (sz - 1) (''id:'' @ fmt_phN (le_bytes vendor) @ fmt_phN (le_bytes device))) }"

section \<open>Printing\<close>

definition seq_printf_meta :: "string \<Rightarrow> svec_meta_id \<Rightarrow> string" where
  "seq_printf_meta indent meta =
     indent @ ''Metadata:\<newline>'' @
     indent @ ''  - Vendor: 0x'' @ fmt_08x (meta_vendor meta) @ ''\<newline>'' @
     indent @ ''  - Device: 0x'' @ fmt_08x (meta_device meta) @ ''\<newline>'' @
     indent @ ''  - Version: 0x'' @ fmt_08x (meta_version meta) @ ''\<newline>'' @
     indent @ ''  - BOM: 0x'' @ fmt_08x (meta_bom meta) @ ''\<newline>'' @
     indent @ ''  - SourceID: 0x'' @ fmt_08x (meta_src meta ! 0) @ fmt_08x (meta_src meta ! 1) @
       fmt_08x (meta_src meta ! 2) @ fmt_08x (meta_src meta ! 3) @ ''\<newline>'' @
     indent @ ''  - CapabilityMask: 0x'' @ fmt_08x (meta_cap meta) @ ''\<newline>'' @
     indent @ ''  - VendorUUID: 0x'' @ fmt_08x (meta_uuid meta ! 0) @ fmt_08x (meta_uuid meta ! 1) @
       fmt_08x (meta_uuid meta ! 2) @ fmt_08x (meta_uuid meta ! 3) @ ''\<newline>''"

definition svec_dbg_meta :: "('c, 'z) svec_dev_scheme \<Rightarrow> string" where
  "svec_dbg_meta s =
     seq_printf_meta [] (dev_meta s) @
     (case svec_fpga s of
        None \<Rightarrow> []
      | Some f \<Rightarrow> if app_pdev f = NULL then []
                  else ''Application:\<newline>'' @ seq_printf_meta ''  '' (meta_app f))"

fun bld_info_word :: "u8 list \<Rightarrow> u8 list \<times> bool" where
  \<comment> \<open>the characters put out for a word, and whether the text has ended\<close>
  "bld_info_word [] = ([], False)"
| "bld_info_word (c # cs) =
     (if c = 0 then ([], True) else (case bld_info_word cs of (out, stop) \<Rightarrow> (c # out, stop)))"

function bld_info_loop :: "'c env \<Rightarrow> nat \<Rightarrow> nat \<Rightarrow> (('c, 'z) machine_scheme, u8 list) state" where
  "bld_info_loop E off lim =
     (if off < lim then do {
        tmp \<leftarrow> ioread32be E (BAR (of_nat off));
        case bld_info_word (le_bytes tmp) of (out, stop) \<Rightarrow>
          if stop then State_Monad.return out
          else do { rest \<leftarrow> bld_info_loop E (off + 4) lim; State_Monad.return (out @ rest) } }
      else State_Monad.return [])"
  by pat_completeness auto
termination
  by (relation "measure (\<lambda>(E, off, lim). lim - off)") auto

declare bld_info_loop.simps [simp del]

definition svec_fpga_dbg_bld_info ::
  "regmap \<Rightarrow> 'c env \<Rightarrow> (('c, 'z) svec_dev_scheme, u8 list) state" where
  "svec_fpga_dbg_bld_info M E = do {
     meta \<leftarrow> gets dev_meta;
     if \<not> tst (meta_cap meta) SVEC_META_CAP_BLD
     then State_Monad.return (cstr ''not available\<newline>'')
     else bld_info_loop E (unat (SVEC_BASE_REGS_BUILDINFO M))
            (unat (SVEC_BASE_REGS_BUILDINFO M + SVEC_BASE_REGS_BUILDINFO_SIZE M - 1)) }"

end
