(* ===== verification/Base_Gateware.thy ===== *)
theory Base_Gateware
  imports Fpga_Meta
begin

text \<open>
  The register blocks of the base gateware that the driver reads (\<open>svec_base_wr.vhd\<close>): the ROM of
  the metadata, the ROM of the build information, the application offset, the presence of the
  mezzanines and the reset register, at the addresses of \<open>svec_base_regs.cheby\<close>; and what the
  driver makes of them.
\<close>

section \<open>The gateware\<close>

record base_gw =
  g_WITH_VIC :: bool
  g_WITH_ONEWIRE :: bool
  g_WITH_SPI :: bool
  g_WITH_WR :: bool
  g_WITH_DDR4 :: bool
  g_WITH_DDR5 :: bool
  g_APP_OFFSET :: u32
  sourceid :: "u32 list"    \<comment> \<open>four words, the most significant first\<close>
  buildinfo :: "u8 list"
  fmc_prsnt :: "bool \<times> bool"
  pcbrev :: "5 word"
  gw_rest :: "ioaddr \<Rightarrow> u32"   \<comment> \<open>what reads elsewhere return\<close>

definition base_capability :: "base_gw \<Rightarrow> u32" where
  "base_capability g =
     (if g_WITH_VIC g then BIT 0 else 0) OR
     (if g_WITH_ONEWIRE g \<and> \<not> g_WITH_WR g then BIT 1 else 0) OR
     (if g_WITH_SPI g then BIT 2 else 0) OR (if g_WITH_WR g then BIT 3 else 0) OR BIT 4 OR
     (if g_WITH_DDR4 g then BIT 5 else 0) OR (if g_WITH_DDR5 g then BIT 6 else 0)"

definition base_metadata :: "base_gw \<Rightarrow> nat \<Rightarrow> u32" where
  "base_metadata g k =
     (if k = 0 then 0x000010dc else if k = 1 then 0x53564543 else if k = 2 then 0x03000000
      else if k = 3 then 0xfffe0000 else if k < 8 then sourceid g ! (k - 4)
      else if k = 8 then base_capability g else 0)"

definition base_buildinfo :: "base_gw \<Rightarrow> nat \<Rightarrow> u32" where
  "base_buildinfo g k =
     load32 (\<lambda>i. if i < length (buildinfo g) then buildinfo g ! i else 0) (k * 4)"

text \<open>Bits of the reset register: the global reset and the reset of the application.\<close>

fun gw_resets :: "'c event list \<Rightarrow> u32" where
  "gw_resets [] = 0"
| "gw_resets (Wr a v # h) = (if a = BAR 0x44 then v AND 3 else gw_resets h)"
| "gw_resets (e # h) = gw_resets h"

definition gw_read :: "base_gw \<Rightarrow> 'c event list \<Rightarrow> ioaddr \<Rightarrow> u32" where
  "gw_read g h a =
     (case a of CR r \<Rightarrow> gw_rest g a
      | BAR r \<Rightarrow>
          if r < 0x40 then base_metadata g (unat r div 4)
          else if r = 0x40 then g_APP_OFFSET g
          else if r = 0x44 then gw_resets h
          else if r = 0x48 then (if fst (fmc_prsnt g) then BIT 0 else 0) OR
                                (if snd (fmc_prsnt g) then BIT 1 else 0)
          else if r = 0x54 then ucast (pcbrev g)
          else if 0x200 \<le> r \<and> r < 0x300 then base_buildinfo g ((unat r - 0x200) div 4)
          else gw_rest g a)"

definition gw_env :: "base_gw \<Rightarrow> ('c event list \<Rightarrow> 'c \<Rightarrow> int) \<Rightarrow> 'c env" where
  "gw_env g kern = \<lparr>env_read = gw_read g, env_jiffies = (\<lambda>_. 0), env_call = kern\<rparr>"

lemma gw_env_sel [simp]: "env_read (gw_env g kern) = gw_read g" "env_call (gw_env g kern) = kern"
  by (simp_all add: gw_env_def)

section \<open>Metadata\<close>

lemma metadata_loop_rom:
  assumes "\<And>h i. i \<in> set is \<Longrightarrow> env_read E h (BAR (base + of_nat (i * 4))) = rom i"
  shows "run_state (metadata_get_loop E base is) s =
     (map rom is, s\<lparr>trace := map (\<lambda>i. Rd (BAR (base + of_nat (i * 4))) (rom i)) (rev is) @ trace s\<rparr>)"
  using assms
proof (induction "is" arbitrary: s)
  case (Cons i "is")
  have "env_read E (trace s) (BAR (base + of_nat (i * 4))) = rom i" using Cons.prems by simp
  then show ?case using Cons by simp
qed simp

lemma upt_13: "[0..<13] = [0, 1, 2, 3, 4, 5, 6, 7, 8, 9, 10, 11, 12 :: nat]"
  by (simp add: upt_rec)

lemma meta_of_rom:
  "meta_of_words (map rom [0..<13]) =
     \<lparr>meta_vendor = rom 0, meta_device = rom 1, meta_version = rom 2, meta_bom = rom 3,
      meta_src = map rom [4, 5, 6, 7], meta_cap = rom 8, meta_uuid = map rom [9, 10, 11, 12]\<rparr>"
  by (simp add: meta_of_words_def upt_13)

lemma metadata_get_rom:
  assumes "\<And>h i. i < 13 \<Longrightarrow> env_read E h (BAR (base + of_nat (i * 4))) = rom i"
  shows "run_state (svec_fpga_metadata_get E base) s =
     (\<lparr>meta_vendor = rom 0, meta_device = rom 1, meta_version = rom 2, meta_bom = rom 3,
       meta_src = map rom [4, 5, 6, 7], meta_cap = rom 8, meta_uuid = map rom [9, 10, 11, 12]\<rparr>,
      s\<lparr>trace := map (\<lambda>i. Rd (BAR (base + of_nat (i * 4))) (rom i)) (rev [0..<13]) @ trace s\<rparr>)"
proof -
  have loop: "run_state (metadata_get_loop E base [0..<13]) s =
    (map rom [0..<13], s\<lparr>trace := map (\<lambda>i. Rd (BAR (base + of_nat (i * 4))) (rom i)) (rev [0..<13]) @ trace s\<rparr>)"
    by (rule metadata_loop_rom) (rule assms, simp)
  show ?thesis
    unfolding svec_fpga_metadata_get_def svec_meta_id_words_def run_state_bind loop prod.case
      meta_of_rom run_state_return ..
qed

text \<open>
  C13.  Reading the metadata of any device that answers with the words of a table at consecutive
  addresses reads words 0 to 12 once each, in order, writes nothing, and fills the structure with
  vendor, device, version, byte order mark, four words of source, capabilities from words 0 to 8,
  and the identifier of the vendor from words 9 to 12, that is from offset 0x24 and not from
  \<open>FPGA_META_UUID\<close> (0x30), where the memory map puts it.
\<close>
theorem svec_fpga_metadata_get_table:
  assumes "\<And>h i. i < 13 \<Longrightarrow> env_read E h (BAR (base + of_nat (i * 4))) = rom i"
  shows "run_state (svec_fpga_metadata_get E base) s =
     (\<lparr>meta_vendor = rom 0, meta_device = rom 1, meta_version = rom 2, meta_bom = rom 3,
       meta_src = map rom [4, 5, 6, 7], meta_cap = rom 8, meta_uuid = map rom [9, 10, 11, 12]\<rparr>,
      s\<lparr>trace := map (\<lambda>i. Rd (BAR (base + of_nat (i * 4))) (rom i)) (rev [0..<13]) @ trace s\<rparr>)"
  by (rule metadata_get_rom) (rule assms)

theorem svec_fpga_metadata_get_table_witness:
  "fst (run_state (svec_fpga_metadata_get
          \<lparr>env_read = (\<lambda>_ a. case a of BAR r \<Rightarrow> r div 4 | CR r \<Rightarrow> 0), env_jiffies = (\<lambda>_. 0),
           env_call = (\<lambda>_ (_ :: unit). 0)\<rparr> 0) \<lparr>trace = []\<rparr>) =
     \<lparr>meta_vendor = 0, meta_device = 1, meta_version = 2, meta_bom = 3,
      meta_src = [4, 5, 6, 7], meta_cap = 8, meta_uuid = [9, 10, 11, 12]\<rparr>"
proof -
  let ?E = "\<lparr>env_read = (\<lambda>_ a. case a of BAR r \<Rightarrow> r div 4 | CR r \<Rightarrow> 0), env_jiffies = (\<lambda>_. 0),
           env_call = (\<lambda>_ (_ :: unit). 0)\<rparr>"
  have "env_read ?E h (BAR (0 + of_nat (i * 4))) = of_nat i" if "i < 13" for h i
  proof -
    have "i \<in> set [0..<13]" using that by simp
    then show ?thesis unfolding upt_13 by auto
  qed
  from svec_fpga_metadata_get_table [OF this, of "\<lparr>trace = []\<rparr>"] show ?thesis by simp
qed

section \<open>The test\<close>

lemma bom_exact:
  "(b :: u32) AND 0xFFFF0000 = 0xFFFE0000 \<and> b AND 0x0000FFFF = 0 \<longleftrightarrow> b = 0xFFFE0000"
proof
  assume a: "b AND 0xFFFF0000 = 0xFFFE0000 \<and> b AND 0x0000FFFF = 0"
  have all: "(0xFFFF0000 OR 0x0000FFFF :: u32) = - 1" by simp
  have "b = (b AND 0xFFFF0000) OR (b AND 0x0000FFFF)"
    unfolding bit.conj_disj_distrib [symmetric] all by simp
  with a show "b = 0xFFFE0000" by simp
qed simp

lemma is_valid_iff:
  "svec_fpga_is_valid ign drv meta \<longleftrightarrow>
     meta_bom meta = 0xFFFE0000 \<and> meta_vendor meta = 0x10DC \<and> meta_device meta = 0x53564543 \<and>
     (ign \<or> SVEC_VERSION_MAJ (meta_version meta) = SVEC_VERSION_MAJ drv \<and>
            SVEC_VERSION_MIN drv \<le> SVEC_VERSION_MIN (meta_version meta))"
  unfolding bom_exact [of "meta_bom meta", symmetric]
  by (auto simp: svec_fpga_is_valid_def svec_fpga_is_valid_version_def SVEC_META_BOM_END_MASK_def
      SVEC_META_BOM_BE_def SVEC_META_BOM_VER_MASK_def SVEC_META_VENDOR_ID_def
      SVEC_META_DEVICE_ID_def PCI_VENDOR_ID_CERN_def)

text \<open>
  C12.  The driver accepts a gateware exactly if its byte order mark is 0xFFFE0000 in all its bits,
  vendor and device are 0x10DC and 0x53564543, and, unless the module parameter disables the test,
  the major version is the driver's and the minor version not below the driver's; source,
  capabilities and identifiers play no part.
\<close>
theorem svec_fpga_is_valid_exactly:
  "svec_fpga_is_valid version_ignore SVEC_VERSION_DRV meta =
     (meta_bom meta = 0xFFFE0000 \<and> meta_vendor meta = 0x10DC \<and> meta_device meta = 0x53564543 \<and>
     (version_ignore \<or>
      SVEC_VERSION_MAJ (meta_version meta) = SVEC_VERSION_MAJ SVEC_VERSION_DRV \<and>
      SVEC_VERSION_MIN SVEC_VERSION_DRV \<le> SVEC_VERSION_MIN (meta_version meta)))"
  by (rule is_valid_iff)

lemma gw_metadata:
  assumes "i < 13"
  shows "env_read (gw_env g kern) h (BAR (SVEC_BASE_REGS_METADATA svec_base_regs + of_nat (i * 4))) =
         base_metadata g i"
proof -
  have u: "unat (of_nat (i * 4) :: u32) = i * 4"
    using assms by (subst unsigned_of_nat, subst take_bit_nat_eq_self) auto
  define r where "r = (of_nat (i * 4) :: u32)"
  have r: "unat r = i * 4" using u by (simp only: r_def)
  then have "r < 0x40" using assms by (simp add: word_less_nat_alt)
  then have "gw_read g h (BAR r) = base_metadata g (unat r div 4)"
    by (simp add: gw_read_def)
  then show ?thesis
    unfolding r_def [symmetric] by (simp add: svec_base_regs_def r)
qed

lemma gateware_accepted:
  assumes "length (sourceid g) = 4"
    and "run_state (svec_fpga_metadata_get (gw_env g kern)
           (SVEC_BASE_REGS_METADATA svec_base_regs)) s = (meta, s')"
  shows "(svec_fpga_is_valid version_ignore SVEC_VERSION_DRV meta \<longleftrightarrow>
            version_ignore \<or> SVEC_VERSION_MAJ SVEC_VERSION_DRV = 3 \<and> SVEC_VERSION_MIN SVEC_VERSION_DRV = 0) \<and>
         meta_src meta = sourceid g \<and> meta_cap meta = base_capability g"
proof -
  have meta: "meta = \<lparr>meta_vendor = 0x10dc, meta_device = 0x53564543, meta_version = 0x03000000,
      meta_bom = 0xfffe0000, meta_src = map (base_metadata g) [4, 5, 6, 7],
      meta_cap = base_capability g, meta_uuid = [0, 0, 0, 0]\<rparr>"
    using metadata_get_rom [OF gw_metadata, of g kern s] assms(2) by (auto simp: base_metadata_def)
  have "map (base_metadata g) [4, 5, 6, 7] = sourceid g"
    using assms(1) by (intro nth_equalityI) (auto simp: base_metadata_def less_Suc_eq numeral_eq_Suc)
  moreover have "SVEC_VERSION_MAJ 0x03000000 = 3" "SVEC_VERSION_MIN 0x03000000 = 0"
    by (simp_all add: SVEC_VERSION_MAJ_def SVEC_VERSION_MIN_def)
  ultimately show ?thesis by (auto simp: is_valid_iff meta)
qed


definition demo_gw :: base_gw where
  "demo_gw = \<lparr>g_WITH_VIC = True, g_WITH_ONEWIRE = True, g_WITH_SPI = True, g_WITH_WR = False,
              g_WITH_DDR4 = True, g_WITH_DDR5 = True, g_APP_OFFSET = 0x4000,
              sourceid = [1, 2, 3, 4], buildinfo = cstr ''buildinfo:1'', fmc_prsnt = (True, False), pcbrev = 2, gw_rest = (\<lambda>_. 0)\<rparr>"


section \<open>Build information\<close>

lemma bld_info_word_eq: "bld_info_word cs = (takeWhile (\<lambda>c. c \<noteq> 0) cs, 0 \<in> set cs)"
  by (induction cs) auto

lemma words_left:
  assumes "(a :: nat) < b"
  shows "(b - a + 3) div 4 = Suc ((b - (a + 4) + 3) div 4)"
proof (cases "b - a < 4")
  case True
  then have "b - a = 1 \<or> b - a = 2 \<or> b - a = 3" using assms by linarith
  then show ?thesis by auto
next
  case False
  then obtain e where "b = a + 4 + e" by (metis add.assoc le_add_diff_inverse less_imp_le_nat not_less assms)
  then show ?thesis by simp
qed

lemma bld_info_loop_rom:
  assumes rom: "\<And>h off. lo \<le> off \<Longrightarrow> off < lim \<Longrightarrow> 4 dvd (off - lo) \<Longrightarrow>
      env_read E h (BAR (of_nat off)) = load32 m (off - lo)"
    and "lo \<le> off" and "4 dvd (off - lo)"
  shows "fst (run_state (bld_info_loop E off lim) s) =
     takeWhile (\<lambda>c. c \<noteq> 0) (bytes_at m (off - lo) (4 * ((lim - off + 3) div 4)))"
  using assms(2,3)
proof (induction "lim - off" arbitrary: off s rule: less_induct)
  case less
  show ?case
  proof (cases "off < lim")
    case False
    then show ?thesis by (subst bld_info_loop.simps) simp
  next
    case True
    let ?bs = "bytes_at m (off - lo) 4" and ?n = "(lim - (off + 4) + 3) div 4"
    have v: "env_read E (trace s) (BAR (of_nat off)) = load32 m (off - lo)"
      by (rule rom) (use less.prems True in auto)
    have n: "(lim - off + 3) div 4 = Suc ?n" using True by (rule words_left)
    then have split: "bytes_at m (off - lo) (4 * ((lim - off + 3) div 4)) =
        ?bs @ bytes_at m (off + 4 - lo) (4 * ?n)"
      unfolding n using bytes_at_add [of m "off - lo" 4 "4 * ?n"] less.prems(1) by simp
    have "off + 4 - lo = (off - lo) + 4" using less.prems(1) by simp
    then have dv: "4 dvd (off + 4 - lo)" by (simp only:) (rule dvd_add [OF less.prems(2) dvd_refl])
    let ?s = "s\<lparr>trace := Rd (BAR (of_nat off)) (load32 m (off - lo)) # trace s\<rparr>"
    have "fst (run_state (bld_info_loop E off lim) s) =
      (if 0 \<in> set ?bs then takeWhile (\<lambda>c. c \<noteq> 0) ?bs
       else takeWhile (\<lambda>c. c \<noteq> 0) ?bs @ fst (run_state (bld_info_loop E (off + 4) lim) ?s))"
      using True v by (subst bld_info_loop.simps)
        (auto simp: bld_info_word_eq le_bytes_load32 split: prod.splits)
    moreover have "fst (run_state (bld_info_loop E (off + 4) lim) ?s) =
        takeWhile (\<lambda>c. c \<noteq> 0) (bytes_at m (off + 4 - lo) (4 * ?n))"
      by (rule less.hyps) (use True less.prems dv in auto)
    moreover have "takeWhile (\<lambda>c. c \<noteq> 0) ?bs = ?bs" if "0 \<notin> set ?bs"
      using that by (auto simp: takeWhile_eq_all_conv)
    ultimately show ?thesis
      unfolding split by (auto simp: takeWhile_append)
  qed
qed

lemma gw_buildinfo:
  assumes "0x200 \<le> off" and "off < 0x2ff" and "4 dvd (off - 0x200)"
  shows "env_read (gw_env g kern) h (BAR (of_nat off)) =
         load32 (\<lambda>i. if i < length (buildinfo g) then buildinfo g ! i else 0) (off - 0x200)"
proof -
  define r where "r = (of_nat off :: u32)"
  have r: "unat r = off"
    unfolding r_def using assms by (subst unsigned_of_nat, subst take_bit_nat_eq_self) auto
  have range: "0x200 \<le> r" "r < 0x300" using r assms by (simp_all add: word_le_nat_alt word_less_nat_alt)
  have neq: "\<not> r < 0x40" "r \<noteq> 0x40" "r \<noteq> 0x44" "r \<noteq> 0x48" "r \<noteq> 0x54"
    using r assms by (auto simp: word_less_nat_alt)
  have "(off - 0x200) div 4 * 4 = off - 0x200" using assms(3) by (rule dvd_div_mult_self)
  then show ?thesis
    unfolding r_def [symmetric] using range neq r by (simp add: gw_read_def base_buildinfo_def)
qed

lemma bytes_at_padded:
  "bytes_at (\<lambda>i. if i < length bs then bs ! i else 0) 0 n = take n bs @ replicate (n - length bs) 0"
  by (rule nth_equalityI) (auto simp: bytes_at_def nth_append)

lemma takeWhile_padded:
  "takeWhile (\<lambda>c. c \<noteq> 0) (bs @ replicate k (0 :: u8)) = takeWhile (\<lambda>c. c \<noteq> 0) bs"
  by (induction bs) (cases k, auto)


section \<open>The identifier of the application\<close>

lemma fmt_phN_be: "fmt_phN (be_bytes w) = fmt_08x w"
proof -
  have nib: "unat (byte_of k w) div 16 = nibble (2 * k + 1) w \<and> unat (byte_of k w) mod 16 = nibble (2 * k) w"
    for k
  proof -
    define x where "x = unat w div 2 ^ (8 * k)"
    have "unat (byte_of k w) = x mod 256"
      by (simp add: byte_of_def x_def unsigned_ucast_eq unat_drop_bit_eq take_bit_eq_mod
          drop_bit_eq_div [of _ "unat w"])
    moreover have "unat (drop_bit (4 * (2 * k + 1)) w) = x div 16"
    proof -
      have p: "(2 :: nat) ^ (4 * (2 * k + 1)) = 2 ^ (8 * k) * 16" by (simp add: power_add)
      show ?thesis by (simp only: x_def unat_drop_bit_eq drop_bit_eq_div [of _ "unat w"] p div_mult2_eq)
    qed
    moreover have "unat (drop_bit (4 * (2 * k)) w) = x"
      by (simp add: x_def unat_drop_bit_eq drop_bit_eq_div [of _ "unat w"])
    moreover have "x mod 256 = 16 * (x div 16 mod 16) + x mod 16"
      using mod_mult2_eq [of x 16 16] by simp
    ultimately show ?thesis by (simp add: nibble_def)
  qed
  show ?thesis
    using nib [of 3] nib [of 2] nib [of 1] nib [of 0]
    by (simp add: fmt_phN_def be_bytes_def fmt_08x_def)
qed

lemma run_app_id_build:
  "\<exists>v d. run_state (svec_fpga_app_id_build E off sz) s =
     ((if v = 0x000000FF then (- ENODEV, [])
       else (0, take (sz - 1) (''id:'' @ fmt_08x v @ fmt_08x d))),
      s\<lparr>trace := Rd (BAR (off + FPGA_META_DEVICE)) d # Rd (BAR (off + FPGA_META_VENDOR)) v # trace s\<rparr>)"
proof -
  have "bswap32 0x000000FF = 0xFF000000" by (simp add: bswap32_def word_of_bytes_def byte_of_def)
  then have eq: "bswap32 v = 0xFF000000 \<longleftrightarrow> v = 0x000000FF" for v by (metis bswap32_bswap32)
  show ?thesis
    by (auto simp: svec_fpga_app_id_build_def eq fmt_phN_be intro!: exI)
qed

text \<open>
  C16.  For the application at an offset the driver reads vendor and device, and where the name has
  room for it builds \<open>id:\<close>, the vendor and the device in sixteen digits, most significant first.
  It refuses the vendor whose register value is 0x000000FF: the comparison with 0xFF000000 is made
  on the value read in little-endian order, so the vendor identifier 0xFF000000, which the metadata
  convention reserves for identifiers of another kind, is accepted as an ordinary one.
\<close>
theorem svec_fpga_app_id_build_name:
  assumes "20 \<le> sz"
  shows "\<exists>v d. run_state (svec_fpga_app_id_build E off sz) s =
     ((if v = 0x000000FF then (- ENODEV, []) else (0, ''id:'' @ fmt_08x v @ fmt_08x d)),
      s\<lparr>trace := Rd (BAR (off + FPGA_META_DEVICE)) d # Rd (BAR (off + FPGA_META_VENDOR)) v # trace s\<rparr>)"
proof -
  have "take (sz - 1) (''id:'' @ fmt_08x v @ fmt_08x d) = ''id:'' @ fmt_08x v @ fmt_08x d" for v d
    using assms by (intro take_all) simp
  then show ?thesis using run_app_id_build [of E off sz s] by metis
qed

theorem svec_fpga_app_id_build_name_witness:
  "\<exists>v d. fst (run_state (svec_fpga_app_id_build (gw_env demo_gw (\<lambda>_ (_ :: kcall). 0)) 0 47) \<lparr>trace = []\<rparr>) =
     (if v = 0x000000FF then (- ENODEV, []) else (0, ''id:'' @ fmt_08x v @ fmt_08x d))"
  using svec_fpga_app_id_build_name [of 47 "gw_env demo_gw (\<lambda>_ (_ :: kcall). 0)" 0 "\<lparr>trace = []\<rparr>"] by force

end
