(* ===== verification/Fpga_Attr.thy ===== *)
theory Fpga_Attr
  imports Base_Gateware
begin

text \<open>
  The attributes of the FPGA device (\<open>kernel/svec-core-fpga.c\<close>): thermometer, serial number, PCB
  revision, application offset, reset of the application, and the presence of the mezzanines.  A
  show function's result is the text it prints (always far shorter than its page).
\<close>

section \<open>The operations\<close>

definition temperature_show :: "regmap \<Rightarrow> 'c env \<Rightarrow> (('c, 'z) svec_dev_scheme, string) state" where
  "temperature_show M E = do {
     meta \<leftarrow> gets dev_meta;
     if tst (meta_cap meta) SVEC_META_CAP_THERM then do {
       temp \<leftarrow> ioread32be E (BAR (SVEC_FPGA_THERM_TEMP M));
       State_Monad.return (fmt_d (uint (temp div 16)) @ ''.'' @
         fmt_d (uint ((temp AND 0xF) * 1000 div 16)) @ '' C\<newline>'') }
     else State_Monad.return ''-.- C\<newline>'' }"

definition serial_number_show :: "regmap \<Rightarrow> 'c env \<Rightarrow> (('c, 'z) svec_dev_scheme, string) state" where
  "serial_number_show M E = do {
     meta \<leftarrow> gets dev_meta;
     if tst (meta_cap meta) SVEC_META_CAP_THERM then do {
       msb \<leftarrow> ioread32be E (BAR (SVEC_FPGA_THERM_SERID_MSB M));
       lsb \<leftarrow> ioread32be E (BAR (SVEC_FPGA_THERM_SERID_LSB M));
       State_Monad.return (''0x'' @ fmt_08x msb @ fmt_08x lsb @ ''\<newline>'') }
     else State_Monad.return ''0x----------------\<newline>'' }"

definition svec_fpga_csr_app_offset :: "regmap \<Rightarrow> 'c env \<Rightarrow> (('c, 'z) machine_scheme, u32) state" where
  "svec_fpga_csr_app_offset M E = ioread32be E (BAR (SVEC_FPGA_CSR_APP_OFF M))"

definition svec_fpga_csr_pcb_rev :: "regmap \<Rightarrow> 'c env \<Rightarrow> (('c, 'z) machine_scheme, u32) state" where
  "svec_fpga_csr_pcb_rev M E = ioread32be E (BAR (SVEC_FPGA_CSR_PCB_REV M))"

definition pcb_rev_show :: "regmap \<Rightarrow> 'c env \<Rightarrow> (('c, 'z) machine_scheme, string) state" where
  "pcb_rev_show M E = do {
     v \<leftarrow> svec_fpga_csr_pcb_rev M E; State_Monad.return (''0x'' @ fmt_x v @ ''\<newline>'') }"

definition application_offset_show :: "regmap \<Rightarrow> 'c env \<Rightarrow> (('c, 'z) machine_scheme, string) state" where
  "application_offset_show M E = do {
     v \<leftarrow> svec_fpga_csr_app_offset M E; State_Monad.return (''0x'' @ fmt_x v @ ''\<newline>'') }"

definition SVEC_FPGA_CSR_RESETS_ALL :: u32 where "SVEC_FPGA_CSR_RESETS_ALL = BIT 0"
definition SVEC_FPGA_CSR_RESETS_APP :: u32 where "SVEC_FPGA_CSR_RESETS_APP = BIT 1"

definition svec_fpga_app_reset :: "regmap \<Rightarrow> 'c env \<Rightarrow> bool \<Rightarrow> (('c, 'z) machine_scheme, unit) state" where
  "svec_fpga_app_reset M E val = do {
     resets \<leftarrow> ioread32be E (BAR (SVEC_FPGA_CSR_RESETS M));
     let resets = (if val then resets OR SVEC_FPGA_CSR_RESETS_APP
                   else resets AND NOT SVEC_FPGA_CSR_RESETS_APP);
     iowrite32be resets (BAR (SVEC_FPGA_CSR_RESETS M)) }"

definition svec_fpga_app_restart :: "regmap \<Rightarrow> 'c env \<Rightarrow> (('c, 'z) machine_scheme, unit) state" where
  "svec_fpga_app_restart M E = do {
     svec_fpga_app_reset M E True;
     sleep_us 1;
     svec_fpga_app_reset M E False;
     sleep_us 1 }"

definition reset_app_show :: "regmap \<Rightarrow> 'c env \<Rightarrow> (('c, 'z) machine_scheme, string) state" where
  "reset_app_show M E = do {
     resets \<leftarrow> ioread32be E (BAR (SVEC_FPGA_CSR_RESETS M));
     State_Monad.return (fmt_d (if tst resets SVEC_FPGA_CSR_RESETS_APP then 1 else 0) @ ''\<newline>'') }"

definition reset_app_store ::
  "(string \<Rightarrow> int + int) \<Rightarrow> regmap \<Rightarrow> 'c env \<Rightarrow> string \<Rightarrow> nat \<Rightarrow> (('c, 'z) machine_scheme, int) state" where
  \<comment> \<open>the first argument is \<open>kstrtol\<close> of the kernel to base 10: an error or a value\<close>
  "reset_app_store kstrtol M E buf count =
     (case kstrtol buf of
        Inl err \<Rightarrow> State_Monad.return err
      | Inr val \<Rightarrow> do { svec_fpga_app_reset M E (val \<noteq> 0); State_Monad.return (int count) })"

definition svec_fmc_presence :: "regmap \<Rightarrow> 'c env \<Rightarrow> (('c, 'z) machine_scheme, u8) state" where
  "svec_fmc_presence M E = do {
     presence \<leftarrow> ioread32be E (BAR (SVEC_FPGA_CSR_FMC_PRESENT M));
     State_Monad.return (ucast presence AND ucast (BIT SVEC_FMC_SLOTS - 1)) }"

definition svec_fmc_is_present :: "regmap \<Rightarrow> 'c env \<Rightarrow> nat \<Rightarrow> (('c, 'z) machine_scheme, int) state" where
  \<comment> \<open>for a slot with its number \<open>lun\<close>, which starts at 1\<close>
  "svec_fmc_is_present M E lun = do {
     presence \<leftarrow> svec_fmc_presence M E;
     State_Monad.return (if tst (ucast presence :: u64) (push_bit (lun - 1) 1) then 1 else 0) }"

section \<open>A register that keeps what is written\<close>

text \<open>
  The contract the reset needs of its register: a read returns what the last write left of the
  implemented bits, and nothing but a write to the register changes it.
\<close>

locale rw_register =
  fixes E :: "'c env" and a :: ioaddr and m :: u32
  assumes read_write: "env_read E (Wr a v # h) a = v AND m"
    and read_frame: "(\<And>v. e \<noteq> Wr a v) \<Longrightarrow> env_read E (e # h) a = env_read E h a"
begin

lemma read_quiet [simp]:
  "env_read E (Rd b w # h) a = env_read E h a" "env_read E (Sleep n # h) a = env_read E h a"
  by (simp_all add: read_frame)

lemma app_reset:
  assumes "a = BAR (SVEC_FPGA_CSR_RESETS M)"
    and "s' = snd (run_state (svec_fpga_app_reset M E val) s)"
  shows "env_read E (trace s') a =
     (if val then env_read E (trace s) a OR SVEC_FPGA_CSR_RESETS_APP
      else env_read E (trace s) a AND NOT SVEC_FPGA_CSR_RESETS_APP) AND m"
  using assms(2) by (simp add: svec_fpga_app_reset_def Let_def read_write assms(1) [symmetric])

lemma app_restart:
  assumes "a = BAR (SVEC_FPGA_CSR_RESETS M)"
    and "s' = snd (run_state (svec_fpga_app_restart M E) s)"
  shows "env_read E (trace s') a = env_read E (trace s) a AND NOT SVEC_FPGA_CSR_RESETS_APP AND m"
proof -
  let ?r = "env_read E (trace s) a" and ?A = SVEC_FPGA_CSR_RESETS_APP
  have "env_read E (trace s') a = (((?r OR ?A) AND m) AND NOT ?A) AND m"
    using assms(2) by (simp add: svec_fpga_app_restart_def svec_fpga_app_reset_def Let_def
        read_write assms(1) [symmetric])
  also have "\<dots> = ?r AND NOT ?A AND m"
    by (rule bit_word_eqI) (auto simp: bit_simps)
  finally show ?thesis .
qed

lemma app_shown:
  assumes "a = BAR (SVEC_FPGA_CSR_RESETS M)" and "bit m 1"
    and "s' = snd (run_state (svec_fpga_app_reset M E val) s)"
  shows "fst (run_state (reset_app_show M E) s') = (if val then ''1\<newline>'' else ''0\<newline>'')"
proof -
  have one: "fmt_d 1 = ''1''" "fmt_d 0 = ''0''"
    by (simp_all add: fmt_d_def fmt_u_def fmt_base.simps [of 10])
  have "tst (env_read E (trace s') a) SVEC_FPGA_CSR_RESETS_APP = val"
    unfolding app_reset [OF assms(1,3)] SVEC_FPGA_CSR_RESETS_APP_def tst_BIT
    using assms(2) by (simp add: bit_and_iff bit_or_iff bit_not_iff bit_BIT)
  then show ?thesis using assms(1) by (simp add: reset_app_show_def one)
qed

end

lemma gw_resets_idem [simp]: "gw_resets h AND 3 = gw_resets h"
  by (induction h rule: gw_resets.induct) (auto simp: and.assoc)

interpretation gw_resets: rw_register "gw_env g kern" "BAR 0x44" 3
  for g and kern :: "'c event list \<Rightarrow> 'c \<Rightarrow> int"
proof unfold_locales
  fix v and h :: "'c event list"
  show "env_read (gw_env g kern) (Wr (BAR 0x44) v # h) (BAR 0x44) = v AND 3"
    by (simp add: gw_read_def)
next
  fix e :: "'c event" and h :: "'c event list"
  assume "\<And>v. e \<noteq> Wr (BAR 0x44) v"
  then show "env_read (gw_env g kern) (e # h) (BAR 0x44) = env_read (gw_env g kern) h (BAR 0x44)"
    by (cases e) (auto simp: gw_read_def)
qed

section \<open>Properties\<close>

lemma gw_reset_reg: "BAR 0x44 = BAR (SVEC_FPGA_CSR_RESETS svec_base_regs)"
  by (simp add: svec_base_regs_def SVEC_FPGA_CSR_RESETS_def)

text \<open>
  C17.  On the base gateware a number stored in the attribute of the application's reset sets or
  clears the reset of the application, keeps the global reset, answers the length of the text, and
  is shown again as 1 or 0; a text that is not a number changes nothing and its error is returned.
\<close>
theorem reset_app_store_show:
  assumes run: "run_state (reset_app_store kstrtol svec_base_regs (gw_env g kern) buf count) s = (r, s')"
  shows "case kstrtol buf of
      Inl err \<Rightarrow> r = err \<and> s' = s
    | Inr val \<Rightarrow> r = int count \<and>
        (bit (gw_resets (trace s')) 1 \<longleftrightarrow> val \<noteq> 0) \<and>
        (bit (gw_resets (trace s')) 0 \<longleftrightarrow> bit (gw_resets (trace s)) 0) \<and>
        fst (run_state (reset_app_show svec_base_regs (gw_env g kern)) s') =
          (if val \<noteq> 0 then ''1\<newline>'' else ''0\<newline>'')"
proof (cases "kstrtol buf")
  case (Inl err)
  then show ?thesis using run by (simp add: reset_app_store_def)
next
  case (Inr val)
  then have r: "r = int count"
    and s': "s' = snd (run_state (svec_fpga_app_reset svec_base_regs (gw_env g kern) (val \<noteq> 0)) s)"
    using run by (auto simp: reset_app_store_def split: prod.splits)
  have read: "gw_read g h (BAR 0x44) = gw_resets h" for h :: "'a event list"
    by (simp add: gw_read_def)
  have val: "gw_resets (trace s') =
      (if val \<noteq> 0 then gw_resets (trace s) OR SVEC_FPGA_CSR_RESETS_APP
       else gw_resets (trace s) AND NOT SVEC_FPGA_CSR_RESETS_APP) AND 3"
    using gw_resets.app_reset [OF gw_reset_reg s'] by (simp only: gw_env_sel read)
  have three: "bit (3 :: u32) 0" "bit (3 :: u32) 1" by (simp_all add: bit_numeral_rec)
  then have and3: "bit (x AND 3) 0 = bit x 0" "bit (x AND 3) 1 = bit x 1" for x :: u32
    by (simp_all only: bit_and_iff simp_thms)
  have shown: "fst (run_state (reset_app_show svec_base_regs (gw_env g kern)) s') =
      (if val \<noteq> 0 then ''1\<newline>'' else ''0\<newline>'')"
    by (rule gw_resets.app_shown [OF gw_reset_reg _ s']) (rule three)
  show ?thesis
    unfolding Inr sum.case val and3 using r shown
    by (simp add: bit_and_iff bit_or_iff bit_not_iff SVEC_FPGA_CSR_RESETS_APP_def bit_BIT)
qed

theorem reset_app_store_show_witness:
  "\<exists>r s'. run_state (reset_app_store (\<lambda>_. Inr 1) svec_base_regs
       (gw_env demo_gw (\<lambda>_ (_ :: kcall). 0)) ''1'' 1) \<lparr>trace = []\<rparr> = (r, s') \<and> r = 1 \<and>
     bit (gw_resets (trace s')) 1"
proof -
  obtain r s' where run: "run_state (reset_app_store (\<lambda>_. Inr 1) svec_base_regs
      (gw_env demo_gw (\<lambda>_ (_ :: kcall). 0)) ''1'' 1) \<lparr>trace = []\<rparr> = (r, s')" by fastforce
  then show ?thesis using reset_app_store_show [OF run] by auto
qed

text \<open>
  The thermometer's text is the sixteenths of a degree it reads as whole degrees, a point and
  the thousandths that remain, without leading zeros and without wrap-around; so a reading of
  401 sixteenths, 25.0625 degrees, is shown as 25.62.  Without the capability the device is not
  read.
\<close>
theorem temperature_show_text:
  "(\<not> tst (meta_cap (dev_meta s)) SVEC_META_CAP_THERM \<longrightarrow>
      run_state (temperature_show M E) s = (''-.- C\<newline>'', s)) \<and>
   (tst (meta_cap (dev_meta s)) SVEC_META_CAP_THERM \<longrightarrow>
      (\<exists>t. t = env_read E (trace s) (BAR (SVEC_FPGA_THERM_TEMP M)) \<and>
         fst (run_state (temperature_show M E) s) =
           fmt_u (unat t div 16) @ ''.'' @ fmt_u (unat t mod 16 * 1000 div 16) @ '' C\<newline>'' \<and>
         (t = 401 \<longrightarrow> fst (run_state (temperature_show M E) s) = ''25.62 C\<newline>'')))"
proof -
  define t where "t = env_read E (trace s) (BAR (SVEC_FPGA_THERM_TEMP M))"
  have fmt: "fmt_d (uint w) = fmt_u (unat w)" for w :: u32 by (simp add: fmt_d_def)
  have "t AND 0xF = take_bit 4 t" by (simp add: take_bit_eq_mask mask_numeral)
  then have lo: "unat (t AND 0xF) = unat t mod 16"
    by (simp add: unsigned_take_bit_eq take_bit_eq_mod unat_mod)
  have "unat ((t AND 0xF) * 1000) = unat t mod 16 * 1000"
    unfolding unat_word_ariths(2) lo by simp
  then have frac: "unat ((t AND 0xF) * 1000 div 16) = unat t mod 16 * 1000 div 16"
    by (simp add: unat_div)
  have shown: "fst (run_state (temperature_show M E) s) =
      fmt_u (unat t div 16) @ ''.'' @ fmt_u (unat t mod 16 * 1000 div 16) @ '' C\<newline>''"
    if "tst (meta_cap (dev_meta s)) SVEC_META_CAP_THERM"
    using that frac by (simp add: temperature_show_def fmt t_def [symmetric] unat_div)
  have "fmt_u 25 = ''25''" "fmt_u 62 = ''62''"
    by (simp_all add: fmt_u_def fmt_base.simps [of 10])
  then show ?thesis using shown by (auto simp: temperature_show_def t_def [symmetric])
qed

definition warm_dev :: "unit svec_dev" where
  "warm_dev =
     fresh_dev []\<lparr>dev_meta := dev_meta (fresh_dev [] :: unit svec_dev)\<lparr>meta_cap := SVEC_META_CAP_THERM\<rparr>\<rparr>"

theorem temperature_show_text_witness:
  "fst (run_state (temperature_show svec_base_regs
      \<lparr>env_read = (\<lambda>_ _. 401), env_jiffies = (\<lambda>_. 0), env_call = (\<lambda>_ _. 0)\<rparr>) warm_dev) =
    ''25.62 C\<newline>''"
proof -
  have "tst (meta_cap (dev_meta warm_dev)) SVEC_META_CAP_THERM"
    by (simp add: warm_dev_def SVEC_META_CAP_THERM_def bit_BIT)
  with temperature_show_text [of warm_dev svec_base_regs
      "\<lparr>env_read = (\<lambda>_ _. 401), env_jiffies = (\<lambda>_. 0), env_call = (\<lambda>_ _. 0)\<rparr>"]
  show ?thesis by auto
qed

text \<open>
  C18.  On the base gateware the carrier reports a mezzanine as present exactly where the gateware
  sees it: slot 1 and slot 2 by their own bits, and no other slot up to the 64th.
\<close>
theorem svec_fmc_is_present_slots:
  assumes "1 \<le> lun" and "lun \<le> 64"
  shows "fst (run_state (svec_fmc_is_present svec_base_regs (gw_env g kern) lun) s) =
     (if lun = 1 \<and> fst (fmc_prsnt g) \<or> lun = 2 \<and> snd (fmc_prsnt g) then 1 else 0)"
proof -
  define x where "x = (if fst (fmc_prsnt g) then BIT 0 else 0) OR (if snd (fmc_prsnt g) then BIT 1 else 0)"
  define p where "p = (ucast x AND ucast (BIT SVEC_FMC_SLOTS - 1) :: u8)"
  have tst: "tst (q :: u64) (push_bit k 1) = bit q k" if "k < 64" for q k
    by (simp add: tst_def bit_iff_and_push_bit_not_eq_0)
  have three: "ucast (BIT SVEC_FMC_SLOTS - 1) = (3 :: u8)" by (simp add: SVEC_FMC_SLOTS_def BIT_def)
  have "bit (3 :: u8) k \<longleftrightarrow> k = 0 \<or> k = 1" for k
    by (simp add: bit_numeral_rec bit_1_iff split: nat.split) (auto split: nat.splits)
  then have bits: "bit p k \<longleftrightarrow> (k = 0 \<and> fst (fmc_prsnt g)) \<or> (k = 1 \<and> snd (fmc_prsnt g))" for k
    unfolding p_def three x_def bit_and_iff bit_ucast_iff bit_or_iff
    by (auto simp: bit_BIT)
  have "env_read (gw_env g kern) (trace s) (BAR (SVEC_FPGA_CSR_FMC_PRESENT svec_base_regs)) = x"
    by (simp add: gw_read_def svec_base_regs_def SVEC_FPGA_CSR_FMC_PRESENT_def x_def)
  then have "fst (run_state (svec_fmc_is_present svec_base_regs (gw_env g kern) lun) s) =
      (if tst (ucast p :: u64) (push_bit (lun - 1) 1) then 1 else 0)"
    by (simp add: svec_fmc_is_present_def svec_fmc_presence_def p_def del: gw_env_sel)
  also have "tst (ucast p :: u64) (push_bit (lun - 1) 1) \<longleftrightarrow> bit p (lun - 1)"
    using assms by (subst tst) (auto simp: bit_ucast_iff dest: bit_imp_le_length)
  finally show ?thesis using assms unfolding bits by auto
qed

theorem svec_fmc_is_present_slots_witness:
  "fst (run_state (svec_fmc_is_present svec_base_regs (gw_env demo_gw (\<lambda>_ (_ :: kcall). 0)) 1)
          \<lparr>trace = []\<rparr>) = 1"
  using svec_fmc_is_present_slots [of 1 demo_gw "\<lambda>_ (_ :: kcall). 0" "\<lparr>trace = []\<rparr>"]
  by (simp add: demo_gw_def)

end
