(* ===== verification/Fpga_Init.thy ===== *)
theory Fpga_Init
  imports Fpga_Attr
begin

text \<open>
  Bringing the FPGA device up and down (\<open>kernel/svec-core-fpga.c\<close>): the debugfs files, the
  interrupt controller, the I2C and SPI devices, the FMC carrier, the application, and
  \<open>svec_fpga_init\<close> and \<open>svec_fpga_exit\<close> over them.  The structure \<open>svec_fpga\<close> is passed and
  returned until it is stored in \<open>svec_dev\<close>.  An access through a NULL pointer stops the kernel
  thread: the operations in which it can happen return \<open>None\<close> then.
\<close>

section \<open>debugfs\<close>

definition SVEC_DBG_CSR_NAME :: string where "SVEC_DBG_CSR_NAME = ''csr_regs''"
definition SVEC_DBG_BLD_INFO_NAME :: string where "SVEC_DBG_BLD_INFO_NAME = ''build_info''"

definition svec_fpga_dbg_exit :: "kcall env \<Rightarrow> svec_fpga \<Rightarrow> ((kcall, 'z) svec_dev_scheme, unit) state" where
  "svec_fpga_dbg_exit E f = call_void E (Debugfs_remove_recursive (fpga_dbg_dir f))"

definition dbg_err ::
  "kcall env \<Rightarrow> svec_fpga \<Rightarrow> int \<Rightarrow> ((kcall, 'z) svec_dev_scheme, int \<times> svec_fpga) state" where
  \<comment> \<open>the label \<open>err\<close>\<close>
  "dbg_err E f err = do {
     call_void E (Debugfs_remove_recursive (fpga_dbg_dir f));
     State_Monad.return (err, f\<lparr>fpga_dbg_dir := NULL\<rparr>) }"

definition svec_fpga_dbg_init ::
  "bool \<Rightarrow> kcall env \<Rightarrow> svec_fpga \<Rightarrow> ((kcall, 'z) svec_dev_scheme, int \<times> svec_fpga) state" where
  \<comment> \<open>the first argument: \<open>KERNEL_VERSION(5, 6, 0) <= LINUX_VERSION_CODE\<close>\<close>
  "svec_fpga_dbg_init linux_5_6 E f = do {
     parent \<leftarrow> gets dev_dbg_dir;
     dir \<leftarrow> call E (Debugfs_create_dir Fpga_Device parent);
     if IS_ERR_OR_NULL dir then State_Monad.return (PTR_ERR dir, f\<lparr>fpga_dbg_dir := NULL\<rparr>)
     else do {
       let f = f\<lparr>fpga_dbg_dir := dir\<rparr>;
       csr \<leftarrow> call E (Debugfs_create_regset32 dir);
       let f = (if linux_5_6 then f else f\<lparr>fpga_dbg_csr := csr\<rparr>);
       if \<not> linux_5_6 \<and> IS_ERR_OR_NULL csr
       then dbg_err E (f\<lparr>fpga_dbg_csr := NULL\<rparr>) (PTR_ERR csr)
       else do {
         info \<leftarrow> call E (Debugfs_create_file SVEC_DBG_BLD_INFO_NAME dir);
         if IS_ERR_OR_NULL info
         then dbg_err E (f\<lparr>fpga_dbg_bld_info := NULL\<rparr>) (PTR_ERR info)
         else State_Monad.return (0, f\<lparr>fpga_dbg_bld_info := info\<rparr>) } } }"

section \<open>Interrupt controller\<close>

definition svec_fpga_vic_res :: "regmap \<Rightarrow> resource list" where
  "svec_fpga_vic_res M =
     [\<lparr>res_name = ''htvic-mem'', res_flags = IORESOURCE_MEM,
       res_start = ucast (SVEC_BASE_REGS_VIC M), res_end = ucast (SVEC_BASE_REGS_VIC M)\<rparr>,
      \<lparr>res_name = ''htvic-irq'', res_flags = IORESOURCE_IRQ OR IORESOURCE_IRQ_HIGHLEVEL,
       res_start = 0, res_end = 0\<rparr>]"

definition svec_fpga_irq_find_host :: "kcall env \<Rightarrow> ptr \<Rightarrow> ((kcall, 'z) svec_dev_scheme, ptr option) state" where
  \<comment> \<open>of the device inside the platform device \<open>pdev\<close>, whose \<open>fwnode\<close> is loaded\<close>
  "svec_fpga_irq_find_host E pdev =
     (if pdev = NULL then State_Monad.return None
      else do { d \<leftarrow> call E (Irq_find_host pdev); State_Monad.return (Some d) })"

definition svec_fpga_vic_init ::
  "regmap \<Rightarrow> kcall env \<Rightarrow> vme_dev \<Rightarrow> svec_fpga \<Rightarrow> ((kcall, 'z) svec_dev_scheme, int \<times> svec_fpga) state"
where
  "svec_fpga_vic_init M E vdev f = do {
     let vme_start = vme_resource_start vdev (function_nr f);
     meta \<leftarrow> gets dev_meta;
     if \<not> tst (meta_cap meta) SVEC_META_CAP_VIC then State_Monad.return (0, f)
     else do {
       let res = svec_fpga_vic_res M;
       let res0 = (res ! 0)\<lparr>res_start := res_start (res ! 0) + vme_start,
                           res_end := res_end (res ! 0) + vme_start\<rparr>;
       let res1 = (res ! 1)\<lparr>res_start := vdev_irq vdev, res_end := vdev_irq vdev\<rparr>;
       pdev \<leftarrow> call E (Platform_device_register ''htvic-svec'' [res0, res1]);
       if IS_ERR pdev then State_Monad.return (PTR_ERR pdev, f)
       else State_Monad.return (0, f\<lparr>vic_pdev := pdev\<rparr>) } }"

definition svec_fpga_vic_exit ::
  "kcall env \<Rightarrow> svec_fpga \<Rightarrow> ((kcall, 'z) svec_dev_scheme, svec_fpga) state" where
  "svec_fpga_vic_exit E f =
     (if vic_pdev f \<noteq> NULL then do {
        call_void E (Platform_device_unregister (vic_pdev f));
        State_Monad.return (f\<lparr>vic_pdev := NULL\<rparr>) }
      else State_Monad.return f)"

section \<open>I2C and SPI\<close>

definition SVEC_FPGA_IRQ_FMC_I2C :: u64 where "SVEC_FPGA_IRQ_FMC_I2C = 0"
definition SVEC_FPGA_IRQ_SPI :: u64 where "SVEC_FPGA_IRQ_SPI = 1"

definition svec_fpga_fmc_i2c_res :: "regmap \<Rightarrow> resource list" where
  "svec_fpga_fmc_i2c_res M =
     [\<lparr>res_name = ''i2c-ocores-mem'', res_flags = IORESOURCE_MEM,
       res_start = ucast (SVEC_BASE_REGS_FMC_I2C M),
       res_end = ucast (SVEC_BASE_REGS_FMC_I2C M + SVEC_BASE_REGS_FMC_I2C_SIZE M - 1)\<rparr>,
      \<lparr>res_name = ''i2c-ocores-irq'', res_flags = IORESOURCE_IRQ OR IORESOURCE_IRQ_HIGHLEVEL,
       res_start = SVEC_FPGA_IRQ_FMC_I2C, res_end = SVEC_FPGA_IRQ_FMC_I2C\<rparr>]"

definition svec_fpga_spi_res :: "regmap \<Rightarrow> resource list" where
  "svec_fpga_spi_res M =
     [\<lparr>res_name = ''spi-ocores-mem'', res_flags = IORESOURCE_MEM,
       res_start = ucast (SVEC_BASE_REGS_FLASH_SPI M),
       res_end = ucast (SVEC_BASE_REGS_FLASH_SPI M + SVEC_BASE_REGS_FLASH_SPI_SIZE M - 1)\<rparr>,
      \<lparr>res_name = ''spi-ocores-irq'', res_flags = IORESOURCE_IRQ OR IORESOURCE_IRQ_HIGHLEVEL,
       res_start = SVEC_FPGA_IRQ_SPI, res_end = SVEC_FPGA_IRQ_SPI\<rparr>]"

definition svec_fpga_mfd_devs :: "regmap \<Rightarrow> mfd_cell list" where
  "svec_fpga_mfd_devs M =
     [\<lparr>cell_name = ''i2c-ohwr'', cell_num_resources = 2, cell_resources = svec_fpga_fmc_i2c_res M\<rparr>,
      \<lparr>cell_name = ''spi-ocores'', cell_num_resources = 2, cell_resources = svec_fpga_spi_res M\<rparr>]"

definition svec_fpga_devices_init ::
  "regmap \<Rightarrow> kcall env \<Rightarrow> vme_dev \<Rightarrow> svec_fpga \<Rightarrow> ((kcall, 'z) svec_dev_scheme, int option) state"
where
  "svec_fpga_devices_init M E vdev f = do {
     p \<leftarrow> call E Devm_kzalloc_mfd;
     if p = NULL then State_Monad.return (Some (- ENOMEM))
     else do {
       meta \<leftarrow> gets dev_meta;
       let cells = svec_fpga_mfd_devs M ! 0 #
             (if tst (meta_cap meta) SVEC_META_CAP_SPI then [svec_fpga_mfd_devs M ! 1] else []);
       irqd \<leftarrow> svec_fpga_irq_find_host E (vic_pdev f);
       case irqd of
         None \<Rightarrow> State_Monad.return None
       | Some vic_domain \<Rightarrow> do {
           let cells = (if vic_domain = NULL then map (cell_num_resources_update (\<lambda>_. 1)) cells
                        else cells);
           err \<leftarrow> call E (Mfd_add_devices cells (vdev_resource vdev (function_nr f)) vic_domain);
           if err \<noteq> 0 then do {
             call_void E (Devm_kfree p);
             State_Monad.return (Some err) }
           else State_Monad.return (Some 0) } } }"

definition svec_fpga_devices_exit :: "kcall env \<Rightarrow> ((kcall, 'z) svec_dev_scheme, unit) state" where
  "svec_fpga_devices_exit E = call_void E Mfd_remove_devices"

section \<open>FMC carrier\<close>

text \<open>
  The devices of the I2C bus, in the order in which the kernel visits them: whether a device is an
  adapter, for an adapter behind a multiplexer the FPGA device above its parent, and its number.
\<close>

record i2c_dev =
  is_i2c_adapter :: bool
  mux_fpga :: "ptr option"   \<comment> \<open>\<open>adap_parent->dev.parent->parent\<close>; None: no parent adapter\<close>
  i2c_adapter_id :: int

definition svec_i2c_find_adapter :: "ptr \<Rightarrow> i2c_dev \<Rightarrow> nat \<Rightarrow> int \<times> nat" where
  \<comment> \<open>for the FPGA device at an address: the result and the filter's slot number afterwards\<close>
  "svec_i2c_find_adapter fpga dev slot_nr =
     (if \<not> is_i2c_adapter dev then (0, slot_nr)
      else case mux_fpga dev of
        None \<Rightarrow> (0, slot_nr)
      | Some d \<Rightarrow>
          if fpga \<noteq> d then (0, slot_nr)
          else if 0 < slot_nr then (0, slot_nr - 1)
          else (i2c_adapter_id dev, slot_nr))"

fun i2c_for_each_dev :: "(i2c_dev \<Rightarrow> nat \<Rightarrow> int \<times> nat) \<Rightarrow> i2c_dev list \<Rightarrow> nat \<Rightarrow> int" where
  \<comment> \<open>of the kernel: the first result that is not zero, or zero\<close>
  "i2c_for_each_dev fn [] flt = 0"
| "i2c_for_each_dev fn (d # ds) flt =
     (case fn d flt of (r, flt) \<Rightarrow> if r \<noteq> 0 then r else i2c_for_each_dev fn ds flt)"

definition svec_i2c_get_bus :: "i2c_dev list \<Rightarrow> ptr \<Rightarrow> nat \<Rightarrow> int" where
  "svec_i2c_get_bus bus fpga slot_nr = i2c_for_each_dev (svec_i2c_find_adapter fpga) bus slot_nr"

primrec svec_fmc_init_loop :: "i2c_dev list \<Rightarrow> nat list \<Rightarrow> svec_fpga \<Rightarrow> int \<times> svec_fpga" where
  "svec_fmc_init_loop bus [] f = (0, f)"
| "svec_fmc_init_loop bus (i # is) f =
     (let nr = svec_i2c_get_bus bus (fpga_addr f) i;
          f = f\<lparr>slot_info := (slot_info f)[i := (slot_info f ! i)\<lparr>i2c_bus_nr := nr\<rparr>]\<rparr>
      in if nr \<le> 0 then (- ENODEV, f)
         else svec_fmc_init_loop bus is
           (f\<lparr>slot_info := (slot_info f)[i := (slot_info f ! i)\<lparr>slot_ga := i, slot_lun := i + 1\<rparr>]\<rparr>))"

definition svec_fmc_init ::
  "i2c_dev list \<Rightarrow> kcall env \<Rightarrow> svec_fpga \<Rightarrow> ((kcall, 'z) svec_dev_scheme, int \<times> svec_fpga) state" where
  "svec_fmc_init bus E f =
     (case svec_fmc_init_loop bus [0..<SVEC_FMC_SLOTS] f of (err, f) \<Rightarrow>
        if err \<noteq> 0 then State_Monad.return (err, f)
        else do {
          err \<leftarrow> call E (Fmc_carrier_register (slot_info f));
          State_Monad.return (err, f) })"

definition svec_fmc_exit :: "kcall env \<Rightarrow> ((kcall, 'z) svec_dev_scheme, int) state" where
  "svec_fmc_exit E = call E Fmc_carrier_unregister"

section \<open>The application\<close>

definition SVEC_FPGA_APP_NAME_MAX :: nat where "SVEC_FPGA_APP_NAME_MAX = 47"
definition SVEC_FPGA_APP_IRQ_BASE :: nat where "SVEC_FPGA_APP_IRQ_BASE = 6"
definition SVEC_FPGA_APP_RES_IRQ_START :: nat where "SVEC_FPGA_APP_RES_IRQ_START = 1"
definition SVEC_FPGA_APP_RES_IRQ_N :: nat where "SVEC_FPGA_APP_RES_IRQ_N = 32 - SVEC_FPGA_APP_IRQ_BASE"
definition SVEC_FPGA_APP_RES_N :: nat where "SVEC_FPGA_APP_RES_N = SVEC_FPGA_APP_RES_IRQ_N + 1"
definition SVEC_FPGA_APP_RES_MEM :: nat where "SVEC_FPGA_APP_RES_MEM = 0"

definition svec_fpga_app_init_res_mem ::
  "vme_dev \<Rightarrow> svec_fpga \<Rightarrow> u32 \<Rightarrow> resource \<Rightarrow> int \<times> resource" where
  "svec_fpga_app_init_res_mem vdev f app_offset res =
     (if app_offset = 0 then (- ENODEV, res)
      else (0, \<lparr>res_name = ''app-mem'', res_flags = IORESOURCE_MEM,
                res_start = vme_resource_start vdev (function_nr f) + ucast app_offset,
                res_end = vme_resource_end vdev (function_nr f)\<rparr>))"

primrec app_irq_loop ::
  "kcall env \<Rightarrow> ptr \<Rightarrow> int \<Rightarrow> resource list \<Rightarrow> ((kcall, 'z) svec_dev_scheme, resource list) state" where
  "app_irq_loop E irqd hwirq [] = State_Monad.return []"
| "app_irq_loop E irqd hwirq (r # rs) = do {
     irq \<leftarrow> call E (Irq_find_mapping irqd hwirq);
     rs \<leftarrow> app_irq_loop E irqd (hwirq + 1) rs;
     State_Monad.return (r\<lparr>res_name := ''app-irq'', res_flags := IORESOURCE_IRQ,
                           res_start := word_of_int irq\<rparr> # rs) }"

definition svec_fpga_app_init_res_irq ::
  "kcall env \<Rightarrow> svec_fpga \<Rightarrow> nat \<Rightarrow> resource list \<Rightarrow> ((kcall, 'z) svec_dev_scheme, resource list) state"
where
  "svec_fpga_app_init_res_irq E f first_hwirq res =
     (if vic_pdev f = NULL then State_Monad.return res
      else do {
        irqd \<leftarrow> call E (Irq_find_host (vic_pdev f));
        app_irq_loop E irqd (int first_hwirq) res })"

definition svec_fpga_app_init ::
  "regmap \<Rightarrow> kcall env \<Rightarrow> vme_dev \<Rightarrow> svec_fpga \<Rightarrow> ((kcall, 'z) svec_dev_scheme, int \<times> svec_fpga) state"
where
  "svec_fpga_app_init M E vdev f = do {
     app_offset \<leftarrow> svec_fpga_csr_app_offset M E;
     p \<leftarrow> call E (Kcalloc_res SVEC_FPGA_APP_RES_N);
     if p = NULL then State_Monad.return (- ENOMEM, f)
     else case svec_fpga_app_init_res_mem vdev f app_offset zero_resource of (err, res_mem) \<Rightarrow>
       if err \<noteq> 0 then do { call_void E (Kfree p); State_Monad.return (0, f) }
       else do {
         meta \<leftarrow> svec_fpga_metadata_get E app_offset;
         let f = f\<lparr>meta_app := meta\<rparr>;
         res_irq \<leftarrow> svec_fpga_app_init_res_irq E f SVEC_FPGA_APP_IRQ_BASE
                      (replicate SVEC_FPGA_APP_RES_IRQ_N zero_resource);
         (err, app_name) \<leftarrow> svec_fpga_app_id_build E app_offset SVEC_FPGA_APP_NAME_MAX;
         if err \<noteq> 0 then do { call_void E (Kfree p); State_Monad.return (err, f) }
         else do {
           svec_fpga_app_restart M E;
           pdev \<leftarrow> call E (Platform_device_register app_name (res_mem # res_irq));
           if IS_ERR pdev then do { call_void E (Kfree p); State_Monad.return (PTR_ERR pdev, f) }
           else do { call_void E (Kfree p); State_Monad.return (0, f\<lparr>app_pdev := pdev\<rparr>) } } } }"

definition svec_fpga_app_exit ::
  "kcall env \<Rightarrow> svec_fpga \<Rightarrow> ((kcall, 'z) svec_dev_scheme, svec_fpga) state" where
  "svec_fpga_app_exit E f =
     (if app_pdev f \<noteq> NULL then do {
        call_void E (Platform_device_unregister (app_pdev f));
        State_Monad.return (f\<lparr>app_pdev := NULL\<rparr>) }
      else State_Monad.return f)"

section \<open>The FPGA device\<close>

definition zero_svec_fpga :: "ptr \<Rightarrow> svec_fpga" where
  \<comment> \<open>\<open>kzalloc\<close>\<close>
  "zero_svec_fpga p =
     \<lparr>fpga_addr = p, meta_app = meta_of_words (replicate svec_meta_id_words 0), function_nr = 0,
      fpga_va = NULL, vic_pdev = NULL, app_pdev = NULL,
      slot_info = replicate SVEC_FMC_SLOTS \<lparr>i2c_bus_nr = 0, slot_ga = 0, slot_lun = 0\<rparr>,
      fpga_dbg_dir = NULL, fpga_dbg_csr = NULL, fpga_dbg_bld_info = NULL\<rparr>"

record fpga_par =
  par_regmap :: regmap
  par_version_ignore :: bool
  par_version_drv :: u32
  par_linux_5_6 :: bool
  par_vdev :: vme_dev
  par_i2c :: "kcall event list \<Rightarrow> i2c_dev list"   \<comment> \<open>the devices on the I2C bus\<close>

definition init_free ::
  "kcall env \<Rightarrow> svec_fpga \<Rightarrow> int \<Rightarrow> ((kcall, 'z) svec_dev_scheme, int option) state" where
  \<comment> \<open>the label \<open>err_map\<close>\<close>
  "init_free E f err = do {
     call_void E (Kfree (fpga_addr f));
     modify (\<lambda>s. s\<lparr>svec_fpga := None\<rparr>);
     State_Monad.return (Some err) }"

definition init_unmap ::
  "kcall env \<Rightarrow> svec_fpga \<Rightarrow> int \<Rightarrow> ((kcall, 'z) svec_dev_scheme, int option) state" where
  \<comment> \<open>the labels \<open>err_dev\<close>, \<open>err_name\<close> and \<open>err_valid\<close>\<close>
  "init_unmap E f err = do { call_void E (Iounmap (fpga_va f)); init_free E f err }"

definition svec_fpga_init_parts ::
  "fpga_par \<Rightarrow> kcall env \<Rightarrow> svec_fpga \<Rightarrow> ((kcall, 'z) svec_dev_scheme, int option) state" where
  \<comment> \<open>from the registration of the device on, with the labels \<open>err_app\<close> to \<open>err_vic\<close>\<close>
  "svec_fpga_init_parts P E f = do {
     (_, f) \<leftarrow> svec_fpga_dbg_init (par_linux_5_6 P) E f;
     (err, f) \<leftarrow> svec_fpga_vic_init (par_regmap P) E (par_vdev P) f;
     if err \<noteq> 0 then State_Monad.return (Some err)
     else do {
       devs \<leftarrow> svec_fpga_devices_init (par_regmap P) E (par_vdev P) f;
       case devs of
         None \<Rightarrow> State_Monad.return None
       | Some err \<Rightarrow>
           if err \<noteq> 0 then do {
             f \<leftarrow> svec_fpga_vic_exit E f;
             State_Monad.return (Some err) }
           else do {
             h \<leftarrow> gets trace;
             (err, f) \<leftarrow> svec_fmc_init (par_i2c P h) E f;
             if err \<noteq> 0 then do {
               svec_fpga_devices_exit E;
               f \<leftarrow> svec_fpga_vic_exit E f;
               State_Monad.return (Some err) }
             else do {
               (err, f) \<leftarrow> svec_fpga_app_init (par_regmap P) E (par_vdev P) f;
               if err \<noteq> 0 then do {
                 _ \<leftarrow> svec_fmc_exit E;
                 svec_fpga_devices_exit E;
                 f \<leftarrow> svec_fpga_vic_exit E f;
                 State_Monad.return (Some err) }
               else do {
                 modify (\<lambda>s. s\<lparr>svec_fpga := Some f\<rparr>);
                 State_Monad.return (Some 0) } } } } }"

definition svec_fpga_init ::
  "fpga_par \<Rightarrow> kcall env \<Rightarrow> nat \<Rightarrow> ((kcall, 'z) svec_dev_scheme, int option) state" where
  "svec_fpga_init P E fn =
     (let r = vdev_resource (par_vdev P) fn in
      if res_flags r \<noteq> IORESOURCE_MEM then State_Monad.return (Some (- EINVAL))
      else do {
        p \<leftarrow> call E Kzalloc_svec_fpga;
        if p = NULL then State_Monad.return (Some (- ENOMEM))
        else do {
          let f = (zero_svec_fpga p)\<lparr>function_nr := fn\<rparr>;
          va \<leftarrow> call E (Ioremap (res_start r) (resource_size r));
          let f = f\<lparr>fpga_va := va\<rparr>;
          if va = NULL then init_free E f (- ENOMEM)
          else do {
            meta \<leftarrow> svec_fpga_metadata_get E (SVEC_BASE_REGS_METADATA (par_regmap P));
            modify (\<lambda>s. s\<lparr>dev_meta := meta\<rparr>);
            if \<not> svec_fpga_is_valid (par_version_ignore P) (par_version_drv P) meta
            then init_unmap E f (- EINVAL)
            else do {
              err \<leftarrow> call E (Dev_set_name Fpga_Device);
              if err \<noteq> 0 then init_unmap E f err
              else do {
                err \<leftarrow> call E (Device_register Fpga_Device);
                if err \<noteq> 0 then init_unmap E f err
                else svec_fpga_init_parts P E f } } } } })"

definition svec_fpga_exit :: "kcall env \<Rightarrow> ((kcall, 'z) svec_dev_scheme, int) state" where
  "svec_fpga_exit E = do {
     fp \<leftarrow> gets svec_fpga;
     case fp of
       None \<Rightarrow> State_Monad.return 0
     | Some f \<Rightarrow> do {
         f \<leftarrow> svec_fpga_app_exit E f;
         _ \<leftarrow> svec_fmc_exit E;
         svec_fpga_devices_exit E;
         f \<leftarrow> svec_fpga_vic_exit E f;
         svec_fpga_dbg_exit E f;
         call_void E (Device_unregister Fpga_Device);
         call_void E (Iounmap (fpga_va f));
         call_void E (Kfree (fpga_addr f));
         modify (\<lambda>s. s\<lparr>svec_fpga := None\<rparr>);
         State_Monad.return 0 } }"

end
