(* ===== verification/Fpga_Lifecycle.thy ===== *)
theory Fpga_Lifecycle
  imports Fpga_Init
begin

text \<open>
  What the FPGA device holds of the kernel and when it gives it back: an account of the resources
  that the calls of a trace acquire and release, the effect of every part of
  \<open>svec_fpga_init\<close> on it, and the whole of start-up and shutdown.
\<close>

section \<open>The account\<close>

datatype kres =
  RMem ptr | RMap ptr | RDev device | RDir ptr | RPdev ptr | RMfd | RFmc | RMgr ptr | RMgrReg ptr

fun acquired :: "kcall \<Rightarrow> int \<Rightarrow> kres option" where
  "acquired Kzalloc_svec_dev v = (if v = NULL then None else Some (RMem v))"
| "acquired Kzalloc_svec_fpga v = (if v = NULL then None else Some (RMem v))"
| "acquired (Kcalloc_res n) v = (if v = NULL then None else Some (RMem v))"
| "acquired (Ioremap a n) v = (if v = NULL then None else Some (RMap v))"
| "acquired (Device_register d) v = (if v = 0 then Some (RDev d) else None)"
| "acquired (Debugfs_create_dir d p) v = (if IS_ERR_OR_NULL v then None else Some (RDir v))"
| "acquired (Platform_device_register n rs) v = (if IS_ERR_OR_NULL v then None else Some (RPdev v))"
| "acquired (Mfd_add_devices cs m p) v = (if v = 0 then Some RMfd else None)"
| "acquired (Fmc_carrier_register sl) v = (if v = 0 then Some RFmc else None)"
| "acquired Fpga_mgr_create v = (if v = NULL then None else Some (RMgr v))"
| "acquired (Fpga_mgr_register p) v = (if v = 0 then Some (RMgrReg p) else None)"
| "acquired _ v = None"

fun released :: "kcall \<Rightarrow> kres option" where
  "released (Kfree p) = Some (RMem p)"
| "released (Iounmap p) = Some (RMap p)"
| "released (Device_unregister d) = Some (RDev d)"
| "released (Debugfs_remove_recursive p) = (if IS_ERR_OR_NULL p then None else Some (RDir p))"
| "released (Platform_device_unregister p) = Some (RPdev p)"
| "released Mfd_remove_devices = Some RMfd"
| "released Fmc_carrier_unregister = Some RFmc"
| "released (Fpga_mgr_free p) = Some (RMgr p)"
| "released (Fpga_mgr_unregister p) = Some (RMgrReg p)"
| "released _ = None"

definition balance :: "kcall event list \<Rightarrow> kres \<Rightarrow> int" where
  "balance = account acquired released"

lemma balance_simps [simp]:
  "balance [] r = 0"
  "balance (Call c v # h) r = balance h r + own (acquired c v) r - own (released c) r"
  "balance (Rd a w # h) r = balance h r" "balance (Wr a w # h) r = balance h r"
  "balance (Sleep n # h) r = balance h r" "balance (Jiffies t # h) r = balance h r"
  by (simp_all add: balance_def)

definition own_ptr :: "(ptr \<Rightarrow> kres) \<Rightarrow> ptr \<Rightarrow> kres \<Rightarrow> int" where
  \<comment> \<open>a resource behind a pointer that may be NULL\<close>
  "own_ptr R p = own (if p = NULL then None else Some (R p))"

definition own_dir :: "ptr \<Rightarrow> kres \<Rightarrow> int" where
  \<comment> \<open>a directory behind a pointer that may be NULL or an error\<close>
  "own_dir p = own (if IS_ERR_OR_NULL p then None else Some (RDir p))"

section \<open>The effect of the parts\<close>


definition effect ::
  "(kcall, 'z) svec_dev_scheme \<Rightarrow> (kcall, 'z) svec_dev_scheme \<Rightarrow> (kres \<Rightarrow> int) \<Rightarrow> bool" where
  \<comment> \<open>the trace grew and the account changed by so much; the driver's state is the same\<close>
  "effect s s' D \<longleftrightarrow> s' = s\<lparr>trace := trace s'\<rparr> \<and>
     (\<forall>r. balance (trace s') r = balance (trace s) r + D r)"

lemma effect_trans:
  assumes 1: "effect s s1 D" and 2: "effect s1 s2 D'"
  shows "effect s s2 (\<lambda>r. D r + D' r)"
proof -
  have twice: "(s\<lparr>trace := t\<rparr>)\<lparr>trace := u\<rparr> = s\<lparr>trace := u\<rparr>" for t u by simp
  have "s1 = s\<lparr>trace := trace s1\<rparr>" "s2 = s1\<lparr>trace := trace s2\<rparr>"
    using 1 2 unfolding effect_def by blast+
  then have "s2 = s\<lparr>trace := trace s2\<rparr>" using twice by metis
  moreover have "balance (trace s2) r = balance (trace s) r + (D r + D' r)" for r
    using 1 2 unfolding effect_def by simp
  ultimately show ?thesis unfolding effect_def by blast
qed

lemma effect_cong: "effect s s' D \<Longrightarrow> (\<And>r. D r = D' r) \<Longrightarrow> effect s s' D'"
  by (simp add: effect_def)

lemma effect_call: "effect s (s\<lparr>trace := Call c v # trace s\<rparr>) (\<lambda>r. own (acquired c v) r - own (released c) r)"
  by (auto simp: effect_def)

lemma IS_ERR_OR_NULL_NULL: "IS_ERR_OR_NULL NULL"
  by (simp add: IS_ERR_OR_NULL_def)

lemma dbg_init_effect:
  assumes "run_state (svec_fpga_dbg_init lv E f) s = ((err, f'), s')"
  shows "effect s s' (own_dir (fpga_dbg_dir f')) \<and>
     f' = f\<lparr>fpga_dbg_dir := fpga_dbg_dir f', fpga_dbg_csr := fpga_dbg_csr f',
            fpga_dbg_bld_info := fpga_dbg_bld_info f'\<rparr>"
  using assms
  by (auto simp: svec_fpga_dbg_init_def dbg_err_def effect_def Let_def own_dir_def
      IS_ERR_OR_NULL_NULL split: if_splits)

lemma vic_init_effect:
  assumes "run_state (svec_fpga_vic_init M E vdev f) s = ((err, f'), s')" and "vic_pdev f = NULL"
  shows "effect s s' (own_ptr RPdev (vic_pdev f')) \<and> f' = f\<lparr>vic_pdev := vic_pdev f'\<rparr> \<and>
     (err \<noteq> 0 \<longrightarrow> vic_pdev f' = NULL)"
  using assms
  by (auto simp: svec_fpga_vic_init_def effect_def Let_def own_ptr_def IS_ERR_OR_NULL_def
      PTR_ERR_def IS_ERR_def split: if_splits)

lemma vic_exit_effect:
  assumes "run_state (svec_fpga_vic_exit E f) s = (f', s')"
  shows "effect s s' (\<lambda>r. - own_ptr RPdev (vic_pdev f) r) \<and> f' = f\<lparr>vic_pdev := NULL\<rparr>"
  using assms by (auto simp: svec_fpga_vic_exit_def effect_def own_ptr_def split: if_splits)

lemma devices_init_effect:
  assumes "run_state (svec_fpga_devices_init M E vdev f) s = (Some err, s')"
  shows "effect s s' (own (if err = 0 then Some RMfd else None)) \<and> (err = 0 \<longrightarrow> vic_pdev f \<noteq> NULL)"
  using assms
  by (auto simp: svec_fpga_devices_init_def svec_fpga_irq_find_host_def effect_def Let_def
      split: if_splits)

lemma fmc_init_loop_frame:
  assumes "svec_fmc_init_loop bus is f = (err, f')"
  shows "\<exists>si. f' = f\<lparr>slot_info := si\<rparr>"
  using assms
proof (induction "is" arbitrary: f)
  case Nil
  then show ?case by (auto intro!: exI [of _ "slot_info f"])
next
  case (Cons i "is")
  then show ?case by (fastforce simp: Let_def split: if_splits)
qed

lemma fmc_init_effect:
  assumes "run_state (svec_fmc_init bus E f) s = ((err, f'), s')"
  shows "effect s s' (own (if err = 0 then Some RFmc else None)) \<and> (\<exists>si. f' = f\<lparr>slot_info := si\<rparr>)"
  using assms fmc_init_loop_frame [of bus "[0..<SVEC_FMC_SLOTS]" f]
  by (auto simp: svec_fmc_init_def effect_def split: if_splits prod.splits)

text \<open>Register accesses and look-ups leave the account alone.\<close>

definition neutral :: "((kcall, 'z) svec_dev_scheme, 'a) state \<Rightarrow> bool" where
  "neutral m \<longleftrightarrow> (\<forall>s. effect s (snd (run_state m s)) (\<lambda>_. 0))"

named_theorems neutral_intros \<open>operations that leave the account alone\<close>

lemma neutral_return [neutral_intros]: "neutral (State_Monad.return x)"
  by (simp add: neutral_def effect_def)

lemma neutral_bind [neutral_intros]:
  assumes "neutral m" and "\<And>x. neutral (g x)"
  shows "neutral (State_Monad.bind m g)"
  unfolding neutral_def
proof
  fix s
  obtain a s1 where run: "run_state m s = (a, s1)" by fastforce
  have "effect s s1 (\<lambda>_. 0)" using assms(1) run by (auto simp: neutral_def dest: spec [of _ s])
  moreover have "effect s1 (snd (run_state (g a) s1)) (\<lambda>_. 0)" using assms(2) by (simp add: neutral_def)
  ultimately show "effect s (snd (run_state (State_Monad.bind m g) s)) (\<lambda>_. 0)"
    using effect_trans [of s s1 "\<lambda>_. 0"] run by fastforce
qed

lemma neutral_prims [neutral_intros]:
  "neutral (ioread32be E a)" "neutral (ioread32 E a)" "neutral (iowrite32be w a)"
  "neutral (sleep_us n)" "neutral (gets g)"
  "neutral (call E (Irq_find_host p))" "neutral (call E (Irq_find_mapping p i))"
  by (auto simp: neutral_def effect_def)

lemma neutral_metadata_loop [neutral_intros]: "neutral (metadata_get_loop E b is)"
  by (induction "is") (auto intro!: neutral_intros)

lemma neutral_metadata [neutral_intros]: "neutral (svec_fpga_metadata_get E b)"
  by (auto simp: svec_fpga_metadata_get_def intro!: neutral_intros)

lemma neutral_app_irq_loop [neutral_intros]: "neutral (app_irq_loop E p i rs)"
  by (induction rs arbitrary: i) (auto intro!: neutral_intros)

lemma neutral_app_irq [neutral_intros]: "neutral (svec_fpga_app_init_res_irq E f n rs)"
  by (auto simp: svec_fpga_app_init_res_irq_def intro!: neutral_intros)

lemma neutral_app_id [neutral_intros]: "neutral (svec_fpga_app_id_build E a n)"
  by (auto simp: svec_fpga_app_id_build_def intro!: neutral_intros)

lemma neutral_app_restart [neutral_intros]: "neutral (svec_fpga_app_restart M E)"
  by (auto simp: svec_fpga_app_restart_def svec_fpga_app_reset_def Let_def intro!: neutral_intros)

lemma neutralD: "neutral m \<Longrightarrow> run_state m s = (a, s') \<Longrightarrow> effect s s' (\<lambda>_. 0)"
  unfolding neutral_def by (metis snd_conv)

lemma app_init_effect:
  assumes run: "run_state (svec_fpga_app_init M E vdev f) s = ((err, f'), s')" and f: "app_pdev f = NULL"
  shows "effect s s' (own_ptr RPdev (app_pdev f')) \<and>
     f' = f\<lparr>meta_app := meta_app f', app_pdev := app_pdev f'\<rparr> \<and> (err \<noteq> 0 \<longrightarrow> app_pdev f' = NULL)"
proof -
  obtain off s1 where 1: "run_state (svec_fpga_csr_app_offset M E) s = (off, s1)" by fastforce
  have n1: "effect s s1 (\<lambda>_. 0)"
    by (rule neutralD [OF _ 1]) (simp add: svec_fpga_csr_app_offset_def neutral_intros)
  let ?p = "env_call E (trace s1) (Kcalloc_res SVEC_FPGA_APP_RES_N)"
  let ?s2 = "s1\<lparr>trace := Call (Kcalloc_res SVEC_FPGA_APP_RES_N) ?p # trace s1\<rparr>"
  have e2: "effect s ?s2 (own_ptr RMem ?p)"
    using effect_trans [OF n1 effect_call [of s1 "Kcalloc_res SVEC_FPGA_APP_RES_N" ?p]]
    by (simp add: own_ptr_def)
  have free: "effect a (a\<lparr>trace := Call (Kfree ?p) v # trace a\<rparr>) (\<lambda>r. - own (Some (RMem ?p)) r)"
    for a :: "(kcall, 'a) svec_dev_scheme" and v
    using effect_call [of a "Kfree ?p" v] by simp
  show ?thesis
  proof (cases "?p = NULL \<or> off = 0")
    case True
    then show ?thesis
      using run 1 f effect_trans [OF e2 free] e2
      by (auto simp: svec_fpga_app_init_def svec_fpga_app_init_res_mem_def own_ptr_def own_def
          split: if_splits)
  next
    case False
    obtain meta s3 where 3: "run_state (svec_fpga_metadata_get E off) ?s2 = (meta, s3)" by fastforce
    let ?f = "f\<lparr>meta_app := meta\<rparr>"
    obtain rs s4 where 4: "run_state (svec_fpga_app_init_res_irq E ?f SVEC_FPGA_APP_IRQ_BASE
        (replicate SVEC_FPGA_APP_RES_IRQ_N zero_resource)) s3 = (rs, s4)" by fastforce
    obtain ie name s5 where 5: "run_state (svec_fpga_app_id_build E off SVEC_FPGA_APP_NAME_MAX) s4 =
        ((ie, name), s5)" by (metis surj_pair)
    obtain s6 where 6: "run_state (svec_fpga_app_restart M E) s5 = ((), s6)" by (metis surj_pair unit.exhaust)
    have e5: "effect s s5 (own_ptr RMem ?p)"
      using effect_trans [OF e2 effect_trans [OF neutralD [OF neutral_metadata 3]
          effect_trans [OF neutralD [OF neutral_app_irq 4] neutralD [OF neutral_app_id 5]]]] by simp
    have e6: "effect s s6 (own_ptr RMem ?p)"
      using effect_trans [OF e5 neutralD [OF neutral_app_restart 6]] by simp
    let ?c = "Platform_device_register name
        (snd (svec_fpga_app_init_res_mem vdev f off zero_resource) # rs)"
    let ?s7 = "s6\<lparr>trace := Call ?c (env_call E (trace s6) ?c) # trace s6\<rparr>"
    have e7: "effect s ?s7 (\<lambda>r. own_ptr RMem ?p r + own (acquired ?c (env_call E (trace s6) ?c)) r)"
      using effect_trans [OF e6 effect_call [of s6 ?c "env_call E (trace s6) ?c"]] by simp
    show ?thesis
    proof (cases "ie = 0")
      case ne: False
      have "err = ie \<and> f' = ?f \<and> s' = s5\<lparr>trace := Call (Kfree ?p) (env_call E (trace s5) (Kfree ?p)) # trace s5\<rparr>"
        using run False 1 3 4 5 ne by (simp add: svec_fpga_app_init_def svec_fpga_app_init_res_mem_def Let_def)
      then show ?thesis using effect_trans [OF e5 free] False f by (auto simp: own_ptr_def effect_def)
    next
      case True
      define v where "v = env_call E (trace s6) ?c"
      define w where "w = env_call E (trace ?s7) (Kfree ?p)"
      have "f' = (if IS_ERR v then ?f else ?f\<lparr>app_pdev := v\<rparr>) \<and> err = (if IS_ERR v then v else 0) \<and>
          s' = ?s7\<lparr>trace := Call (Kfree ?p) w # trace ?s7\<rparr>"
        using run False 1 3 4 5 6 True unfolding v_def w_def
        by (cases "IS_ERR (env_call E (trace s6) ?c)")
           (auto simp: svec_fpga_app_init_def svec_fpga_app_init_res_mem_def PTR_ERR_def Let_def)
      then show ?thesis using effect_trans [OF e7 free, of w] False f unfolding v_def [symmetric]
        by (auto simp: own_ptr_def effect_def IS_ERR_OR_NULL_def IS_ERR_def split: if_splits)
    qed
  qed
qed

lemma app_exit_effect:
  assumes "run_state (svec_fpga_app_exit E f) s = (f', s')"
  shows "effect s s' (\<lambda>r. - own_ptr RPdev (app_pdev f) r) \<and> f' = f\<lparr>app_pdev := NULL\<rparr>"
  using assms by (auto simp: svec_fpga_app_exit_def effect_def own_ptr_def split: if_splits)

section \<open>Start-up and shutdown\<close>

text \<open>What a running FPGA device holds.\<close>

definition fpga_holds :: "svec_fpga \<Rightarrow> kres \<Rightarrow> int" where
  "fpga_holds f r =
     own (Some (RMem (fpga_addr f))) r + own (Some (RMap (fpga_va f))) r +
     own (Some (RDev Fpga_Device)) r + own_dir (fpga_dbg_dir f) r +
     own_ptr RPdev (vic_pdev f) r + own (Some RMfd) r + own (Some RFmc) r +
     own_ptr RPdev (app_pdev f) r"

lemma fpga_exit_effect:
  assumes "run_state (svec_fpga_exit E) s = (r, s')" and "svec_fpga s = Some f"
  shows "r = 0 \<and> s' = s\<lparr>trace := trace s', svec_fpga := None\<rparr> \<and>
     (\<forall>x. balance (trace s') x = balance (trace s) x - fpga_holds f x)"
proof -
  obtain f1 s1 where 1: "run_state (svec_fpga_app_exit E f) s = (f1, s1)" by fastforce
  note e1 = app_exit_effect [OF 1]
  let ?s2 = "s1\<lparr>trace := Call Fmc_carrier_unregister (env_call E (trace s1) Fmc_carrier_unregister) # trace s1\<rparr>"
  let ?s3 = "?s2\<lparr>trace := Call Mfd_remove_devices (env_call E (trace ?s2) Mfd_remove_devices) # trace ?s2\<rparr>"
  obtain f4 s4 where 4: "run_state (svec_fpga_vic_exit E f1) ?s3 = (f4, s4)" by fastforce
  note e4 = vic_exit_effect [OF 4]
  have e3: "effect s s4 (\<lambda>x. - own_ptr RPdev (app_pdev f) x - own (Some RFmc) x - own (Some RMfd) x -
      own_ptr RPdev (vic_pdev f) x)"
    by (rule effect_cong [OF effect_trans [OF conjunct1 [OF e1] effect_trans [OF effect_call
          effect_trans [OF effect_call conjunct1 [OF e4]]]]]) (simp add: conjunct2 [OF e1])
  have f4: "fpga_dbg_dir f4 = fpga_dbg_dir f" "fpga_va f4 = fpga_va f" "fpga_addr f4 = fpga_addr f"
    using e1 e4 by simp_all
  obtain t where t: "s4 = s\<lparr>trace := t\<rparr>"
    and bal: "\<And>x. balance t x = balance (trace s) x - own_ptr RPdev (app_pdev f) x - own (Some RFmc) x -
      own (Some RMfd) x - own_ptr RPdev (vic_pdev f) x"
    using e3 by (auto simp: effect_def)
  obtain va vb vc vd where s': "r = 0" "s' = s\<lparr>trace := Call (Kfree (fpga_addr f)) va #
      Call (Iounmap (fpga_va f)) vb # Call (Device_unregister Fpga_Device) vc #
      Call (Debugfs_remove_recursive (fpga_dbg_dir f)) vd # t, svec_fpga := None\<rparr>"
    using assms 1 4 f4 unfolding t
    by (simp add: svec_fpga_exit_def svec_fmc_exit_def svec_fpga_devices_exit_def svec_fpga_dbg_exit_def)
       metis
  then show ?thesis by (simp add: bal fpga_holds_def own_ptr_def own_dir_def)
qed

definition init_parts_rest ::
  "fpga_par \<Rightarrow> kcall env \<Rightarrow> int \<Rightarrow> svec_fpga \<Rightarrow> ((kcall, 'z) svec_dev_scheme, int option) state" where
  \<comment> \<open>what follows \<open>svec_fmc_init\<close>\<close>
  "init_parts_rest P E err f =
     (if err \<noteq> 0 then do {
        svec_fpga_devices_exit E;
        f \<leftarrow> svec_fpga_vic_exit E f;
        State_Monad.return (Some err) }
      else do {
        (err, f) \<leftarrow> svec_fpga_app_init (par_regmap P) E (par_vdev P) f;
        if err \<noteq> 0 then do {
          _ \<leftarrow> svec_fmc_exit E;
          svec_fpga_devices_exit E;
          f \<leftarrow> svec_fpga_vic_exit E f;
          State_Monad.return (Some err) }
        else do {
          modify (\<lambda>s. s\<lparr>svec_fpga := Some f\<rparr>);
          State_Monad.return (Some 0) } })"

lemma undo_devices_vic:
  assumes "run_state (svec_fpga_devices_exit E \<bind> (\<lambda>_. svec_fpga_vic_exit E f)) s = (f', s')"
  shows "effect s s' (\<lambda>x. - own (Some RMfd) x - own_ptr RPdev (vic_pdev f) x)"
proof -
  let ?s = "s\<lparr>trace := Call Mfd_remove_devices (env_call E (trace s) Mfd_remove_devices) # trace s\<rparr>"
  have x: "run_state (svec_fpga_vic_exit E f) ?s = (f', s')"
    using assms by (simp add: svec_fpga_devices_exit_def)
  show ?thesis
    by (rule effect_cong [OF effect_trans [OF effect_call conjunct1 [OF vic_exit_effect [OF x]]]]) simp
qed

lemma init_parts_rest_effect:
  assumes run: "run_state (init_parts_rest P E e4 f) s4 = (Some err, s')"
    and b: "effect s s4 (\<lambda>x. own_dir (fpga_dbg_dir f) x + own_ptr RPdev (vic_pdev f) x +
          own (Some RMfd) x + own (if e4 = 0 then Some RFmc else None) x)"
    and f: "app_pdev f = NULL"
  shows "err = 0 \<and> (\<exists>f' t. s' = s\<lparr>trace := t, svec_fpga := Some f'\<rparr> \<and>
           fpga_addr f' = fpga_addr f \<and> fpga_va f' = fpga_va f \<and>
           (\<forall>x. balance t x = balance (trace s) x + fpga_holds f' x - own (Some (RMem (fpga_addr f))) x -
              own (Some (RMap (fpga_va f))) x - own (Some (RDev Fpga_Device)) x)) \<or>
         err \<noteq> 0 \<and> (\<exists>d. effect s s' (own_dir d))"
proof (cases "e4 = 0")
  case False
  obtain fx sx where x: "run_state (svec_fpga_devices_exit E \<bind> (\<lambda>_. svec_fpga_vic_exit E f)) s4 = (fx, sx)"
    by fastforce
  then have "err = e4 \<and> s' = sx"
    using run False by (auto simp: init_parts_rest_def split: prod.splits)
  moreover have "effect s sx (own_dir (fpga_dbg_dir f))"
    by (rule effect_cong [OF effect_trans [OF b undo_devices_vic [OF x]]]) (simp add: False)
  ultimately show ?thesis using False by blast
next
  case True
  obtain e5 f5 s5 where 5: "run_state (svec_fpga_app_init (par_regmap P) E (par_vdev P) f) s4 = ((e5, f5), s5)"
    by (metis surj_pair)
  note e5 = app_init_effect [OF 5 f]
  obtain m a where f5: "f5 = f\<lparr>meta_app := m, app_pdev := a\<rparr>" using e5 by blast
  have b5: "effect s s5 (\<lambda>x. own_dir (fpga_dbg_dir f) x + own_ptr RPdev (vic_pdev f) x +
      own (Some RMfd) x + own (Some RFmc) x + own_ptr RPdev a x)"
    by (rule effect_cong [OF effect_trans [OF b conjunct1 [OF e5]]]) (simp add: True f5)
  show ?thesis
  proof (cases "e5 = 0")
    case e5_0: True
    have "err = 0 \<and> s' = s5\<lparr>svec_fpga := Some f5\<rparr>"
      using run True 5 e5_0 by (simp add: init_parts_rest_def)
    moreover obtain t where "s5 = s\<lparr>trace := t\<rparr>" using b5 by (auto simp: effect_def)
    ultimately show ?thesis using b5 f5
      by (auto simp: effect_def fpga_holds_def intro!: exI [of _ f5] exI [of _ t])
  next
    case False
    let ?s = "s5\<lparr>trace := Call Fmc_carrier_unregister (env_call E (trace s5) Fmc_carrier_unregister) # trace s5\<rparr>"
    obtain fx sx where x: "run_state (svec_fpga_devices_exit E \<bind> (\<lambda>_. svec_fpga_vic_exit E f5)) ?s = (fx, sx)"
      by fastforce
    then have r: "err = e5 \<and> s' = sx"
      using run True 5 False by (auto simp: init_parts_rest_def svec_fmc_exit_def split: prod.splits)
    have "a = NULL" using e5 False f5 by simp
    then have "effect s sx (own_dir (fpga_dbg_dir f))"
      by (intro effect_cong [OF effect_trans [OF b5 effect_trans [OF effect_call undo_devices_vic [OF x]]]])
         (simp add: f5 own_ptr_def)
    then show ?thesis using r False by blast
  qed
qed

lemma init_parts_effect:
  assumes run: "run_state (svec_fpga_init_parts P E f) s = (Some err, s')"
    and f: "vic_pdev f = NULL" "app_pdev f = NULL"
  shows "err = 0 \<and> (\<exists>f' t. s' = s\<lparr>trace := t, svec_fpga := Some f'\<rparr> \<and>
           fpga_addr f' = fpga_addr f \<and> fpga_va f' = fpga_va f \<and>
           (\<forall>x. balance t x = balance (trace s) x + fpga_holds f' x - own (Some (RMem (fpga_addr f))) x -
              own (Some (RMap (fpga_va f))) x - own (Some (RDev Fpga_Device)) x)) \<or>
         err \<noteq> 0 \<and> (\<exists>d. effect s s' (own_dir d))"
proof -
  obtain e1 f1 s1 where 1: "run_state (svec_fpga_dbg_init (par_linux_5_6 P) E f) s = ((e1, f1), s1)"
    by (metis surj_pair)
  note e1 = dbg_init_effect [OF 1]
  have f1: "vic_pdev f1 = NULL" "app_pdev f1 = NULL" "fpga_addr f1 = fpga_addr f" "fpga_va f1 = fpga_va f"
    using arg_cong [OF conjunct2 [OF e1], of vic_pdev] arg_cong [OF conjunct2 [OF e1], of app_pdev]
      arg_cong [OF conjunct2 [OF e1], of fpga_addr] arg_cong [OF conjunct2 [OF e1], of fpga_va] f by simp_all
  obtain e2 f2 s2 where 2: "run_state (svec_fpga_vic_init (par_regmap P) E (par_vdev P) f1) s1 = ((e2, f2), s2)"
    by (metis surj_pair)
  note e2 = vic_init_effect [OF 2 f1(1)]
  obtain v where f2: "f2 = f1\<lparr>vic_pdev := v\<rparr>" using e2 by blast
  have b2: "effect s s2 (\<lambda>x. own_dir (fpga_dbg_dir f1) x + own_ptr RPdev v x)"
    using effect_trans [OF conjunct1 [OF e1] conjunct1 [OF e2]] by (simp add: f2)
  show ?thesis
  proof (cases "e2 = 0")
    case False
    then have "err = e2 \<and> s' = s2" using run 1 2 by (simp add: svec_fpga_init_parts_def)
    then show ?thesis using False b2 e2 f2 by (auto simp: own_ptr_def intro!: exI [of _ "fpga_dbg_dir f1"])
  next
    case e2_0: True
    obtain od s3 where 3: "run_state (svec_fpga_devices_init (par_regmap P) E (par_vdev P) f2) s2 = (od, s3)"
      by fastforce
    obtain e3 where od: "od = Some e3"
      using run 1 2 3 e2_0 by (cases od) (auto simp: svec_fpga_init_parts_def)
    note e3 = devices_init_effect [OF 3 [unfolded od]]
    have b3: "effect s s3 (\<lambda>x. own_dir (fpga_dbg_dir f1) x + own_ptr RPdev v x +
        own (if e3 = 0 then Some RMfd else None) x)"
      by (rule effect_cong [OF effect_trans [OF b2 conjunct1 [OF e3]]]) simp
    obtain fx sx where x: "run_state (svec_fpga_vic_exit E f2) s3 = (fx, sx)" by fastforce
    show ?thesis
    proof (cases "e3 = 0")
      case False
      then have "err = e3 \<and> s' = sx" using run 1 2 3 e2_0 od x by (simp add: svec_fpga_init_parts_def)
      moreover have "effect s sx (own_dir (fpga_dbg_dir f1))"
        by (rule effect_cong [OF effect_trans [OF b3 conjunct1 [OF vic_exit_effect [OF x]]]])
           (simp add: False f2)
      ultimately show ?thesis using False by blast
    next
      case e3_0: True
      obtain e4 f4 s4 where 4: "run_state (svec_fmc_init (par_i2c P (trace s3)) E f2) s3 = ((e4, f4), s4)"
        by (metis surj_pair)
      note e4 = fmc_init_effect [OF 4]
      then obtain si where f4: "f4 = f2\<lparr>slot_info := si\<rparr>" by blast
      have b4: "effect s s4 (\<lambda>x. own_dir (fpga_dbg_dir f1) x + own_ptr RPdev v x +
          own (Some RMfd) x + own (if e4 = 0 then Some RFmc else None) x)"
        by (rule effect_cong [OF effect_trans [OF b3 conjunct1 [OF e4]]]) (simp add: e3_0)
      have rest: "run_state (init_parts_rest P E e4 f4) s4 = (Some err, s')"
        using run 1 2 3 4 e2_0 e3_0 od by (simp add: svec_fpga_init_parts_def init_parts_rest_def)
      show ?thesis
        using init_parts_rest_effect [OF rest, of s] b4 f1 f2 f4 by simp
    qed
  qed
qed

lemma init_effect:
  assumes run: "run_state (svec_fpga_init P E fn) s = (Some err, s')"
  shows "err = 0 \<and> (\<exists>f. svec_fpga s' = Some f \<and>
           (\<forall>x. balance (trace s') x = balance (trace s) x + fpga_holds f x)) \<or>
         err \<noteq> 0 \<and> (\<forall>x. balance (trace s') x = balance (trace s) x) \<and>
           (svec_fpga s' = None \<or> svec_fpga s' = svec_fpga s) \<or>
         err \<noteq> 0 \<and> svec_fpga s' = svec_fpga s \<and> (\<exists>p va d. \<forall>x. balance (trace s') x =
           balance (trace s) x + own (Some (RMem p)) x + own (Some (RMap va)) x +
           own (Some (RDev Fpga_Device)) x + own_dir d x)"
proof -
  have swap: "s\<lparr>dev_meta := m, trace := t\<rparr> = s\<lparr>trace := t, dev_meta := m\<rparr>" for m t by simp
  define r where "r = vdev_resource (par_vdev P) fn"
  define p where "p = env_call E (trace s) Kzalloc_svec_fpga"
  let ?s1 = "s\<lparr>trace := Call Kzalloc_svec_fpga p # trace s\<rparr>"
  define c where "c = Ioremap (res_start r) (resource_size r)"
  define va where "va = env_call E (Call Kzalloc_svec_fpga p # trace s) c"
  let ?s2 = "?s1\<lparr>trace := Call c va # trace ?s1\<rparr>"
  let ?f = "(zero_svec_fpga p)\<lparr>function_nr := fn, fpga_va := va\<rparr>"
  consider (flags) "res_flags r \<noteq> IORESOURCE_MEM" | (nomem) "res_flags r = IORESOURCE_MEM" "p = NULL"
    | (nomap) "res_flags r = IORESOURCE_MEM" "p \<noteq> NULL" "va = NULL"
    | (mapped) "res_flags r = IORESOURCE_MEM" "p \<noteq> NULL" "va \<noteq> NULL" by blast
  then show ?thesis
  proof cases
    case flags
    then have "err = - EINVAL \<and> s' = s"
      using run by (auto simp: svec_fpga_init_def Let_def r_def [symmetric])
    then show ?thesis by simp
  next
    case nomem
    then have "err = - ENOMEM \<and> s' = ?s1"
      using run by (auto simp: svec_fpga_init_def Let_def r_def [symmetric] p_def [symmetric])
    then show ?thesis using nomem by simp
  next
    case nomap
    then have "err = - ENOMEM \<and> s' = ?s2\<lparr>trace := Call (Kfree p) (env_call E (trace ?s2) (Kfree p)) # trace ?s2,
        svec_fpga := None\<rparr>"
      using run by (auto simp: svec_fpga_init_def Let_def r_def [symmetric] p_def [symmetric]
          c_def [symmetric] va_def [symmetric] init_free_def zero_svec_fpga_def)
    then show ?thesis using nomap by (simp add: c_def)
  next
    case mapped
    obtain meta s3 where 3: "run_state (svec_fpga_metadata_get E
        (SVEC_BASE_REGS_METADATA (par_regmap P))) ?s2 = (meta, s3)" by fastforce
    have e3: "effect ?s2 s3 (\<lambda>_. 0)" by (rule neutralD [OF neutral_metadata 3])
    obtain t where s3: "s3 = s\<lparr>trace := t\<rparr>" and
      b3: "\<And>x. balance t x = balance (trace s) x + own (Some (RMem p)) x + own (Some (RMap va)) x"
      using e3 mapped by (auto simp: effect_def c_def)
    let ?s4 = "s3\<lparr>dev_meta := meta\<rparr>"
    define c5 where "c5 = Dev_set_name Fpga_Device"
    define v5 where "v5 = env_call E t c5"
    define c6 where "c6 = Device_register Fpga_Device"
    define v6 where "v6 = env_call E (Call c5 0 # t) c6"
    let ?s6 = "?s4\<lparr>trace := Call c6 v6 # Call c5 v5 # t\<rparr>"
    show ?thesis
    proof (cases "svec_fpga_is_valid (par_version_ignore P) (par_version_drv P) meta \<and> v5 = 0 \<and> v6 = 0")
      case False
      define e where "e = (if \<not> svec_fpga_is_valid (par_version_ignore P) (par_version_drv P) meta
        then - EINVAL else if v5 \<noteq> 0 then v5 else v6)"
      have "e \<noteq> 0" using False by (simp add: e_def)
      moreover obtain t' where "run_state (init_unmap E ?f e) (s\<lparr>trace := t', dev_meta := meta\<rparr>) = (Some err, s')"
        and "\<And>x. balance t' x = balance t x"
      proof (cases "svec_fpga_is_valid (par_version_ignore P) (par_version_drv P) meta")
        case bad: False
        show thesis
          by (rule that [of t])
             (use run mapped 3 bad in \<open>simp_all add: svec_fpga_init_def Let_def r_def [symmetric]
                p_def [symmetric] c_def [symmetric] va_def [symmetric] s3 e_def swap\<close>)
      next
        case good: True
        show thesis
        proof (cases "v5 = 0")
          case bad: False
          show thesis
            by (rule that [of "Call c5 v5 # t"])
               (use run mapped 3 good bad in \<open>simp_all add: svec_fpga_init_def Let_def r_def [symmetric]
                  p_def [symmetric] c_def [symmetric] va_def [symmetric] s3 c5_def [symmetric]
                  v5_def [symmetric] e_def swap\<close>, simp_all add: c5_def)
        next
          case True
          show thesis
            by (rule that [of "Call c6 v6 # Call c5 v5 # t"])
               (use run mapped 3 good True False in \<open>simp_all add: svec_fpga_init_def Let_def r_def [symmetric]
                  p_def [symmetric] c_def [symmetric] va_def [symmetric] s3 c5_def [symmetric]
                  v5_def [symmetric] c6_def [symmetric] v6_def [symmetric] e_def swap\<close>,
                simp_all add: c5_def c6_def)
        qed
      qed
      ultimately show ?thesis
        by (auto simp: init_unmap_def init_free_def zero_svec_fpga_def b3)
    next
      case True
      then have rest: "run_state (svec_fpga_init_parts P E ?f) ?s6 = (Some err, s')"
        using run mapped 3 by (simp add: svec_fpga_init_def Let_def r_def [symmetric] p_def [symmetric]
            c_def [symmetric] va_def [symmetric] s3 c5_def [symmetric] v5_def [symmetric]
            c6_def [symmetric] v6_def [symmetric])
      have b6: "balance (trace ?s6) x = balance (trace s) x + own (Some (RMem p)) x +
          own (Some (RMap va)) x + own (Some (RDev Fpga_Device)) x" for x
        using True by (simp add: b3 c5_def c6_def)
      have f: "vic_pdev ?f = NULL" "app_pdev ?f = NULL" "fpga_addr ?f = p" "fpga_va ?f = va"
        by (simp_all add: zero_svec_fpga_def)
      show ?thesis
        using init_parts_effect [OF rest f(1,2)] unfolding f
      proof (elim disjE conjE exE)
        fix f' t' assume "err = 0" "s' = ?s6\<lparr>trace := t', svec_fpga := Some f'\<rparr>"
          "\<forall>x. balance t' x = balance (trace ?s6) x + fpga_holds f' x - own (Some (RMem p)) x -
              own (Some (RMap va)) x - own (Some (RDev Fpga_Device)) x"
        then show ?thesis unfolding b6 by (intro disjI1 conjI exI [of _ f']) simp_all
      next
        fix d assume "err \<noteq> 0" and e: "effect ?s6 s' (own_dir d)"
        then have "svec_fpga s' = svec_fpga s"
          using arg_cong [OF conjunct1 [OF e [unfolded effect_def]], of svec_fpga] by (simp add: s3)
        moreover have "balance (trace s') x = balance (trace s) x + own (Some (RMem p)) x +
            own (Some (RMap va)) x + own (Some (RDev Fpga_Device)) x + own_dir d x" for x
          using e unfolding effect_def b6 by simp
        ultimately show ?thesis using \<open>err \<noteq> 0\<close> by (intro disjI2 conjI exI [of _ p] exI [of _ va] exI [of _ d]) simp_all
      qed
    qed
  qed
qed

section \<open>A kernel where everything works\<close>

fun good_kern :: "kcall event list \<Rightarrow> kcall \<Rightarrow> int" where
  "good_kern h Kzalloc_svec_dev = 0x1000"
| "good_kern h Kzalloc_svec_fpga = 0x2000"
| "good_kern h (Ioremap a n) = 0x3000"
| "good_kern h (Debugfs_create_dir d p) = 0x4000"
| "good_kern h (Debugfs_create_regset32 p) = 0x4100"
| "good_kern h (Debugfs_create_file n p) = 0x4200"
| "good_kern h (Platform_device_register n rs) = 0x5000"
| "good_kern h (Irq_find_host p) = 0x6000"
| "good_kern h (Kcalloc_res n) = 0x7000"
| "good_kern h Devm_kzalloc_mfd = 0x8000"
| "good_kern h Fpga_mgr_create = 0x9000"
| "good_kern h Fpga_mgr_get = 0x9000"
| "good_kern h Device_remove_file_self = 1"
| "good_kern h _ = 0"

definition demo_vdev :: vme_dev where
  "demo_vdev = \<lparr>vdev_irq = 7, vdev_irq_vector = 0x86, vdev_irq_level = 2,
     vdev_resource = (\<lambda>_. \<lparr>res_name = ''fn'', res_flags = IORESOURCE_MEM, res_start = 0x80000, res_end = 0xfffff\<rparr>),
     vme_resource_start = (\<lambda>_. 0x80000), vme_resource_end = (\<lambda>_. 0xfffff)\<rparr>"

definition demo_par :: fpga_par where
  "demo_par = \<lparr>par_regmap = svec_base_regs, par_version_ignore = False, par_version_drv = 0x03000000,
     par_linux_5_6 = True, par_vdev = demo_vdev,
     par_i2c = (\<lambda>_. [\<lparr>is_i2c_adapter = True, mux_fpga = Some 0x2000, i2c_adapter_id = 3\<rparr>,
                    \<lparr>is_i2c_adapter = True, mux_fpga = Some 0x2000, i2c_adapter_id = 4\<rparr>])\<rparr>"

definition demo_env :: "kcall env" where
  "demo_env = gw_env (demo_gw\<lparr>g_APP_OFFSET := 0\<rparr>) good_kern"

lemma demo_init:
  "fst (run_state (svec_fpga_init demo_par demo_env 1) s) = Some 0"
proof -
  have gw: "length (sourceid (demo_gw\<lparr>g_APP_OFFSET := 0\<rparr>)) = 4" by (simp add: demo_gw_def)
  have call: "env_call demo_env = good_kern" by (simp add: demo_env_def)
  have off: "env_read demo_env h (BAR (SVEC_FPGA_CSR_APP_OFF svec_base_regs)) = 0" for h
    by (simp add: demo_env_def gw_read_def SVEC_FPGA_CSR_APP_OFF_def svec_base_regs_def demo_gw_def)
  let ?r = "vdev_resource demo_vdev 1"
  define s2 where "s2 = s\<lparr>trace := Call (Ioremap (res_start ?r) (resource_size ?r)) 0x3000 #
      Call Kzalloc_svec_fpga 0x2000 # trace s\<rparr>"
  obtain meta s3 where 3: "run_state (svec_fpga_metadata_get demo_env
      (SVEC_BASE_REGS_METADATA svec_base_regs)) s2 = (meta, s3)" by fastforce
  have acc: "svec_fpga_is_valid False 0x03000000 meta \<and> meta_cap meta = base_capability (demo_gw\<lparr>g_APP_OFFSET := 0\<rparr>)"
    using gateware_accepted [OF gw 3 [unfolded demo_env_def], where version_ignore = False
        and SVEC_VERSION_DRV = "0x03000000"]
    by (simp add: SVEC_VERSION_MAJ_def SVEC_VERSION_MIN_def)
  have cap: "tst (meta_cap meta) SVEC_META_CAP_VIC"
    using acc by (simp add: SVEC_META_CAP_VIC_def base_capability_def demo_gw_def bit_or_iff bit_BIT)
  have flags: "res_flags ?r = IORESOURCE_MEM" by (simp add: demo_vdev_def)
  show ?thesis
    using 3 acc cap flags unfolding s2_def
    by (simp add: svec_fpga_init_def demo_par_def call off Let_def init_unmap_def
        svec_fpga_init_parts_def svec_fpga_dbg_init_def svec_fpga_vic_init_def svec_fpga_devices_init_def
        svec_fpga_irq_find_host_def svec_fmc_init_def SVEC_FMC_SLOTS_def svec_i2c_get_bus_def
        svec_i2c_find_adapter_def svec_fpga_app_init_def svec_fpga_csr_app_offset_def
        svec_fpga_app_init_res_mem_def zero_svec_fpga_def IS_ERR_def IS_ERR_OR_NULL_def upt_rec)
qed

definition idle_dev :: "kcall svec_dev" where
  "idle_dev =
     \<lparr>trace = [], dev_addr = 0x1000, dev_meta = meta_of_words (replicate svec_meta_id_words 0), mgr = 0,
      bitstream_last_word = 0, bitstream_last_word_size = 0, fpga_status = 0, dev_dbg_dir = 0,
      dev_dbg_meta = 0, svec_fpga = None\<rparr>"

section \<open>Properties\<close>

text \<open>
  C4.  Starting the FPGA device and stopping it later gives everything back: whatever the kernel
  and the device did meanwhile, the shutdown releases exactly the memory, the mapping, the devices,
  the carrier and the directory that the start-up acquired, each once, always answers 0 and leaves
  no FPGA device behind.
\<close>
theorem svec_fpga_init_exit_balanced:
  assumes "run_state (svec_fpga_init P E fn) s = (Some 0, s1)"
    and "svec_fpga s2 = svec_fpga s1"
    and "run_state (svec_fpga_exit E) s2 = (r, s3)"
  shows "r = 0 \<and> svec_fpga s3 = None \<and>
     (\<forall>x. balance (trace s3) x - balance (trace s2) x = balance (trace s) x - balance (trace s1) x)"
proof -
  obtain f where f: "svec_fpga s1 = Some f"
      "\<forall>x. balance (trace s1) x = balance (trace s) x + fpga_holds f x"
    using init_effect [OF assms(1)] by auto
  then have "svec_fpga s2 = Some f" using assms(2) by simp
  note e = fpga_exit_effect [OF assms(3) this]
  then have "svec_fpga s3 = None" by (metis svec_dev.select_convs(9) svec_dev.surjective svec_dev.update_convs(9))
  then show ?thesis using e f(2) by simp
qed

theorem svec_fpga_init_exit_balanced_witness:
  "\<exists>s1 s3. run_state (svec_fpga_init demo_par demo_env 1) idle_dev = (Some 0, s1) \<and>
     run_state (svec_fpga_exit demo_env) s1 = (0, s3) \<and> (\<forall>x. balance (trace s3) x = 0)"
proof -
  obtain s1 where 1: "run_state (svec_fpga_init demo_par demo_env 1) idle_dev = (Some 0, s1)"
    using demo_init by (metis prod.collapse)
  obtain r s3 where 3: "run_state (svec_fpga_exit demo_env) s1 = (r, s3)" by fastforce
  show ?thesis
    using svec_fpga_init_exit_balanced [OF 1 refl 3] 1 3 by (simp add: idle_dev_def)
qed



end
