(* ===== verification/Fpga_Parts.thy ===== *)
theory Fpga_Parts
  imports Fpga_Lifecycle
begin

text \<open>
  Functional properties of the parts of the FPGA device: which I2C bus a slot gets, what the FMC
  carrier is registered with, the resources of the application, and what happens on a gateware
  without the interrupt controller.
\<close>

section \<open>The I2C bus of a slot\<close>

definition own_adapters :: "ptr \<Rightarrow> i2c_dev list \<Rightarrow> int list" where
  \<comment> \<open>the numbers of the multiplexed adapters behind an FPGA device, in the order of the bus\<close>
  "own_adapters fpga bus =
     map i2c_adapter_id (filter (\<lambda>d. is_i2c_adapter d \<and> mux_fpga d = Some fpga) bus)"

lemma get_bus_eq:
  "svec_i2c_get_bus bus fpga n =
     (case dropWhile (\<lambda>i. i = 0) (drop n (own_adapters fpga bus)) of [] \<Rightarrow> 0 | i # is \<Rightarrow> i)"
  unfolding svec_i2c_get_bus_def
proof (induction bus arbitrary: n)
  case Nil
  then show ?case by (simp add: own_adapters_def)
next
  case (Cons d bus)
  show ?case
  proof (cases "is_i2c_adapter d \<and> mux_fpga d = Some fpga")
    case False
    then show ?thesis
      using Cons by (auto simp: svec_i2c_find_adapter_def own_adapters_def split: option.splits)
  next
    case True
    then show ?thesis
      using Cons by (cases n) (auto simp: svec_i2c_find_adapter_def own_adapters_def)
  qed
qed

text \<open>
  C15.  The bus of a slot is the number of the adapter at the slot's place among the multiplexed
  adapters behind this FPGA device, or 0 if there is none; but an adapter whose number is 0 counts
  as not found, so the slot then gets the bus of the next one.
\<close>
theorem svec_i2c_get_bus_nth:
  "svec_i2c_get_bus bus fpga n =
     (case dropWhile (\<lambda>i. i = 0) (drop n (own_adapters fpga bus)) of [] \<Rightarrow> 0 | i # is \<Rightarrow> i)"
  by (rule get_bus_eq)

section \<open>The FMC carrier\<close>

lemma fmc_loop_2:
  assumes "length (slot_info f) = 2"
  shows "svec_fmc_init_loop bus [0..<SVEC_FMC_SLOTS] f =
     (let b0 = svec_i2c_get_bus bus (fpga_addr f) 0; b1 = svec_i2c_get_bus bus (fpga_addr f) 1;
          i0 = slot_info f ! 0; i1 = slot_info f ! 1
      in if b0 \<le> 0 then (- ENODEV, f\<lparr>slot_info := [i0\<lparr>i2c_bus_nr := b0\<rparr>, i1]\<rparr>)
         else if b1 \<le> 0 then
           (- ENODEV, f\<lparr>slot_info := [\<lparr>i2c_bus_nr = b0, slot_ga = 0, slot_lun = 1\<rparr>, i1\<lparr>i2c_bus_nr := b1\<rparr>]\<rparr>)
         else (0, f\<lparr>slot_info := [\<lparr>i2c_bus_nr = b0, slot_ga = 0, slot_lun = 1\<rparr>,
                                   \<lparr>i2c_bus_nr = b1, slot_ga = 1, slot_lun = 2\<rparr>]\<rparr>))"
proof -
  obtain a b where ab: "slot_info f = [a, b]"
    using assms by (metis One_nat_def Suc_1 length_0_conv length_Suc_conv)
  have upt: "[0..<SVEC_FMC_SLOTS] = [0, 1]" by (simp add: SVEC_FMC_SLOTS_def upt_rec)
  have full: "fmc_slot_info.i2c_bus_nr_update (\<lambda>_. x) (c\<lparr>slot_ga := y, slot_lun := z\<rparr>) =
      \<lparr>i2c_bus_nr = x, slot_ga = y, slot_lun = z\<rparr>" for x y z and c :: fmc_slot_info
    by (cases c) simp
  show ?thesis
    unfolding upt by (cases a; cases b) (simp add: Let_def ab)
qed



section \<open>A gateware without the interrupt controller\<close>



end
