(* ===== verification/Core_Probe.thy ===== *)
theory Core_Probe
  imports Fpga_Lifecycle
begin

text \<open>
  The driver's life with a card (\<open>kernel/svec-core.c\<close>, \<open>kernel/svec-compat.c\<close>): configuring
  the VME interface, loading a gateware through the FPGA manager, the attribute that starts it,
  the debugfs files, probing and removing.  The structure of the card is the state; the calls
  \<open>Dev_set_drvdata\<close> say when the bus device points to it.
\<close>

section \<open>The VME interface\<close>

definition SVEC_USER_CSR_INT_LEVEL :: u32 where "SVEC_USER_CSR_INT_LEVEL = 0x7FF5B"
definition SVEC_USER_CSR_INT_VECTOR :: u32 where "SVEC_USER_CSR_INT_VECTOR = 0x7FF5F"

definition svec_csr_write :: "u8 \<Rightarrow> u32 \<Rightarrow> (('c, 'z) machine_scheme, unit) state" where
  "svec_csr_write val offset =
     (let offset = offset - offset mod 4 in iowrite32be (ucast val) (CR offset))"

definition svec_vme_init :: "kcall env \<Rightarrow> vme_dev \<Rightarrow> ((kcall, 'z) svec_dev_scheme, int) state" where
  "svec_vme_init E vdev = do {
     err \<leftarrow> call E Vme_disable_device;
     if err \<noteq> 0 then State_Monad.return err
     else do {
       svec_csr_write (ucast (vdev_irq_vector vdev)) SVEC_USER_CSR_INT_VECTOR;
       svec_csr_write (ucast (vdev_irq_level vdev)) SVEC_USER_CSR_INT_LEVEL;
       call E Vme_enable_device } }"

definition svec_vme_exit :: "kcall env \<Rightarrow> ((kcall, 'z) svec_dev_scheme, int) state" where
  "svec_vme_exit E = do {
     err \<leftarrow> call E Vme_disable_device;
     if err \<noteq> 0 then State_Monad.return err
     else do {
       svec_csr_write 0x0 SVEC_USER_CSR_INT_VECTOR;
       call E Vme_enable_device } }"

section \<open>Loading a gateware\<close>

text \<open>
  The kernels \<open>svec-compat.c\<close> tells apart; one with the backport of the FPGA manager
  (\<open>CONFIG_FPGA_MGR_BACKPORT\<close>) counts as a current one.
\<close>

datatype linux = Before_4_10 | Before_4_16 | Since_4_16

definition fpga_mgr_get_old :: "kcall env \<Rightarrow> ptr \<Rightarrow> ((kcall, 'z) svec_dev_scheme, ptr) state" where
  \<comment> \<open>\<open>__fpga_mgr_get\<close>, for kernels before 4.10\<close>
  "fpga_mgr_get_old E dev = do {
     m \<leftarrow> call E (To_fpga_manager dev);
     if m = NULL then do { call_void E (Put_device dev); State_Monad.return (- ENODEV) }
     else do {
       locked \<leftarrow> call E (Mutex_trylock m);
       if locked = 0 then do { call_void E (Put_device dev); State_Monad.return (- EBUSY) }
       else do {
         got \<leftarrow> call E Try_module_get;
         if got = 0 then do {
           call_void E (Mutex_unlock_mgr m);
           call_void E (Put_device dev);
           State_Monad.return (- ENODEV) }
         else State_Monad.return m } } }"

definition fpga_mgr_get :: "linux \<Rightarrow> kcall env \<Rightarrow> ((kcall, 'z) svec_dev_scheme, ptr) state" where
  \<comment> \<open>before 4.10 the driver brings its own\<close>
  "fpga_mgr_get linux E =
     (if linux = Before_4_10 then do {
        dev \<leftarrow> call E Class_find_device;
        if dev = NULL then State_Monad.return (- ENODEV) else fpga_mgr_get_old E dev }
      else call E Fpga_mgr_get)"

definition compat_fw_load :: "linux \<Rightarrow> kcall env \<Rightarrow> ptr \<Rightarrow> string \<Rightarrow> ((kcall, 'z) svec_dev_scheme, int) state" where
  \<comment> \<open>\<open>__compat_svec_fw_load\<close>: apart from the name and the device the image information
    is zero; before 4.16 it is all zero (\<open>True\<close>), before 4.10 there are flags instead, also zero\<close>
  "compat_fw_load linux E m name = call E
     (case linux of
        Before_4_10 \<Rightarrow> Fpga_mgr_firmware_load m False name
      | Before_4_16 \<Rightarrow> Fpga_mgr_firmware_load m True name
      | Since_4_16 \<Rightarrow> Fpga_mgr_load m name)"

definition compat_svec_fw_load ::
  "linux \<Rightarrow> kcall env \<Rightarrow> string \<Rightarrow> ((kcall, 'z) svec_dev_scheme, int) state" where
  "compat_svec_fw_load linux E name = do {
     m \<leftarrow> fpga_mgr_get linux E;
     if IS_ERR_OR_NULL m then State_Monad.return (if IS_ERR m then PTR_ERR m else - ENODEV)
     else do {
       err \<leftarrow> call E (Fpga_mgr_lock m);
       if err \<noteq> 0 then do { call_void E (Fpga_mgr_put m); State_Monad.return err }
       else do {
         err \<leftarrow> compat_fw_load linux E m name;
         call_void E (Fpga_mgr_unlock m);
         call_void E (Fpga_mgr_put m);
         State_Monad.return err } } }"

definition svec_fw_load :: "linux \<Rightarrow> kcall env \<Rightarrow> string \<Rightarrow> ((kcall, 'z) svec_dev_scheme, int) state" where
  "svec_fw_load linux E name = do {
     err \<leftarrow> svec_fpga_exit E;
     if err \<noteq> 0 then State_Monad.return err
     else do {
       call_void E Mutex_lock;
       err \<leftarrow> compat_svec_fw_load linux E name;
       call_void E Mutex_unlock;
       State_Monad.return err } }"

definition firmware_name_store ::
  "linux \<Rightarrow> kcall env \<Rightarrow> string \<Rightarrow> nat \<Rightarrow> ((kcall, 'z) svec_dev_scheme, int) state" where
  "firmware_name_store linux E buf count = do {
     err \<leftarrow> svec_fw_load linux E buf;
     self \<leftarrow> call E Device_remove_file_self;
     (if self \<noteq> 0 then call_void E Vme_unregister_device else State_Monad.return ());
     State_Monad.return (if err \<noteq> 0 then err else int count) }"

section \<open>debugfs\<close>

definition SVEC_DBG_META_NAME :: string where "SVEC_DBG_META_NAME = ''fpga_device_metadata''"

definition svec_dbg_init :: "kcall env \<Rightarrow> ((kcall, 'z) svec_dev_scheme, int) state" where
  "svec_dbg_init E = do {
     dir \<leftarrow> call E (Debugfs_create_dir Svec_Device NULL);
     modify (\<lambda>s. s\<lparr>dev_dbg_dir := dir\<rparr>);
     if IS_ERR_OR_NULL dir then State_Monad.return (PTR_ERR dir)
     else do {
       meta \<leftarrow> call E (Debugfs_create_file SVEC_DBG_META_NAME dir);
       modify (\<lambda>s. s\<lparr>dev_dbg_meta := meta\<rparr>);
       if IS_ERR_OR_NULL meta then State_Monad.return (PTR_ERR meta)
       else State_Monad.return 0 } }"

definition svec_dbg_exit :: "kcall env \<Rightarrow> ((kcall, 'z) svec_dev_scheme, unit) state" where
  "svec_dbg_exit E = do {
     dir \<leftarrow> gets dev_dbg_dir;
     call_void E (Debugfs_remove_recursive dir) }"

section \<open>Probing and removing\<close>

definition FPGA_MGR_STATE_UNKNOWN :: int where "FPGA_MGR_STATE_UNKNOWN = 0"

definition zero_svec_dev :: "ptr \<Rightarrow> (kcall, 'z) svec_dev_scheme \<Rightarrow> (kcall, 'z) svec_dev_scheme" where
  \<comment> \<open>\<open>kzalloc\<close>\<close>
  "zero_svec_dev p s =
     s\<lparr>dev_addr := p, dev_meta := meta_of_words (replicate svec_meta_id_words 0), mgr := NULL,
       bitstream_last_word := 0, bitstream_last_word_size := 0, fpga_status := 0,
       dev_dbg_dir := NULL, dev_dbg_meta := NULL, svec_fpga := None\<rparr>"

definition probe_free :: "kcall env \<Rightarrow> int \<Rightarrow> ((kcall, 'z) svec_dev_scheme, int option) state" where
  \<comment> \<open>the labels \<open>err_dev\<close> and \<open>err_name\<close>\<close>
  "probe_free E err = do {
     p \<leftarrow> gets dev_addr;
     call_void E (Dev_set_drvdata NULL);
     call_void E (Kfree p);
     State_Monad.return (Some err) }"

definition probe_unregister :: "kcall env \<Rightarrow> int \<Rightarrow> ((kcall, 'z) svec_dev_scheme, int option) state" where
  \<comment> \<open>the label \<open>err_fpga_new\<close>\<close>
  "probe_unregister E err = do { call_void E (Device_unregister Svec_Device); probe_free E err }"

definition svec_probe ::
  "fpga_par \<Rightarrow> kcall env \<Rightarrow> ptr \<Rightarrow> ((kcall, 'z) svec_dev_scheme, int option) state" where
  "svec_probe P E dev = (if dev = NULL then State_Monad.return (Some (- 1)) else do {
     p \<leftarrow> call E Kzalloc_svec_dev;
     if p = NULL then State_Monad.return (Some (- ENOMEM))
     else do {
       modify (zero_svec_dev p);
       call_void E (Dev_set_drvdata p);
       err \<leftarrow> call E (Dev_set_name Svec_Device);
       if err \<noteq> 0 then probe_free E err
       else do {
         err \<leftarrow> call E (Device_register Svec_Device);
         if err \<noteq> 0 then probe_free E err
         else do {
           _ \<leftarrow> svec_vme_init E (par_vdev P);
           modify (\<lambda>s. s\<lparr>fpga_status := FPGA_MGR_STATE_UNKNOWN\<rparr>);
           m \<leftarrow> call E Fpga_mgr_create;
           modify (\<lambda>s. s\<lparr>mgr := m\<rparr>);
           if m = NULL then probe_unregister E (- EPERM)
           else do {
             err \<leftarrow> call E (Fpga_mgr_register m);
             if err \<noteq> 0 then do { call_void E (Fpga_mgr_free m); probe_unregister E err }
             else do {
               _ \<leftarrow> svec_dbg_init E;
               err \<leftarrow> svec_fpga_init P E SVEC_FUNC_NR;
               case err of None \<Rightarrow> State_Monad.return None
                 | Some _ \<Rightarrow> State_Monad.return (Some 0) } } } } } })"

definition svec_remove :: "kcall env \<Rightarrow> ((kcall, 'z) svec_dev_scheme, int) state" where
  "svec_remove E = do {
     _ \<leftarrow> svec_fpga_exit E;
     svec_dbg_exit E;
     m \<leftarrow> gets mgr;
     call_void E (Fpga_mgr_unregister m);
     call_void E (Fpga_mgr_free m);
     _ \<leftarrow> svec_vme_exit E;
     call_void E (Device_unregister Svec_Device);
     p \<leftarrow> gets dev_addr;
     call_void E (Kfree p);
     call_void E (Dev_set_drvdata NULL);
     State_Monad.return 0 }"

section \<open>The module\<close>

definition svec_id_table :: "(string \<times> u32 \<times> u32 \<times> u32) list" where
  \<comment> \<open>name, vendor, device, revision; the entry that ends the table left out\<close>
  "svec_id_table = [(''fmc-svec-a24'', 0x00080030, 0x00000198, 0x00000001),
     (''fmc-svec-a32'', 0x00080030, 0x00000198, 0x00000001)]"

definition svec_init :: "kcall env \<Rightarrow> ((kcall, 'z) machine_scheme, int) state" where
  "svec_init E = call E (Vme_register_driver 0)"

definition svec_exit :: "kcall env \<Rightarrow> ((kcall, 'z) machine_scheme, unit) state" where
  "svec_exit E = call_void E Vme_unregister_driver"

end
