(* ===== verification/Core_Lifecycle.thy ===== *)
theory Core_Lifecycle
  imports Core_Probe
begin

text \<open>
  The life of a card under the driver as a state machine: probing, loading gateware and removing,
  in any order the kernel allows and whatever it answers.  The account of \<open>Fpga_Lifecycle\<close> shows
  that nothing is released twice and that what the structures point to is still held.
\<close>

section \<open>What the operations leave alone\<close>

definition anchors :: "(kcall, 'z) svec_dev_scheme \<Rightarrow> ptr \<times> ptr \<times> ptr" where
  "anchors s = (dev_addr s, mgr s, dev_dbg_dir s)"

definition keeps :: "((kcall, 'z) svec_dev_scheme, 'a) state \<Rightarrow> bool" where
  "keeps m \<longleftrightarrow> (\<forall>s. anchors (snd (run_state m s)) = anchors s)"

named_theorems keeps_intros \<open>operations that keep the address, the manager and the directory\<close>

lemma keepsD: "keeps m \<Longrightarrow> run_state m s = (a, s') \<Longrightarrow> anchors s' = anchors s"
  unfolding keeps_def by (metis snd_conv)

lemma keeps_return [keeps_intros]: "keeps (State_Monad.return x)"
  by (simp add: keeps_def)

lemma keeps_bind [keeps_intros]:
  assumes "keeps m" and "\<And>x. keeps (g x)"
  shows "keeps (State_Monad.bind m g)"
  unfolding keeps_def
proof
  fix s
  obtain a s1 where run: "run_state m s = (a, s1)" by fastforce
  show "anchors (snd (run_state (State_Monad.bind m g) s)) = anchors s"
    using run keepsD [OF assms(1) run] assms(2) by (simp add: keeps_def)
qed

lemma keeps_if [keeps_intros]: "keeps m \<Longrightarrow> keeps n \<Longrightarrow> keeps (if b then m else n)"
  by simp

lemma keeps_prod [keeps_intros]: "(\<And>a b. keeps (g a b)) \<Longrightarrow> keeps (case p of (a, b) \<Rightarrow> g a b)"
  by (cases p) simp

lemma keeps_option [keeps_intros]:
  "keeps m \<Longrightarrow> (\<And>a. keeps (g a)) \<Longrightarrow> keeps (case x of None \<Rightarrow> m | Some a \<Rightarrow> g a)"
  by (cases x) simp_all

lemma keeps_prims [keeps_intros]:
  "keeps (ioread32be E a)" "keeps (ioread32 E a)" "keeps (iowrite32be w a)" "keeps (sleep_us n)"
  "keeps (gets g)" "keeps (call E c)" "keeps (call_void E c)"
  "keeps (modify (\<lambda>s. s\<lparr>dev_meta := m\<rparr>))" "keeps (modify (\<lambda>s. s\<lparr>svec_fpga := f\<rparr>))"
  by (auto simp: keeps_def anchors_def)

lemma keeps_metadata_loop [keeps_intros]: "keeps (metadata_get_loop E b is)"
  by (induction "is") (auto intro!: keeps_intros)

lemma keeps_metadata [keeps_intros]: "keeps (svec_fpga_metadata_get E b)"
  by (auto simp: svec_fpga_metadata_get_def intro!: keeps_intros)

lemma keeps_app_irq_loop [keeps_intros]: "keeps (app_irq_loop E p i rs)"
  by (induction rs arbitrary: i) (auto intro!: keeps_intros)

lemma keeps_parts [keeps_intros]:
  "keeps (svec_fpga_dbg_init lv E f)" "keeps (svec_fpga_dbg_exit E f)"
  "keeps (svec_fpga_vic_init M E vdev f)" "keeps (svec_fpga_vic_exit E f)"
  "keeps (svec_fpga_devices_init M E vdev f)" "keeps (svec_fpga_devices_exit E)"
  "keeps (svec_fmc_init bus E f)" "keeps (svec_fmc_exit E)"
  by (simp_all add: svec_fpga_dbg_init_def dbg_err_def svec_fpga_dbg_exit_def svec_fpga_vic_init_def
      svec_fpga_vic_exit_def svec_fpga_devices_init_def svec_fpga_irq_find_host_def
      svec_fpga_devices_exit_def svec_fmc_init_def svec_fmc_exit_def Let_def keeps_intros
      split: prod.split)

lemma keeps_app [keeps_intros]:
  "keeps (svec_fpga_app_init M E vdev f)" "keeps (svec_fpga_app_exit E f)"
  by (simp_all add: svec_fpga_app_init_def svec_fpga_app_exit_def svec_fpga_csr_app_offset_def
      svec_fpga_app_init_res_irq_def svec_fpga_app_id_build_def svec_fpga_app_restart_def
      svec_fpga_app_reset_def Let_def keeps_intros split: prod.split)

lemma keeps_fpga [keeps_intros]:
  "keeps (svec_fpga_init P E fn)" "keeps (svec_fpga_exit E)"
  by (simp_all add: svec_fpga_init_def svec_fpga_init_parts_def init_unmap_def init_free_def
      svec_fpga_exit_def Let_def keeps_intros split: prod.split)

lemma keeps_fw [keeps_intros]:
  "keeps (svec_vme_init E vdev)" "keeps (svec_vme_exit E)" "keeps (svec_fw_load linux E name)"
  "keeps (firmware_name_store linux E buf n)" "keeps (svec_dbg_exit E)"
  by (simp_all add: svec_vme_init_def svec_vme_exit_def svec_csr_write_def svec_fw_load_def
      compat_svec_fw_load_def compat_fw_load_def fpga_mgr_get_def fpga_mgr_get_old_def firmware_name_store_def
      svec_dbg_exit_def Let_def keeps_intros)

section \<open>The effect of the operations on the account\<close>

lemma neutral_call:
  assumes "\<And>v. acquired c v = None" and "released c = None"
  shows "neutral (call E c)" and "neutral (call_void E c)"
  using assms by (auto simp: neutral_def effect_def)

lemma neutral_if [neutral_intros]: "neutral m \<Longrightarrow> neutral n \<Longrightarrow> neutral (if b then m else n)"
  by simp

lemma neutral_vme [neutral_intros]:
  "neutral (svec_vme_init E vdev)" "neutral (svec_vme_exit E)"
  by (simp_all add: svec_vme_init_def svec_vme_exit_def svec_csr_write_def Let_def neutral_intros
      neutral_call)

lemma neutral_load [neutral_intros]: "neutral (compat_svec_fw_load linux E name)"
  by (cases linux) (simp_all add: compat_svec_fw_load_def compat_fw_load_def fpga_mgr_get_def
      fpga_mgr_get_old_def neutral_intros neutral_call)

text \<open>What a bound card holds.\<close>

definition fpga_part :: "svec_fpga option \<Rightarrow> kres \<Rightarrow> int" where
  "fpga_part o' x = (case o' of None \<Rightarrow> 0 | Some f \<Rightarrow> fpga_holds f x)"

definition card_holds :: "(kcall, 'z) svec_dev_scheme \<Rightarrow> kres \<Rightarrow> int" where
  "card_holds s x =
     own (Some (RMem (dev_addr s))) x + own (Some (RDev Svec_Device)) x +
     own (Some (RMgr (mgr s))) x + own (Some (RMgrReg (mgr s))) x + own_dir (dev_dbg_dir s) x +
     fpga_part (svec_fpga s) x"

lemma exit_effect:
  assumes "run_state (svec_fpga_exit E) s = (r, s')"
  shows "r = 0 \<and> svec_fpga s' = None \<and>
     (\<forall>x. balance (trace s') x = balance (trace s) x - fpga_part (svec_fpga s) x)"
proof (cases "svec_fpga s")
  case None
  then show ?thesis using assms by (simp add: svec_fpga_exit_def fpga_part_def)
next
  case (Some f)
  note e = fpga_exit_effect [OF assms Some]
  then have "svec_fpga s' = None"
    by (metis svec_dev.select_convs(9) svec_dev.surjective svec_dev.update_convs(9))
  then show ?thesis using e Some by (simp add: fpga_part_def)
qed

lemma fw_load_effect:
  assumes run: "run_state (svec_fw_load linux E name) s = (r, s')"
  shows "svec_fpga s' = None \<and> anchors s' = anchors s \<and>
     (\<forall>x. balance (trace s') x = balance (trace s) x - fpga_part (svec_fpga s) x)"
proof -
  obtain r1 s1 where 1: "run_state (svec_fpga_exit E) s = (r1, s1)" by fastforce
  note e1 = exit_effect [OF 1]
  have n: "neutral (do { call_void E Mutex_lock; err \<leftarrow> compat_svec_fw_load linux E name;
      call_void E Mutex_unlock; State_Monad.return err })" (is "neutral ?m")
    by (simp add: neutral_intros neutral_call)
  have "run_state ?m s1 = (r, s')" using run 1 e1 by (simp add: svec_fw_load_def)
  from neutralD [OF n this] have e2: "effect s1 s' (\<lambda>_. 0)" .
  have "svec_fpga s' = svec_fpga s1"
    using arg_cong [OF conjunct1 [OF e2 [unfolded effect_def]], of svec_fpga] by simp
  then show ?thesis using e1 e2 keepsD [OF keeps_fw(3) run] by (simp add: effect_def)
qed

lemma store_effect:
  assumes run: "run_state (firmware_name_store linux E buf n) s = (r, s')"
  shows "svec_fpga s' = None \<and> anchors s' = anchors s \<and>
     (\<forall>x. balance (trace s') x = balance (trace s) x - fpga_part (svec_fpga s) x)"
proof -
  obtain r1 s1 where 1: "run_state (svec_fw_load linux E buf) s = (r1, s1)" by fastforce
  note e1 = fw_load_effect [OF 1]
  show ?thesis using run 1 e1 by (auto simp: firmware_name_store_def anchors_def split: if_splits)
qed

lemma remove_effect:
  assumes run: "run_state (svec_remove E) s = (r, s')"
  shows "r = 0 \<and> (\<forall>x. balance (trace s') x = balance (trace s) x - card_holds s x)"
proof -
  obtain r1 s1 where 1: "run_state (svec_fpga_exit E) s = (r1, s1)" by fastforce
  note e1 = exit_effect [OF 1]
  have a: "dev_addr s1 = dev_addr s" "mgr s1 = mgr s" "dev_dbg_dir s1 = dev_dbg_dir s"
    using keepsD [OF keeps_fpga(2) 1] by (auto simp: anchors_def)
  define v4 where "v4 = env_call E (trace s1) (Debugfs_remove_recursive (dev_dbg_dir s))"
  define t4 where "t4 = Call (Debugfs_remove_recursive (dev_dbg_dir s)) v4 # trace s1"
  define v3 where "v3 = env_call E t4 (Fpga_mgr_unregister (mgr s))"
  define t3 where "t3 = Call (Fpga_mgr_unregister (mgr s)) v3 # t4"
  define v2 where "v2 = env_call E t3 (Fpga_mgr_free (mgr s))"
  let ?s2 = "s1\<lparr>trace := Call (Fpga_mgr_free (mgr s)) v2 # t3\<rparr>"
  have 2: "run_state (svec_dbg_exit E) s1 = ((), s1\<lparr>trace := t4\<rparr>)"
    by (simp add: svec_dbg_exit_def a t4_def v4_def)
  obtain r3 s3 where 3: "run_state (svec_vme_exit E) ?s2 = (r3, s3)" by fastforce
  have e3: "effect ?s2 s3 (\<lambda>_. 0)" by (rule neutralD [OF neutral_vme(2) 3])
  have a3: "dev_addr s3 = dev_addr s" using keepsD [OF keeps_fw(2) 3] a by (auto simp: anchors_def)
  have "r = 0 \<and> (\<exists>v5 v6 v7. trace s' = Call (Dev_set_drvdata NULL) v5 #
      Call (Kfree (dev_addr s)) v6 # Call (Device_unregister Svec_Device) v7 # trace s3)"
    using run 1 2 3 a3 a
    by (auto simp: svec_remove_def v3_def [symmetric] t3_def [symmetric] v2_def [symmetric])
  then show ?thesis using e1 e3
    by (auto simp: effect_def card_holds_def own_dir_def t3_def t4_def)
qed

lemma dbg_init_run:
  obtains r t dir meta where "run_state (svec_dbg_init E) s =
      (r, s\<lparr>trace := t, dev_dbg_dir := dir, dev_dbg_meta := meta\<rparr>)"
    and "\<And>x. balance t x = balance (trace s) x + own_dir dir x"
proof (cases "IS_ERR_OR_NULL (env_call E (trace s) (Debugfs_create_dir Svec_Device NULL))")
  case True
  then show thesis
    by (intro that [where dir = "env_call E (trace s) (Debugfs_create_dir Svec_Device NULL)"
          and meta = "dev_dbg_meta s" and t = "Call (Debugfs_create_dir Svec_Device NULL)
             (env_call E (trace s) (Debugfs_create_dir Svec_Device NULL)) # trace s"])
       (simp_all add: svec_dbg_init_def own_dir_def)
next
  case False
  let ?d = "env_call E (trace s) (Debugfs_create_dir Svec_Device NULL)"
  let ?t = "Call (Debugfs_create_dir Svec_Device NULL) ?d # trace s"
  let ?m = "env_call E ?t (Debugfs_create_file SVEC_DBG_META_NAME ?d)"
  show thesis
    by (rule that [where dir = ?d and meta = ?m
          and t = "Call (Debugfs_create_file SVEC_DBG_META_NAME ?d) ?m # ?t"
          and r = "if IS_ERR_OR_NULL ?m then PTR_ERR ?m else 0"])
       (use False in \<open>simp_all add: svec_dbg_init_def own_dir_def\<close>)
qed

lemma init_effect_fresh:
  assumes run: "run_state (svec_fpga_init P E fn) s = (Some err, s')" and "svec_fpga s = None"
  obtains L where "\<And>x. 0 \<le> L x" "err = 0 \<Longrightarrow> L = (\<lambda>_. 0)"
    "\<And>x. balance (trace s') x = balance (trace s) x + fpga_part (svec_fpga s') x + L x"
proof -
  consider (up) f where "err = 0" "svec_fpga s' = Some f"
      "\<forall>x. balance (trace s') x = balance (trace s) x + fpga_holds f x"
    | (clean) "err \<noteq> 0" "\<forall>x. balance (trace s') x = balance (trace s) x" "svec_fpga s' = None"
    | (lost) p va d where "err \<noteq> 0" "svec_fpga s' = None" "\<forall>x. balance (trace s') x =
        balance (trace s) x + own (Some (RMem p)) x + own (Some (RMap va)) x +
        own (Some (RDev Fpga_Device)) x + own_dir d x"
    using init_effect [OF run] assms(2) by metis
  then show thesis
  proof cases
    case up
    then show thesis by (intro that [of "\<lambda>_. 0"]) (simp_all add: fpga_part_def)
  next
    case clean
    then show thesis by (intro that [of "\<lambda>_. 0"]) (simp_all add: fpga_part_def)
  next
    case lost
    then show thesis
      by (intro that [of "\<lambda>x. own (Some (RMem p)) x + own (Some (RMap va)) x +
          own (Some (RDev Fpga_Device)) x + own_dir d x"])
         (simp_all add: fpga_part_def own_def own_dir_def)
  qed
qed

lemma probe_free_run:
  "\<exists>v w. run_state (probe_free E err) s = (Some err, s\<lparr>trace := Call (Kfree (dev_addr s)) v #
     Call (Dev_set_drvdata NULL) w # trace s\<rparr>)"
  by (auto simp: probe_free_def)

lemma probe_unregister_run:
  "\<exists>u v w. run_state (probe_unregister E err) s = (Some err, s\<lparr>trace := Call (Kfree (dev_addr s)) v #
     Call (Dev_set_drvdata NULL) w # Call (Device_unregister Svec_Device) u # trace s\<rparr>)"
  by (auto simp: probe_unregister_def probe_free_def)

text \<open>The end of a successful probe, from the registration of the manager on.\<close>

lemma probe_tail_effect:
  assumes run: "run_state (svec_dbg_init E \<bind> (\<lambda>_. svec_fpga_init P E SVEC_FUNC_NR)) s = (Some e, s')"
    and s: "svec_fpga s = None"
  obtains L where "dev_addr s' = dev_addr s" "mgr s' = mgr s" "\<And>x. 0 \<le> L x" "e = 0 \<Longrightarrow> L = (\<lambda>_. 0)"
    "\<And>x. balance (trace s') x = balance (trace s) x + own_dir (dev_dbg_dir s') x +
        fpga_part (svec_fpga s') x + L x"
proof -
  obtain r t dir meta where d: "run_state (svec_dbg_init E) s =
      (r, s\<lparr>trace := t, dev_dbg_dir := dir, dev_dbg_meta := meta\<rparr>)" (is "_ = (_, ?s1)")
    and b: "\<And>x. balance t x = balance (trace s) x + own_dir dir x"
    by (rule dbg_init_run [of E s]) (rule that)
  have 2: "run_state (svec_fpga_init P E SVEC_FUNC_NR) ?s1 = (Some e, s')" using run d by simp
  have a: "dev_addr s' = dev_addr s" "mgr s' = mgr s" "dev_dbg_dir s' = dir"
    using keepsD [OF keeps_fpga(1) 2] by (simp_all add: anchors_def)
  have s1: "svec_fpga ?s1 = None" using s by simp
  from init_effect_fresh [OF 2 s1] obtain L where "\<And>x. 0 \<le> L x" "e = 0 \<Longrightarrow> L = (\<lambda>_. 0)"
    "\<And>x. balance (trace s') x = balance t x + fpga_part (svec_fpga s') x + L x" by auto
  then show thesis using a b by (intro that [of L]) auto
qed

definition probe_end ::
  "fpga_par \<Rightarrow> kcall env \<Rightarrow> ptr \<Rightarrow> ((kcall, 'z) svec_dev_scheme, int option) state" where
  \<comment> \<open>the probe once the device is registered\<close>
  "probe_end P E p = do {
     _ \<leftarrow> svec_vme_init E (par_vdev P);
     modify (\<lambda>s. s\<lparr>fpga_status := FPGA_MGR_STATE_UNKNOWN\<rparr>);
     m \<leftarrow> call E Fpga_mgr_create;
     modify (\<lambda>s. s\<lparr>mgr := m\<rparr>);
     if m = NULL then probe_unregister E (- EPERM)
     else do {
       err \<leftarrow> call E (Fpga_mgr_register m);
       if err \<noteq> 0 then do { call_void E (Fpga_mgr_free m); probe_unregister E err }
       else do {
         _ \<leftarrow> svec_dbg_init E;
         err \<leftarrow> svec_fpga_init P E SVEC_FUNC_NR;
         case err of None \<Rightarrow> State_Monad.return None
           | Some _ \<Rightarrow> State_Monad.return (Some 0) } } }"

lemma probe_end_effect:
  assumes run: "run_state (probe_end P E p) s = (Some e, s')" and s: "svec_fpga s = None"
  shows "e \<noteq> 0 \<and> (\<forall>x. balance (trace s') x =
       balance (trace s) x - own (Some (RMem (dev_addr s))) x - own (Some (RDev Svec_Device)) x) \<or>
     e = 0 \<and> (\<exists>L. (\<forall>x. 0 \<le> L x) \<and> (\<forall>x. balance (trace s') x = balance (trace s) x + card_holds s' x
       - own (Some (RMem (dev_addr s))) x - own (Some (RDev Svec_Device)) x + L x))"
proof -
  obtain r4 s4 where 4: "run_state (svec_vme_init E (par_vdev P)) s = (r4, s4)" by fastforce
  have e4: "effect s s4 (\<lambda>_. 0)" by (rule neutralD [OF neutral_vme(1) 4])
  then have s4: "svec_fpga s4 = None" "dev_addr s4 = dev_addr s"
    using s arg_cong [OF conjunct1 [OF e4 [unfolded effect_def]], of svec_fpga]
      arg_cong [OF conjunct1 [OF e4 [unfolded effect_def]], of dev_addr] by simp_all
  define m where "m = env_call E (trace s4) Fpga_mgr_create"
  define t5 where "t5 = Call Fpga_mgr_create m # trace s4"
  define v6 where "v6 = env_call E t5 (Fpga_mgr_register m)"
  define t6 where "t6 = Call (Fpga_mgr_register m) 0 # t5"
  define s6 where "s6 = s4\<lparr>fpga_status := FPGA_MGR_STATE_UNKNOWN, trace := t6, mgr := m\<rparr>"
  have swap: "s4\<lparr>fpga_status := FPGA_MGR_STATE_UNKNOWN, trace := t, mgr := m\<rparr> =
      s4\<lparr>trace := t, mgr := m, fpga_status := FPGA_MGR_STATE_UNKNOWN\<rparr>"
    "s4\<lparr>mgr := m, fpga_status := FPGA_MGR_STATE_UNKNOWN, trace := t\<rparr> =
      s4\<lparr>trace := t, mgr := m, fpga_status := FPGA_MGR_STATE_UNKNOWN\<rparr>" for t m by simp_all
  have b4: "balance (trace s4) x = balance (trace s) x" for x using e4 by (simp add: effect_def)
  consider (nomgr) "m = NULL" | (noreg) "m \<noteq> NULL" "v6 \<noteq> 0" | (up) "m \<noteq> NULL" "v6 = 0" by blast
  then show ?thesis
  proof cases
    case nomgr
    then have "run_state (probe_unregister E (- EPERM))
        (s4\<lparr>fpga_status := FPGA_MGR_STATE_UNKNOWN, trace := Call Fpga_mgr_create 0 # trace s4,
            mgr := 0\<rparr>) = (Some e, s')"
      using run 4 by (simp add: probe_end_def m_def [symmetric] swap)
    then show ?thesis by (auto simp: probe_unregister_def probe_free_def b4 s4)
  next
    case noreg
    let ?t6 = "Call (Fpga_mgr_register m) v6 # t5"
    let ?t7 = "Call (Fpga_mgr_free m) (env_call E ?t6 (Fpga_mgr_free m)) # ?t6"
    have "run_state (probe_unregister E v6)
        (s4\<lparr>fpga_status := FPGA_MGR_STATE_UNKNOWN, trace := ?t7, mgr := m\<rparr>) = (Some e, s')"
      using run 4 noreg by (simp add: probe_end_def m_def [symmetric] t5_def [symmetric]
          v6_def [symmetric] swap)
    then show ?thesis using noreg
      by (auto simp: probe_unregister_def probe_free_def b4 t5_def s4)
  next
    case up
    obtain r7 s7 where 7: "run_state (svec_dbg_init E \<bind> (\<lambda>_. svec_fpga_init P E SVEC_FUNC_NR)) s6 = (r7, s7)"
      by fastforce
    have "e = 0 \<and> s' = s7 \<and> r7 \<noteq> None"
      using run 4 up 7 by (cases r7) (auto simp: probe_end_def m_def [symmetric] t5_def [symmetric]
          v6_def [symmetric] t6_def [symmetric] swap s6_def split: prod.splits)
    then obtain e7 where e7: "e = 0" "s' = s7" "r7 = Some e7" by auto
    have s6: "svec_fpga s6 = None" by (simp add: s6_def s4)
    obtain L where L: "dev_addr s7 = dev_addr s6" "mgr s7 = mgr s6" "\<And>x. 0 \<le> L x"
      "\<And>x. balance (trace s7) x = balance (trace s6) x + own_dir (dev_dbg_dir s7) x +
        fpga_part (svec_fpga s7) x + L x"
      by (rule probe_tail_effect [OF 7 [unfolded e7(3)] s6]) (rule that)
    have "balance (trace s6) x = balance (trace s) x + own (Some (RMgr m)) x + own (Some (RMgrReg m)) x" for x
      using up by (simp add: s6_def t6_def t5_def b4)
    then show ?thesis using L e7 by (auto simp: card_holds_def s6_def s4 intro!: exI [of _ L])
  qed
qed

lemma probe_effect:
  assumes run: "run_state (svec_probe P E dev) s = (Some e, s')"
  shows "e \<noteq> 0 \<and> (\<forall>x. balance (trace s') x = balance (trace s) x) \<or>
     e = 0 \<and> (\<exists>L. (\<forall>x. 0 \<le> L x) \<and>
       (\<forall>x. balance (trace s') x = balance (trace s) x + card_holds s' x + L x))"
proof -
  define p where "p = env_call E (trace s) Kzalloc_svec_dev"
  define t0 where "t0 = Call Kzalloc_svec_dev p # trace s"
  define t1 where "t1 = Call (Dev_set_drvdata p) (env_call E t0 (Dev_set_drvdata p)) # t0"
  define v2 where "v2 = env_call E t1 (Dev_set_name Svec_Device)"
  define t2 where "t2 = Call (Dev_set_name Svec_Device) 0 # t1"
  define v3 where "v3 = env_call E t2 (Device_register Svec_Device)"
  define t3 where "t3 = Call (Device_register Svec_Device) 0 # t2"
  have z: "zero_svec_dev p (s\<lparr>trace := t\<rparr>) = (zero_svec_dev p s)\<lparr>trace := t\<rparr>"
    "trace (zero_svec_dev p s) = trace s" "dev_addr (zero_svec_dev p s) = p"
    "svec_fpga (zero_svec_dev p s) = None" for t
    by (simp_all add: zero_svec_dev_def)
  consider (early) "dev = NULL \<or> p = NULL" | (noname) "dev \<noteq> NULL" "p \<noteq> NULL" "v2 \<noteq> 0"
    | (nodev) "dev \<noteq> NULL" "p \<noteq> NULL" "v2 = 0" "v3 \<noteq> 0"
    | (up) "dev \<noteq> NULL" "p \<noteq> NULL" "v2 = 0" "v3 = 0" by blast
  then show ?thesis
  proof cases
    case early
    then show ?thesis using run
      by (auto simp: svec_probe_def p_def [symmetric] split: if_splits)
  next
    case noname
    then have "run_state (probe_free E v2) (zero_svec_dev p s\<lparr>trace := Call (Dev_set_name Svec_Device) v2 # t1\<rparr>) =
        (Some e, s')"
      using run by (simp add: svec_probe_def p_def [symmetric] t0_def [symmetric] z
          t1_def [symmetric] v2_def [symmetric])
    then show ?thesis using noname by (auto simp: probe_free_def z t1_def t0_def)
  next
    case nodev
    then have "run_state (probe_free E v3) (zero_svec_dev p s\<lparr>trace := Call (Device_register Svec_Device) v3 # t2\<rparr>) =
        (Some e, s')"
      using run by (simp add: svec_probe_def p_def [symmetric] t0_def [symmetric] z
          t1_def [symmetric] v2_def [symmetric] t2_def [symmetric] v3_def [symmetric])
    then show ?thesis using nodev by (auto simp: probe_free_def z t2_def t1_def t0_def)
  next
    case up
    then have "run_state (probe_end P E p) (zero_svec_dev p s\<lparr>trace := t3\<rparr>) = (Some e, s')"
      using run by (simp add: svec_probe_def p_def [symmetric] t0_def [symmetric] z
          t1_def [symmetric] v2_def [symmetric] t2_def [symmetric] v3_def [symmetric] t3_def [symmetric]
          probe_end_def)
    from probe_end_effect [OF this] up show ?thesis
      by (auto simp: z t3_def t2_def t1_def t0_def)
  qed
qed

section \<open>The state machine of a card\<close>

datatype phase = Unbound | Bound

text \<open>
  The driver is bound to a card by a probe that answers 0 and unbound by \<open>svec_remove\<close>; while it
  is bound the user may write \<open>firmware_name\<close> as often as he likes.  A probe that the code
  does not survive (\<open>None\<close>) has no step.
\<close>

inductive svec_step ::
  "fpga_par \<Rightarrow> kcall env \<Rightarrow> phase \<times> kcall svec_dev \<Rightarrow> phase \<times> kcall svec_dev \<Rightarrow> bool"
  for P E where
  probe_ok: "run_state (svec_probe P E dev) s = (Some 0, s') \<Longrightarrow> svec_step P E (Unbound, s) (Bound, s')"
| probe_err: "run_state (svec_probe P E dev) s = (Some e, s') \<Longrightarrow> e \<noteq> 0 \<Longrightarrow>
    svec_step P E (Unbound, s) (Unbound, s')"
| store: "run_state (firmware_name_store linux E buf n) s = (r, s') \<Longrightarrow>
    svec_step P E (Bound, s) (Bound, s')"
| remove: "run_state (svec_remove E) s = (r, s') \<Longrightarrow> svec_step P E (Bound, s) (Unbound, s')"

inductive_cases from_unbound: "svec_step P E (Unbound, s) c"
inductive_cases from_bound: "svec_step P E (Bound, s) c"
inductive_simps unbound_step: "svec_step P E (Unbound, s) (ph, s')"

definition holds_in :: "phase \<times> kcall svec_dev \<Rightarrow> kres \<Rightarrow> int" where
  "holds_in c x = (case c of (Unbound, s) \<Rightarrow> 0 | (Bound, s) \<Rightarrow> card_holds s x)"

definition accounted :: "phase \<times> kcall svec_dev \<Rightarrow> bool" where
  \<comment> \<open>what the structures point to is still held\<close>
  "accounted c \<longleftrightarrow> (\<forall>x. holds_in c x \<le> balance (trace (snd c)) x)"

lemma card_holds_store:
  assumes "anchors s' = anchors s" and "svec_fpga s' = None"
  shows "card_holds s' x = card_holds s x - fpga_part (svec_fpga s) x"
  using assms by (simp add: card_holds_def anchors_def fpga_part_def)

lemma step_accounted: "svec_step P E c c' \<Longrightarrow> accounted c \<Longrightarrow> accounted c'"
proof (induction rule: svec_step.induct)
  case (probe_ok dev s s')
  from probe_effect [OF probe_ok.hyps] obtain L where L: "\<And>x. 0 \<le> L x"
    "\<And>x. balance (trace s') x = balance (trace s) x + card_holds s' x + L x" by auto
  show ?case unfolding accounted_def
  proof
    fix x
    have "0 \<le> balance (trace s) x" using probe_ok.prems by (simp add: accounted_def holds_in_def)
    then show "holds_in (Bound, s') x \<le> balance (trace (snd (Bound, s'))) x"
      using L(1) [of x] by (simp add: holds_in_def L(2))
  qed
next
  case (probe_err dev s e s')
  with probe_effect [OF probe_err.hyps(1)] show ?case by (simp add: accounted_def holds_in_def)
next
  case (store linux buf n s r s')
  note e = store_effect [OF store.hyps]
  then show ?case using store.prems by (simp add: accounted_def holds_in_def card_holds_store)
next
  case (remove s r s')
  with remove_effect [OF remove.hyps] show ?case by (simp add: accounted_def holds_in_def)
qed

lemma demo_probe:
  obtains s' where "run_state (svec_probe demo_par demo_env 1) s = (Some 0, s')"
proof -
  have call: "env_call demo_env = good_kern" by (simp add: demo_env_def)
  have init: "\<exists>s'. run_state (svec_fpga_init demo_par demo_env 1) s = (Some 0, s')" for s
    using demo_init [of s] by (metis prod.collapse)
  have "\<exists>s'. run_state (svec_fpga_init demo_par demo_env 1 \<bind> case_option (State_Monad.return None)
      (\<lambda>_. State_Monad.return (Some 0))) s = (Some 0, s')" for s
    using init [of s] by auto
  then show thesis using that
    by (simp add: svec_probe_def call svec_vme_init_def svec_csr_write_def svec_dbg_init_def
        IS_ERR_OR_NULL_def IS_ERR_def SVEC_FUNC_NR_def) blast
qed

section \<open>Properties\<close>

text \<open>
  C21.  In every state a card can reach, whatever the kernel, the user and the gateware do: nothing
  was released more often than it was acquired, and while the driver is bound the structure of the
  card, its device, its manager, its directory and every part of a running FPGA device are still
  held, so the structure never points to anything that was given back.
\<close>
theorem svec_card_accounted:
  assumes "(svec_step P E)\<^sup>*\<^sup>* (Unbound, s0) c" and "trace s0 = []"
  shows "(\<forall>x. 0 \<le> balance (trace (snd c)) x) \<and>
    (fst c = Bound \<longrightarrow> (\<forall>x. card_holds (snd c) x \<le> balance (trace (snd c)) x))"
proof -
  have "accounted (Unbound, s0)" using assms(2) by (simp add: accounted_def holds_in_def)
  with assms(1) have acc: "accounted c"
    by (induction rule: rtranclp_induct) (auto intro: step_accounted)
  have "0 \<le> holds_in c x" for x
    by (auto simp: holds_in_def card_holds_def fpga_part_def fpga_holds_def own_def own_dir_def
        own_ptr_def split: phase.split prod.split option.split)
  then show ?thesis using acc
    by (cases c; cases "fst c") (auto simp: accounted_def holds_in_def intro: order_trans)
qed

theorem svec_card_accounted_witness:
  "\<exists>c. (svec_step demo_par demo_env)\<^sup>*\<^sup>* (Unbound, idle_dev) c \<and> fst c = Unbound \<and>
     0 \<le> balance (trace (snd c)) (RMem 0x1000)"
proof -
  obtain s1 where "run_state (svec_probe demo_par demo_env 1) idle_dev = (Some 0, s1)"
    by (rule demo_probe)
  then have 1: "svec_step demo_par demo_env (Unbound, idle_dev) (Bound, s1)" by (rule probe_ok)
  obtain r s2 where "run_state (svec_remove demo_env) s1 = (r, s2)" by fastforce
  then have "svec_step demo_par demo_env (Bound, s1) (Unbound, s2)" by (rule remove)
  with 1 have "(svec_step demo_par demo_env)\<^sup>*\<^sup>* (Unbound, idle_dev) (Unbound, s2)"
    by (meson r_into_rtranclp rtranclp.rtrancl_into_rtrancl)
  from svec_card_accounted [OF this] this show ?thesis by (auto simp: idle_dev_def)
qed



text \<open>
  C23.  Removing a card always answers 0, whether or not the FPGA device was running and whatever
  the VME bus answers, and it gives back exactly what the card held.
\<close>
theorem svec_remove_gives_back:
  assumes "run_state (svec_remove E) s = (r, s')"
  shows "r = 0 \<and> (\<forall>x. balance (trace s') x = balance (trace s) x - card_holds s x)"
  by (rule remove_effect [OF assms])

theorem svec_remove_gives_back_witness:
  "\<exists>s1 s2. run_state (svec_probe demo_par demo_env 1) idle_dev = (Some 0, s1) \<and>
     run_state (svec_remove demo_env) s1 = (0, s2) \<and>
     balance (trace s2) RFmc = balance (trace s1) RFmc - card_holds s1 RFmc"
proof -
  obtain s1 where 1: "run_state (svec_probe demo_par demo_env 1) idle_dev = (Some 0, s1)"
    by (rule demo_probe)
  obtain r s2 where 2: "run_state (svec_remove demo_env) s1 = (r, s2)" by fastforce
  from svec_remove_gives_back [OF 2] 1 2 show ?thesis by auto
qed

end
