(* ===== verification/Core_Load.thy ===== *)
theory Core_Load
  imports Core_Lifecycle
begin

text \<open>
  In which order the driver calls the kernel when it loads a gateware and when it sets up the VME
  interface: the old FPGA device is torn down before the FPGA manager is touched, locks are
  released and references dropped on every path.
\<close>

section \<open>The calls of an execution\<close>

definition does :: "(kcall, 'z) svec_dev_scheme \<Rightarrow> (kcall, 'z) svec_dev_scheme \<Rightarrow>
    (kcall \<times> int) list \<Rightarrow> bool" where
  \<comment> \<open>between the two states these calls were made\<close>
  "does s s' cs \<longleftrightarrow> calls (trace s') = calls (trace s) @ cs"

lemma does_trans: "does s s1 cs \<Longrightarrow> does s1 s2 ds \<Longrightarrow> does s s2 (cs @ ds)"
  by (simp add: does_def)

definition teardown :: "kcall \<Rightarrow> bool" where
  "teardown c \<longleftrightarrow> (case c of Platform_device_unregister p \<Rightarrow> True | Fmc_carrier_unregister \<Rightarrow> True
     | Mfd_remove_devices \<Rightarrow> True | Debugfs_remove_recursive p \<Rightarrow> True | Device_unregister d \<Rightarrow> True
     | Iounmap p \<Rightarrow> True | Kfree p \<Rightarrow> True | _ \<Rightarrow> False)"

lemma exit_calls:
  assumes "run_state (svec_fpga_exit E) s = (r, s')"
  shows "r = 0 \<and> (\<exists>cs. does s s' cs \<and> (\<forall>c\<in>fst ` set cs. teardown c))"
  using assms
  by (cases "svec_fpga s")
     (auto simp: svec_fpga_exit_def svec_fpga_app_exit_def svec_fmc_exit_def does_def teardown_def
      svec_fpga_devices_exit_def svec_fpga_vic_exit_def svec_fpga_dbg_exit_def split: if_splits)

definition load_request :: "linux \<Rightarrow> ptr \<Rightarrow> string \<Rightarrow> kcall" where
  "load_request linux m name =
     (if linux = Before_4_16 then Fpga_mgr_firmware_load m True name else Fpga_mgr_load m name)"

lemma load_request_run: "linux \<noteq> Before_4_10 \<Longrightarrow> compat_fw_load linux E m name = call E (load_request linux m name)"
  by (cases linux) (simp_all add: load_request_def compat_fw_load_def)

definition load_calls :: "linux \<Rightarrow> string \<Rightarrow> int \<Rightarrow> (kcall \<times> int) list \<Rightarrow> bool" where
  \<comment> \<open>what loading through the manager does, and what it answers\<close>
  "load_calls linux name r cs \<longleftrightarrow>
     (\<exists>m. cs = [(Fpga_mgr_get, m)] \<and> IS_ERR_OR_NULL m \<and> r = (if m = NULL then - ENODEV else m)) \<or>
     (\<exists>m v. cs = [(Fpga_mgr_get, m), (Fpga_mgr_lock m, r), (Fpga_mgr_put m, v)] \<and>
        \<not> IS_ERR_OR_NULL m \<and> r \<noteq> 0) \<or>
     (\<exists>m u v. cs = [(Fpga_mgr_get, m), (Fpga_mgr_lock m, 0), (load_request linux m name, r),
                    (Fpga_mgr_unlock m, u), (Fpga_mgr_put m, v)] \<and> \<not> IS_ERR_OR_NULL m)"

lemma load_run:
  assumes run: "run_state (compat_svec_fw_load linux E name) s = (r, s')" and k: "linux \<noteq> Before_4_10"
  shows "\<exists>cs. does s s' cs \<and> load_calls linux name r cs"
proof -
  define m where "m = env_call E (trace s) Fpga_mgr_get"
  show ?thesis
  proof (cases "IS_ERR_OR_NULL m")
    case True
    have "r = (if IS_ERR m then m else - ENODEV)" "does s s' [(Fpga_mgr_get, m)]"
      using run True k by (auto simp: compat_svec_fw_load_def fpga_mgr_get_def does_def PTR_ERR_def
          m_def [symmetric])
    moreover have "IS_ERR m \<longleftrightarrow> m \<noteq> NULL" using True by (auto simp: IS_ERR_OR_NULL_def IS_ERR_def)
    ultimately show ?thesis using True by (auto simp: load_calls_def)
  next
    case False
    define t1 where "t1 = Call Fpga_mgr_get m # trace s"
    define l where "l = env_call E t1 (Fpga_mgr_lock m)"
    show ?thesis
    proof (cases "l = 0")
      case ne: False
      then have "r = l" "does s s' [(Fpga_mgr_get, m), (Fpga_mgr_lock m, l),
          (Fpga_mgr_put m, env_call E (Call (Fpga_mgr_lock m) l # t1) (Fpga_mgr_put m))]"
        using run False k by (auto simp: load_request_run compat_svec_fw_load_def fpga_mgr_get_def does_def
            m_def [symmetric] t1_def [symmetric] l_def [symmetric] split: if_splits)
           (simp_all add: t1_def)
      then show ?thesis using False ne unfolding load_calls_def by blast
    next
      case True
      then have "\<exists>u v. does s s' [(Fpga_mgr_get, m), (Fpga_mgr_lock m, 0), (load_request linux m name, r),
          (Fpga_mgr_unlock m, u), (Fpga_mgr_put m, v)]"
        using run False k by (auto simp: load_request_run compat_svec_fw_load_def fpga_mgr_get_def does_def
            m_def [symmetric] t1_def [symmetric] l_def [symmetric] split: if_splits)
           (simp_all add: t1_def)
      then show ?thesis using False unfolding load_calls_def by blast
    qed
  qed
qed

lemma fw_load_calls:
  assumes run: "run_state (svec_fw_load linux E name) s = (r, s')" and k: "linux \<noteq> Before_4_10"
  shows "\<exists>pre u load v. does s s' (pre @ (Mutex_lock, u) # load @ [(Mutex_unlock, v)]) \<and>
     (\<forall>c\<in>fst ` set pre. teardown c) \<and> load_calls linux name r load"
proof -
  obtain r1 s1 where 1: "run_state (svec_fpga_exit E) s = (r1, s1)" by fastforce
  from exit_calls [OF 1] obtain pre where pre: "r1 = 0" "does s s1 pre" "\<forall>c\<in>fst ` set pre. teardown c"
    by blast
  let ?s2 = "s1\<lparr>trace := Call Mutex_lock (env_call E (trace s1) Mutex_lock) # trace s1\<rparr>"
  obtain r3 s3 where 3: "run_state (compat_svec_fw_load linux E name) ?s2 = (r3, s3)" by fastforce
  from load_run [OF 3 k] obtain cs where cs: "does ?s2 s3 cs" "load_calls linux name r3 cs" by blast
  have "r = r3 \<and> s' = s3\<lparr>trace := Call Mutex_unlock (env_call E (trace s3) Mutex_unlock) # trace s3\<rparr>"
    using run 1 3 pre(1) by (simp add: svec_fw_load_def)
  then show ?thesis using pre(2,3) cs
    by (intro exI [of _ pre] exI [of _ "env_call E (trace s1) Mutex_lock"] exI [of _ cs]
        exI [of _ "env_call E (trace s3) Mutex_unlock"]) (simp add: does_def)
qed

section \<open>The VME interface\<close>

lemma csr_offsets:
  "SVEC_USER_CSR_INT_VECTOR - SVEC_USER_CSR_INT_VECTOR mod 4 = 0x7FF5C"
  "SVEC_USER_CSR_INT_LEVEL - SVEC_USER_CSR_INT_LEVEL mod 4 = 0x7FF58"
  by (simp_all add: SVEC_USER_CSR_INT_VECTOR_def SVEC_USER_CSR_INT_LEVEL_def)

section \<open>Properties\<close>

text \<open>
  C24.  Writing a name to \<open>firmware_name\<close>: first the FPGA device is taken down, by calls that
  give things back and nothing else; then, under the mutex of the card, the manager is fetched,
  locked, made to load that name, unlocked and put, an error at any of these skipping only what
  depends on it; then the attribute removes itself and, if that succeeds, the VME device is
  unregistered, even when the loading failed.  The answer is the error or the length written.
  This holds for the FPGA managers since 4.10; up to 4.16 the name is an argument of the call that
  loads, from then on a field of the image information.
\<close>
theorem firmware_name_store_sequence:
  assumes "run_state (firmware_name_store linux E name count) s = (r, s')" and k: "linux \<noteq> Before_4_10"
  shows "svec_fpga s' = None \<and> (\<exists>pre u load v err self post.
     calls (trace s') = calls (trace s) @ pre @ (Mutex_lock, u) # load @
        (Mutex_unlock, v) # (Device_remove_file_self, self) # post \<and>
     (\<forall>c\<in>fst ` set pre. teardown c) \<and> load_calls linux name err load \<and>
     (if self \<noteq> 0 then \<exists>w. post = [(Vme_unregister_device, w)] else post = []) \<and>
     r = (if err \<noteq> 0 then err else int count))"
proof -
  obtain err s1 where 1: "run_state (svec_fw_load linux E name) s = (err, s1)" by fastforce
  from fw_load_calls [OF 1 k] obtain pre u load v where
    l: "does s s1 (pre @ (Mutex_lock, u) # load @ [(Mutex_unlock, v)])"
      "\<forall>c\<in>fst ` set pre. teardown c" "load_calls linux name err load" by blast
  define self where "self = env_call E (trace s1) Device_remove_file_self"
  define post where "post = (if self \<noteq> 0 then [(Vme_unregister_device,
      env_call E (Call Device_remove_file_self self # trace s1) Vme_unregister_device)] else [])"
  have "r = (if err \<noteq> 0 then err else int count) \<and>
      calls (trace s') = calls (trace s1) @ (Device_remove_file_self, self) # post"
    using assms(1) 1 by (cases "self = 0") (auto simp: firmware_name_store_def self_def post_def)
  then show ?thesis using l store_effect [OF assms(1)]
    by (intro conjI exI [of _ pre] exI [of _ u] exI [of _ load] exI [of _ v] exI [of _ err]
        exI [of _ self] exI [of _ post]) (simp_all add: does_def post_def)
qed

theorem firmware_name_store_sequence_witness:
  "\<exists>s' :: kcall svec_dev. run_state (firmware_name_store Since_4_16 demo_env ''svec.bin'' 8) idle_dev = (8, s') \<and>
     svec_fpga s' = None"
proof -
  obtain r s' where run: "run_state (firmware_name_store Since_4_16 demo_env ''svec.bin'' 8) idle_dev = (r, s')"
    by fastforce
  have "r = 8" using run
    by (simp add: firmware_name_store_def svec_fw_load_def svec_fpga_exit_def idle_dev_def
        compat_svec_fw_load_def compat_fw_load_def fpga_mgr_get_def demo_env_def IS_ERR_OR_NULL_def IS_ERR_def
        split: prod.splits)
  with firmware_name_store_sequence [OF run] run show ?thesis by auto
qed

text \<open>
  C25.  On kernels whose FPGA manager the driver has to look up itself, every path drops what it
  took: without a manager or with one in use the device reference is put, without its module the
  mutex is released as well, and only a returned manager stays locked and referenced.
\<close>
theorem fpga_mgr_get_old_outcomes:
  assumes "run_state (fpga_mgr_get Before_4_10 E) s = (r, s')"
  shows "\<exists>d m v w x. (d = NULL \<and> r = - ENODEV \<and> calls (trace s') = calls (trace s) @ [(Class_find_device, d)]) \<or>
    (d \<noteq> NULL \<and> m = NULL \<and> r = - ENODEV \<and> calls (trace s') = calls (trace s) @
       [(Class_find_device, d), (To_fpga_manager d, m), (Put_device d, v)]) \<or>
    (d \<noteq> NULL \<and> m \<noteq> NULL \<and> r = - EBUSY \<and> calls (trace s') = calls (trace s) @
       [(Class_find_device, d), (To_fpga_manager d, m), (Mutex_trylock m, 0), (Put_device d, v)]) \<or>
    (d \<noteq> NULL \<and> m \<noteq> NULL \<and> x \<noteq> 0 \<and> r = - ENODEV \<and> calls (trace s') = calls (trace s) @
       [(Class_find_device, d), (To_fpga_manager d, m), (Mutex_trylock m, x), (Try_module_get, 0),
        (Mutex_unlock_mgr m, v), (Put_device d, w)]) \<or>
    (d \<noteq> NULL \<and> m \<noteq> NULL \<and> x \<noteq> 0 \<and> v \<noteq> 0 \<and> r = m \<and> calls (trace s') = calls (trace s) @
       [(Class_find_device, d), (To_fpga_manager d, m), (Mutex_trylock m, x), (Try_module_get, v)])"
proof -
  define d where "d = env_call E (trace s) Class_find_device"
  define t1 where "t1 = Call Class_find_device d # trace s"
  define m where "m = env_call E t1 (To_fpga_manager d)"
  define t2 where "t2 = Call (To_fpga_manager d) m # t1"
  define x where "x = env_call E t2 (Mutex_trylock m)"
  define t3 where "t3 = Call (Mutex_trylock m) x # t2"
  define g where "g = env_call E t3 Try_module_get"
  define t4 where "t4 = Call Try_module_get g # t3"
  note fold = d_def [symmetric] t1_def [symmetric] m_def [symmetric] t2_def [symmetric]
    x_def [symmetric] t3_def [symmetric] g_def [symmetric] t4_def [symmetric]
  have c: "calls t1 = calls (trace s) @ [(Class_find_device, d)]"
    "calls t2 = calls t1 @ [(To_fpga_manager d, m)]" "calls t3 = calls t2 @ [(Mutex_trylock m, x)]"
    "calls t4 = calls t3 @ [(Try_module_get, g)]"
    by (simp_all add: t1_def t2_def t3_def t4_def)
  have "run_state (fpga_mgr_get Before_4_10 E) s = (if d = NULL then (- ENODEV, s\<lparr>trace := t1\<rparr>)
      else if m = NULL then (- ENODEV, s\<lparr>trace := Call (Put_device d) (env_call E t2 (Put_device d)) # t2\<rparr>)
      else if x = 0 then (- EBUSY, s\<lparr>trace := Call (Put_device d) (env_call E t3 (Put_device d)) # t3\<rparr>)
      else if g = 0 then
        (let t5 = Call (Mutex_unlock_mgr m) (env_call E t4 (Mutex_unlock_mgr m)) # t4
         in (- ENODEV, s\<lparr>trace := Call (Put_device d) (env_call E t5 (Put_device d)) # t5\<rparr>))
      else (m, s\<lparr>trace := t4\<rparr>))"
    by (simp add: fpga_mgr_get_def fpga_mgr_get_old_def fold Let_def)
  with assms show ?thesis
    by (simp only: Let_def prod.inject split: if_splits) (use c in force)+
qed

theorem fpga_mgr_get_old_outcomes_witness:
  "\<exists>s' :: kcall svec_dev. run_state (fpga_mgr_get Before_4_10 demo_env) idle_dev = (- ENODEV, s') \<and>
     (\<exists>d. (Class_find_device, d) \<in> set (calls (trace s')))"
proof -
  obtain r s' where run: "run_state (fpga_mgr_get Before_4_10 demo_env) idle_dev = (r, s')" by fastforce
  have "r = - ENODEV" using run by (simp add: fpga_mgr_get_def demo_env_def)
  with fpga_mgr_get_old_outcomes [OF run] run show ?thesis by auto
qed

text \<open>
  Setting up the VME interface writes the interrupt vector and the level to the words that
  hold them, in this order and only between disabling and enabling the device; if the device
  cannot be disabled nothing is written.
\<close>
theorem svec_vme_init_writes:
  assumes "run_state (svec_vme_init E vdev) s = (r, s')"
  shows "(r \<noteq> 0 \<and> trace s' = Call Vme_disable_device r # trace s) \<or>
    trace s' = Call Vme_enable_device r # Wr (CR 0x7FF58) (vdev_irq_level vdev AND 0xFF) #
      Wr (CR 0x7FF5C) (vdev_irq_vector vdev AND 0xFF) # Call Vme_disable_device 0 # trace s"
proof -
  have "w AND 0xFF = take_bit 8 w" for w :: u32 by (simp add: take_bit_eq_mask mask_numeral)
  then have low: "ucast (ucast w :: u8) = w AND 0xFF" for w :: u32
    by (auto intro!: bit_word_eqI simp: bit_simps)
  show ?thesis using assms
    by (auto simp: svec_vme_init_def svec_csr_write_def Let_def csr_offsets low split: if_splits)
qed

theorem svec_vme_init_writes_witness:
  "\<exists>s' :: kcall svec_dev. run_state (svec_vme_init demo_env demo_vdev) idle_dev = (0, s') \<and>
     writes (trace s') = [(CR 0x7FF5C, 0x86), (CR 0x7FF58, 2)]"
proof -
  obtain r s' where run: "run_state (svec_vme_init demo_env demo_vdev) idle_dev = (r, s')" by fastforce
  have "r = 0" using run by (simp add: svec_vme_init_def demo_env_def svec_csr_write_def)
  with svec_vme_init_writes [OF run] run show ?thesis by (simp add: idle_dev_def demo_vdev_def)
qed

end
