(* ===== verification/User_Api.thy ===== *)
theory User_Api
  imports Machine
begin

text \<open>
  The user-space side of the tools: the descriptors of the VME bus driver (\<open>vmebus.h\<close>), the
  system and library calls the tools make, and what the driver stores through the pointers they
  pass.  The VME bus driver is not part of this repository, so what a call returns and stores is a
  parameter of every definition that makes it.
\<close>

section \<open>Descriptors of the VME bus driver\<close>

text \<open>C enumerations are integers; the code assigns arbitrary integers to them.\<close>

definition VME_PREFETCH_2 :: u32 where "VME_PREFETCH_2 = 0"
definition VME_D16 :: u32 where "VME_D16 = 16"
definition VME_D32 :: u32 where "VME_D32 = 32"
definition VME_CR_CSR :: u32 where "VME_CR_CSR = 0x2f"

record vme_mapping =
  window_num :: int
  kernel_va :: int
  user_va :: int
  vm_fd :: int
  window_enabled :: int
  data_width :: u32
  vm_am :: u32
  read_prefetch_enabled :: int
  read_prefetch_size :: u32
  v2esst_mode :: u32
  bcast_select :: int
  pci_addru :: u32
  pci_addrl :: u32
  sizeu :: u32
  sizel :: u32
  vme_addru :: u32
  vme_addrl :: u32

definition zero_vme_mapping :: vme_mapping where
  \<comment> \<open>\<open>memset\<close> or \<open>calloc\<close> of a descriptor\<close>
  "zero_vme_mapping = \<lparr>window_num = 0, kernel_va = 0, user_va = 0, vm_fd = 0, window_enabled = 0,
     data_width = 0, vm_am = 0, read_prefetch_enabled = 0, read_prefetch_size = 0, v2esst_mode = 0,
     bcast_select = 0, pci_addru = 0, pci_addrl = 0, sizeu = 0, sizel = 0, vme_addru = 0,
     vme_addrl = 0\<rparr>"

record vme_dma_attr =
  da_data_width :: u32
  da_am :: u32
  da_v2esst_mode :: u32
  da_bcast_select :: u32
  da_addru :: u32
  da_addrl :: u32

record vme_dma_ctrl =
  vme_block_size :: u32
  vme_backoff_time :: u32
  pci_block_size :: u32
  pci_backoff_time :: u32

record vme_dma =
  dma_status :: u32
  dma_length :: u32
  dma_novmeinc :: u32
  dma_dir :: u32
  dma_src :: vme_dma_attr
  dma_dst :: vme_dma_attr
  dma_ctrl :: vme_dma_ctrl

record vme_bus_error =
  berr_address :: u64
  berr_am :: u32

record vme_bus_error_desc =
  berr_error :: vme_bus_error
  berr_valid :: int

record pdparam_master =
  iack :: u64
  rdpref :: u64
  wrpost :: u64
  swap_opt :: u64
  sgmin :: u64
  dum :: "u64 list"

section \<open>Calls\<close>

text \<open>One constructor for each system or library call; the requests of \<open>ioctl\<close> one each.\<close>

datatype open_flags = O_RDONLY | O_WRONLY | O_RDWR

datatype (plugins only: code) ucall =
    Open string open_flags | Close int
  | Mmap u64 int u64            \<comment> \<open>length, descriptor, offset\<close>
  | Munmap int u64
  | Calloc_mapping | Malloc u64 | Strndup string | Free int
  | Atexit
  | VME_IOCTL_FIND_MAPPING int vme_mapping
  | VME_IOCTL_RELEASE_MAPPING int vme_mapping
  | VME_IOCTL_GET_CREATE_ON_FIND_FAIL int
  | VME_IOCTL_SET_CREATE_ON_FIND_FAIL int int
  | VME_IOCTL_GET_DESTROY_ON_REMOVE int
  | VME_IOCTL_SET_DESTROY_ON_REMOVE int int
  | VME_IOCTL_GET_BUS_ERROR int
  | VME_IOCTL_CHECK_CLEAR_BUS_ERROR int vme_bus_error_desc
  | VME_IOCTL_START_DMA int vme_dma

text \<open>
  The operating system as the tools see it: the answers of the calls, the integer a request stores
  through its pointer (an arbitrary one if the request fails), the descriptors it fills in, and the
  page size.
\<close>

record os =
  os_env :: "ucall env"
  os_int :: "ucall event list \<Rightarrow> ucall \<Rightarrow> int"
  os_mapping :: "ucall event list \<Rightarrow> vme_mapping \<Rightarrow> vme_mapping"
  os_pagesize :: u64

record 'c process = "'c machine" +
  errno :: int

definition ucall :: "os \<Rightarrow> ucall \<Rightarrow> ((ucall, 'z) machine_scheme, int) state" where
  "ucall S c = call (os_env S) c"

definition ucall_void :: "os \<Rightarrow> ucall \<Rightarrow> ((ucall, 'z) machine_scheme, unit) state" where
  "ucall_void S c = do { r \<leftarrow> call (os_env S) c; State_Monad.return () }"

definition ioctl_get :: "os \<Rightarrow> ucall \<Rightarrow> ((ucall, 'z) machine_scheme, int \<times> int) state" where
  \<comment> \<open>a request that stores an integer: its answer and what the variable holds afterwards\<close>
  "ioctl_get S c = do {
     v \<leftarrow> gets (\<lambda>s. os_int S (trace s) c);
     r \<leftarrow> ucall S c;
     State_Monad.return (r, v) }"

definition ioctl_find ::
  "os \<Rightarrow> int \<Rightarrow> vme_mapping \<Rightarrow> ((ucall, 'z) machine_scheme, int \<times> vme_mapping) state" where
  \<comment> \<open>\<open>FIND_MAPPING\<close> fills in the descriptor\<close>
  "ioctl_find S fd desc = do {
     desc' \<leftarrow> gets (\<lambda>s. os_mapping S (trace s) desc);
     r \<leftarrow> ucall S (VME_IOCTL_FIND_MAPPING fd desc);
     State_Monad.return (r, desc') }"

lemma run_ucall [simp, run_simps]:
  "run_state (ucall S c) s =
     (env_call (os_env S) (trace s) c,
      s\<lparr>trace := Call c (env_call (os_env S) (trace s) c) # trace s\<rparr>)"
  by (simp add: ucall_def)

lemma run_ucall_void [simp, run_simps]:
  "run_state (ucall_void S c) s =
     ((), s\<lparr>trace := Call c (env_call (os_env S) (trace s) c) # trace s\<rparr>)"
  by (simp add: ucall_void_def)

lemma run_ioctl_get [simp, run_simps]:
  "run_state (ioctl_get S c) s =
     ((env_call (os_env S) (trace s) c, os_int S (trace s) c),
      s\<lparr>trace := Call c (env_call (os_env S) (trace s) c) # trace s\<rparr>)"
  by (simp add: ioctl_get_def)

lemma run_ioctl_find [simp, run_simps]:
  "run_state (ioctl_find S fd desc) s =
     (let c = VME_IOCTL_FIND_MAPPING fd desc
      in ((env_call (os_env S) (trace s) c, os_mapping S (trace s) desc),
          s\<lparr>trace := Call c (env_call (os_env S) (trace s) c) # trace s\<rparr>))"
  by (simp add: ioctl_find_def Let_def)

section \<open>What a process holds\<close>

datatype ures = UFd int | UMap int u64 | UMem int

fun u_acquired :: "ucall \<Rightarrow> int \<Rightarrow> ures option" where
  "u_acquired (Open p f) v = (if v < 0 then None else Some (UFd v))"
| "u_acquired (Mmap n fd off) v = (if v = - 1 then None else Some (UMap v n))"
| "u_acquired Calloc_mapping v = (if v = 0 then None else Some (UMem v))"
| "u_acquired (Malloc n) v = (if v = 0 then None else Some (UMem v))"
| "u_acquired (Strndup t) v = (if v = 0 then None else Some (UMem v))"
| "u_acquired _ v = None"

fun u_released :: "ucall \<Rightarrow> ures option" where
  "u_released (Close fd) = Some (UFd fd)"
| "u_released (Munmap a n) = Some (UMap a n)"
| "u_released (Free p) = (if p = 0 then None else Some (UMem p))"
| "u_released _ = None"

definition u_balance :: "ucall event list \<Rightarrow> ures \<Rightarrow> int" where
  "u_balance = account u_acquired u_released"

lemma u_balance_simps [simp]:
  "u_balance [] r = 0"
  "u_balance (Call c v # h) r = u_balance h r + own (u_acquired c v) r - own (u_released c) r"
  "u_balance (Rd a w # h) r = u_balance h r" "u_balance (Wr a w # h) r = u_balance h r"
  "u_balance (Sleep n # h) r = u_balance h r" "u_balance (Jiffies t # h) r = u_balance h r"
  by (simp_all add: u_balance_def)

end
