(* ===== verification/Vmebus_Lib.thy ===== *)
theory Vmebus_Lib
  imports User_Api
begin

text \<open>
  The VME bus access library of the tools (\<open>tools/vme-flasher/libvmebus.c\<close>, \<open>libvmebus.h\<close>):
  mapping and unmapping of VME windows, their page arithmetic, the emulation of the CES calls, bus
  error checks, DMA and the byte swaps.  A descriptor the C code changes through its pointer is
  returned beside the result.  Diagnostic output is left out.
\<close>

section \<open>Byte swaps\<close>

definition swapbe16 :: "u16 \<Rightarrow> u16" where
  "swapbe16 val = drop_bit 8 (val AND 0xff00) OR push_bit 8 (val AND 0xff)"

definition swapbe32 :: "u32 \<Rightarrow> u32" where
  "swapbe32 val = drop_bit 24 (val AND 0xff000000) OR drop_bit 8 (val AND 0xff0000) OR
     push_bit 8 (val AND 0xff00) OR push_bit 24 (val AND 0xff)"

section \<open>Bus errors\<close>

definition vme_bus_error_check :: "os \<Rightarrow> vme_mapping \<Rightarrow> ((ucall, 'z) process_scheme, int) state" where
  "vme_bus_error_check S desc = do {
     (r, bus_err) \<leftarrow> ioctl_get S (VME_IOCTL_GET_BUS_ERROR (vm_fd desc));
     State_Monad.return (if r < 0 then - 1 else bus_err) }"

definition vme_bus_error_check_clear ::
  "os \<Rightarrow> vme_mapping \<Rightarrow> u64 \<Rightarrow> ((ucall, 'z) process_scheme, int) state" where
  "vme_bus_error_check_clear S vme_desc address = do {
     let desc = \<lparr>berr_error = \<lparr>berr_address = address, berr_am = vm_am vme_desc\<rparr>, berr_valid = 0\<rparr>;
     (r, valid) \<leftarrow> ioctl_get S (VME_IOCTL_CHECK_CLEAR_BUS_ERROR (vm_fd vme_desc) desc);
     State_Monad.return (if r < 0 then - 1 else valid) }"

section \<open>Mapping into user space\<close>

definition page_addr :: "os \<Rightarrow> u64 \<Rightarrow> u64" where
  "page_addr S address = (let pagemask = os_pagesize S - 1 in address AND NOT pagemask)"

definition page_aligned_size :: "os \<Rightarrow> vme_mapping \<Rightarrow> u64" where
  \<comment> \<open>the sum is one of \<open>unsigned int\<close>s, the difference one of \<open>off_t\<close>s\<close>
  "page_aligned_size S desc = ucast (pci_addrl desc + sizel desc) - page_addr S (ucast (pci_addrl desc))"

definition page_aligned_size_incr :: "os \<Rightarrow> vme_mapping \<Rightarrow> u64" where
  "page_aligned_size_incr S desc = ucast (pci_addrl desc) - page_addr S (ucast (pci_addrl desc))"

definition MAP_FAILED :: int where "MAP_FAILED = - 1"

definition vme_mmap ::
  "os \<Rightarrow> vme_mapping \<Rightarrow> ((ucall, 'z) process_scheme, int \<times> vme_mapping) state" where
  "vme_mmap S desc = do {
     let page_addr' = page_addr S (ucast (pci_addrl desc));
     let size' = page_aligned_size S desc;
     addr \<leftarrow> ucall S (Mmap size' (vm_fd desc) page_addr');
     if addr = MAP_FAILED then State_Monad.return (- 1, desc)
     else State_Monad.return (0, desc\<lparr>user_va := addr + uint (page_aligned_size_incr S desc)\<rparr>) }"

definition vme_munmap :: "os \<Rightarrow> vme_mapping \<Rightarrow> ((ucall, 'z) process_scheme, int) state" where
  "vme_munmap S desc = do {
     let addr = user_va desc - uint (page_aligned_size_incr S desc);
     ucall S (Munmap addr (page_aligned_size S desc)) }"

definition VME_MWINDOW_DEV :: string where "VME_MWINDOW_DEV = ''/dev/vme_mwindow''"
definition VME_DMA_DEV :: string where "VME_DMA_DEV = ''/dev/vme_dma''"

definition map_close ::
  "os \<Rightarrow> int \<Rightarrow> vme_mapping \<Rightarrow> ((ucall, 'z) process_scheme, int \<times> vme_mapping) state" where
  \<comment> \<open>the label \<open>out_close\<close>\<close>
  "map_close S fd desc = do { ucall_void S (Close fd); State_Monad.return (0, desc) }"

definition map_restore ::
  "os \<Rightarrow> int \<Rightarrow> int \<Rightarrow> vme_mapping \<Rightarrow> ((ucall, 'z) process_scheme, int \<times> vme_mapping) state" where
  \<comment> \<open>the label \<open>out_restore_flag\<close>\<close>
  "map_restore S fd org_force_create desc = do {
     ucall_void S (VME_IOCTL_SET_CREATE_ON_FIND_FAIL fd org_force_create);
     map_close S fd desc }"

definition vme_map ::
  "os \<Rightarrow> vme_mapping \<Rightarrow> int \<Rightarrow> ((ucall, 'z) process_scheme, int \<times> vme_mapping) state" where
  "vme_map S desc force = do {
     fd \<leftarrow> ucall S (Open VME_MWINDOW_DEV O_RDWR);
     if fd < 0 then State_Monad.return (0, desc)
     else do {
       let desc = desc\<lparr>vm_fd := fd\<rparr>;
       (r, org_force_create) \<leftarrow> ioctl_get S (VME_IOCTL_GET_CREATE_ON_FIND_FAIL fd);
       if r < 0 then map_close S fd desc
       else do {
         r \<leftarrow> ucall S (VME_IOCTL_SET_CREATE_ON_FIND_FAIL fd force);
         if r < 0 then map_close S fd desc
         else do {
           (r, desc) \<leftarrow> ioctl_find S fd desc;
           if r < 0 then map_restore S fd org_force_create desc
           else do {
             (r, desc) \<leftarrow> vme_mmap S desc;
             if r \<noteq> 0 then map_restore S fd org_force_create desc
             else do {
               ucall_void S (VME_IOCTL_SET_CREATE_ON_FIND_FAIL fd org_force_create);
               State_Monad.return (user_va desc, desc) } } } } } }"

definition EFAULT :: int where "EFAULT = 14"

definition vme_unmap :: "os \<Rightarrow> vme_mapping option \<Rightarrow> int \<Rightarrow> ((ucall, 'z) process_scheme, int) state" where
  \<comment> \<open>None is the NULL pointer\<close>
  "vme_unmap S desc force =
     (case desc of None \<Rightarrow> do { modify (\<lambda>s. s\<lparr>errno := - EFAULT\<rparr>); State_Monad.return (- 1) }
      | Some desc \<Rightarrow> do {
          unmapped \<leftarrow> vme_munmap S desc;
          let ret = (if unmapped \<noteq> 0 then - 1 else 0);
          org_force_destroy \<leftarrow>
            (if force \<noteq> 0 then do {
               (r, org) \<leftarrow> ioctl_get S (VME_IOCTL_GET_DESTROY_ON_REMOVE (vm_fd desc));
               ucall_void S (VME_IOCTL_SET_DESTROY_ON_REMOVE (vm_fd desc) force);
               State_Monad.return org }
             else State_Monad.return 0);
          released \<leftarrow> ucall S (VME_IOCTL_RELEASE_MAPPING (vm_fd desc) desc);
          let ret = (if released < 0 then - 1 else ret);
          (if force \<noteq> 0
           then ucall_void S (VME_IOCTL_SET_DESTROY_ON_REMOVE (vm_fd desc) org_force_destroy)
           else State_Monad.return ());
          ucall_void S (Close (vm_fd desc));
          State_Monad.return ret })"

section \<open>DMA\<close>

definition vme_dma_read :: "os \<Rightarrow> vme_dma \<Rightarrow> ((ucall, 'z) process_scheme, int) state" where
  "vme_dma_read S desc = do {
     fd \<leftarrow> ucall S (Open VME_DMA_DEV O_RDONLY);
     if fd < 0 then State_Monad.return (- 1)
     else do {
       r \<leftarrow> ucall S (VME_IOCTL_START_DMA fd desc);
       let rc = (if r < 0 then - 1 else 0);
       ucall_void S (Close fd);
       State_Monad.return rc } }"

definition vme_dma_write :: "os \<Rightarrow> vme_dma \<Rightarrow> ((ucall, 'z) process_scheme, int) state" where
  "vme_dma_write S desc = do {
     fd \<leftarrow> ucall S (Open VME_DMA_DEV O_WRONLY);
     if fd < 0 then State_Monad.return (- 1)
     else do {
       r \<leftarrow> ucall S (VME_IOCTL_START_DMA fd desc);
       let rc = (if r < 0 then - 1 else 0);
       ucall_void S (Close fd);
       State_Monad.return rc } }"

section \<open>The emulation of the CES calls\<close>

text \<open>
  The descriptor lives in memory that \<open>find_controller\<close> allocates; its address goes into
  \<open>sgmin\<close>.  Both are returned: the address and the contents.
\<close>

definition fc_free ::
  "os \<Rightarrow> int \<Rightarrow> pdparam_master \<Rightarrow> vme_mapping \<Rightarrow>
   ((ucall, 'z) process_scheme, int \<times> pdparam_master \<times> vme_mapping) state" where
  \<comment> \<open>the label \<open>out_free\<close>\<close>
  "fc_free S p param desc = do { ucall_void S (Free p); State_Monad.return (0, param, desc) }"

definition fc_restore ::
  "os \<Rightarrow> int \<Rightarrow> int \<Rightarrow> int \<Rightarrow> pdparam_master \<Rightarrow> vme_mapping \<Rightarrow>
   ((ucall, 'z) process_scheme, int \<times> pdparam_master \<times> vme_mapping) state" where
  \<comment> \<open>the label \<open>out_restore_flag\<close>\<close>
  "fc_restore S fd org_force_create p param desc = do {
     ucall_void S (VME_IOCTL_SET_CREATE_ON_FIND_FAIL fd org_force_create);
     fc_free S p param desc }"

definition fc_open ::
  "os \<Rightarrow> int \<Rightarrow> pdparam_master \<Rightarrow> vme_mapping \<Rightarrow>
   ((ucall, 'z) process_scheme, int \<times> pdparam_master \<times> vme_mapping) state" where
  \<comment> \<open>from the opening of the window device on\<close>
  "fc_open S p param desc = do {
     fd \<leftarrow> ucall S (Open VME_MWINDOW_DEV O_RDWR);
     if fd < 0 then fc_free S p param desc
     else do {
       let desc = desc\<lparr>vm_fd := fd\<rparr>;
       (r, org_force_create) \<leftarrow> ioctl_get S (VME_IOCTL_GET_CREATE_ON_FIND_FAIL fd);
       if r < 0 then fc_free S p param desc
       else do {
         r \<leftarrow> ucall S (VME_IOCTL_SET_CREATE_ON_FIND_FAIL fd 1);
         if r < 0 then fc_free S p param desc
         else do {
           (r, desc) \<leftarrow> ioctl_find S fd desc;
           if r < 0 then fc_restore S fd org_force_create p param desc
           else do {
             (r, desc) \<leftarrow> vme_mmap S desc;
             if r \<noteq> 0 then fc_restore S fd org_force_create p param desc
             else do {
               let param = param\<lparr>sgmin := word_of_int p\<rparr>;
               ucall_void S (VME_IOCTL_SET_CREATE_ON_FIND_FAIL fd org_force_create);
               State_Monad.return (user_va desc, param, desc) } } } } } }"

definition find_controller ::
  "os \<Rightarrow> u64 \<Rightarrow> u64 \<Rightarrow> u64 \<Rightarrow> u64 \<Rightarrow> u64 \<Rightarrow> pdparam_master \<Rightarrow>
   ((ucall, 'z) process_scheme, int \<times> pdparam_master \<times> vme_mapping) state" where
  "find_controller S vmeaddr len am offset size' param = do {
     p \<leftarrow> ucall S Calloc_mapping;
     let desc = zero_vme_mapping;
     if p = 0 then State_Monad.return (0, param, desc)
     else do {
       let desc = desc\<lparr>window_num := 0, vm_am := ucast am\<rparr>;
       let desc = (if rdpref param \<noteq> 0
                   then desc\<lparr>read_prefetch_enabled := 1, read_prefetch_size := VME_PREFETCH_2\<rparr>
                   else desc);
       if size' \<noteq> 2 \<and> size' \<noteq> 4 then fc_free S p param desc
       else do {
         let desc = desc\<lparr>data_width := (if size' = 2 then VME_D16 else VME_D32), bcast_select := 0\<rparr>;
         let len = (if tst len 0xffff then len AND NOT 0xffff else len);
         let desc = desc\<lparr>sizel := ucast len, sizeu := 0\<rparr>;
         let vmeaddr = (if tst vmeaddr 0xffff then vmeaddr AND NOT 0xffff else vmeaddr);
         let desc = desc\<lparr>vme_addrl := ucast vmeaddr, vme_addru := 0\<rparr>;
         fc_open S p param desc } } }"

definition return_controller ::
  "os \<Rightarrow> (int \<times> vme_mapping) option \<Rightarrow> ((ucall, 'z) process_scheme, int) state" where
  "return_controller S desc =
     (case desc of None \<Rightarrow> do { modify (\<lambda>s. s\<lparr>errno := - EFAULT\<rparr>); State_Monad.return (- 1) }
      | Some (p, desc) \<Rightarrow> do {
          unmapped \<leftarrow> vme_munmap S desc;
          let ret = (if unmapped \<noteq> 0 then - 1 else 0);
          (r, org_force_destroy) \<leftarrow> ioctl_get S (VME_IOCTL_GET_DESTROY_ON_REMOVE (vm_fd desc));
          ucall_void S (VME_IOCTL_SET_DESTROY_ON_REMOVE (vm_fd desc) 1);
          released \<leftarrow> ucall S (VME_IOCTL_RELEASE_MAPPING (vm_fd desc) desc);
          let ret = (if released < 0 then - 1 else ret);
          ucall_void S (VME_IOCTL_SET_DESTROY_ON_REMOVE (vm_fd desc) org_force_destroy);
          ucall_void S (Close (vm_fd desc));
          ucall_void S (Free p);
          State_Monad.return ret })"

end
