(* ===== verification/Vmebus_Window.thy ===== *)
theory Vmebus_Window
  imports Vmebus_Lib
begin

text \<open>
  What the VME library guarantees: the byte swaps, the page arithmetic of a window, and what a
  process holds after mapping and unmapping, on success and on every error path.
\<close>

section \<open>Byte swaps\<close>

lemma bit_swapbe32: "bit (swapbe32 w) n \<longleftrightarrow> bit (bswap32 w) n"
proof -
  have "w AND 0xff000000 = push_bit 24 (mask 8) AND w" "w AND 0xff0000 = push_bit 16 (mask 8) AND w"
    "w AND 0xff00 = push_bit 8 (mask 8) AND w" "w AND 0xff = mask 8 AND w"
    by (simp_all add: mask_eq_exp_minus_1 push_bit_eq_mult and.commute)
  then show ?thesis
    unfolding swapbe32_def bswap32_def bit_word_of_bytes
    by (auto simp: bit_simps bit_byte_of dest: bit_imp_le_length)
qed

section \<open>Pages\<close>

lemma page_addr_unat:
  assumes "os_pagesize S = 2 ^ k" and "k < 64"
  shows "unat (page_addr S a) = unat a - unat a mod 2 ^ k"
proof -
  have "page_addr S a = push_bit k (drop_bit k a)"
    unfolding page_addr_def assms(1) Let_def mask_eq_exp_minus_1 [symmetric]
    by (rule bit_word_eqI) (auto simp: bit_simps)
  moreover have "unat (push_bit k (drop_bit k a)) = unat a div 2 ^ k * 2 ^ k"
  proof -
    have "unat a < 2 ^ 64" by (rule order.strict_trans2 [OF unsigned_less]) simp
    then have "unat a div 2 ^ k * 2 ^ k < 2 ^ 64"
      using div_times_less_eq_dividend [of "unat a" "2 ^ k"] by linarith
    moreover have "unat (push_bit k (drop_bit k a)) = take_bit 64 (push_bit k (unat (drop_bit k a)))"
      by (simp only: unsigned_push_bit_eq len_bit0 len_num1) simp
    moreover have "push_bit k (unat (drop_bit k a)) = unat a div 2 ^ k * 2 ^ k"
      unfolding unat_drop_bit_eq by (simp only: drop_bit_eq_div push_bit_eq_mult)
    ultimately show ?thesis by (simp only: take_bit_nat_eq_self)
  qed
  ultimately show ?thesis by (simp add: minus_mod_eq_div_mult)
qed

section \<open>Flags and resources\<close>

fun flag_sets :: "(ucall \<times> int) list \<Rightarrow> (int \<times> int) list" where
  \<comment> \<open>the values given to the create flag, with the answers\<close>
  "flag_sets [] = []"
| "flag_sets ((VME_IOCTL_SET_CREATE_ON_FIND_FAIL fd v, r) # cs) = (v, r) # flag_sets cs"
| "flag_sets (c # cs) = flag_sets cs"

lemma flag_sets_append [simp]: "flag_sets (cs @ ds) = flag_sets cs @ flag_sets ds"
  by (induction cs rule: flag_sets.induct) auto

definition window_of :: "os \<Rightarrow> vme_mapping \<Rightarrow> ures" where
  \<comment> \<open>the memory a descriptor maps\<close>
  "window_of S d = UMap (user_va d - uint (page_aligned_size_incr S d)) (page_aligned_size S d)"

lemma mmap_run:
  obtains r d' t where "run_state (vme_mmap S d) s = ((r, d'), s\<lparr>trace := t\<rparr>)"
    and "calls t = calls (trace s) @ [(Mmap (page_aligned_size S d) (vm_fd d) (page_addr S (ucast (pci_addrl d))),
           if r = 0 then user_va d' - uint (page_aligned_size_incr S d) else MAP_FAILED)]"
    and "r = 0 \<or> r = - 1 \<and> d' = d"
    and "r = 0 \<Longrightarrow> d' = d\<lparr>user_va := user_va d'\<rparr>"
    and "\<And>x. u_balance t x = u_balance (trace s) x + own (if r = 0 then Some (window_of S d') else None) x"
proof -
  let ?c = "Mmap (page_aligned_size S d) (vm_fd d) (page_addr S (ucast (pci_addrl d)))"
  let ?v = "env_call (os_env S) (trace s) ?c"
  show thesis
  proof (cases "?v = MAP_FAILED")
    case True
    then show thesis
      by (intro that [where r = "- 1" and d' = d and t = "Call ?c ?v # trace s"])
         (simp_all add: vme_mmap_def Let_def MAP_FAILED_def)
  next
    case False
    let ?d = "d\<lparr>user_va := ?v + uint (page_aligned_size_incr S d)\<rparr>"
    have "page_aligned_size S ?d = page_aligned_size S d"
      "page_aligned_size_incr S ?d = page_aligned_size_incr S d"
      by (simp_all add: page_aligned_size_def page_aligned_size_incr_def)
    then show thesis using False
      by (intro that [where r = 0 and d' = ?d and t = "Call ?c ?v # trace s"])
         (simp_all add: vme_mmap_def Let_def MAP_FAILED_def window_of_def)
  qed
qed

text \<open>What the clean-up labels do.\<close>

lemma map_close_run [simp]:
  "run_state (map_close S fd d) s = ((0, d), s\<lparr>trace :=
     Call (Close fd) (env_call (os_env S) (trace s) (Close fd)) # trace s\<rparr>)"
  by (simp add: map_close_def)

definition flags_restored :: "int \<Rightarrow> (int \<times> int) list \<Rightarrow> bool" where
  \<comment> \<open>once the flag was changed it is set again\<close>
  "flags_restored force fs \<longleftrightarrow> fs = [] \<or> (\<exists>v<0. fs = [(force, v)]) \<or>
     (\<exists>v org w. 0 \<le> v \<and> fs = [(force, v), (org, w)])"

text \<open>The driver leaves the file descriptor in the mapping descriptor alone.\<close>

definition keeps_fd :: "os \<Rightarrow> bool" where
  "keeps_fd S \<longleftrightarrow> (\<forall>h d. vm_fd (os_mapping S h d) = vm_fd d)"

definition map_outcome ::
  "os \<Rightarrow> int \<Rightarrow> ucall event list \<Rightarrow> ucall event list \<Rightarrow> int \<Rightarrow> vme_mapping \<Rightarrow> bool" where
  "map_outcome S force t t' va d \<longleftrightarrow>
     (\<exists>fs. flag_sets (calls t') = flag_sets (calls t) @ fs \<and> flags_restored force fs) \<and>
     (va = 0 \<and> (\<forall>x. u_balance t' x = u_balance t x) \<or>
      (\<exists>fd\<ge>0. va = user_va d \<and> (keeps_fd S \<longrightarrow> vm_fd d = fd) \<and> (\<forall>x. u_balance t' x =
         u_balance t x + own (Some (UFd fd)) x + own (Some (window_of S d)) x)))"

lemma vme_map_outcome:
  assumes run: "run_state (vme_map S desc force) s = ((va, d), s')"
  shows "map_outcome S force (trace s) (trace s') va d"
proof -
  define fd where "fd = env_call (os_env S) (trace s) (Open VME_MWINDOW_DEV O_RDWR)"
  define t1 where "t1 = Call (Open VME_MWINDOW_DEV O_RDWR) fd # trace s"
  let ?d1 = "desc\<lparr>vm_fd := fd\<rparr>"
  let ?get = "VME_IOCTL_GET_CREATE_ON_FIND_FAIL fd"
  define g where "g = env_call (os_env S) t1 ?get"
  define org where "org = os_int S t1 ?get"
  define t2 where "t2 = Call ?get g # t1"
  let ?set = "VME_IOCTL_SET_CREATE_ON_FIND_FAIL fd force"
  define r3 where "r3 = env_call (os_env S) t2 ?set"
  define t3 where "t3 = Call ?set r3 # t2"
  let ?find = "VME_IOCTL_FIND_MAPPING fd ?d1"
  define r4 where "r4 = env_call (os_env S) t3 ?find"
  define d4 where "d4 = os_mapping S t3 ?d1"
  define t4 where "t4 = Call ?find r4 # t3"
  let ?restore = "VME_IOCTL_SET_CREATE_ON_FIND_FAIL fd org"
  obtain r5 d5 t5 where 5: "run_state (vme_mmap S d4) (s\<lparr>trace := t4\<rparr>) = ((r5, d5), s\<lparr>trace := t5\<rparr>)"
    and c5: "calls t5 = calls t4 @ [(Mmap (page_aligned_size S d4) (vm_fd d4) (page_addr S (ucast (pci_addrl d4))),
           if r5 = 0 then user_va d5 - uint (page_aligned_size_incr S d4) else MAP_FAILED)]"
    and d5: "r5 = 0 \<Longrightarrow> d5 = d4\<lparr>user_va := user_va d5\<rparr>"
    and b5: "\<And>x. u_balance t5 x = u_balance t4 x + own (if r5 = 0 then Some (window_of S d5) else None) x"
    by (rule mmap_run [of S d4 "s\<lparr>trace := t4\<rparr>"]) auto
  note fold = fd_def [symmetric] t1_def [symmetric] g_def [symmetric] org_def [symmetric]
    t2_def [symmetric] r3_def [symmetric] t3_def [symmetric] r4_def [symmetric] d4_def [symmetric]
    t4_def [symmetric]
  consider (noopen) "fd < 0" | (noget) "0 \<le> fd" "g < 0" | (noset) "0 \<le> fd" "0 \<le> g" "r3 < 0"
    | (nofind) "0 \<le> fd" "0 \<le> g" "0 \<le> r3" "r4 < 0"
    | (nomap) "0 \<le> fd" "0 \<le> g" "0 \<le> r3" "0 \<le> r4" "r5 \<noteq> 0"
    | (up) "0 \<le> fd" "0 \<le> g" "0 \<le> r3" "0 \<le> r4" "r5 = 0" by linarith
  then show ?thesis
  proof cases
    case noopen
    then have "va = 0 \<and> trace s' = t1" using run by (auto simp: vme_map_def fold Let_def)
    then show ?thesis using noopen by (simp add: map_outcome_def flags_restored_def t1_def)
  next
    case noget
    then have "va = 0 \<and> (\<exists>v. trace s' = Call (Close fd) v # t2)"
      using run by (auto simp: vme_map_def fold Let_def)
    then show ?thesis using noget by (auto simp: map_outcome_def flags_restored_def t1_def t2_def)
  next
    case noset
    then have "va = 0 \<and> (\<exists>v. trace s' = Call (Close fd) v # t3)"
      using run by (auto simp: vme_map_def fold Let_def)
    then show ?thesis using noset by (auto simp: map_outcome_def flags_restored_def t1_def t2_def t3_def)
  next
    case nofind
    then have "va = 0 \<and> (\<exists>v w. trace s' = Call (Close fd) v # Call ?restore w # t4)"
      using run by (auto simp: vme_map_def map_restore_def fold Let_def)
    then show ?thesis using nofind
      by (auto simp: map_outcome_def flags_restored_def t1_def t2_def t3_def t4_def)
  next
    case nomap
    then have "va = 0 \<and> (\<exists>v w. trace s' = Call (Close fd) v # Call ?restore w # t5)"
      using run 5 by (auto simp: vme_map_def map_restore_def fold Let_def)
    then show ?thesis using nomap
      by (auto simp: map_outcome_def flags_restored_def b5 c5 t1_def t2_def t3_def t4_def)
  next
    case up
    then have "va = user_va d \<and> d = d5 \<and> (\<exists>w. trace s' = Call ?restore w # t5)"
      using run 5 by (auto simp: vme_map_def fold Let_def)
    moreover have "vm_fd d5 = vm_fd d4" using arg_cong [OF d5 [OF up(5)], of vm_fd] by simp
    ultimately show ?thesis using up
      by (auto simp: map_outcome_def flags_restored_def b5 c5 t1_def t2_def t3_def t4_def d4_def keeps_fd_def)
  qed
qed

lemma unmap_run:
  assumes "run_state (vme_unmap S (Some d) force) s = (r, s')"
  shows "(r = 0 \<or> r = - 1) \<and> (\<forall>x. u_balance (trace s') x =
     u_balance (trace s) x - own (Some (UFd (vm_fd d))) x - own (Some (window_of S d)) x)"
  using assms
  by (auto simp: vme_unmap_def vme_munmap_def window_of_def Let_def split: if_splits)

lemma fc_free_run [simp]:
  "run_state (fc_free S p param d) s = ((0, param, d), s\<lparr>trace :=
     Call (Free p) (env_call (os_env S) (trace s) (Free p)) # trace s\<rparr>)"
  by (simp add: fc_free_def)

definition fc_outcome ::
  "os \<Rightarrow> int \<Rightarrow> ucall event list \<Rightarrow> ucall event list \<Rightarrow> int \<Rightarrow> pdparam_master \<Rightarrow> vme_mapping \<Rightarrow> bool" where
  \<comment> \<open>the outcomes once the descriptor is allocated at \<open>p\<close>\<close>
  "fc_outcome S p t t' va param d \<longleftrightarrow> (\<exists>fd cs. calls t' = calls t @ (Open VME_MWINDOW_DEV O_RDWR, fd) # cs \<and>
     (fd < 0 \<and> va = 0 \<and> (\<exists>v. cs = [(Free p, v)]) \<and>
        (\<forall>x. u_balance t' x = u_balance t x - own (u_released (Free p)) x) \<or>
      0 \<le> fd \<and> va = 0 \<and> (\<forall>x. u_balance t' x =
         u_balance t x - own (u_released (Free p)) x + own (Some (UFd fd)) x) \<or>
      0 \<le> fd \<and> va = user_va d \<and> sgmin param = word_of_int p \<and> (keeps_fd S \<longrightarrow> vm_fd d = fd) \<and>
        (\<forall>x. u_balance t' x = u_balance t x + own (Some (UFd fd)) x + own (Some (window_of S d)) x)))"

lemma fc_open_outcome:
  assumes run: "run_state (fc_open S p param0 desc) s = ((va, param, d), s')"
  shows "fc_outcome S p (trace s) (trace s') va param d"
proof -
  define fd where "fd = env_call (os_env S) (trace s) (Open VME_MWINDOW_DEV O_RDWR)"
  define t1 where "t1 = Call (Open VME_MWINDOW_DEV O_RDWR) fd # trace s"
  let ?d1 = "desc\<lparr>vm_fd := fd\<rparr>"
  let ?get = "VME_IOCTL_GET_CREATE_ON_FIND_FAIL fd"
  define g where "g = env_call (os_env S) t1 ?get"
  define org where "org = os_int S t1 ?get"
  define t2 where "t2 = Call ?get g # t1"
  let ?set = "VME_IOCTL_SET_CREATE_ON_FIND_FAIL fd 1"
  define r3 where "r3 = env_call (os_env S) t2 ?set"
  define t3 where "t3 = Call ?set r3 # t2"
  let ?find = "VME_IOCTL_FIND_MAPPING fd ?d1"
  define r4 where "r4 = env_call (os_env S) t3 ?find"
  define d4 where "d4 = os_mapping S t3 ?d1"
  define t4 where "t4 = Call ?find r4 # t3"
  let ?restore = "VME_IOCTL_SET_CREATE_ON_FIND_FAIL fd org"
  obtain r5 d5 t5 where 5: "run_state (vme_mmap S d4) (s\<lparr>trace := t4\<rparr>) = ((r5, d5), s\<lparr>trace := t5\<rparr>)"
    and c5: "calls t5 = calls t4 @ [(Mmap (page_aligned_size S d4) (vm_fd d4) (page_addr S (ucast (pci_addrl d4))),
           if r5 = 0 then user_va d5 - uint (page_aligned_size_incr S d4) else MAP_FAILED)]"
    and d5: "r5 = 0 \<Longrightarrow> d5 = d4\<lparr>user_va := user_va d5\<rparr>"
    and b5: "\<And>x. u_balance t5 x = u_balance t4 x + own (if r5 = 0 then Some (window_of S d5) else None) x"
    by (rule mmap_run [of S d4 "s\<lparr>trace := t4\<rparr>"]) auto
  note fold = fd_def [symmetric] t1_def [symmetric] g_def [symmetric] org_def [symmetric]
    t2_def [symmetric] r3_def [symmetric] t3_def [symmetric] r4_def [symmetric] d4_def [symmetric]
    t4_def [symmetric]
  note unfold = t1_def t2_def t3_def t4_def
  consider (noopen) "fd < 0" | (early) "0 \<le> fd" "g < 0 \<or> r3 < 0"
    | (nofind) "0 \<le> fd" "0 \<le> g" "0 \<le> r3" "r4 < 0"
    | (nomap) "0 \<le> fd" "0 \<le> g" "0 \<le> r3" "0 \<le> r4" "r5 \<noteq> 0"
    | (up) "0 \<le> fd" "0 \<le> g" "0 \<le> r3" "0 \<le> r4" "r5 = 0" by linarith
  then show ?thesis
  proof cases
    case noopen
    then have "va = 0 \<and> (\<exists>v. trace s' = Call (Free p) v # t1)"
      using run by (auto simp: fc_open_def fold Let_def)
    then show ?thesis using noopen by (auto simp: fc_outcome_def unfold)
  next
    case early
    then have "va = 0 \<and> (\<exists>v. trace s' = Call (Free p) v # t2 \<or> trace s' = Call (Free p) v # t3)"
      using run by (cases "g < 0") (auto simp: fc_open_def fold Let_def)
    then show ?thesis using early by (auto simp: fc_outcome_def unfold)
  next
    case nofind
    then have "va = 0 \<and> (\<exists>v w. trace s' = Call (Free p) v # Call ?restore w # t4)"
      using run by (auto simp: fc_open_def fc_restore_def fold Let_def)
    then show ?thesis using nofind by (auto simp: fc_outcome_def unfold)
  next
    case nomap
    then have "va = 0 \<and> (\<exists>v w. trace s' = Call (Free p) v # Call ?restore w # t5)"
      using run 5 by (auto simp: fc_open_def fc_restore_def fold Let_def)
    then show ?thesis using nomap by (auto simp: fc_outcome_def b5 c5 unfold)
  next
    case up
    then have "va = user_va d \<and> d = d5 \<and> sgmin param = word_of_int p \<and> (\<exists>w. trace s' = Call ?restore w # t5)"
      using run 5 by (auto simp: fc_open_def fold Let_def)
    moreover have "vm_fd d5 = vm_fd d4" using arg_cong [OF d5 [OF up(5)], of vm_fd] by simp
    ultimately show ?thesis using up
      by (auto simp: fc_outcome_def b5 c5 unfold d4_def keeps_fd_def)
  qed
qed

section \<open>A driver where everything works\<close>

fun good_os_call :: "ucall event list \<Rightarrow> ucall \<Rightarrow> int" where
  "good_os_call h (Open p f) = 3"
| "good_os_call h (Mmap n fd off) = 0x7f0000000000"
| "good_os_call h Calloc_mapping = 0x5000"
| "good_os_call h (Malloc n) = 0x6000"
| "good_os_call h _ = 0"

definition good_os :: os where
  "good_os = \<lparr>os_env = \<lparr>env_read = (\<lambda>_ _. 0), env_jiffies = (\<lambda>_. 0), env_call = good_os_call\<rparr>,
     os_int = (\<lambda>_ _. 0), os_mapping = (\<lambda>_ d. d\<lparr>pci_addrl := 0xC0070000\<rparr>), os_pagesize = 0x1000\<rparr>"

definition new_process :: "ucall process" where
  "new_process = \<lparr>trace = [], errno = 0\<rparr>"

definition csr_desc :: vme_mapping where
  "csr_desc = zero_vme_mapping\<lparr>vm_am := VME_CR_CSR, data_width := VME_D32, sizel := 0x1000,
     vme_addrl := 0x470000\<rparr>"

lemma good_map:
  "\<exists>d s'. run_state (vme_map good_os csr_desc 1) new_process = ((0x7f0000000000, d), s') \<and>
     page_aligned_size good_os d = 0x1000"
  by (simp add: vme_map_def good_os_def vme_mmap_def Let_def csr_desc_def zero_vme_mapping_def
      page_aligned_size_incr_def page_aligned_size_def page_addr_def MAP_FAILED_def)

section \<open>Properties\<close>





text \<open>
  C28.  The bounds of a mapping, for a page size that is a power of two: it starts at the page of
  the window's first byte, and if the window ends below 4 GiB it reaches exactly to the window's
  end.  If the window ends at or above 4 GiB the 32-bit sum wraps around and the length passed to
  \<open>mmap\<close> is short by 4 GiB, modulo the range of \<open>size_t\<close>.
\<close>
theorem page_window_bounds:
  assumes "os_pagesize S = 2 ^ k" and "k < 32"
  shows "unat (page_addr S (ucast (pci_addrl d))) = unat (pci_addrl d) - unat (pci_addrl d) mod 2 ^ k \<and>
    unat (page_aligned_size_incr S d) = unat (pci_addrl d) mod 2 ^ k \<and>
    int (unat (page_aligned_size S d)) =
      (if unat (pci_addrl d) + unat (sizel d) < 2 ^ 32
       then int (unat (sizel d) + unat (pci_addrl d) mod 2 ^ k)
       else (int (unat (sizel d) + unat (pci_addrl d) mod 2 ^ k) - 2 ^ 32) mod 2 ^ 64)"
proof -
  have u: "unat (ucast w :: u64) = unat w" for w :: u32
    by (simp add: unsigned_ucast_eq) (simp add: take_bit_nat_eq_self unsigned_less order.strict_trans2 [OF unsigned_less])
  let ?p = "unat (pci_addrl d)" and ?n = "unat (sizel d)"
  let ?a = "page_addr S (ucast (pci_addrl d))"
  have a: "unat ?a = ?p - ?p mod 2 ^ k" using page_addr_unat [OF assms(1)] assms(2) u by simp
  have lt: "?p < 2 ^ 32" "?n < 2 ^ 32" by (rule order.strict_trans2 [OF unsigned_less], simp)+
  have le: "?p mod 2 ^ k \<le> ?p" by simp
  have sub: "int (unat (x - y)) = (int (unat x) - int (unat y)) mod 2 ^ 64" for x y :: u64
    by (simp add: uint_word_ariths)
  have big: "int x mod 2 ^ 64 = int x" if "x < 8589934592" for x
    using that by (intro mod_pos_pos_trivial) simp_all
  have "?p < 4294967296" "?n < 4294967296" using lt by simp_all
  then have sum: "?n + ?p mod 2 ^ k < 8589934592" "?p mod 2 ^ k < 8589934592"
    using le by linarith+
  have incr: "unat (page_aligned_size_incr S d) = ?p mod 2 ^ k"
  proof -
    have "int (unat (page_aligned_size_incr S d)) = (int ?p - int (?p - ?p mod 2 ^ k)) mod 2 ^ 64"
      unfolding page_aligned_size_incr_def sub u a ..
    also have "\<dots> = int (?p mod 2 ^ k) mod 2 ^ 64" using le by (simp only: of_nat_diff [OF le]) simp
    also have "\<dots> = int (?p mod 2 ^ k)" by (rule big [OF sum(2)])
    finally show ?thesis by (simp only: of_nat_eq_iff)
  qed
  have "unat (pci_addrl d + sizel d) = (?p + ?n) mod 2 ^ 32" by (simp add: unat_word_ariths)
  then have "int (unat (page_aligned_size S d)) =
      (int ((?p + ?n) mod 2 ^ 32) - int (?p - ?p mod 2 ^ k)) mod 2 ^ 64"
    unfolding page_aligned_size_def sub u a by simp
  moreover have "int ((?p + ?n) mod 2 ^ 32) - int (?p - ?p mod 2 ^ k) =
      (if ?p + ?n < 2 ^ 32 then int (?n + ?p mod 2 ^ k) else int (?n + ?p mod 2 ^ k) - 2 ^ 32)"
  proof (cases "?p + ?n < 2 ^ 32")
    case True
    then show ?thesis using le by (simp only: mod_less of_nat_diff [OF le]) simp
  next
    case False
    then have "(?p + ?n) mod 2 ^ 32 = ?p + ?n - 2 ^ 32" using lt by (subst mod_if) simp
    then show ?thesis using False le by (simp only: of_nat_diff [OF le]) (simp add: of_nat_diff)
  qed
  moreover have "int (?n + ?p mod 2 ^ k) mod 2 ^ 64 = int (?n + ?p mod 2 ^ k)"
    by (rule big [OF sum(1)])
  ultimately show ?thesis using a incr by presburger
qed

theorem page_window_bounds_witness:
  "unat (page_aligned_size good_os (csr_desc\<lparr>pci_addrl := 0xC0070100\<rparr>)) = 0x1100 \<and>
   unat (page_aligned_size good_os (csr_desc\<lparr>pci_addrl := 0xFFFFF000\<rparr>)) = 2 ^ 64 - 2 ^ 32 + 0x1000"
proof -
  have p: "os_pagesize good_os = 2 ^ 12" by (simp add: good_os_def)
  have s: "sizel (csr_desc\<lparr>pci_addrl := x\<rparr>) = 0x1000" for x by (simp add: csr_desc_def)
  from page_window_bounds [OF p, of "csr_desc\<lparr>pci_addrl := 0xC0070100\<rparr>"]
    page_window_bounds [OF p, of "csr_desc\<lparr>pci_addrl := 0xFFFFF000\<rparr>"]
  have "int (unat (page_aligned_size good_os (csr_desc\<lparr>pci_addrl := 0xC0070100\<rparr>))) = int 0x1100"
    and "int (unat (page_aligned_size good_os (csr_desc\<lparr>pci_addrl := 0xFFFFF000\<rparr>))) =
      int (2 ^ 64 - 2 ^ 32 + 0x1000)" unfolding s by simp_all
  then show ?thesis unfolding of_nat_eq_iff ..
qed

text \<open>
  The byte swap of the library is the conversion between host and network order, so it is its
  own inverse; the 16-bit swap is its own inverse as well.
\<close>
theorem swapbe_involutive:
  "swapbe32 w = htonl w \<and> swapbe32 (swapbe32 w) = w \<and> swapbe16 (swapbe16 h) = h"
proof -
  have s: "swapbe32 v = htonl v" for v by (rule bit_word_eqI) (simp add: bit_swapbe32)
  have b: "bit (swapbe16 v) n \<longleftrightarrow> n < 16 \<and> (if n < 8 then bit v (n + 8) else bit v (n - 8))" for v n
  proof -
    have "v AND 0xff00 = push_bit 8 (mask 8) AND v" "v AND 0xff = mask 8 AND v"
      by (simp_all add: mask_eq_exp_minus_1 push_bit_eq_mult and.commute)
    then show ?thesis unfolding swapbe16_def
      by (auto simp: bit_simps add.commute dest: bit_imp_le_length)
  qed
  have "swapbe16 (swapbe16 h) = h" by (rule bit_word_eqI) (auto simp: b)
  then show ?thesis by (simp add: s)
qed

text \<open>
  C29.  The emulated CES call: without memory or with a width other than 2 or 4 bytes the device is
  not opened; when it is opened and a later step fails, the descriptor is freed but the device
  stays open, and no pointer to it is left to close it; on success the process holds the
  descriptor, whose address is in \<open>sgmin\<close>, the open device and the mapping.
\<close>
theorem find_controller_outcomes:
  assumes "run_state (find_controller S vmeaddr len am offset width param0) s = ((va, param, d), s')"
  shows "\<exists>cs. calls (trace s') = calls (trace s) @ cs \<and>
     ((va = 0 \<and> (\<forall>fd\<ge>0. (Open VME_MWINDOW_DEV O_RDWR, fd) \<notin> set cs) \<and>
        (\<forall>x. u_balance (trace s') x = u_balance (trace s) x)) \<or>
      (\<exists>fd\<ge>0. (Open VME_MWINDOW_DEV O_RDWR, fd) \<in> set cs \<and> va = 0 \<and>
        (\<forall>x. u_balance (trace s') x = u_balance (trace s) x + own (Some (UFd fd)) x)) \<or>
      (\<exists>fd\<ge>0. \<exists>p. p \<noteq> 0 \<and> va = user_va d \<and> sgmin param = word_of_int p \<and>
        (keeps_fd S \<longrightarrow> vm_fd d = fd) \<and> (\<forall>x. u_balance (trace s') x = u_balance (trace s) x +
           own (Some (UMem p)) x + own (Some (UFd fd)) x + own (Some (window_of S d)) x)))"
proof -
  define p where "p = env_call (os_env S) (trace s) Calloc_mapping"
  let ?s1 = "s\<lparr>trace := Call Calloc_mapping p # trace s\<rparr>"
  consider (nomem) "p = 0" | (width) "p \<noteq> 0" "width \<noteq> 2 \<and> width \<noteq> 4"
    | (ok) "p \<noteq> 0" "width = 2 \<or> width = 4" by blast
  then show ?thesis
  proof cases
    case nomem
    then have "va = 0 \<and> s' = ?s1" using assms by (simp add: find_controller_def p_def [symmetric])
    then show ?thesis using nomem by simp
  next
    case width
    then have "va = 0 \<and> (\<exists>v. s' = ?s1\<lparr>trace := Call (Free p) v # trace ?s1\<rparr>)"
      using assms by (auto simp: find_controller_def p_def [symmetric] Let_def)
    then show ?thesis using width by auto
  next
    case ok
    then obtain desc where "run_state (fc_open S p param0 desc) ?s1 = ((va, param, d), s')"
      using assms by (auto simp: find_controller_def p_def [symmetric] Let_def split: if_splits)
    from fc_open_outcome [OF this] obtain fd cs where
      c: "calls (trace s') = calls (trace ?s1) @ (Open VME_MWINDOW_DEV O_RDWR, fd) # cs"
      and o: "fd < 0 \<and> va = 0 \<and> (\<exists>v. cs = [(Free p, v)]) \<and>
          (\<forall>x. u_balance (trace s') x = u_balance (trace ?s1) x - own (u_released (Free p)) x) \<or>
        0 \<le> fd \<and> va = 0 \<and> (\<forall>x. u_balance (trace s') x =
           u_balance (trace ?s1) x - own (u_released (Free p)) x + own (Some (UFd fd)) x) \<or>
        0 \<le> fd \<and> va = user_va d \<and> sgmin param = word_of_int p \<and> (keeps_fd S \<longrightarrow> vm_fd d = fd) \<and>
          (\<forall>x. u_balance (trace s') x = u_balance (trace ?s1) x + own (Some (UFd fd)) x +
             own (Some (window_of S d)) x)"
      unfolding fc_outcome_def by blast
    have b1: "u_balance (trace ?s1) x = u_balance (trace s) x + own (Some (UMem p)) x" for x
      using ok by simp
    have f: "u_released (Free p) = Some (UMem p)" using ok by simp
    let ?cs = "(Calloc_mapping, p) # (Open VME_MWINDOW_DEV O_RDWR, fd) # cs"
    have c': "calls (trace s') = calls (trace s) @ ?cs" using c by simp
    from o show ?thesis unfolding b1 f
    proof (elim disjE)
      assume "fd < 0 \<and> va = 0 \<and> (\<exists>v. cs = [(Free p, v)]) \<and> (\<forall>x. u_balance (trace s') x =
          u_balance (trace s) x + own (Some (UMem p)) x - own (Some (UMem p)) x)"
      then show ?thesis using c' by (intro exI [of _ ?cs] conjI disjI1) auto
    next
      assume "0 \<le> fd \<and> va = 0 \<and> (\<forall>x. u_balance (trace s') x =
          u_balance (trace s) x + own (Some (UMem p)) x - own (Some (UMem p)) x + own (Some (UFd fd)) x)"
      then show ?thesis using c'
        by (intro exI [of _ ?cs] conjI disjI2 disjI1 exI [of _ fd]) (auto intro!: exI [of _ fd])
    next
      assume "0 \<le> fd \<and> va = user_va d \<and> sgmin param = word_of_int p \<and> (keeps_fd S \<longrightarrow> vm_fd d = fd) \<and>
          (\<forall>x. u_balance (trace s') x = u_balance (trace s) x + own (Some (UMem p)) x +
             own (Some (UFd fd)) x + own (Some (window_of S d)) x)"
      then show ?thesis using c' ok(1)
        by blast
    qed
  qed
qed

definition ces_param :: pdparam_master where
  "ces_param = \<lparr>iack = 1, rdpref = 0, wrpost = 0, swap_opt = 0, sgmin = 0, dum = [0, 0, 0]\<rparr>"

definition full_os :: os where
  \<comment> \<open>a driver without a free window\<close>
  "full_os = good_os\<lparr>os_env := \<lparr>env_read = (\<lambda>_ _. 0), env_jiffies = (\<lambda>_. 0), env_call =
     (\<lambda>h c. case c of VME_IOCTL_FIND_MAPPING fd d \<Rightarrow> - 1 | _ \<Rightarrow> good_os_call h c)\<rparr>\<rparr>"

theorem find_controller_outcomes_witness:
  "\<exists>d s'. run_state (find_controller full_os 0x70000 0x10000 0x2f 0 4 ces_param) new_process =
     ((0, ces_param, d), s') \<and> u_balance (trace s') (UFd 3) = 1"
proof -
  obtain d s' where run: "run_state (find_controller full_os 0x70000 0x10000 0x2f 0 4 ces_param)
      new_process = ((0, ces_param, d), s')"
    and c: "fst ` set (calls (trace s')) \<inter> {Open VME_MWINDOW_DEV O_RDWR} \<noteq> {}"
      "\<forall>fd. (Open VME_MWINDOW_DEV O_RDWR, fd) \<in> set (calls (trace s')) \<longrightarrow> fd = 3" "vm_fd d = 3"
    by (simp add: find_controller_def fc_open_def fc_restore_def full_os_def good_os_def Let_def
        ces_param_def new_process_def zero_vme_mapping_def)
  have k: "keeps_fd full_os" by (simp add: keeps_fd_def full_os_def good_os_def)
  obtain cs where cs: "calls (trace s') = cs" by blast
  have o: "\<exists>fd. (Open VME_MWINDOW_DEV O_RDWR, fd) \<in> set cs" using c(1) cs by auto
  have "u_balance (trace s') (UFd 3) = 1"
    using find_controller_outcomes [OF run] o c(2,3) k
    by (auto simp: new_process_def own_def window_of_def cs)
  then show ?thesis using run by blast
qed



end
