(* ===== verification/Vmebus_Requests.thy ===== *)
theory Vmebus_Requests
  imports User_Api
begin

text \<open>
  The interface of the VME bus driver as numbers (\<open>vmebus.h\<close>): the request numbers of its
  \<open>ioctl\<close>s, computed as the macros of the kernel's \<open>ioctl.h\<close> compute them, and its enumerations.
  \<open>User_Api\<close> models every request by a constructor of its own, so the driver has to be able to
  tell the numbers apart.
\<close>

section \<open>Sizes on an LP64 host\<close>

datatype c_type = C32 | C64 | C_struct "c_type list"

fun c_align :: "c_type \<Rightarrow> nat" where
  "c_align C32 = 4"
| "c_align C64 = 8"
| "c_align (C_struct ts) = foldr (\<lambda>t n. max (c_align t) n) ts 1"

definition padded :: "nat \<Rightarrow> nat \<Rightarrow> nat" where
  "padded n a = (n + a - 1) div a * a"

fun c_size :: "c_type \<Rightarrow> nat" and c_end :: "nat \<Rightarrow> c_type list \<Rightarrow> nat" where
  "c_size C32 = 4"
| "c_size C64 = 8"
| "c_size (C_struct ts) = padded (c_end 0 ts) (c_align (C_struct ts))"
| "c_end n [] = n"
| "c_end n (t # ts) = c_end (padded n (c_align t) + c_size t) ts"

definition vme_mapping_type :: c_type where
  "vme_mapping_type = C_struct ([C32, C64, C64] @ replicate 8 C32 @ replicate 6 C32)"

definition vme_dma_type :: c_type where
  "vme_dma_type = C_struct ([C32, C32, C32, C32] @
     replicate 2 (C_struct (replicate 6 C32)) @ [C_struct (replicate 4 C32)])"

definition vme_bus_error_desc_type :: c_type where
  "vme_bus_error_desc_type = C_struct [C_struct [C64, C32], C32]"

section \<open>Request numbers\<close>

definition IOC :: "u32 \<Rightarrow> u32 \<Rightarrow> nat \<Rightarrow> u32" where
  \<comment> \<open>direction, number and size of the argument, for the type \<open>'V'\<close>\<close>
  "IOC dir nr n = push_bit 30 dir OR push_bit 16 (of_nat n) OR push_bit 8 0x56 OR nr"

lemma struct_sizes: "c_size vme_mapping_type = 80" "c_size vme_bus_error_desc_type = 24" "c_size vme_dma_type = 80"
  by code_simp+

definition vme_requests :: "(string \<times> u32) list" where
  "vme_requests =
     [(''GET_WINDOW_ATTR'', IOC 3 0 (c_size vme_mapping_type)),
      (''CREATE_WINDOW'', IOC 1 1 (c_size vme_mapping_type)),
      (''DESTROY_WINDOW'', IOC 1 2 4),
      (''FIND_MAPPING'', IOC 3 3 (c_size vme_mapping_type)),
      (''RELEASE_MAPPING'', IOC 1 4 (c_size vme_mapping_type)),
      (''GET_CREATE_ON_FIND_FAIL'', IOC 2 5 4),
      (''SET_CREATE_ON_FIND_FAIL'', IOC 1 6 4),
      (''GET_DESTROY_ON_REMOVE'', IOC 2 7 4),
      (''SET_DESTROY_ON_REMOVE'', IOC 1 8 4),
      (''GET_BUS_ERROR'', IOC 2 9 4),
      (''CHECK_CLEAR_BUS_ERROR'', IOC 3 10 (c_size vme_bus_error_desc_type)),
      (''START_DMA'', IOC 3 10 (c_size vme_dma_type))]"

text \<open>
  The numbers differ, but those of the check for a bus error and of the start of a transfer only in
  the size of the argument: both have the ordinal 10.
\<close>

lemma vme_requests_distinct: "distinct (map snd vme_requests)"
  unfolding vme_requests_def struct_sizes by code_simp

lemma vme_requests_ordinals:
  "the (map_of vme_requests ''CHECK_CLEAR_BUS_ERROR'') = 0xC018560A"
  "the (map_of vme_requests ''START_DMA'') = 0xC050560A"
  unfolding vme_requests_def struct_sizes by code_simp+

section \<open>Enumerations\<close>

text \<open>
  An enumerator without a value is one more than the one before; the first is 0.  The comments in
  the header give the values the address modifiers should have.
\<close>

fun enumerate_c :: "int \<Rightarrow> (string \<times> int option) list \<Rightarrow> (string \<times> int) list" where
  "enumerate_c n [] = []"
| "enumerate_c n ((c, v) # cs) =
     (let k = (case v of None \<Rightarrow> n | Some k \<Rightarrow> k) in (c, k) # enumerate_c (k + 1) cs)"

definition vme_read_prefetch_size :: "(string \<times> int option) list" where
  "vme_read_prefetch_size =
     [(''VME_PREFETCH_2'', Some 0), (''VME_PREFETCH_4'', None), (''VME_PREFETCH_8'', None), (''VME_PREFETCH_16'', None)]"

definition vme_data_width :: "(string \<times> int option) list" where
  "vme_data_width = [(''VME_D8'', Some 8), (''VME_D16'', Some 16), (''VME_D32'', Some 32), (''VME_D64'', Some 64)]"

definition vme_2esst_mode :: "(string \<times> int option) list" where
  "vme_2esst_mode = [(''VME_SST160'', Some 0), (''VME_SST267'', None), (''VME_SST320'', None)]"

definition vme_address_modifier :: "(string \<times> int option) list" where
  "vme_address_modifier =
     [(''VME_A64_MBLT'', Some 0), (''VME_A64_SCT'', None), (''VME_A64_BLT'', Some 3), (''VME_A64_LCK'', None),
      (''VME_A32_LCK'', None), (''VME_A32_USER_MBLT'', Some 8), (''VME_A32_USER_DATA_SCT'', None),
      (''VME_A32_USER_PRG_SCT'', None), (''VME_A32_USER_BLT'', None), (''VME_A32_SUP_MBLT'', None),
      (''VME_A32_SUP_DATA_SCT'', None), (''VME_A32_SUP_PRG_SCT'', None), (''VME_A32_SUP_BLT'', None),
      (''VME_2e6U'', Some 0x20), (''VME_2e3U'', None), (''VME_A16_USER'', Some 0x29), (''VME_A16_LCK'', Some 0x2c),
      (''VME_A16_SUP'', Some 0x2d), (''VME_CR_CSR'', Some 0x2f), (''VME_A40_SCT'', Some 0x34),
      (''VME_A40_LCK'', None), (''VME_A40_BLT'', Some 0x37), (''VME_A24_USER_MBLT'', None),
      (''VME_A24_USER_DATA_SCT'', None), (''VME_A24_USER_PRG_SCT'', None), (''VME_A24_USER_BLT'', None),
      (''VME_A24_SUP_MBLT'', None), (''VME_A24_SUP_DATA_SCT'', None), (''VME_A24_SUP_PRG_SCT'', None),
      (''VME_A24_SUP_BLT'', None)]"

definition vme_dma_block_size :: "(string \<times> int option) list" where
  "vme_dma_block_size =
     [(''VME_DMA_BSIZE_32'', Some 0), (''VME_DMA_BSIZE_64'', None), (''VME_DMA_BSIZE_128'', None),
      (''VME_DMA_BSIZE_256'', None), (''VME_DMA_BSIZE_512'', None), (''VME_DMA_BSIZE_1024'', None),
      (''VME_DMA_BSIZE_2048'', None), (''VME_DMA_BSIZE_4096'', None)]"

definition vme_dma_backoff :: "(string \<times> int option) list" where
  "vme_dma_backoff =
     [(''VME_DMA_BACKOFF_0'', Some 0), (''VME_DMA_BACKOFF_1'', None), (''VME_DMA_BACKOFF_2'', None),
      (''VME_DMA_BACKOFF_4'', None), (''VME_DMA_BACKOFF_8'', None), (''VME_DMA_BACKOFF_16'', None),
      (''VME_DMA_BACKOFF_32'', None), (''VME_DMA_BACKOFF_64'', None)]"

definition vme_dma_dir :: "(string \<times> int option) list" where
  "vme_dma_dir = [(''VME_DMA_TO_DEVICE'', Some 1), (''VME_DMA_FROM_DEVICE'', None)]"

lemma address_modifiers:
  "map snd (enumerate_c 0 vme_address_modifier) =
     [0x00, 0x01, 0x03, 0x04, 0x05, 0x08, 0x09, 0x0a, 0x0b, 0x0c, 0x0d, 0x0e, 0x0f, 0x20, 0x21, 0x29, 0x2c, 0x2d,
      0x2f, 0x34, 0x35, 0x37, 0x38, 0x39, 0x3a, 0x3b, 0x3c, 0x3d, 0x3e, 0x3f]"
  by (simp add: vme_address_modifier_def)

lemma codes_in_use:
  "map_of (enumerate_c 0 vme_address_modifier) ''VME_CR_CSR'' = Some (uint VME_CR_CSR)"
  "map_of (enumerate_c 0 vme_data_width) ''VME_D16'' = Some (uint VME_D16)"
  "map_of (enumerate_c 0 vme_data_width) ''VME_D32'' = Some (uint VME_D32)"
  "map_of (enumerate_c 0 vme_read_prefetch_size) ''VME_PREFETCH_2'' = Some (uint VME_PREFETCH_2)"
  by (simp_all add: vme_address_modifier_def vme_data_width_def vme_read_prefetch_size_def
      VME_CR_CSR_def VME_D16_def VME_D32_def VME_PREFETCH_2_def)

end
