(* ===== verification/Flasher.thy ===== *)
theory Flasher
  imports Vmebus_Lib Xloader_Regs C_String
begin

text \<open>
  The VME flasher (\<open>tools/vme-flasher/svec-flasher.c\<close>): it maps the bootloader of a slot, unlocks
  it, and either writes an image to the flash memory of the card, byte by byte through the SPI
  master of the bootloader, or loads it straight into the Application FPGA.

  Several of its loops poll a register until a bit shows, without a bound.  An operation that polls
  takes the state explicitly and returns an option: \<open>None\<close> where it never returns, and where it
  leaves its sector map, which has no defined behaviour.  Diagnostic output is left out.
\<close>

section \<open>Constants\<close>

definition BOOTLOADER_BASE :: u32 where "BOOTLOADER_BASE = 0x70000"
definition BOOTLOADER_BITSTREAM_BASE :: u32 where "BOOTLOADER_BITSTREAM_BASE = 0x100000"
definition BOOTLOADER_SDB_BASE :: u32 where "BOOTLOADER_SDB_BASE = 0x600000"

definition ID_M25P128 :: u32 where "ID_M25P128 = 0x202018"
definition ID_MT25QL128 :: u32 where "ID_MT25QL128 = 0x20BA18"

definition FLASH_PAGE_SIZE :: int where "FLASH_PAGE_SIZE = 256"
definition FLASH_SECTOR_SIZE_M25P128 :: int where "FLASH_SECTOR_SIZE_M25P128 = 0x40000"
definition FLASH_SECTOR_SIZE_MT25QL128 :: int where "FLASH_SECTOR_SIZE_MT25QL128 = 0x10000"
definition FLASH_SIZE :: int where "FLASH_SIZE = 0x1000000"

definition FLASH_WREN :: u8 where "FLASH_WREN = 0x06"
definition FLASH_RDID :: u8 where "FLASH_RDID = 0x9F"
definition FLASH_RDSR :: u8 where "FLASH_RDSR = 0x05"
definition FLASH_READ :: u8 where "FLASH_READ = 0x03"
definition FLASH_PP :: u8 where "FLASH_PP = 0x02"
definition FLASH_SE :: u8 where "FLASH_SE = 0xD8"

lemmas flash_commands =
  FLASH_WREN_def FLASH_RDID_def FLASH_RDSR_def FLASH_READ_def FLASH_PP_def FLASH_SE_def

definition sdb_header :: "u8 list" where
  "sdb_header = [
     0x53, 0x44, 0x42, 0x2d, 0x00, 0x03, 0x01, 0x01, 0x00, 0x00, 0x00, 0x00,
     0x00, 0x60, 0x00, 0x00, 0x00, 0x00, 0x00, 0x00, 0x00, 0x60, 0x00, 0xc0,
     0x00, 0x00, 0x00, 0x00, 0x00, 0x00, 0xce, 0x42, 0x00, 0x00, 0x5f, 0xec,
     0x00, 0x00, 0x00, 0x01, 0x00, 0x00, 0x00, 0x00, 0x2e, 0x20, 0x20, 0x20,
     0x20, 0x20, 0x20, 0x20, 0x20, 0x20, 0x20, 0x20, 0x20, 0x20, 0x20, 0x20,
     0x20, 0x20, 0x20, 0x00, 0x00, 0x00, 0x00, 0x00, 0x00, 0x00, 0x00, 0x04,
     0x00, 0x00, 0x00, 0x00, 0x00, 0x10, 0x00, 0x00, 0x00, 0x00, 0x00, 0x00,
     0x00, 0x2c, 0x13, 0xe9, 0x46, 0x69, 0x6c, 0x65, 0x44, 0x61, 0x74, 0x61,
     0x61, 0x66, 0x70, 0x67, 0x00, 0x00, 0x00, 0x01, 0x00, 0x00, 0x00, 0x00,
     0x61, 0x66, 0x70, 0x67, 0x61, 0x2e, 0x62, 0x69, 0x6e, 0x20, 0x20, 0x20,
     0x20, 0x20, 0x20, 0x20, 0x20, 0x20, 0x20, 0x01, 0x00, 0x00, 0x00, 0x00,
     0x00, 0x00, 0x00, 0x04, 0x00, 0x00, 0x00, 0x00, 0x00, 0x00, 0x00, 0x00,
     0x00, 0x00, 0x00, 0x00, 0x00, 0x05, 0x33, 0x93, 0x46, 0x69, 0x6c, 0x65,
     0x44, 0x61, 0x74, 0x61, 0x62, 0x6f, 0x6f, 0x74, 0x00, 0x00, 0x00, 0x01,
     0x00, 0x00, 0x00, 0x00, 0x62, 0x6f, 0x6f, 0x74, 0x6c, 0x64, 0x72, 0x2e,
     0x62, 0x69, 0x6e, 0x20, 0x20, 0x20, 0x20, 0x20, 0x20, 0x20, 0x20, 0x01]"

definition boot_seq :: "u32 list" where
  "boot_seq = [0xde, 0xad, 0xbe, 0xef, 0xca, 0xfe, 0xba, 0xbe]"

section \<open>Registers of the bootloader\<close>

text \<open>
  \<open>vme_va\<close> maps the bootloader's part of the CR/CSR space of the slot.  The bus carries the
  bytes of the host's word in memory order.
\<close>

definition csr_reg :: "u32 \<Rightarrow> ioaddr" where
  "csr_reg addr = CR (BOOTLOADER_BASE + addr)"

definition store32 :: "u32 \<Rightarrow> ioaddr \<Rightarrow> (('c, 'z) machine_scheme, unit) state" where
  \<comment> \<open>\<open>*(volatile uint32_t *)p = w\<close> on the little-endian host\<close>
  "store32 w a = iowrite32be (bswap32 w) a"

definition csr_writel :: "u32 \<Rightarrow> u32 \<Rightarrow> (('c, 'z) machine_scheme, unit) state" where
  "csr_writel data addr = store32 (htonl data) (csr_reg addr)"

definition csr_readl :: "'c env \<Rightarrow> u32 \<Rightarrow> (('c, 'z) machine_scheme, u32) state" where
  "csr_readl E addr = do { w \<leftarrow> ioread32 E (csr_reg addr); State_Monad.return (ntohl w) }"

lemma run_csr_writel [simp, run_simps]:
  "run_state (csr_writel w r) s = ((), s\<lparr>trace := Wr (csr_reg r) w # trace s\<rparr>)"
  by (simp add: csr_writel_def store32_def)

lemma run_csr_readl [simp, run_simps]:
  "run_state (csr_readl E r) s = (env_read E (trace s) (csr_reg r),
     s\<lparr>trace := Rd (csr_reg r) (env_read E (trace s) (csr_reg r)) # trace s\<rparr>)"
  by (simp add: csr_readl_def)

primrec boot_seq_loop :: "u32 list \<Rightarrow> (('c, 'z) machine_scheme, unit) state" where
  "boot_seq_loop [] = State_Monad.return ()"
| "boot_seq_loop (w # ws) = do { csr_writel w SXLDR_REG_BTRIGR; boot_seq_loop ws }"

definition enter_bootloader :: "'c env \<Rightarrow> (('c, 'z) machine_scheme, int + u32) state" where
  \<comment> \<open>\<open>Inl\<close>: the program exits with this code; \<open>Inr\<close>: the version it prints\<close>
  "enter_bootloader E = do {
     boot_seq_loop boot_seq;
     idr \<leftarrow> csr_readl E SXLDR_REG_IDR;
     if idr \<noteq> 0x53564543 then State_Monad.return (Inl (- 1))
     else do {
       csr \<leftarrow> csr_readl E SXLDR_REG_CSR;
       State_Monad.return (Inr (SXLDR_CSR_VERSION_R csr)) } }"

section \<open>Bytes on the SPI bus\<close>

definition spi_test_presence :: "'c env \<Rightarrow> (('c, 'z) machine_scheme, bool) state" where
  "spi_test_presence E = do {
     csr_writel (SXLDR_FAR_XFER OR SXLDR_FAR_DATA_W 0xff) SXLDR_REG_FAR;
     sleep_us 100000;
     far \<leftarrow> csr_readl E SXLDR_REG_FAR;
     State_Monad.return (tst far SXLDR_FAR_READY) }"

definition spi_cs :: "bool \<Rightarrow> (('c, 'z) machine_scheme, unit) state" where
  "spi_cs cs = do {
     csr_writel (if cs then SXLDR_FAR_CS else 0) SXLDR_REG_FAR;
     sleep_us 1 }"

partial_function (option) spi_wait ::
  "'c env \<Rightarrow> ('c, 'z) machine_scheme \<Rightarrow> (u32 \<times> ('c, 'z) machine_scheme) option" where
  "spi_wait E s =
     (let (far, s) = run_state (csr_readl E SXLDR_REG_FAR) s in
      if \<not> tst far SXLDR_FAR_READY then spi_wait E s else Some (far, s))"

definition spi_read8 ::
  "'c env \<Rightarrow> ('c, 'z) machine_scheme \<Rightarrow> (u8 \<times> ('c, 'z) machine_scheme) option" where
  "spi_read8 E s = do {
     let (_, s) = run_state (csr_writel (SXLDR_FAR_XFER OR SXLDR_FAR_DATA_W 0xff OR SXLDR_FAR_CS)
                               SXLDR_REG_FAR) s;
     (far, s) \<leftarrow> spi_wait E s;
     Some (ucast (SXLDR_FAR_DATA_R far), s) }"

definition spi_write8 ::
  "'c env \<Rightarrow> u8 \<Rightarrow> ('c, 'z) machine_scheme \<Rightarrow> (unit \<times> ('c, 'z) machine_scheme) option" where
  "spi_write8 E data s = do {
     let (_, s) = run_state (csr_writel
           (SXLDR_FAR_XFER OR SXLDR_FAR_DATA_W (ucast data) OR SXLDR_FAR_CS) SXLDR_REG_FAR) s;
     (far, s) \<leftarrow> spi_wait E s;
     Some ((), s) }"

primrec spi_write_all ::
  "'c env \<Rightarrow> u8 list \<Rightarrow> ('c, 'z) machine_scheme \<Rightarrow> (unit \<times> ('c, 'z) machine_scheme) option" where
  "spi_write_all E [] s = Some ((), s)"
| "spi_write_all E (b # bs) s = do {
     (_, s) \<leftarrow> spi_write8 E b s;
     spi_write_all E bs s }"

definition spi_select :: "bool \<Rightarrow> ('c, 'z) machine_scheme \<Rightarrow> ('c, 'z) machine_scheme" where
  "spi_select cs s = snd (run_state (spi_cs cs) s)"

section \<open>Flash commands\<close>

definition flash_read_id ::
  "'c env \<Rightarrow> ('c, 'z) machine_scheme \<Rightarrow> (u32 \<times> ('c, 'z) machine_scheme) option" where
  "flash_read_id E s = do {
     let s = snd (run_state (sleep_us 10) (spi_select False s));
     let s = snd (run_state (sleep_us 10) (spi_select True s));
     let s = spi_select True s;
     (_, s) \<leftarrow> spi_write8 E FLASH_RDID s;
     (b2, s) \<leftarrow> spi_read8 E s;
     let val = push_bit 16 (ucast b2);
     (b1, s) \<leftarrow> spi_read8 E s;
     let val = val + push_bit 8 (ucast b1);
     (b0, s) \<leftarrow> spi_read8 E s;
     let val = val + ucast b0;
     Some (val, spi_select False s) }"

partial_function (option) flash_wait_completion ::
  "'c env \<Rightarrow> ('c, 'z) machine_scheme \<Rightarrow> (unit \<times> ('c, 'z) machine_scheme) option" where
  "flash_wait_completion E s = do {
     (_, s) \<leftarrow> spi_write8 E FLASH_RDSR (spi_select True s);
     (stat, s) \<leftarrow> spi_read8 E s;
     (if stat AND 0x01 \<noteq> 0 then flash_wait_completion E (spi_select False s)
      else Some ((), spi_select False s)) }"

definition addr_bytes :: "u32 \<Rightarrow> u8 list" where
  \<comment> \<open>the three address bytes of a command, the most significant first\<close>
  "addr_bytes addr = [ucast (drop_bit 16 addr AND 0xff), ucast (drop_bit 8 addr AND 0xff),
     ucast (addr AND 0xff)]"

definition flash_erase_sector ::
  "'c env \<Rightarrow> u32 \<Rightarrow> ('c, 'z) machine_scheme \<Rightarrow> (unit \<times> ('c, 'z) machine_scheme) option" where
  "flash_erase_sector E addr s = do {
     (_, s) \<leftarrow> spi_write8 E FLASH_SE (spi_select True s);
     (_, s) \<leftarrow> spi_write_all E (addr_bytes addr) s;
     flash_wait_completion E (spi_select False s) }"

definition flash_write_enable ::
  "'c env \<Rightarrow> ('c, 'z) machine_scheme \<Rightarrow> (unit \<times> ('c, 'z) machine_scheme) option" where
  "flash_write_enable E s = do {
     (_, s) \<leftarrow> spi_write8 E FLASH_WREN (spi_select True s);
     Some ((), spi_select False s) }"

definition flash_program_page ::
  "'c env \<Rightarrow> u32 \<Rightarrow> mem \<Rightarrow> int \<Rightarrow> ('c, 'z) machine_scheme \<Rightarrow> (unit \<times> ('c, 'z) machine_scheme) option"
where
  "flash_program_page E addr data count s = do {
     (_, s) \<leftarrow> spi_write8 E FLASH_PP (spi_select True s);
     (_, s) \<leftarrow> spi_write_all E (addr_bytes addr) s;
     (_, s) \<leftarrow> spi_write_all E (bytes_at data 0 (nat count)) s;
     (_, s) \<leftarrow> spi_write_all E (replicate (nat (FLASH_PAGE_SIZE - max 0 count)) 0xff) s;
     flash_wait_completion E (spi_select False s) }"

section \<open>Programming an image\<close>

definition flash_sector_size :: "u32 \<Rightarrow> int option" where
  \<comment> \<open>None: the identifier is not one of the two\<close>
  "flash_sector_size flash_id =
     (if flash_id = ID_M25P128 then Some FLASH_SECTOR_SIZE_M25P128
      else if flash_id = ID_MT25QL128 then Some FLASH_SECTOR_SIZE_MT25QL128 else None)"

function flash_page_loop ::
  "'c env \<Rightarrow> u32 \<Rightarrow> mem \<Rightarrow> int \<Rightarrow> int \<Rightarrow> bool list \<Rightarrow> nat \<Rightarrow> ('c, 'z) machine_scheme \<Rightarrow>
   (unit \<times> ('c, 'z) machine_scheme) option" where
  "flash_page_loop E addr data count sector_size sector_map n s =
     (if int n < count then do {
        let plen = (if count > FLASH_PAGE_SIZE then FLASH_PAGE_SIZE else count);
        let here = addr + of_nat n;
        let sector = nat (uint here div sector_size);
        if sector \<ge> length sector_map then None
        else do {
          (_, s) \<leftarrow>
            (if \<not> sector_map ! sector then do {
               (_, s) \<leftarrow> flash_write_enable E s;
               flash_erase_sector E here s }
             else Some ((), s));
          let sector_map = sector_map[sector := True];
          (_, s) \<leftarrow> flash_write_enable E s;
          (_, s) \<leftarrow> flash_program_page E here (\<lambda>k. data (n + k)) plen s;
          flash_page_loop E addr data count sector_size sector_map (n + nat plen) s } }
      else Some ((), s))"
  by pat_completeness auto
termination
  by (relation "measure (\<lambda>(E, addr, data, count, sector_size, sector_map, n, s). nat (count - int n))")
     (auto simp: FLASH_PAGE_SIZE_def)

declare flash_page_loop.simps [simp del]

fun flash_verify ::
  "'c env \<Rightarrow> u8 list \<Rightarrow> ('c, 'z) machine_scheme \<Rightarrow> (int \<times> ('c, 'z) machine_scheme) option" where
  \<comment> \<open>compares what the flash returns with the bytes that remain\<close>
  "flash_verify E [] s = Some (0, s)"
| "flash_verify E (b # bs) s = do {
     (d, s) \<leftarrow> spi_read8 E s;
     if d \<noteq> b then Some (- EINVAL, s) else flash_verify E bs s }"

definition flash_program ::
  "ucall env \<Rightarrow> u32 \<Rightarrow> mem \<Rightarrow> int \<Rightarrow> u32 \<Rightarrow> (ucall, 'z) machine_scheme \<Rightarrow>
   (int \<times> (ucall, 'z) machine_scheme) option" where
  "flash_program E addr data count flash_id s =
     (case flash_sector_size flash_id of
        None \<Rightarrow> Some (- ENODEV, s)
      | Some sector_size \<Rightarrow> do {
          let sector_map_size = 4 * FLASH_SIZE div sector_size;
          let (sector_map_ptr, s) = run_state (call E (Malloc (word_of_int sector_map_size))) s;
          if sector_map_ptr = 0 then Some (- ENOMEM, s)
          else do {
            let sector_map = replicate (nat (sector_map_size div 4)) False;
            (_, s) \<leftarrow> flash_page_loop E addr data count sector_size sector_map 0 s;
            (_, s) \<leftarrow> spi_write8 E FLASH_READ (spi_select True s);
            (_, s) \<leftarrow> spi_write_all E (addr_bytes addr) s;
            (ret, s) \<leftarrow> flash_verify E (bytes_at data 0 (nat count)) s;
            let s = spi_select False s;
            let (_, s) = run_state (call E (Free sector_map_ptr)) s;
            Some (ret, s) } })"

definition program_flash ::
  "ucall env \<Rightarrow> u8 list \<Rightarrow> mem \<Rightarrow> u64 \<Rightarrow> bool \<Rightarrow> (ucall, 'z) machine_scheme \<Rightarrow>
   (int \<times> (ucall, 'z) machine_scheme) option" where
  \<comment> \<open>the second argument: the line the user types when asked\<close>
  "program_flash E answer buf size' program_boot s = do {
     let (present, s) = run_state (spi_test_presence E) s;
     if \<not> present then Some (- 1, s)
     else do {
       (flash_id, s) \<leftarrow> flash_read_id E s;
       if flash_id \<noteq> ID_M25P128 \<and> flash_id \<noteq> ID_MT25QL128 then Some (- ENODEV, s)
       else do {
         let count = sint (ucast size' :: u32);
         if program_boot then
           (if strncmp answer (cstr ''yes'') 3 \<noteq> 0 then Some (- 1, s)
            else flash_program E 0 buf count flash_id s)
         else do {
           (ret, s) \<leftarrow> flash_program E BOOTLOADER_SDB_BASE (mem_of sdb_header (\<lambda>_. 0))
                        (int (length sdb_header)) flash_id s;
           if ret = 0 then flash_program E BOOTLOADER_BITSTREAM_BASE buf count flash_id s
           else Some (ret, s) } } } }"

section \<open>Loading the Application FPGA directly\<close>

partial_function (option) afpga_load ::
  "'c env \<Rightarrow> mem \<Rightarrow> nat \<Rightarrow> nat \<Rightarrow> ('c, 'z) machine_scheme \<Rightarrow> (unit \<times> ('c, 'z) machine_scheme) option"
where
  \<comment> \<open>\<open>while (i < size)\<close>\<close>
  "afpga_load E buf size' i s =
     (if i < size' then do {
        let (fifo, s) = run_state (csr_readl E SXLDR_REG_FIFO_CSR) s;
        if \<not> tst fifo SXLDR_FIFO_CSR_FULL then do {
          let word = load32 buf i;
          let n = (if size' - i > 4 then 4 else size' - i);
          let (_, s) = run_state (csr_writel
                (of_nat (n - 1) OR (if n < 4 then SXLDR_FIFO_R0_XLAST else 0)) SXLDR_REG_FIFO_R0) s;
          let (_, s) = run_state (csr_writel (htonl word) SXLDR_REG_FIFO_R1) s;
          afpga_load E buf size' (i + n) s }
        else afpga_load E buf size' i s }
      else Some ((), s))"

partial_function (option) afpga_wait ::
  "'c env \<Rightarrow> ('c, 'z) machine_scheme \<Rightarrow> (int \<times> ('c, 'z) machine_scheme) option" where
  \<comment> \<open>\<open>while (1)\<close>\<close>
  "afpga_wait E s = do {
     let (rval, s) = run_state (csr_readl E SXLDR_REG_CSR) s;
     if tst rval SXLDR_CSR_DONE then do {
       let (_, s) = run_state (csr_writel SXLDR_CSR_EXIT SXLDR_REG_CSR) s;
       Some (if tst rval SXLDR_CSR_ERROR then - 1 else 0, s) }
     else afpga_wait E s }"

definition program_afpga ::
  "'c env \<Rightarrow> mem \<Rightarrow> nat \<Rightarrow> ('c, 'z) machine_scheme \<Rightarrow> (int \<times> ('c, 'z) machine_scheme) option" where
  "program_afpga E buf size' s = do {
     let (_, s) = run_state (csr_writel SXLDR_CSR_SWRST SXLDR_REG_CSR) s;
     let (_, s) = run_state (csr_writel (SXLDR_CSR_START OR SXLDR_CSR_MSBF) SXLDR_REG_CSR) s;
     (_, s) \<leftarrow> afpga_load E buf size' 0 s;
     afpga_wait E s }"

section \<open>The program\<close>

record flasher = "ucall process" +
  vmap :: vme_mapping   \<comment> \<open>the variable \<open>map\<close>\<close>
  vme_va :: int

definition release_vme :: "os \<Rightarrow> ('z flasher_scheme, unit) state" where
  "release_vme S = do {
     m \<leftarrow> gets vmap;
     r \<leftarrow> vme_unmap S (Some m) 1;
     State_Monad.return () }"

definition init_vme :: "os \<Rightarrow> int \<Rightarrow> ('z flasher_scheme, bool) state" where
  \<comment> \<open>False: the program exits; True: it goes on, and \<open>release_vme\<close> runs at its exit\<close>
  "init_vme S slot = do {
     let m = zero_vme_mapping\<lparr>vm_am := 0x2f, data_width := 32, sizel := 0x1000,
               vme_addrl := word_of_int slot * 0x80000 + BOOTLOADER_BASE\<rparr>;
     (va, m) \<leftarrow> vme_map S m 1;
     modify (\<lambda>s. s\<lparr>vmap := m, vme_va := va\<rparr>);
     State_Monad.return (va \<noteq> 0) }"

fun atoi_digits :: "int \<Rightarrow> u8 list \<Rightarrow> int" where
  "atoi_digits acc [] = acc"
| "atoi_digits acc (c # cs) =
     (if 48 \<le> c \<and> c \<le> 57 then atoi_digits (10 * acc + uint (c - 48)) cs else acc)"

definition atoi :: "u8 list \<Rightarrow> int" where
  \<comment> \<open>of a number that fits into an \<open>int\<close>\<close>
  "atoi s =
     (let s = dropWhile (\<lambda>c. c = 32 \<or> 9 \<le> c \<and> c \<le> 13) s
      in case s of [] \<Rightarrow> 0
         | c # cs \<Rightarrow> if c = 45 then - atoi_digits 0 cs
                     else if c = 43 then atoi_digits 0 cs else atoi_digits 0 s)"

text \<open>
  What surrounds the program: its arguments, the file named by the second one (\<open>None\<close> if it cannot
  be opened), the line typed at the prompt, and what lies in memory behind the buffer.
\<close>

record surroundings =
  argv :: "u8 list list"
  bitstream_file :: "u8 list option"
  typed_line :: "u8 list"
  behind_buf :: mem

definition flasher_main ::
  "os \<Rightarrow> surroundings \<Rightarrow> 'z flasher_scheme \<Rightarrow> (int \<times> 'z flasher_scheme) option" where
  \<comment> \<open>the exit code, the handlers registered with \<open>atexit\<close> included\<close>
  "flasher_main S X s =
     (if length (argv X) < 3 then Some (0, s)
      else
        let program_boot = (length (argv X) > 3 \<and> strcmp (argv X ! 3) (cstr ''-b'') = 0);
            direct_boot = (\<not> program_boot \<and> length (argv X) > 3 \<and> strcmp (argv X ! 3) (cstr ''-f'') = 0)
        in case bitstream_file X of
             None \<Rightarrow> Some (- 1, s)
           | Some content \<Rightarrow> do {
               let size' = (of_nat (length content) :: u32);
               let (buf_ptr, s) = run_state (ucall S (Malloc (ucast size'))) s;
               if buf_ptr = 0 \<and> size' \<noteq> 0 then None
               else do {
                 let buf = mem_of (take (unat size') content) (behind_buf X);
                 let slot = atoi (argv X ! 1);
                 let (mapped, s) = run_state (init_vme S slot) s;
                 if \<not> mapped then Some (1, s)
                 else do {
                   let (entered, s) = run_state (enter_bootloader (os_env S)) s;
                   (case entered of
                      Inl code \<Rightarrow> Some (code, snd (run_state (release_vme S) s))
                    | Inr version \<Rightarrow> do {
                        (rv, s) \<leftarrow>
                          (if \<not> direct_boot
                           then program_flash (os_env S) (typed_line X) buf (ucast size') program_boot s
                           else program_afpga (os_env S) buf (unat size') s);
                        let (_, s) = run_state (ucall_void S (Free buf_ptr)) s;
                        Some (rv, snd (run_state (release_vme S) s)) }) } } })"

end
