(* ===== verification/Polling.thy ===== *)
theory Polling
  imports Machine
begin

text \<open>
  Loops that read a register until it shows something have no bound in the tools.  They return on
  every environment where what they wait for comes in the end, wherever the waiting begins.
\<close>

fun polls :: "'c env \<Rightarrow> ioaddr \<Rightarrow> nat \<Rightarrow> 'c event list \<Rightarrow> 'c event list" where
  \<comment> \<open>the history after so many readings of a register\<close>
  "polls E a 0 h = h"
| "polls E a (Suc n) h = polls E a n (Rd a (env_read E h a) # h)"

definition comes :: "'c env \<Rightarrow> ioaddr \<Rightarrow> (u32 \<Rightarrow> bool) \<Rightarrow> bool" where
  "comes E a good \<longleftrightarrow> (\<forall>h. \<exists>n. good (env_read E (polls E a n h) a))"

text \<open>A register that is always good, and the readings a loop makes before the first good one.\<close>

lemma comes_always: "(\<And>h. good (env_read E h a)) \<Longrightarrow> comes E a good"
  by (auto simp: comes_def)

lemma comes_induct [consumes 1, case_names good bad]:
  assumes "comes E a good"
    and "\<And>h. good (env_read E h a) \<Longrightarrow> P h"
    and "\<And>h. \<not> good (env_read E h a) \<Longrightarrow> P (Rd a (env_read E h a) # h) \<Longrightarrow> P h"
  shows "P h"
proof -
  obtain n where "good (env_read E (polls E a n h) a)" using assms(1) by (auto simp: comes_def)
  then show ?thesis
  proof (induction n arbitrary: h)
    case 0
    then show ?case using assms(2) by simp
  next
    case (Suc n)
    then show ?case using assms(2,3) by (cases "good (env_read E h a)") auto
  qed
qed

end
