(* ===== verification/Flash_Chip.thy ===== *)
theory Flash_Chip
  imports Flasher Polling
begin

text \<open>
  What the flash memory behind the bootloader's SPI master sees of an execution: a list of
  transactions, each the pairs of bytes sent and received between selecting and deselecting the
  chip.  What the tool relies on is the documented behaviour of such a chip; it is stated as the
  locale \<open>flash_chip\<close> and interpreted on a chip that follows the data sheet.
\<close>

section \<open>Transactions\<close>

type_synonym xact = "(u8 \<times> u8) list"

definition far_reg :: ioaddr where "far_reg = csr_reg SXLDR_REG_FAR"

definition far_data :: "u32 \<Rightarrow> u8" where "far_data v = ucast (SXLDR_FAR_DATA_R v)"

fun spi_state :: "'c event list \<Rightarrow> xact list \<times> xact \<times> u8 option" where
  \<comment> \<open>finished transactions, the bytes of the current one, the byte being sent\<close>
  "spi_state [] = ([], [], None)"
| "spi_state (Wr a v # h) =
     (case spi_state h of (L, cur, p) \<Rightarrow>
        if a \<noteq> far_reg then (L, cur, p)
        else if \<not> tst v SXLDR_FAR_CS then (if cur = [] then L else L @ [cur], [], None)
        else if tst v SXLDR_FAR_XFER then (L, cur, Some (far_data v)) else (L, cur, None))"
| "spi_state (Rd a v # h) =
     (case spi_state h of (L, cur, p) \<Rightarrow>
        if a = far_reg \<and> tst v SXLDR_FAR_READY
        then (case p of None \<Rightarrow> (L, cur, p) | Some d \<Rightarrow> (L, cur @ [(d, far_data v)], None))
        else (L, cur, p))"
| "spi_state (e # h) = spi_state h"

definition sent :: "xact \<Rightarrow> u8 list" where "sent t = map fst t"

lemma sent_simps [simp]: "sent [] = []" "sent (p # t) = fst p # sent t" "sent (t @ u) = sent t @ sent u"
  by (simp_all add: sent_def)

lemma sent_eq_Nil [simp]: "sent t = [] \<longleftrightarrow> t = []"
  by (simp add: sent_def)

fun addr3 :: "u8 list \<Rightarrow> nat" where
  "addr3 [a2, a1, a0] = unat a2 * 65536 + unat a1 * 256 + unat a0"
| "addr3 _ = 0"

text \<open>A status read, and one that reports an idle chip.\<close>

definition is_status :: "xact \<Rightarrow> bool" where
  "is_status t \<longleftrightarrow> (\<exists>r d v. t = [(FLASH_RDSR, r), (d, v)])"

definition is_done :: "xact \<Rightarrow> bool" where
  "is_done t \<longleftrightarrow> (\<exists>r d v. t = [(FLASH_RDSR, r), (d, v)] \<and> v AND 0x01 = 0)"

definition erased :: "nat \<Rightarrow> nat \<Rightarrow> (nat \<Rightarrow> u8) \<Rightarrow> nat \<Rightarrow> u8" where
  \<comment> \<open>the contents after the erasure of the sector of an address\<close>
  "erased sector a m = (\<lambda>x. if x div sector = a div sector then 0xff else m x)"

definition paged :: "nat \<Rightarrow> u8 list \<Rightarrow> (nat \<Rightarrow> u8) \<Rightarrow> nat \<Rightarrow> u8" where
  \<comment> \<open>the contents after programming: bits can only be cleared\<close>
  "paged a bs m = (\<lambda>x. if a \<le> x \<and> x < a + length bs then m x AND bs ! (x - a) else m x)"

section \<open>The documented behaviour of the chip\<close>

text \<open>
  \<open>mem L\<close> is the contents after the transactions \<open>L\<close>, \<open>idle L\<close> says that no erase or program
  cycle is under way.  The laws are those the tool relies on: the SPI master gets ready in the end;
  a status read reports an idle chip after a bounded number of others; an erase or a page program
  behind a write enable has its effect once a status read has reported the chip idle; a read
  returns the contents byte after byte.
\<close>

locale flash_chip =
  fixes E :: "'c env" and mem :: "xact list \<Rightarrow> nat \<Rightarrow> u8" and idle :: "xact list \<Rightarrow> bool"
    and sector :: nat and patience :: nat
  assumes ready: "comes E far_reg (\<lambda>v. tst v SXLDR_FAR_READY)"
    and status: "spi_state h = (L @ T, [(FLASH_RDSR, r)], Some d) \<Longrightarrow> list_all is_status T \<Longrightarrow>
      patience \<le> length T \<Longrightarrow> tst (env_read E h far_reg) SXLDR_FAR_READY \<Longrightarrow>
      far_data (env_read E h far_reg) AND 0x01 = 0"
    and sector_erase: "idle L \<Longrightarrow> sent w = [FLASH_WREN] \<Longrightarrow> sent e = FLASH_SE # ab \<Longrightarrow> length ab = 3 \<Longrightarrow>
      list_all is_status rs \<Longrightarrow> is_done t \<Longrightarrow>
      idle (L @ [w, e] @ rs @ [t]) \<and> mem (L @ [w, e] @ rs @ [t]) = erased sector (addr3 ab) (mem L)"
    and page_program: "idle L \<Longrightarrow> sent w = [FLASH_WREN] \<Longrightarrow> sent e = FLASH_PP # ab @ bs \<Longrightarrow> length ab = 3 \<Longrightarrow>
      length bs = 256 \<Longrightarrow> 256 dvd addr3 ab \<Longrightarrow> list_all is_status rs \<Longrightarrow> is_done t \<Longrightarrow>
      idle (L @ [w, e] @ rs @ [t]) \<and> mem (L @ [w, e] @ rs @ [t]) = paged (addr3 ab) bs (mem L)"
    and read_data: "spi_state h = (L, cur, Some d) \<Longrightarrow> idle L \<Longrightarrow> sent cur = FLASH_READ # ab @ bs \<Longrightarrow>
      length ab = 3 \<Longrightarrow> addr3 ab + length bs < 2 ^ 24 \<Longrightarrow> tst (env_read E h far_reg) SXLDR_FAR_READY \<Longrightarrow>
      far_data (env_read E h far_reg) = mem L (addr3 ab + length bs)"
    and read_end: "idle L \<Longrightarrow> sent t = FLASH_READ # bs \<Longrightarrow> idle (L @ [t]) \<and> mem (L @ [t]) = mem L"

text \<open>A chip that also answers the command that reads its identification.\<close>

locale flash_device = flash_chip +
  fixes ident :: "u8 list"
  assumes id_data: "spi_state h = (L, cur, Some d) \<Longrightarrow> idle L \<Longrightarrow> sent cur = FLASH_RDID # bs \<Longrightarrow>
      length bs < length ident \<Longrightarrow> tst (env_read E h far_reg) SXLDR_FAR_READY \<Longrightarrow>
      far_data (env_read E h far_reg) = ident ! length bs"
    and id_end: "idle L \<Longrightarrow> sent t = FLASH_RDID # bs \<Longrightarrow> idle (L @ [t]) \<and> mem (L @ [t]) = mem L"

section \<open>A chip that follows the data sheet\<close>

fun m25p_do :: "nat \<Rightarrow> u8 list \<Rightarrow> bool \<times> (nat \<Rightarrow> u8) \<Rightarrow> bool \<times> (nat \<Rightarrow> u8)" where
  \<comment> \<open>the write enable latch and the contents; cycles take no time\<close>
  "m25p_do sector [] (wel, m) = (wel, m)"
| "m25p_do sector (c # bs) (wel, m) =
     (if c = FLASH_WREN then (True, m)
      else if c = FLASH_SE \<and> wel \<and> length bs = 3 then (False, erased sector (addr3 bs) m)
      else if c = FLASH_PP \<and> wel \<and> length bs = 259
      then (False, paged (addr3 (take 3 bs)) (drop 3 bs) m)
      else (wel, m))"

definition m25p_state :: "nat \<Rightarrow> (nat \<Rightarrow> u8) \<Rightarrow> xact list \<Rightarrow> bool \<times> (nat \<Rightarrow> u8)" where
  "m25p_state sector m0 L = fold (m25p_do sector) (map sent L) (False, m0)"

definition m25p_idle :: "nat \<Rightarrow> (nat \<Rightarrow> u8) \<Rightarrow> xact list \<Rightarrow> bool" where
  "m25p_idle sector m0 L \<longleftrightarrow> \<not> fst (m25p_state sector m0 L)"

fun m25p_answer :: "u8 list \<Rightarrow> (nat \<Rightarrow> u8) \<Rightarrow> u8 list \<Rightarrow> u8" where
  \<comment> \<open>the next byte of the chip, given its identifier, its contents and the bytes sent so far\<close>
  "m25p_answer ident m [] = 0"
| "m25p_answer ident m (c # bs) =
     (if c = FLASH_RDID \<and> length bs < length ident then ident ! length bs
      else if c = FLASH_READ \<and> length bs \<ge> 3 then m (addr3 (take 3 bs) + (length bs - 3)) else 0)"

definition m25p_read :: "u8 list \<Rightarrow> nat \<Rightarrow> (nat \<Rightarrow> u8) \<Rightarrow> ucall event list \<Rightarrow> ioaddr \<Rightarrow> u32" where
  \<comment> \<open>what the registers of the bootloader return with this chip behind it\<close>
  "m25p_read ident sector m0 h a =
     (if a = far_reg
      then case spi_state h of (L, cur, p) \<Rightarrow>
             SXLDR_FAR_READY OR ucast (m25p_answer ident (snd (m25p_state sector m0 L)) (sent cur))
      else if a = csr_reg SXLDR_REG_IDR then 0x53564543 else 0)"

definition m25p_env :: "u8 list \<Rightarrow> nat \<Rightarrow> (nat \<Rightarrow> u8) \<Rightarrow> ucall env" where
  "m25p_env ident sector m0 = \<lparr>env_read = m25p_read ident sector m0, env_jiffies = \<lambda>h. 0,
     env_call = \<lambda>h c. (case c of Malloc n \<Rightarrow> 0x4000 | _ \<Rightarrow> 0)\<rparr>"

lemma bit_ucast8 [simp]: "bit (ucast (b :: u8) :: u32) n \<longleftrightarrow> bit b n"
  by (auto simp: bit_simps dest: bit_imp_le_length)

lemma far_data_answer [simp]:
  "far_data (SXLDR_FAR_READY OR ucast b) = b" "tst (SXLDR_FAR_READY OR ucast b) SXLDR_FAR_READY"
proof -
  show "far_data (SXLDR_FAR_READY OR ucast b) = b"
    by (rule bit_word_eqI) (simp add: far_data_def SXLDR_FAR_DATA_R_def bit_WBGEN2_GEN_READ
      sxldr_bits bit_WBGEN2_GEN_MASK bit_simps)
  show "tst (SXLDR_FAR_READY OR ucast b) SXLDR_FAR_READY"
    unfolding sxldr_bits WBGEN2_GEN_MASK_1 tst_BIT by (simp add: bit_BIT bit_simps)
qed

lemma far_data_ready [simp]: "far_data SXLDR_FAR_READY = 0"
  using far_data_answer(1) [of 0] by simp

lemma m25p_state_append [simp]:
  "m25p_state sector m0 (L @ L') = fold (m25p_do sector) (map sent L') (m25p_state sector m0 L)"
  by (simp add: m25p_state_def)

lemma m25p_status [simp]:
  assumes "is_status t"
  shows "m25p_do sector (sent t) c = c"
  using assms by (cases c) (auto simp: is_status_def sent_def flash_commands)

lemma m25p_statuses [simp]:
  "list_all is_status rs \<Longrightarrow> fold (m25p_do sector) (map sent rs) c = c"
  by (induction rs) auto

lemma is_done_status [simp]: "is_done t \<Longrightarrow> is_status t"
  by (auto simp: is_done_def is_status_def)

lemma m25p_read_far:
  "env_read (m25p_env ident sector m0) h far_reg = (case spi_state h of (L, cur, p) \<Rightarrow>
     SXLDR_FAR_READY OR ucast (m25p_answer ident (snd (m25p_state sector m0 L)) (sent cur)))"
  by (simp add: m25p_env_def m25p_read_def)

lemma m25p_ready: "tst (env_read (m25p_env ident sector m0) h far_reg) SXLDR_FAR_READY"
  by (simp add: m25p_read_far split: prod.split)

lemma m25p_commands [simp]:
  "m25p_do sector [FLASH_WREN] p = (True, snd p)"
  "length ab = 3 \<Longrightarrow> m25p_do sector (FLASH_SE # ab) (True, m) = (False, erased sector (addr3 ab) m)"
  "length ab = 3 \<Longrightarrow> length bs = 256 \<Longrightarrow>
     m25p_do sector (FLASH_PP # ab @ bs) (True, m) = (False, paged (addr3 ab) bs m)"
  "m25p_do sector (FLASH_READ # bs) p = p" "m25p_do sector (FLASH_RDID # bs) p = p"
  by (cases p, simp add: flash_commands)+

declare m25p_do.simps [simp del]

interpretation m25p: flash_device "m25p_env ident sector init" "\<lambda>L. snd (m25p_state sector init L)"
  "m25p_idle sector init" sector 0 ident
  for ident :: "u8 list" and sector :: nat and init :: "nat \<Rightarrow> u8"
proof (standard, goal_cases)
  case 1
  show ?case by (rule comes_always) (rule m25p_ready)
next
  case (2 h L T r d)
  then show ?case by (simp add: m25p_read_far flash_commands)
next
  case (3 L w e ab rs t)
  then show ?case by (simp add: m25p_idle_def)
next
  case (4 L w e ab bs rs t)
  then show ?case by (simp add: m25p_idle_def)
next
  case (5 h L cur d ab bs)
  then show ?case by (simp add: m25p_read_far flash_commands)
next
  case (6 L t bs)
  then show ?case by (simp add: m25p_idle_def)
next
  case (7 h L cur d bs)
  then show ?case by (simp add: m25p_read_far flash_commands)
next
  case (8 L t bs)
  then show ?case by (simp add: m25p_idle_def)
qed

end
