(* ===== verification/Flash_Image.thy ===== *)
theory Flash_Image
  imports Flash_Chip
begin

text \<open>
  The contents a programming leaves in the flash memory, and the arithmetic of addresses, pages
  and sectors.  Pages are written whole, so the last one carries what lies behind the data when
  there is more than one page, and padding when there is one; a touched sector loses everything
  else.
\<close>

definition flash_end :: "int \<Rightarrow> nat" where
  \<comment> \<open>the number of bytes that are written\<close>
  "flash_end count = 256 * nat ((count + 255) div 256)"

definition page_bytes :: "mem \<Rightarrow> int \<Rightarrow> u8 list" where
  "page_bytes data plen = bytes_at data 0 (nat plen) @ replicate (nat (256 - max 0 plen)) 0xff"

definition image_byte :: "mem \<Rightarrow> int \<Rightarrow> nat \<Rightarrow> u8" where
  "image_byte data count k = (if count > 256 \<or> int k < count then data k else 0xff)"

definition flashed :: "nat \<Rightarrow> nat \<Rightarrow> (nat \<Rightarrow> u8) \<Rightarrow> nat \<Rightarrow> (nat \<Rightarrow> u8) \<Rightarrow> nat \<Rightarrow> u8" where
  "flashed a n img sector m x =
     (if a \<le> x \<and> x < a + n then img (x - a)
      else if \<exists>k<n. (a + k) div sector = x div sector then 0xff else m x)"

lemma length_page_bytes: "plen \<le> 256 \<Longrightarrow> length (page_bytes data plen) = 256"
  by (simp add: page_bytes_def)

lemma page_bytes_nth:
  assumes "0 \<le> plen" and "plen \<le> 256" and "k < 256"
  shows "page_bytes data plen ! k = (if int k < plen then data k else 0xff)"
  using assms by (auto simp: page_bytes_def nth_append bytes_at_def)

lemma flashed_0 [simp]: "flashed a 0 img sector m = m"
  by (auto simp: flashed_def fun_eq_iff)

lemma unat_low_byte: "unat (ucast (w AND 0xff) :: u8) = unat (w :: u32) mod 256"
proof -
  have low: "w AND 0xff = take_bit 8 w" by (simp add: take_bit_eq_mask mask_numeral)
  have byte: "ucast (take_bit 8 w) = (ucast w :: u8)" by (rule bit_word_eqI) (simp add: bit_simps)
  have "unat (ucast w :: u8) = unat w mod 256" by (simp add: unsigned_ucast_eq take_bit_eq_mod)
  then show ?thesis unfolding low byte .
qed

lemma address_of_bytes:
  assumes "x < 2 ^ 24"
  shows "x div 2 ^ 16 mod 256 * 65536 + x div 2 ^ 8 mod 256 * 256 + x mod 256 = (x :: nat)"
proof -
  have "x div 2 ^ 16 < 256" using assms by (simp add: less_mult_imp_div_less)
  moreover have "x div 2 ^ 16 = x div 256 div 256" by (simp flip: div_mult2_eq)
  ultimately have "x div 2 ^ 16 mod 256 * 256 + x div 2 ^ 8 mod 256 = x div 256" by simp
  moreover have "x div 256 * 256 + x mod 256 = x" by simp
  ultimately show ?thesis by linarith
qed

lemma addr3_addr_bytes:
  assumes "unat a < 2 ^ 24"
  shows "addr3 (addr_bytes a) = unat a"
proof -
  have "unat (drop_bit 16 a) = unat a div 2 ^ 16" "unat (drop_bit 8 a) = unat a div 2 ^ 8"
    by (simp_all add: unat_div drop_bit_eq_div)
  then have "addr3 (addr_bytes a) = unat a div 2 ^ 16 mod 256 * 65536 + unat a div 2 ^ 8 mod 256 * 256 + unat a mod 256"
    unfolding addr_bytes_def addr3.simps unat_low_byte by simp
  also have "\<dots> = unat a" by (rule address_of_bytes [OF assms])
  finally show ?thesis .
qed

lemma page_sector:
  \<comment> \<open>a page lies in one sector\<close>
  assumes "256 dvd sector" and "256 dvd p" and "p \<le> x" and "x < p + 256"
  shows "x div sector = p div (sector :: nat)"
proof -
  obtain c q where c: "sector = 256 * c" "p = 256 * q" using assms(1,2) by (auto elim!: dvdE)
  then have "x div 256 = q" using assms(3,4) by simp
  then show ?thesis using c by (simp add: div_mult2_eq)
qed

lemma touched_page:
  assumes "256 dvd sector" "256 dvd a" "256 dvd n"
  shows "(\<exists>k<n + 256. (a + k) div sector = j) \<longleftrightarrow> (\<exists>k<n. (a + k) div sector = j) \<or> (a + n) div sector = (j :: nat)"
proof -
  have page: "(a + k) div sector = (a + n) div sector" if "n \<le> k" "k < n + 256" for k
    using page_sector [of sector "a + n" "a + k"] assms that by auto
  have split: "k < n + 256 \<longleftrightarrow> k < n \<or> n \<le> k \<and> k < n + 256" for k by auto
  have "(\<exists>k. (n \<le> k \<and> k < n + 256) \<and> (a + k) div sector = j) \<longleftrightarrow> (a + n) div sector = j"
  proof
    assume "\<exists>k. (n \<le> k \<and> k < n + 256) \<and> (a + k) div sector = j"
    then show "(a + n) div sector = j" using page by metis
  next
    assume "(a + n) div sector = j"
    then show "\<exists>k. (n \<le> k \<and> k < n + 256) \<and> (a + k) div sector = j" by (intro exI [of _ n]) simp
  qed
  then show ?thesis using split by blast
qed

lemma flashed_page:
  assumes d: "256 dvd sector" "256 dvd a" "256 dvd n" and bs: "length bs = 256"
    "\<And>k. k < 256 \<Longrightarrow> bs ! k = img (n + k)"
    and m1: "m1 = (if \<exists>k<n. (a + k) div sector = (a + n) div sector then flashed a n img sector m
               else erased sector (a + n) (flashed a n img sector m))"
  shows "paged (a + n) bs m1 = flashed a (n + 256) img sector m"
proof
  fix x
  have "(0xff :: u8) = - 1" by simp
  then have ff: "0xff AND b = b" for b :: u8 by (simp only: and.left_neutral)
  consider (here) "a + n \<le> x" "x < a + n + 256" | (before) "a \<le> x" "x < a + n"
    | (out) "x < a \<or> a + n + 256 \<le> x" by linarith
  then show "paged (a + n) bs m1 x = flashed a (n + 256) img sector m x"
  proof cases
    case here
    have "x div sector = (a + n) div sector" using page_sector [of sector "a + n" x] d here by simp
    then have "m1 x = 0xff" using here by (auto simp: m1 flashed_def erased_def)
    moreover have "bs ! (x - (a + n)) = img (x - a)" using bs(2) [of "x - (a + n)"] here by simp
    ultimately show ?thesis using here bs(1) by (simp add: paged_def flashed_def ff)
  next
    case before
    then have "\<exists>k<n. a + k = x" by (intro exI [of _ "x - a"]) auto
    then show ?thesis using before by (auto simp: paged_def m1 flashed_def erased_def)
  next
    case out
    define touched where "touched j \<longleftrightarrow> (\<exists>k<n. (a + k) div sector = j)" for j
    define i j where "i = (a + n) div sector" and "j = x div sector"
    have "paged (a + n) bs m1 x = m1 x" using out by (auto simp: paged_def bs(1))
    moreover have "flashed a n img sector m x = (if touched j then 0xff else m x)"
      using out by (auto simp: flashed_def touched_def j_def)
    moreover have "flashed a (n + 256) img sector m x = (if touched j \<or> i = j then 0xff else m x)"
      using out touched_page [OF d, of j] by (auto simp: flashed_def touched_def i_def j_def)
    moreover have "m1 x = (if touched i then flashed a n img sector m x
        else if j = i then 0xff else flashed a n img sector m x)"
      by (simp only: m1 erased_def touched_def i_def j_def if_distribR)
    ultimately show ?thesis by auto
  qed
qed

end
