(* ===== verification/Flash_Driver.thy ===== *)
theory Flash_Driver
  imports Flash_Image
begin

text \<open>
  What the flasher does to a chip that behaves as documented: every operation returns, the bytes
  it exchanges make up the transaction it stands for, and programming an image leaves exactly that
  image.  The lemmas are proved over the interface \<open>flash_chip\<close>.
\<close>

section \<open>The FAR register\<close>

lemma far_xfer:
  assumes "v = SXLDR_FAR_XFER OR SXLDR_FAR_DATA_W (ucast b) OR SXLDR_FAR_CS"
  shows "tst v SXLDR_FAR_CS" "tst v SXLDR_FAR_XFER" "far_data v = b"
proof -
  show "tst v SXLDR_FAR_CS" "tst v SXLDR_FAR_XFER"
    unfolding assms sxldr_bits WBGEN2_GEN_MASK_1 tst_BIT by (simp_all add: bit_BIT bit_simps)
  show "far_data v = b"
    by (rule bit_word_eqI) (simp add: assms far_data_def SXLDR_FAR_DATA_R_def bit_WBGEN2_GEN_READ
      SXLDR_FAR_DATA_W_def bit_WBGEN2_GEN_WRITE sxldr_bits bit_WBGEN2_GEN_MASK bit_simps)
qed

lemma far_cs [simp]: "tst SXLDR_FAR_CS SXLDR_FAR_CS" "\<not> tst SXLDR_FAR_CS SXLDR_FAR_XFER"
  unfolding sxldr_bits WBGEN2_GEN_MASK_1 tst_BIT by (simp_all add: bit_BIT)

lemma ucast_ff [simp]: "(ucast (0xff :: u8) :: u32) = 0xff"
  by simp

lemma spi_state_select:
  assumes "spi_state (trace s) = (L, cur, p)"
  shows "spi_state (trace (spi_select True s)) = (L, cur, None)"
    and "spi_state (trace (spi_select False s)) = (if cur = [] then L else L @ [cur], [], None)"
  using assms by (simp_all add: spi_select_def spi_cs_def far_reg_def)

lemma spi_state_xfer:
  assumes "spi_state h = (L, cur, p)"
  shows "spi_state (Wr far_reg (SXLDR_FAR_XFER OR SXLDR_FAR_DATA_W (ucast b) OR SXLDR_FAR_CS) # h) =
    (L, cur, Some b)"
  using assms far_xfer [OF refl, of b] by simp

lemma spi_write_all_append:
  "spi_write_all E (bs @ cs) s = Option.bind (spi_write_all E bs s) (\<lambda>(_, s). spi_write_all E cs s)"
proof (induction bs arbitrary: s)
  case (Cons b bs)
  then show ?case by (cases "spi_write8 E b s") (auto split: prod.splits)
qed simp

section \<open>Bytes and transactions\<close>

context flash_chip
begin

lemma spi_wait_done:
  obtains h where "spi_wait E s = Some (env_read E h far_reg, s\<lparr>trace := Rd far_reg (env_read E h far_reg) # h\<rparr>)"
    and "tst (env_read E h far_reg) SXLDR_FAR_READY" and "spi_state h = spi_state (trace s)"
proof -
  have "\<exists>h. spi_wait E s = Some (env_read E h far_reg, s\<lparr>trace := Rd far_reg (env_read E h far_reg) # h\<rparr>) \<and>
      tst (env_read E h far_reg) SXLDR_FAR_READY \<and> spi_state h = spi_state t" if "t = trace s" for t
    using ready that
  proof (induction t arbitrary: s rule: comes_induct)
    case (good t)
    then show ?case
      by (subst spi_wait.simps) (auto simp: far_reg_def intro!: exI [of _ "trace s"])
  next
    case (bad t)
    let ?far = "env_read E t far_reg"
    have "spi_wait E s = spi_wait E (s\<lparr>trace := Rd far_reg ?far # t\<rparr>)"
      using bad.hyps bad.prems by (subst spi_wait.simps) (simp add: far_reg_def)
    then show ?case
      using bad.IH [of "s\<lparr>trace := Rd far_reg ?far # t\<rparr>"] bad.hyps by (auto split: prod.splits)
  qed
  then show thesis using that by blast
qed

lemma spi_write8_done:
  assumes "spi_state (trace s) = (L, cur, p)"
  obtains s' r where "spi_write8 E b s = Some ((), s')"
    and "spi_state (trace s') = (L, cur @ [(b, r)], None)"
proof -
  let ?s = "s\<lparr>trace := Wr far_reg (SXLDR_FAR_XFER OR SXLDR_FAR_DATA_W (ucast b) OR SXLDR_FAR_CS) # trace s\<rparr>"
  obtain h where h: "spi_wait E ?s = Some (env_read E h far_reg, ?s\<lparr>trace := Rd far_reg (env_read E h far_reg) # h\<rparr>)"
    "tst (env_read E h far_reg) SXLDR_FAR_READY" "spi_state h = spi_state (trace ?s)"
    by (rule spi_wait_done)
  then show thesis
    using spi_state_xfer [OF assms, where b = b]
    by (intro that [where r = "far_data (env_read E h far_reg)"]) (auto simp: spi_write8_def far_reg_def [symmetric])
qed

lemma spi_read8_done:
  assumes "spi_state (trace s) = (L, cur, p)"
  obtains s' h where "spi_read8 E s = Some (far_data (env_read E h far_reg), s')"
    and "spi_state (trace s') = (L, cur @ [(0xff, far_data (env_read E h far_reg))], None)"
    and "spi_state h = (L, cur, Some 0xff)" and "tst (env_read E h far_reg) SXLDR_FAR_READY"
proof -
  let ?s = "s\<lparr>trace := Wr far_reg (SXLDR_FAR_XFER OR SXLDR_FAR_DATA_W (ucast (0xff :: u8)) OR SXLDR_FAR_CS) # trace s\<rparr>"
  obtain h where h: "spi_wait E ?s = Some (env_read E h far_reg, ?s\<lparr>trace := Rd far_reg (env_read E h far_reg) # h\<rparr>)"
    "tst (env_read E h far_reg) SXLDR_FAR_READY" "spi_state h = spi_state (trace ?s)"
    by (rule spi_wait_done)
  then show thesis
    using spi_state_xfer [OF assms, where b = "0xff"]
    by (intro that [where h = h]) (auto simp: spi_read8_def far_reg_def [symmetric] far_data_def)
qed

lemma spi_write_all_done:
  assumes "spi_state (trace s) = (L, cur, p)" and "p = None"
  shows "\<exists>s' ts. spi_write_all E bs s = Some ((), s') \<and> spi_state (trace s') = (L, cur @ ts, None) \<and> sent ts = bs"
  using assms
proof (induction bs arbitrary: s cur p)
  case Nil
  then show ?case by (auto intro!: exI [of _ "[]"])
next
  case (Cons b bs)
  obtain s1 r where 1: "spi_write8 E b s = Some ((), s1)" "spi_state (trace s1) = (L, cur @ [(b, r)], None)"
    by (rule spi_write8_done [OF Cons.prems(1)])
  obtain s' ts where 2: "spi_write_all E bs s1 = Some ((), s')"
    "spi_state (trace s') = (L, (cur @ [(b, r)]) @ ts, None)" "sent ts = bs"
    using Cons.IH [OF 1(2)] by blast
  with 1 show ?case by (auto intro!: exI [of _ "(b, r) # ts"])
qed

lemma status_read:
  assumes "spi_state (trace s) = (L, [], p)"
  obtains s1 s2 h r where "spi_write8 E FLASH_RDSR (spi_select True s) = Some ((), s1)"
    and "spi_read8 E s1 = Some (far_data (env_read E h far_reg), s2)"
    and "spi_state (trace (spi_select False s2)) =
       (L @ [[(FLASH_RDSR, r), (0xff, far_data (env_read E h far_reg))]], [], None)"
    and "spi_state h = (L, [(FLASH_RDSR, r)], Some 0xff)" and "tst (env_read E h far_reg) SXLDR_FAR_READY"
proof -
  obtain s1 r where 1: "spi_write8 E FLASH_RDSR (spi_select True s) = Some ((), s1)"
    "spi_state (trace s1) = (L, [] @ [(FLASH_RDSR, r)], None)"
    by (rule spi_write8_done [OF spi_state_select(1) [OF assms]])
  obtain s2 h where 2: "spi_read8 E s1 = Some (far_data (env_read E h far_reg), s2)"
    "spi_state (trace s2) = (L, ([] @ [(FLASH_RDSR, r)]) @ [(0xff, far_data (env_read E h far_reg))], None)"
    "spi_state h = (L, [] @ [(FLASH_RDSR, r)], Some 0xff)" "tst (env_read E h far_reg) SXLDR_FAR_READY"
    by (rule spi_read8_done [OF 1(2)])
  show thesis
    using 1 2 spi_state_select(2) [OF 2(2)] by (intro that [of s1 h s2 r]) auto
qed

lemma flash_wait_completion_done:
  assumes "spi_state (trace s) = (L @ T, [], p)" and "list_all is_status T"
  shows "\<exists>s' U t. flash_wait_completion E s = Some ((), s') \<and>
     spi_state (trace s') = (L @ T @ U @ [t], [], None) \<and> list_all is_status U \<and> is_done t"
  using assms
proof (induction "patience - length T" arbitrary: T p s rule: less_induct)
  case less
  obtain s1 s2 h r where run: "spi_write8 E FLASH_RDSR (spi_select True s) = Some ((), s1)"
      "spi_read8 E s1 = Some (far_data (env_read E h far_reg), s2)"
    and st: "spi_state (trace (spi_select False s2)) =
       ((L @ T) @ [[(FLASH_RDSR, r), (0xff, far_data (env_read E h far_reg))]], [], None)"
    and h: "spi_state h = (L @ T, [(FLASH_RDSR, r)], Some 0xff)" "tst (env_read E h far_reg) SXLDR_FAR_READY"
    by (rule status_read [OF less.prems(1)])
  define t where "t = [(FLASH_RDSR, r), (0xff :: u8, far_data (env_read E h far_reg))]"
  have t: "is_status t" by (simp add: t_def is_status_def)
  show ?case
  proof (cases "far_data (env_read E h far_reg) AND 0x01 = 0")
    case True
    then have "is_done t" by (simp add: t_def is_done_def)
    moreover have "flash_wait_completion E s = Some ((), spi_select False s2)"
      using run True by (subst flash_wait_completion.simps) simp
    ultimately show ?thesis using st by (auto simp: t_def intro!: exI [of _ "[]"])
  next
    case False
    with status [OF h(1) less.prems(2) _ h(2)] have "patience - length (T @ [t]) < patience - length T"
      by (cases "patience \<le> length T") auto
    from less.hyps [OF this, of "spi_select False s2" None] st t less.prems(2)
    obtain s' U d where "flash_wait_completion E (spi_select False s2) = Some ((), s')"
      "spi_state (trace s') = (L @ (T @ [t]) @ U @ [d], [], None)" "list_all is_status U" "is_done d"
      by (auto simp: t_def)
    moreover have "flash_wait_completion E s = flash_wait_completion E (spi_select False s2)"
      using run False by (subst flash_wait_completion.simps) simp
    ultimately show ?thesis using t by (auto intro!: exI [of _ "t # U"])
  qed
qed

lemma flash_write_enable_done:
  assumes "spi_state (trace s) = (L, [], p)"
  obtains s' w where "flash_write_enable E s = Some ((), s')"
    and "spi_state (trace s') = (L @ [w], [], None)" and "sent w = [FLASH_WREN]"
proof -
  obtain s1 r where 1: "spi_write8 E FLASH_WREN (spi_select True s) = Some ((), s1)"
    "spi_state (trace s1) = (L, [] @ [(FLASH_WREN, r)], None)"
    by (rule spi_write8_done [OF spi_state_select(1) [OF assms]])
  show thesis
    using 1 spi_state_select(2) [OF 1(2)]
    by (intro that [of "spi_select False s1" "[(FLASH_WREN, r)]"]) (auto simp: flash_write_enable_def)
qed

lemma command_done:
  \<comment> \<open>a command and the bytes that follow it\<close>
  assumes "spi_state (trace s) = (L, [], p)"
  obtains s1 s2 e where "spi_write8 E c (spi_select True s) = Some ((), s1)"
    and "spi_write_all E bs s1 = Some ((), s2)" and "spi_state (trace s2) = (L, e, None)"
    and "sent e = c # bs"
proof -
  obtain s1 r where 1: "spi_write8 E c (spi_select True s) = Some ((), s1)"
    "spi_state (trace s1) = (L, [] @ [(c, r)], None)"
    by (rule spi_write8_done [OF spi_state_select(1) [OF assms]])
  obtain s2 ts where "spi_write_all E bs s1 = Some ((), s2)"
    "spi_state (trace s2) = (L, ([] @ [(c, r)]) @ ts, None)" "sent ts = bs"
    using spi_write_all_done [OF 1(2) refl] by blast
  with 1 show thesis by (intro that [of s1 s2 "(c, r) # ts"]) auto
qed

lemma flash_erase_sector_done:
  assumes "spi_state (trace s) = (L, [], p)"
  obtains s' e rs t where "flash_erase_sector E a s = Some ((), s')"
    and "spi_state (trace s') = (L @ [e] @ rs @ [t], [], None)" and "sent e = FLASH_SE # addr_bytes a"
    and "list_all is_status rs" and "is_done t"
proof -
  obtain s1 s2 e where 1: "spi_write8 E FLASH_SE (spi_select True s) = Some ((), s1)"
    "spi_write_all E (addr_bytes a) s1 = Some ((), s2)" "spi_state (trace s2) = (L, e, None)"
    "sent e = FLASH_SE # addr_bytes a"
    by (rule command_done [OF assms])
  have "spi_state (trace (spi_select False s2)) = ((L @ [e]) @ [], [], None)"
    using spi_state_select(2) [OF 1(3)] 1(4) by (auto simp: sent_def)
  from flash_wait_completion_done [OF this] obtain s' rs t where
    "flash_wait_completion E (spi_select False s2) = Some ((), s')"
    "spi_state (trace s') = ((L @ [e]) @ [] @ rs @ [t], [], None)" "list_all is_status rs" "is_done t" by auto
  with 1 show thesis by (intro that [of s' e rs t]) (simp_all add: flash_erase_sector_def)
qed

lemma flash_program_page_done:
  assumes "spi_state (trace s) = (L, [], p)"
  obtains s' e rs t where "flash_program_page E a data plen s = Some ((), s')"
    and "spi_state (trace s') = (L @ [e] @ rs @ [t], [], None)"
    and "sent e = FLASH_PP # addr_bytes a @ page_bytes data plen"
    and "list_all is_status rs" and "is_done t"
proof -
  obtain s1 s2 e where 1: "spi_write8 E FLASH_PP (spi_select True s) = Some ((), s1)"
    "spi_write_all E (addr_bytes a @ page_bytes data plen) s1 = Some ((), s2)"
    "spi_state (trace s2) = (L, e, None)" "sent e = FLASH_PP # addr_bytes a @ page_bytes data plen"
    by (rule command_done [OF assms])
  have "spi_state (trace (spi_select False s2)) = ((L @ [e]) @ [], [], None)"
    using spi_state_select(2) [OF 1(3)] 1(4) by (auto simp: sent_def)
  from flash_wait_completion_done [OF this] obtain s' rs t where
    2: "flash_wait_completion E (spi_select False s2) = Some ((), s')"
    "spi_state (trace s') = ((L @ [e]) @ [] @ rs @ [t], [], None)" "list_all is_status rs" "is_done t" by auto
  have "flash_program_page E a data plen s = Some ((), s')"
    using 1(1,2) 2(1)
    by (auto simp: flash_program_page_def page_bytes_def FLASH_PAGE_SIZE_def spi_write_all_append
      bind_eq_Some_conv split: prod.splits)
  with 1 2 show thesis by (intro that [of s' e rs t]) simp_all
qed

lemma erase_step:
  assumes "spi_state (trace s) = (L, [], p)" and "idle L" and "unat a < 2 ^ 24"
  shows "\<exists>s0 s' L'. flash_write_enable E s = Some ((), s0) \<and> flash_erase_sector E a s0 = Some ((), s') \<and>
     spi_state (trace s') = (L', [], None) \<and> idle L' \<and> mem L' = erased sector (unat a) (mem L)"
proof -
  obtain s0 w where 1: "flash_write_enable E s = Some ((), s0)"
    "spi_state (trace s0) = (L @ [w], [], None)" "sent w = [FLASH_WREN]"
    by (rule flash_write_enable_done [OF assms(1)])
  obtain s' e rs t where 2: "flash_erase_sector E a s0 = Some ((), s')"
    "spi_state (trace s') = ((L @ [w]) @ [e] @ rs @ [t], [], None)" "sent e = FLASH_SE # addr_bytes a"
    "list_all is_status rs" "is_done t"
    by (rule flash_erase_sector_done [OF 1(2)])
  have "length (addr_bytes a) = 3" by (simp add: addr_bytes_def)
  from sector_erase [OF assms(2) 1(3) 2(3) this 2(4,5)] 1 2 assms(3) show ?thesis
    by (auto simp: addr3_addr_bytes)
qed

lemma page_step:
  assumes "spi_state (trace s) = (L, [], p)" and "idle L" and "unat a < 2 ^ 24" and "256 dvd unat a"
    and "plen \<le> 256"
  shows "\<exists>s0 s' L'. flash_write_enable E s = Some ((), s0) \<and> flash_program_page E a data plen s0 = Some ((), s') \<and>
     spi_state (trace s') = (L', [], None) \<and> idle L' \<and> mem L' = paged (unat a) (page_bytes data plen) (mem L)"
proof -
  obtain s0 w where 1: "flash_write_enable E s = Some ((), s0)"
    "spi_state (trace s0) = (L @ [w], [], None)" "sent w = [FLASH_WREN]"
    by (rule flash_write_enable_done [OF assms(1)])
  obtain s' e rs t where 2: "flash_program_page E a data plen s0 = Some ((), s')"
    "spi_state (trace s') = ((L @ [w]) @ [e] @ rs @ [t], [], None)"
    "sent e = FLASH_PP # addr_bytes a @ page_bytes data plen"
    "list_all is_status rs" "is_done t"
    by (rule flash_program_page_done [OF 1(2)])
  have "length (addr_bytes a) = 3" by (simp add: addr_bytes_def)
  from page_program [OF assms(2) 1(3) 2(3) this length_page_bytes [OF assms(5)] _ 2(4,5)] 1 2 assms(3,4)
  show ?thesis by (auto simp: addr3_addr_bytes)
qed

end

end
