(* ===== verification/Flash_Program.thy ===== *)
theory Flash_Program
  imports Flash_Driver Vmebus_Window
begin

text \<open>
  Programming an image: the loop over the pages, the verification, and the whole of
  \<open>flash_program\<close> and \<open>program_flash\<close> on a chip that behaves as documented.
\<close>

section \<open>The loop over the pages\<close>

text \<open>The state of the loop before the page at \<open>n\<close>.\<close>

definition pages_done ::
  "nat \<Rightarrow> u32 \<Rightarrow> mem \<Rightarrow> int \<Rightarrow> bool list \<Rightarrow> nat \<Rightarrow> (nat \<Rightarrow> u8) \<Rightarrow> (nat \<Rightarrow> u8) \<Rightarrow> bool" where
  "pages_done sector a data count sector_map n m0 m \<longleftrightarrow>
     256 dvd n \<and> n \<le> flash_end count \<and> length sector_map * sector = 2 ^ 24 \<and>
     (\<forall>j<length sector_map. sector_map ! j \<longleftrightarrow> (\<exists>k<n. (unat a + k) div sector = j)) \<and>
     m = flashed (unat a) n (image_byte data count) sector m0"

definition fits :: "nat \<Rightarrow> u32 \<Rightarrow> int \<Rightarrow> bool" where
  "fits sector a count \<longleftrightarrow> 256 dvd sector \<and> 0 < sector \<and> 256 dvd unat a \<and> unat a + flash_end count \<le> 2 ^ 24"

lemma flash_end_least:
  obtains q :: nat where "flash_end count = 256 * q" and "count \<le> 256 * int q" and "count \<le> 0 \<Longrightarrow> q = 0"
    and "0 < count \<Longrightarrow> 256 * int q < count + 256"
proof (rule that [of "nat ((count + 255) div 256)"])
  let ?w = "(count + 255) div 256"
  have w: "256 * ?w \<le> count + 255" "count + 255 < 256 * ?w + 256" by presburger+
  show "count \<le> 256 * int (nat ?w)" "count \<le> 0 \<Longrightarrow> nat ?w = 0"
    "0 < count \<Longrightarrow> 256 * int (nat ?w) < count + 256" using w by linarith+
qed (simp add: flash_end_def)

lemma flash_end_bounds:
  assumes "256 dvd n" and "n \<le> flash_end count"
  shows "int n < count \<Longrightarrow> n + 256 \<le> flash_end count" and "\<not> int n < count \<Longrightarrow> n = flash_end count"
proof -
  obtain q where q: "n = 256 * q" using assms(1) by (auto elim!: dvdE)
  obtain e where e: "flash_end count = 256 * e" "count \<le> 256 * int e" "count \<le> 0 \<Longrightarrow> e = 0"
    "0 < count \<Longrightarrow> 256 * int e < count + 256" by (rule flash_end_least [of count]) blast
  show "int n < count \<Longrightarrow> n + 256 \<le> flash_end count" 
  proof -
    assume "int n < count"
    with e(2) have "int (256 * q) < int (256 * e)" unfolding q by linarith
    then show ?thesis unfolding q e(1) by simp
  qed
  show "\<not> int n < count \<Longrightarrow> n = flash_end count"
    using assms(2) e(3,4) unfolding q e(1) by (cases "0 < count") auto
qed

lemma flash_end_small: "0 < count \<Longrightarrow> count \<le> 256 \<Longrightarrow> flash_end count = 256"
  by (rule flash_end_least [of count]) auto

lemma flash_end_covers: "nat count \<le> flash_end count"
  by (rule flash_end_least [of count]) auto

lemma flash_end_le: "256 dvd m \<Longrightarrow> count \<le> int m \<Longrightarrow> flash_end count \<le> m"
  by (rule flash_end_least [of count], cases "0 < count") (auto elim!: dvdE)

lemma page_bytes_image:
  assumes "256 dvd n" and "int n < count" and "k < 256"
  shows "page_bytes (\<lambda>k. data (n + k)) (if count > 256 then 256 else count) ! k = image_byte data count (n + k)"
proof -
  have "n = 0" if "count \<le> 256" using that assms(1,2) by (auto elim!: dvdE)
  then show ?thesis using assms by (auto simp: page_bytes_nth image_byte_def)
qed

context flash_chip
begin

lemma page_loop_step:
  assumes st: "spi_state (trace s) = (L, [], p)" "idle L"
    and fit: "fits sector a count" and inv: "pages_done sector a data count sm n m0 (mem L)" and n: "int n < count"
  shows "\<exists>s1 L1 sm1. flash_page_loop E a data count (int sector) sm n s =
       flash_page_loop E a data count (int sector) sm1 (n + nat (if count > 256 then 256 else count)) s1 \<and>
     spi_state (trace s1) = (L1, [], None) \<and> idle L1 \<and> pages_done sector a data count sm1 (n + 256) m0 (mem L1)"
proof -
  define here j plen where "here = a + of_nat n" and "j = (unat a + n) div sector"
    and "plen = (if count > 256 then 256 else count)"
  have d: "256 dvd sector" "256 dvd unat a" "256 dvd n" and s0: "0 < sector"
    using fit inv by (auto simp: fits_def pages_done_def)
  have more: "n + 256 \<le> flash_end count" using flash_end_bounds(1) inv n by (simp add: pages_done_def)
  with fit have lt: "unat a + n < 2 ^ 24" by (simp add: fits_def)
  have "unat (of_nat n :: u32) = n" using lt by (simp add: unsigned_of_nat take_bit_nat_eq_self_iff)
  then have here: "unat here = unat a + n"
    using lt unat_add_lem [of a "of_nat n"] unfolding here_def by simp
  have idx: "nat (uint here div int sector) = j" unfolding j_def here [symmetric] uint_nat by (simp add: nat_div_distrib)
  have j: "j < length sm" using lt inv s0
    by (auto simp: j_def pages_done_def less_mult_imp_div_less)
  have marked: "sm ! j \<longleftrightarrow> (\<exists>k<n. (unat a + k) div sector = j)" using inv j by (simp add: pages_done_def)
  have plen: "plen \<le> 256" by (simp add: plen_def)
  have here': "256 dvd unat here" "unat here < 2 ^ 24" using d lt by (simp_all add: here)
  have "\<exists>s1 L1. (if \<not> sm ! j then do { (_, s) \<leftarrow> flash_write_enable E s; flash_erase_sector E here s }
       else Some ((), s)) = Some ((), s1) \<and> (\<exists>p. spi_state (trace s1) = (L1, [], p)) \<and> idle L1 \<and>
     mem L1 = (if sm ! j then mem L else erased sector (unat here) (mem L))"
    using erase_step [OF st here'(2)] st by (cases "sm ! j") auto
  then obtain s1 L1 p1 where 1: "(if \<not> sm ! j then do { (_, s) \<leftarrow> flash_write_enable E s; flash_erase_sector E here s }
       else Some ((), s)) = Some ((), s1)" "spi_state (trace s1) = (L1, [], p1)" "idle L1"
     "mem L1 = (if sm ! j then mem L else erased sector (unat here) (mem L))" by blast
  from page_step [OF 1(2,3) here'(2,1) plen, of "\<lambda>k. data (n + k)"]
  obtain s2 s3 L3 where 2: "flash_write_enable E s1 = Some ((), s2)"
    "flash_program_page E here (\<lambda>k. data (n + k)) plen s2 = Some ((), s3)"
    "spi_state (trace s3) = (L3, [], None)" "idle L3"
    "mem L3 = paged (unat here) (page_bytes (\<lambda>k. data (n + k)) plen) (mem L1)" by blast
  have loop: "flash_page_loop E a data count (int sector) sm n s =
      flash_page_loop E a data count (int sector) (sm[j := True]) (n + nat plen) s3"
    using 1(1) 2(1,2) n j
    by (subst flash_page_loop.simps) (auto simp: FLASH_PAGE_SIZE_def Let_def idx plen_def
      simp flip: here_def)
  have "mem L3 = flashed (unat a) (n + 256) (image_byte data count) sector m0"
    unfolding 2(5) here
  proof (rule flashed_page [OF d])
    show "length (page_bytes (\<lambda>k. data (n + k)) plen) = 256" by (rule length_page_bytes [OF plen])
    show "page_bytes (\<lambda>k. data (n + k)) plen ! k = image_byte data count (n + k)" if "k < 256" for k
      unfolding plen_def by (rule page_bytes_image [OF d(3) n that])
    show "mem L1 = (if \<exists>k<n. (unat a + k) div sector = (unat a + n) div sector
        then flashed (unat a) n (image_byte data count) sector m0
        else erased sector (unat a + n) (flashed (unat a) n (image_byte data count) sector m0))"
      unfolding j_def [symmetric] marked [symmetric]
      using 1(4) inv by (cases "sm ! j") (simp_all add: pages_done_def here)
  qed
  moreover have "sm[j := True] ! i \<longleftrightarrow> (\<exists>k<n + 256. (unat a + k) div sector = i)" if "i < length sm" for i
    unfolding touched_page [OF d] j_def [symmetric]
    using inv that by (cases "i = j") (simp_all add: pages_done_def)
  ultimately have "pages_done sector a data count (sm[j := True]) (n + 256) m0 (mem L3)"
    using inv d more by (simp add: pages_done_def)
  then show ?thesis using loop 2(3,4) unfolding plen_def by blast
qed

lemma page_loop_done:
  assumes "spi_state (trace s) = (L, [], p)" "idle L" "fits sector a count"
    and "pages_done sector a data count sm n m0 (mem L)"
  shows "\<exists>s' L' p'. flash_page_loop E a data count (int sector) sm n s = Some ((), s') \<and>
     spi_state (trace s') = (L', [], p') \<and> idle L' \<and>
     mem L' = flashed (unat a) (flash_end count) (image_byte data count) sector m0"
  using assms
proof (induction "nat (count - int n)" arbitrary: s L p sm n rule: less_induct)
  case less
  show ?case
  proof (cases "int n < count")
    case False
    with flash_end_bounds(2) less.prems(4) have "n = flash_end count" by (simp add: pages_done_def)
    moreover have "flash_page_loop E a data count (int sector) sm n s = Some ((), s)"
      using False by (simp add: flash_page_loop.simps)
    ultimately show ?thesis using less.prems by (auto simp: pages_done_def)
  next
    case True
    obtain s1 L1 sm1 where step: "flash_page_loop E a data count (int sector) sm n s =
        flash_page_loop E a data count (int sector) sm1 (n + nat (if count > 256 then 256 else count)) s1"
      and 1: "spi_state (trace s1) = (L1, [], None)" "idle L1" "pages_done sector a data count sm1 (n + 256) m0 (mem L1)"
      using page_loop_step [OF less.prems True] by blast
    show ?thesis
    proof (cases "256 < count")
      case big: True
      have "nat (count - int (n + 256)) < nat (count - int n)" using True by simp
      from less.hyps [OF this 1(1,2) less.prems(3) 1(3)] step big show ?thesis by simp
    next
      case False
      have "flash_page_loop E a data count (int sector) sm n s = Some ((), s1)"
        using step False True by (simp add: flash_page_loop.simps [where n = "n + nat count"])
      moreover have "flash_end count = 256" using flash_end_small False True by simp
      moreover have "n = 0" using True False less.prems(4) by (auto simp: pages_done_def elim!: dvdE)
      ultimately show ?thesis using 1 by (auto simp: pages_done_def)
    qed
  qed
qed

section \<open>Verification\<close>

lemma verify_done:
  assumes "spi_state (trace s) = (L, cur, p)" "idle L" "sent cur = FLASH_READ # ab @ bs" "length ab = 3"
    and "addr3 ab + length bs + length ds \<le> 2 ^ 24"
    and "\<And>k. k < length ds \<Longrightarrow> mem L (addr3 ab + length bs + k) = ds ! k"
  shows "\<exists>s' cur' cs p'. flash_verify E ds s = Some (0, s') \<and> spi_state (trace s') = (L, cur', p') \<and>
     sent cur' = FLASH_READ # cs"
  using assms
proof (induction ds arbitrary: s cur bs p)
  case Nil
  then show ?case by auto
next
  case (Cons d ds)
  obtain s1 h where 1: "spi_read8 E s = Some (far_data (env_read E h far_reg), s1)"
    "spi_state (trace s1) = (L, cur @ [(0xff, far_data (env_read E h far_reg))], None)"
    "spi_state h = (L, cur, Some 0xff)" "tst (env_read E h far_reg) SXLDR_FAR_READY"
    by (rule spi_read8_done [OF Cons.prems(1)])
  have "far_data (env_read E h far_reg) = mem L (addr3 ab + length bs)"
    using read_data [OF 1(3) Cons.prems(2-4) _ 1(4)] Cons.prems(5) by simp
  then have d: "far_data (env_read E h far_reg) = d" using Cons.prems(6) [of 0] by simp
  have "\<exists>s' cur' cs p'. flash_verify E ds s1 = Some (0, s') \<and> spi_state (trace s') = (L, cur', p') \<and>
     sent cur' = FLASH_READ # cs"
  proof (rule Cons.IH [OF 1(2) Cons.prems(2), where bs = "bs @ [0xff]"])
    show "mem L (addr3 ab + length (bs @ [0xff]) + k) = ds ! k" if "k < length ds" for k
      using Cons.prems(6) [of "Suc k"] that by simp
  qed (use Cons.prems in simp_all)
  then show ?case using 1(1) d by auto
qed

end

section \<open>Programming an image\<close>

lemma sector_sizes:
  assumes "flash_sector_size flash_id = Some (int sector)"
  shows "256 dvd sector" and "0 < sector" and "nat (4 * FLASH_SIZE div int sector div 4) * sector = 2 ^ 24"
proof -
  from assms have "int sector = 0x40000 \<or> int sector = 0x10000"
    by (auto simp: flash_sector_size_def FLASH_SECTOR_SIZE_M25P128_def FLASH_SECTOR_SIZE_MT25QL128_def
      split: if_splits)
  then have "sector = 0x40000 \<or> sector = 0x10000" by auto
  then show "256 dvd sector" "0 < sector" "nat (4 * FLASH_SIZE div int sector div 4) * sector = 2 ^ 24"
    by (auto simp: FLASH_SIZE_def)
qed

lemma flash_program_run:
  fixes E :: "ucall env"
  assumes "flash_chip E mem idle sector patience"
    and size': "flash_sector_size flash_id = Some (int sector)"
    and st: "spi_state (trace s) = (L, [], p)" "idle L"
    and a: "256 dvd unat a" "unat a + flash_end count \<le> 2 ^ 24" "unat a < 2 ^ 24"
    and malloc: "\<And>h n. env_call E h (Malloc n) \<noteq> 0"
  shows "\<exists>s' L'. flash_program E a data count flash_id s = Some (0, s') \<and>
     spi_state (trace s') = (L', [], None) \<and> idle L' \<and>
     mem L' = flashed (unat a) (flash_end count) (image_byte data count) sector (mem L)"
proof -
  note [simp del] = flash_verify.simps
  define n where "n = nat (4 * FLASH_SIZE div int sector div 4)"
  define ptr where "ptr = env_call E (trace s) (Malloc (word_of_int (4 * FLASH_SIZE div int sector)))"
  define s0 where "s0 = s\<lparr>trace := Call (Malloc (word_of_int (4 * FLASH_SIZE div int sector))) ptr # trace s\<rparr>"
  note address = addr3_addr_bytes [OF a(3)]
  note sizes = sector_sizes [OF size']
  have "spi_state (trace s0) = (L, [], p)" using st by (simp add: s0_def)
  moreover have fit: "fits sector a count" using sizes a by (simp add: fits_def)
  moreover have "pages_done sector a data count (replicate n False) 0 (mem L) (mem L)"
    using sizes by (simp add: pages_done_def n_def)
  ultimately obtain s1 L1 p1 where 1: "flash_page_loop E a data count (int sector) (replicate n False) 0 s0 = Some ((), s1)"
    "spi_state (trace s1) = (L1, [], p1)" "idle L1"
    "mem L1 = flashed (unat a) (flash_end count) (image_byte data count) sector (mem L)"
    using flash_chip.page_loop_done [OF assms(1) _ st(2)] by blast
  obtain s2 s3 cur where 2: "spi_write8 E FLASH_READ (spi_select True s1) = Some ((), s2)"
    "spi_write_all E (addr_bytes a) s2 = Some ((), s3)" "spi_state (trace s3) = (L1, cur, None)"
    "sent cur = FLASH_READ # addr_bytes a"
    by (rule flash_chip.command_done [OF assms(1) 1(2)])
  have lt: "unat a + nat count \<le> 2 ^ 24" using a(2) flash_end_covers [of count] by linarith
  have "\<exists>s' cur' cs p'. flash_verify E (bytes_at data 0 (nat count)) s3 = Some (0, s') \<and>
      spi_state (trace s') = (L1, cur', p') \<and> sent cur' = FLASH_READ # cs"
  proof (rule flash_chip.verify_done [OF assms(1) 2(3) 1(3), where bs = "[]" and ab = "addr_bytes a"])
    show "mem L1 (addr3 (addr_bytes a) + length [] + k) = bytes_at data 0 (nat count) ! k"
      if "k < length (bytes_at data 0 (nat count))" for k
      using that address flash_end_covers [of count]
      by (auto simp: 1(4) flashed_def image_byte_def bytes_at_def)
  qed (use lt address 2(4) in \<open>simp_all add: addr_bytes_def\<close>)
  then obtain s4 cur' cs p' where 3: "flash_verify E (bytes_at data 0 (nat count)) s3 = Some (0, s4)"
    "spi_state (trace s4) = (L1, cur', p')" "sent cur' = FLASH_READ # cs" by blast
  let ?s' = "snd (run_state (call E (Free ptr)) (spi_select False s4))"
  have "flash_program E a data count flash_id s = Some (0, ?s')"
    using 1(1) 2(1,2) 3(1) malloc unfolding s0_def n_def ptr_def
    by (simp add: flash_program_def size' Let_def)
  moreover have "spi_state (trace ?s') = (L1 @ [cur'], [], None)"
    using spi_state_select(2) [OF 3(2)] 3(3) by (auto simp: sent_def)
  ultimately show ?thesis using flash_chip.read_end [OF assms(1) 1(3) 3(3)] 1(4) by auto
qed

section \<open>Identification\<close>

context flash_device
begin

lemma id_byte:
  assumes "spi_state (trace s) = (L, cur, p)" "idle L" "sent cur = FLASH_RDID # bs" "length bs < length ident"
  obtains s' r where "spi_read8 E s = Some (ident ! length bs, s')"
    and "spi_state (trace s') = (L, cur @ [(0xff, r)], None)"
proof -
  obtain s1 h where 1: "spi_read8 E s = Some (far_data (env_read E h far_reg), s1)"
    "spi_state (trace s1) = (L, cur @ [(0xff, far_data (env_read E h far_reg))], None)"
    "spi_state h = (L, cur, Some 0xff)" "tst (env_read E h far_reg) SXLDR_FAR_READY"
    by (rule spi_read8_done [OF assms(1)])
  with id_data [OF 1(3) assms(2-4) 1(4)] show thesis using that by simp
qed

lemma flash_read_id_done:
  assumes "spi_state (trace s) = (L, [], p)" "idle L" "ident = [b2, b1, b0]"
  obtains s' L' where "flash_read_id E s =
      Some (push_bit 16 (ucast b2) + push_bit 8 (ucast b1) + ucast b0, s')"
    and "spi_state (trace s') = (L', [], None)" and "idle L'" and "mem L' = mem L"
proof -
  define s0 where "s0 = snd (run_state (sleep_us 10) (spi_select True
    (snd (run_state (sleep_us 10) (spi_select False s)))))"
  have "spi_state (trace s0) = (L, [], None)"
    using assms(1) by (simp add: s0_def spi_select_def spi_cs_def far_reg_def)
  then have "spi_state (trace (spi_select True s0)) = (L, [], None)" by (rule spi_state_select(1))
  then obtain s1 r1 where 1: "spi_write8 E FLASH_RDID (spi_select True s0) = Some ((), s1)"
    "spi_state (trace s1) = (L, [] @ [(FLASH_RDID, r1)], None)" by (rule spi_write8_done)
  obtain s2 r2 where 2: "spi_read8 E s1 = Some (b2, s2)"
    "spi_state (trace s2) = (L, ([] @ [(FLASH_RDID, r1)]) @ [(0xff, r2)], None)"
    using id_byte [OF 1(2) assms(2), of "[]"] assms(3) by auto
  obtain s3 r3 where 3: "spi_read8 E s2 = Some (b1, s3)"
    "spi_state (trace s3) = (L, (([] @ [(FLASH_RDID, r1)]) @ [(0xff, r2)]) @ [(0xff, r3)], None)"
    using id_byte [OF 2(2) assms(2), of "[0xff]"] assms(3) by auto
  obtain s4 r4 where 4: "spi_read8 E s3 = Some (b0, s4)"
    "spi_state (trace s4) = (L, ((([] @ [(FLASH_RDID, r1)]) @ [(0xff, r2)]) @ [(0xff, r3)]) @ [(0xff, r4)], None)"
    using id_byte [OF 3(2) assms(2), of "[0xff, 0xff]"] assms(3) by auto
  define t where "t = [(FLASH_RDID, r1), (0xff :: u8, r2), (0xff, r3), (0xff, r4)]"
  have "spi_state (trace (spi_select False s4)) = (L @ [t], [], None)"
    using spi_state_select(2) [OF 4(2)] by (simp add: t_def)
  moreover have "flash_read_id E s =
      Some (push_bit 16 (ucast b2) + push_bit 8 (ucast b1) + ucast b0, spi_select False s4)"
    using 1(1) 2(1) 3(1) 4(1) unfolding s0_def by (simp add: flash_read_id_def Let_def)
  moreover have "idle (L @ [t]) \<and> mem (L @ [t]) = mem L"
    by (rule id_end [OF assms(2)]) (simp add: t_def)
  ultimately show thesis by (intro that [of "spi_select False s4" "L @ [t]"]) simp_all
qed

end

section \<open>The whole tool\<close>

lemma flashed_outside:
  assumes "sector dvd lo" "sector dvd hi" "lo \<le> a" "a + n \<le> hi" "x < lo \<or> hi \<le> x" "0 < sector"
  shows "flashed a n img sector m x = m x"
proof -
  obtain c d where c: "lo = sector * c" "hi = sector * d" using assms(1,2) by (auto elim!: dvdE)
  have "(a + k) div sector \<noteq> x div sector" if "k < n" for k
  proof -
    have "c \<le> (a + k) div sector" using div_le_mono [of lo "a + k" sector] assms(3,6) c by simp
    moreover have "(a + k) div sector < d"
      using that assms(4) c by (intro less_mult_imp_div_less) (simp add: mult.commute)
    moreover have "x div sector < c \<or> d \<le> x div sector"
      using assms(5,6) c div_le_mono [of hi x sector] less_mult_imp_div_less [of x c sector]
      by (auto simp: mult.commute)
    ultimately show ?thesis by auto
  qed
  then show ?thesis using assms by (auto simp: flashed_def)
qed

lemma flashed_inside: "k < n \<Longrightarrow> flashed a n img sector m (a + k) = img k"
  by (simp add: flashed_def)

lemma spi_test_presence_run:
  assumes "spi_state (trace s) = (L, [], p)"
  shows "\<exists>s0. run_state (spi_test_presence E) s = (fst (run_state (spi_test_presence E) s), s0) \<and>
     spi_state (trace s0) = (L, [], None)"
proof -
  have "\<not> tst (SXLDR_FAR_XFER OR SXLDR_FAR_DATA_W 0xff) SXLDR_FAR_CS"
    unfolding sxldr_bits WBGEN2_GEN_MASK_1 tst_BIT
    by (simp add: bit_BIT bit_simps SXLDR_FAR_DATA_W_def bit_WBGEN2_GEN_WRITE)
  then show ?thesis using assms by (simp add: spi_test_presence_def flip: far_reg_def)
qed

lemma known_chip:
  assumes "(sector, ident) \<in> {(0x40000, [0x20, 0x20, 0x18]), (0x10000, [0x20, 0xBA, 0x18])}"
  shows "\<exists>b2 b1 b0 flash_id. ident = [b2, b1, b0 :: u8] \<and>
     flash_id = push_bit 16 (ucast b2) + push_bit 8 (ucast b1) + ucast b0 \<and>
     flash_sector_size flash_id = Some (int sector) \<and> (flash_id = ID_M25P128 \<or> flash_id = ID_MT25QL128)"
proof -
  consider (micron) "sector = 0x10000" "ident = [0x20, 0xBA, 0x18]" | (st) "sector = 0x40000" "ident = [0x20, 0x20, 0x18]"
    using assms by blast
  then show ?thesis
  proof cases
    case micron
    show ?thesis
      by (rule exI [of _ "0x20"], rule exI [of _ "0xBA"], rule exI [of _ "0x18"])
         (simp add: micron flash_sector_size_def ID_M25P128_def ID_MT25QL128_def FLASH_SECTOR_SIZE_MT25QL128_def)
  next
    case st
    show ?thesis
      by (rule exI [of _ "0x20"], rule exI [of _ "0x20"], rule exI [of _ "0x18"])
         (simp add: st flash_sector_size_def ID_M25P128_def ID_MT25QL128_def FLASH_SECTOR_SIZE_M25P128_def)
  qed
qed

lemma count_of_size:
  assumes "unat (size' :: u64) < 2 ^ 31"
  shows "sint (ucast size' :: u32) = int (unat size')"
proof -
  have "int (unat size') < int (2 ^ 31)" using assms by (simp only: of_nat_less_iff)
  then have lt: "uint size' < 2 ^ 31" by simp
  then have "uint (ucast size' :: u32) = uint size'"
    by (simp add: unsigned_ucast_eq take_bit_int_eq_self_iff)
  then show ?thesis using lt by (simp add: sint_uint signed_take_bit_int_eq_self_iff
    order_trans [OF _ uint_ge_0])
qed

lemma length_sdb_header [simp]: "length sdb_header = 192"
  by (simp add: sdb_header_def)

lemma chip_identified:
  \<comment> \<open>the presence test and the identification, common to both kinds of programming\<close>
  assumes "flash_device E mem idle sector patience ident"
    and model: "(sector, ident) \<in> {(0x40000, [0x20, 0x20, 0x18]), (0x10000, [0x20, 0xBA, 0x18])}"
    and "fst (run_state (spi_test_presence E) s)"
    and "spi_state (trace s) = (L, [], p)" "idle L"
  obtains s0 s1 L1 flash_id where "run_state (spi_test_presence E) s = (True, s0)"
    and "flash_read_id E s0 = Some (flash_id, s1)" and "spi_state (trace s1) = (L1, [], None)"
    and "idle L1" and "mem L1 = mem L" and "flash_sector_size flash_id = Some (int sector)"
    and "flash_id = ID_M25P128 \<or> flash_id = ID_MT25QL128"
proof -
  obtain s0 where 0: "run_state (spi_test_presence E) s = (True, s0)" "spi_state (trace s0) = (L, [], None)"
    using spi_test_presence_run [OF assms(4), of E] assms(3) by auto
  obtain b2 b1 b0 flash_id where id: "ident = [b2, b1, b0]"
    "flash_id = push_bit 16 (ucast b2) + push_bit 8 (ucast b1) + ucast b0"
    "flash_sector_size flash_id = Some (int sector)" "flash_id = ID_M25P128 \<or> flash_id = ID_MT25QL128"
    using known_chip [OF model] by blast
  obtain s1 L1 where 1: "flash_read_id E s0 = Some (flash_id, s1)" "spi_state (trace s1) = (L1, [], None)"
    "idle L1" "mem L1 = mem L"
    by (rule flash_device.flash_read_id_done [OF assms(1) 0(2) assms(5) id(1)]) (simp add: id(2))
  show thesis by (rule that [OF 0(1) 1 id(3,4)])
qed

lemma program_flash_done:
  assumes "flash_device E mem idle sector patience ident"
    and model: "(sector, ident) \<in> {(0x40000, [0x20, 0x20, 0x18]), (0x10000, [0x20, 0xBA, 0x18])}"
    and "fst (run_state (spi_test_presence E) s)"
    and "spi_state (trace s) = (L, [], p)" "idle L"
    and "\<And>h n. env_call E h (Malloc n) \<noteq> 0" and "unat size' \<le> 0xF00000"
  shows "\<exists>s' L'. program_flash E answer buf size' False s = Some (0, s') \<and>
     spi_state (trace s') = (L', [], None) \<and> idle L' \<and>
     (\<forall>k<unat size'. mem L' (0x100000 + k) = buf k) \<and>
     (unat size' \<le> 0x500000 \<longrightarrow> (\<forall>k<192. mem L' (0x600000 + k) = sdb_header ! k)) \<and>
     (\<forall>x<0x100000. mem L' x = mem L x)"
proof -
  define count where "count = sint (ucast size' :: u32)"
  have count: "count = int (unat size')"
    unfolding count_def by (rule count_of_size) (use assms(7) in simp)
  have al: "sector dvd 0x100000" "sector dvd 0x600000" "sector dvd 0x700000" "sector dvd 0x1000000" "0 < sector"
    using model by auto
  obtain s0 s1 L1 flash_id where 0: "run_state (spi_test_presence E) s = (True, s0)"
    and 1: "flash_read_id E s0 = Some (flash_id, s1)" "spi_state (trace s1) = (L1, [], None)" "idle L1" "mem L1 = mem L"
    and id: "flash_sector_size flash_id = Some (int sector)" "flash_id = ID_M25P128 \<or> flash_id = ID_MT25QL128"
    by (rule chip_identified [OF assms(1) model assms(3-5)])
  note run = flash_program_run [OF flash_device.axioms(1) [OF assms(1)] id(1)]
  let ?hdr = "mem_of sdb_header (\<lambda>_. 0)"
  have e: "flash_end 192 = 256" by (simp add: flash_end_def)
  obtain s2 L2 where 2: "flash_program E BOOTLOADER_SDB_BASE ?hdr 192 flash_id s1 = Some (0, s2)"
    "spi_state (trace s2) = (L2, [], None)" "idle L2"
    "mem L2 = flashed 0x600000 256 (image_byte ?hdr 192) sector (mem L1)"
    using run [OF 1(2,3), of BOOTLOADER_SDB_BASE 192 ?hdr] assms(6) by (auto simp: BOOTLOADER_SDB_BASE_def e)
  have end': "flash_end count \<le> 0xF00000" by (rule flash_end_le) (use assms(7) in \<open>simp_all only: count of_nat_le_iff\<close>, simp)
  obtain s3 L3 where 3: "flash_program E BOOTLOADER_BITSTREAM_BASE buf count flash_id s2 = Some (0, s3)"
    "spi_state (trace s3) = (L3, [], None)" "idle L3"
    "mem L3 = flashed 0x100000 (flash_end count) (image_byte buf count) sector (mem L2)"
    using run [OF 2(2,3), of BOOTLOADER_BITSTREAM_BASE count buf] assms(6) end' by (auto simp: BOOTLOADER_BITSTREAM_BASE_def)
  have "program_flash E answer buf size' False s = Some (0, s3)"
    using 1(1) 2(1) 3(1) id(2) unfolding count_def by (auto simp: program_flash_def 0)
  moreover have "mem L3 (0x100000 + k) = buf k" if "k < unat size'" for k
  proof -
    have k: "int k < count" using that by (simp only: count of_nat_less_iff)
    then have "k < flash_end count" using flash_end_covers [of count] by simp
    with k show ?thesis by (simp add: 3(4) flashed_inside image_byte_def)
  qed
  moreover have "mem L3 (0x600000 + k) = sdb_header ! k" if "unat size' \<le> 0x500000" "k < 192" for k
  proof -
    have "flash_end count \<le> 0x500000" by (rule flash_end_le) (use that(1) in \<open>simp_all only: count of_nat_le_iff\<close>, simp)
    then have "mem L3 (0x600000 + k) = mem L2 (0x600000 + k)"
      unfolding 3(4) by (intro flashed_outside [OF al(1,2)]) (use al in auto)
    then show ?thesis using that(2) by (simp add: 2(4) flashed_inside image_byte_def mem_of_def)
  qed
  moreover have "mem L3 x = mem L x" if "x < 0x100000" for x
  proof -
    have "mem L3 x = mem L2 x"
      unfolding 3(4) by (intro flashed_outside [OF al(1,4)]) (use al end' that in auto)
    also have "\<dots> = mem L1 x"
      unfolding 2(4) by (intro flashed_outside [OF al(2,3)]) (use al that in auto)
    finally show ?thesis using 1(4) by simp
  qed
  ultimately show ?thesis using 3(2,3) by blast
qed

text \<open>
  C31.  Writing an image of at most 15 MiB to the flash of a card whose chip is one of the two the
  tool knows and behaves as its data sheet says always returns, and returns 0; then the flash holds
  the image at 0x100000 and, if the image has at most 5 MiB, the SDB header at 0x600000, and the
  part below 0x100000, which holds the bootloader, is untouched.  A larger image overwrites the
  header and the answer is still 0.
\<close>
theorem program_flash_image:
  assumes "flash_device E mem idle sector patience ident"
    and model: "(sector, ident) \<in> {(0x40000, [0x20, 0x20, 0x18]), (0x10000, [0x20, 0xBA, 0x18])}"
    and "fst (run_state (spi_test_presence E) s)"
    and "spi_state (trace s) = (L, [], p)" "idle L"
    and "\<And>h n. env_call E h (Malloc n) \<noteq> 0" and "unat size' \<le> 0xF00000"
  shows "\<exists>s' L'. program_flash E answer buf size' False s = Some (0, s') \<and>
     spi_state (trace s') = (L', [], None) \<and> idle L' \<and>
     (\<forall>k<unat size'. mem L' (0x100000 + k) = buf k) \<and>
     (unat size' \<le> 0x500000 \<longrightarrow> (\<forall>k<192. mem L' (0x600000 + k) = sdb_header ! k)) \<and>
     (\<forall>x<0x100000. mem L' x = mem L x)"
  by (rule program_flash_done [OF assms])

text \<open>The tool and the data sheet: an empty chip behind the bootloader, and an image of six bytes.\<close>

theorem program_flash_image_witness:
  "\<exists>s' L'. program_flash (m25p_env [0x20, 0x20, 0x18] 0x40000 (\<lambda>_. 0xff)) [] (mem_of [1, 2, 3, 4, 5, 6] (\<lambda>_. 0)) 6
     False new_process = Some (0, s') \<and> spi_state (trace s') = (L', [], None) \<and>
     snd (m25p_state 0x40000 (\<lambda>_. 0xff) L') 0x100005 = 6"
proof -
  let ?E = "m25p_env [0x20, 0x20, 0x18] 0x40000 (\<lambda>_. 0xff)"
  have "fst (run_state (spi_test_presence ?E) new_process)"
    by (simp add: spi_test_presence_def m25p_ready flip: far_reg_def)
  moreover have "spi_state (trace new_process) = ([], [], None)" by (simp add: new_process_def)
  moreover have "m25p_idle 0x40000 (\<lambda>_. 0xff) []" by (simp add: m25p_idle_def m25p_state_def)
  moreover have "env_call ?E h (Malloc n) \<noteq> 0" for h n by (simp add: m25p_env_def)
  ultimately obtain s' L' where "program_flash ?E [] (mem_of [1, 2, 3, 4, 5, 6] (\<lambda>_. 0)) 6 False new_process = Some (0, s')"
    "spi_state (trace s') = (L', [], None)"
    "\<forall>k<unat (6 :: u64). snd (m25p_state 0x40000 (\<lambda>_. 0xff) L') (0x100000 + k) = mem_of [1, 2, 3, 4, 5, 6] (\<lambda>_. 0) k"
    using program_flash_image [OF m25p.flash_device_axioms [where ident = "[0x20, 0x20, 0x18]"
        and sector = "0x40000" and init = "\<lambda>_. 0xff"], where s = new_process and L = "[]" and p = None
        and answer = "[]" and buf = "mem_of [1, 2, 3, 4, 5, 6] (\<lambda>_. 0)" and size' = 6] by auto
  moreover from this(3) have "snd (m25p_state 0x40000 (\<lambda>_. 0xff) L') 0x100005 = 6"
    by (auto simp: mem_of_def dest!: spec [of _ 5])
  ultimately show ?thesis by blast
qed

end
