(* ===== verification/Fpga_Tables.thy ===== *)
theory Fpga_Tables
  imports Kernel_Api
begin

text \<open>
  The tables of \<open>kernel/svec-core-fpga.c\<close> and \<open>kernel/svec-core.c\<close> that other drivers and the user
  see: the registers shown in debugfs, the attributes in sysfs, and the data for the drivers of the
  I2C and SPI controllers and of the flash memory.
\<close>

section \<open>Registers in debugfs\<close>

definition svec_fpga_debugfs_reg32 :: "regmap \<Rightarrow> (string \<times> u32) list" where
  "svec_fpga_debugfs_reg32 M =
     [(''Application offset'', SVEC_FPGA_CSR_APP_OFF M), (''Resets'', SVEC_FPGA_CSR_RESETS M),
      (''FMC present'', SVEC_FPGA_CSR_FMC_PRESENT M), (''PCB revision'', SVEC_FPGA_CSR_PCB_REV M),
      (''DDR4 ADDR'', SVEC_FPGA_CSR_DDR4_ADDR M), (''DDR4 DATA'', SVEC_FPGA_CSR_DDR4_DATA M),
      (''DDR5 ADDR'', SVEC_FPGA_CSR_DDR5_ADDR M), (''DDR5 DATA'', SVEC_FPGA_CSR_DDR5_DATA M)]"

definition csr_block :: "string list" where
  \<comment> \<open>the registers of the block \<open>csr\<close> of the register map, one word each\<close>
  "csr_block = [''app_offset'', ''resets'', ''fmc_presence'', ''unused0'', ''ddr_status'', ''pcb_rev'',
     ''ddr4_addr'', ''ddr5_addr'']"

definition csr_register :: "regmap \<Rightarrow> u32 \<Rightarrow> string option" where
  "csr_register M a =
     map_of (zip (map (\<lambda>i. SVEC_BASE_REGS_CSR M + 4 * of_nat i) [0..<length csr_block]) csr_block) a"

text \<open>
  What debugfs shows under each name: the first five are what they say, the last three are not;
  there is no data register in the block, and behind its eight words no register at all.
\<close>

lemma debugfs_registers:
  "map (\<lambda>(name, a). (name, csr_register svec_base_regs a)) (svec_fpga_debugfs_reg32 svec_base_regs) =
     [(''Application offset'', Some ''app_offset''), (''Resets'', Some ''resets''),
      (''FMC present'', Some ''fmc_presence''), (''PCB revision'', Some ''pcb_rev''),
      (''DDR4 ADDR'', Some ''ddr4_addr''), (''DDR4 DATA'', Some ''ddr5_addr''),
      (''DDR5 ADDR'', None), (''DDR5 DATA'', None)]"
  by (simp add: svec_fpga_debugfs_reg32_def csr_register_def csr_block_def fpga_offsets svec_base_regs_def upt_rec)

section \<open>Attributes\<close>

datatype attr_mode = RO | RW | WO

definition svec_sys_dev_attrs :: "(string \<times> attr_mode) list" where
  "svec_sys_dev_attrs = [(''firmware_name'', WO)]"

definition svec_fpga_therm_attrs :: "(string \<times> attr_mode) list" where
  "svec_fpga_therm_attrs = [(''serial_number'', RO), (''temperature'', RO)]"

definition svec_fpga_csr_attrs :: "(string \<times> attr_mode) list" where
  "svec_fpga_csr_attrs = [(''pcb_rev'', RO), (''application_offset'', RO), (''reset_app'', RW)]"

definition svec_fpga_groups :: "(string option \<times> (string \<times> attr_mode) list) list" where
  \<comment> \<open>the name of the group's directory, where it has one\<close>
  "svec_fpga_groups = [(Some ''thermometer'', svec_fpga_therm_attrs), (None, svec_fpga_csr_attrs)]"

section \<open>Data for other drivers\<close>

definition SVEC_FPGA_WB_CLK_HZ :: nat where "SVEC_FPGA_WB_CLK_HZ = 62500000"
definition SVEC_FPGA_WB_CLK_KHZ :: nat where "SVEC_FPGA_WB_CLK_KHZ = SVEC_FPGA_WB_CLK_HZ div 1000"

record ocores_i2c_platform_data =
  i2c_reg_shift :: nat
  i2c_reg_io_width :: nat
  i2c_clock_khz :: nat
  i2c_big_endian :: bool
  i2c_num_devices :: nat

definition svec_fpga_fmc_i2c_pdata :: ocores_i2c_platform_data where
  "svec_fpga_fmc_i2c_pdata = \<lparr>i2c_reg_shift = 2, i2c_reg_io_width = 4,
     i2c_clock_khz = SVEC_FPGA_WB_CLK_KHZ, i2c_big_endian = True, i2c_num_devices = 0\<rparr>"

record mtd_partition =
  mtd_name :: string
  mtd_offset :: "nat option"   \<comment> \<open>None: \<open>MTDPART_OFS_APPEND\<close>\<close>
  mtd_size :: "nat option"     \<comment> \<open>None: \<open>MTDPART_SIZ_FULL\<close>\<close>

definition SZ_1M :: nat where "SZ_1M = 0x100000"

definition svec_flash_parts :: "mtd_partition list" where
  "svec_flash_parts =
     [\<lparr>mtd_name = ''SFPGA'', mtd_offset = Some 0, mtd_size = Some SZ_1M\<rparr>,
      \<lparr>mtd_name = ''AFPGA'', mtd_offset = Some 0x100000, mtd_size = Some (5 * SZ_1M)\<rparr>,
      \<lparr>mtd_name = ''AFPGA_DATA'', mtd_offset = None, mtd_size = None\<rparr>]"

definition part_range :: "mtd_partition \<Rightarrow> nat \<times> nat" where
  \<comment> \<open>the first address and the one behind the last, of a partition with a place of its own\<close>
  "part_range p = (case (mtd_offset p, mtd_size p) of (Some a, Some n) \<Rightarrow> (a, a + n) | _ \<Rightarrow> (0, 0))"

lemma part_ranges: "part_range (svec_flash_parts ! 0) = (0, 0x100000)"
    "part_range (svec_flash_parts ! 1) = (0x100000, 0x600000)"
  by (simp_all add: part_range_def svec_flash_parts_def SZ_1M_def)

record flash_platform_data =
  flash_name :: string
  flash_parts :: "mtd_partition list"
  flash_type :: string

definition svec_flash_pdata :: flash_platform_data where
  "svec_flash_pdata = \<lparr>flash_name = ''svec-flash'', flash_parts = svec_flash_parts, flash_type = ''m25p128''\<rparr>"

record spi_board_info =
  spi_modalias :: string
  spi_max_speed_hz :: nat
  spi_chip_select :: nat
  spi_platform_data :: flash_platform_data

definition svec_fpga_spi_devices_info :: "spi_board_info list" where
  "svec_fpga_spi_devices_info = [\<lparr>spi_modalias = ''m25p128'', spi_max_speed_hz = SVEC_FPGA_WB_CLK_HZ div 4,
     spi_chip_select = 0, spi_platform_data = svec_flash_pdata\<rparr>]"

record spi_ocores_platform_data =
  ocores_big_endian :: bool
  ocores_clock_hz :: nat
  ocores_devices :: "spi_board_info list"

definition svec_fpga_spi_pdata :: spi_ocores_platform_data where
  "svec_fpga_spi_pdata = \<lparr>ocores_big_endian = True, ocores_clock_hz = SVEC_FPGA_WB_CLK_HZ,
     ocores_devices = svec_fpga_spi_devices_info\<rparr>"

text \<open>The flash memory is driven at most at a quarter of the clock of the bus it hangs on.\<close>

lemma spi_speed: "list_all (\<lambda>d. 4 * spi_max_speed_hz d \<le> ocores_clock_hz svec_fpga_spi_pdata)
    (ocores_devices svec_fpga_spi_pdata)"
  by (simp add: svec_fpga_spi_pdata_def svec_fpga_spi_devices_info_def SVEC_FPGA_WB_CLK_HZ_def)

end
