(* ===== verification/Flash_Verify.thy ===== *)
theory Flash_Verify
  imports Flash_Main
begin

text \<open>
  What the flasher guarantees on every device, whatever stands behind the SPI master: nothing is
  assumed of the chip here.  Where an operation returns, the bytes it exchanged make up the
  transaction it stands for; so the tool's answer 0 means that the image was read back, and without
  a known identifier no command that changes the chip is sent.
\<close>

section \<open>Bytes\<close>

lemma spi_wait_run:
  assumes "spi_wait E s = Some (v, s')"
  shows "\<exists>h. s' = s\<lparr>trace := Rd far_reg v # h\<rparr> \<and> tst v SXLDR_FAR_READY \<and> spi_state h = spi_state (trace s)"
proof (rule spi_wait.raw_induct [where P = "\<lambda>E s res. \<exists>h. snd res = s\<lparr>trace := Rd far_reg (fst res) # h\<rparr> \<and>
    tst (fst res) SXLDR_FAR_READY \<and> spi_state h = spi_state (trace s)", OF _ assms, simplified fst_conv snd_conv])
  fix f :: "'a env \<Rightarrow> ('a, 'b) machine_scheme \<Rightarrow> (u32 \<times> ('a, 'b) machine_scheme) option" and E s res
  assume IH: "\<And>E s res. f E s = Some res \<Longrightarrow> \<exists>h. snd res = s\<lparr>trace := Rd far_reg (fst res) # h\<rparr> \<and>
      tst (fst res) SXLDR_FAR_READY \<and> spi_state h = spi_state (trace s)"
    and eq: "(let (far, s) = run_state (csr_readl E SXLDR_REG_FAR) s in
      if \<not> tst far SXLDR_FAR_READY then f E s else Some (far, s)) = Some res"
  define v where "v = env_read E (trace s) far_reg"
  show "\<exists>h. snd res = s\<lparr>trace := Rd far_reg (fst res) # h\<rparr> \<and>
      tst (fst res) SXLDR_FAR_READY \<and> spi_state h = spi_state (trace s)"
  proof (cases "tst v SXLDR_FAR_READY")
    case True
    then show ?thesis using eq by (auto simp: v_def far_reg_def)
  next
    case False
    then have "f E (s\<lparr>trace := Rd far_reg v # trace s\<rparr>) = Some res" using eq by (simp add: v_def far_reg_def)
    from IH [OF this] False show ?thesis by (auto split: prod.splits)
  qed
qed

lemma spi_write8_run:
  assumes "spi_write8 E b s = Some (u, s')" and "spi_state (trace s) = (L, cur, p)"
  obtains r where "spi_state (trace s') = (L, cur @ [(b, r)], None)"
proof -
  let ?s = "s\<lparr>trace := Wr far_reg (SXLDR_FAR_XFER OR SXLDR_FAR_DATA_W (ucast b) OR SXLDR_FAR_CS) # trace s\<rparr>"
  obtain v where "spi_wait E ?s = Some (v, s')"
    using assms(1) by (auto simp: spi_write8_def far_reg_def bind_eq_Some_conv)
  from spi_wait_run [OF this] show thesis
    using spi_state_xfer [OF assms(2), where b = b] by (intro that [of "far_data v"]) auto
qed

lemma spi_read8_run:
  assumes "spi_read8 E s = Some (d, s')" and "spi_state (trace s) = (L, cur, p)"
  shows "spi_state (trace s') = (L, cur @ [(0xff, d)], None)"
proof -
  let ?s = "s\<lparr>trace := Wr far_reg (SXLDR_FAR_XFER OR SXLDR_FAR_DATA_W (ucast (0xff :: u8)) OR SXLDR_FAR_CS) # trace s\<rparr>"
  obtain v where "spi_wait E ?s = Some (v, s')" "d = far_data v"
    using assms(1) by (auto simp: spi_read8_def far_reg_def far_data_def bind_eq_Some_conv)
  from spi_wait_run [OF this(1)] this(2) show ?thesis
    using spi_state_xfer [OF assms(2), where b = "0xff"] by auto
qed

lemma spi_write_all_run:
  assumes "spi_write_all E bs s = Some (u, s')" and "spi_state (trace s) = (L, cur, p)"
  shows "\<exists>ts p. spi_state (trace s') = (L, cur @ ts, p) \<and> sent ts = bs"
  using assms
proof (induction bs arbitrary: s cur p)
  case (Cons b bs)
  then obtain s1 where 1: "spi_write8 E b s = Some ((), s1)" and 2: "spi_write_all E bs s1 = Some (u, s')"
    by (auto simp: bind_eq_Some_conv)
  obtain r where "spi_state (trace s1) = (L, cur @ [(b, r)], None)" by (rule spi_write8_run [OF 1 Cons.prems(2)])
  from Cons.IH [OF 2 this] obtain ts p where "spi_state (trace s') = (L, (cur @ [(b, r)]) @ ts, p)" "sent ts = bs"
    by blast
  then show ?case by (intro exI [of _ "(b, r) # ts"]) simp
qed simp

lemma flash_verify_run:
  assumes "flash_verify E ds s = Some (0, s')" and "spi_state (trace s) = (L, cur, p)"
  shows "\<exists>p. spi_state (trace s') = (L, cur @ map (Pair 0xff) ds, p)"
  using assms
proof (induction ds arbitrary: s cur p)
  case (Cons d ds)
  then obtain s1 where 1: "spi_read8 E s = Some (d, s1)" and 2: "flash_verify E ds s1 = Some (0, s')"
    by (auto simp: bind_eq_Some_conv split: if_splits)
  from Cons.IH [OF 2 spi_read8_run [OF 1 Cons.prems(2)]] show ?case by simp
qed simp

section \<open>Transactions\<close>

definition deselected :: "'c event list \<Rightarrow> bool" where
  "deselected h \<longleftrightarrow> fst (snd (spi_state h)) = []"

lemma deselectedI [intro]: "spi_state h = (L, [], p) \<Longrightarrow> deselected h"
  by (simp add: deselected_def)

lemma deselectedE:
  assumes "deselected h"
  obtains L p where "spi_state h = (L, [], p)"
  using assms by (cases "spi_state h") (auto simp: deselected_def)

lemma deselected_select [simp]: "deselected (trace (spi_select False s))"
proof -
  obtain L cur p where "spi_state (trace s) = (L, cur, p)" by (cases "spi_state (trace s)") auto
  from spi_state_select(2) [OF this] show ?thesis by (simp add: deselected_def)
qed

lemma wait_completion_run:
  assumes "flash_wait_completion E s = Some (u, s')"
  shows "deselected (trace s')"
proof (rule flash_wait_completion.raw_induct [where P = "\<lambda>E s res. deselected (trace (snd res))",
      OF _ assms, simplified snd_conv])
  fix f :: "'a env \<Rightarrow> ('a, 'b) machine_scheme \<Rightarrow> (unit \<times> ('a, 'b) machine_scheme) option" and E s res
  assume IH: "\<And>E s res. f E s = Some res \<Longrightarrow> deselected (trace (snd res))"
    and eq: "do {
       (_, s) \<leftarrow> spi_write8 E FLASH_RDSR (spi_select True s);
       (stat, s) \<leftarrow> spi_read8 E s;
       (if stat AND 0x01 \<noteq> 0 then f E (spi_select False s) else Some ((), spi_select False s)) } = Some res"
  then show "deselected (trace (snd res))"
    by (cases res) (auto simp: bind_eq_Some_conv split: if_splits)
qed

lemma write_enable_run: "flash_write_enable E s = Some (u, s') \<Longrightarrow> deselected (trace s')"
  by (auto simp: flash_write_enable_def bind_eq_Some_conv)

lemma erase_sector_run: "flash_erase_sector E a s = Some (u, s') \<Longrightarrow> deselected (trace s')"
  by (auto simp: flash_erase_sector_def bind_eq_Some_conv dest: wait_completion_run)

lemma program_page_run: "flash_program_page E a data n s = Some (u, s') \<Longrightarrow> deselected (trace s')"
  by (auto simp: flash_program_page_def bind_eq_Some_conv dest: wait_completion_run)

lemma page_loop_run:
  assumes "flash_page_loop E a data count sector sm n s = Some (u, s')" and "deselected (trace s)"
  shows "deselected (trace s')"
  using assms
proof (induction "nat (count - int n)" arbitrary: n s sm rule: less_induct)
  case less
  show ?case
  proof (cases "int n < count")
    case False
    then show ?thesis using less.prems by (simp add: flash_page_loop.simps)
  next
    case True
    let ?plen = "if count > FLASH_PAGE_SIZE then FLASH_PAGE_SIZE else count"
    obtain sm' s1 s2 where 1: "flash_program_page E (a + of_nat n) (\<lambda>k. data (n + k)) ?plen s1 = Some ((), s2)"
      and 2: "flash_page_loop E a data count sector sm' (n + nat ?plen) s2 = Some (u, s')"
      using less.prems(1) True
      by (subst (asm) flash_page_loop.simps) (auto simp: bind_eq_Some_conv Let_def split: if_splits)
    have "0 < ?plen" using True by (simp add: FLASH_PAGE_SIZE_def)
    then have "nat (count - int (n + nat ?plen)) < nat (count - int n)" using True by simp
    from less.hyps [OF this 2 program_page_run [OF 1]] show ?thesis .
  qed
qed

lemma command_run:
  assumes "spi_write8 E c (spi_select True s) = Some (u, s1)" and "spi_write_all E bs s1 = Some (v, s2)"
    and "spi_state (trace s) = (L, [], p)"
  shows "\<exists>e p. spi_state (trace s2) = (L, e, p) \<and> sent e = c # bs"
proof -
  obtain r where "spi_state (trace s1) = (L, [] @ [(c, r)], None)"
    by (rule spi_write8_run [OF assms(1) spi_state_select(1) [OF assms(3)]])
  from spi_write_all_run [OF assms(2) this] obtain ts p where
    "spi_state (trace s2) = (L, ([] @ [(c, r)]) @ ts, p)" "sent ts = bs" by blast
  then show ?thesis by (intro exI [of _ "(c, r) # ts"]) simp
qed

lemma read_id_run:
  assumes "flash_read_id E s = Some (val, s')" and "spi_state (trace s) = (L, [], p)"
  shows "\<exists>r b2 b1 b0. val = push_bit 16 (ucast b2) + push_bit 8 (ucast b1) + ucast b0 \<and>
     spi_state (trace s') = (L @ [[(FLASH_RDID, r), (0xff, b2), (0xff, b1), (0xff, b0)]], [], None)"
proof -
  define s0 where "s0 = snd (run_state (sleep_us 10) (spi_select True
    (snd (run_state (sleep_us 10) (spi_select False s)))))"
  have "spi_state (trace s0) = (L, [], None)"
    using assms(2) by (simp add: s0_def spi_select_def spi_cs_def far_reg_def)
  then have st: "spi_state (trace (spi_select True s0)) = (L, [], None)" by (rule spi_state_select(1))
  obtain s1 s2 s3 s4 b2 b1 b0 where ops: "spi_write8 E FLASH_RDID (spi_select True s0) = Some ((), s1)"
    "spi_read8 E s1 = Some (b2, s2)" "spi_read8 E s2 = Some (b1, s3)" "spi_read8 E s3 = Some (b0, s4)"
    and val: "val = push_bit 16 (ucast b2) + push_bit 8 (ucast b1) + ucast b0" "s' = spi_select False s4"
    using assms(1) unfolding flash_read_id_def by (auto simp: Let_def bind_eq_Some_conv s0_def)
  obtain r where 1: "spi_state (trace s1) = (L, [] @ [(FLASH_RDID, r)], None)"
    by (rule spi_write8_run [OF ops(1) st])
  note 4 = spi_read8_run [OF ops(4) spi_read8_run [OF ops(3) spi_read8_run [OF ops(2) 1]]]
  show ?thesis using spi_state_select(2) [OF 4] val by auto
qed

section \<open>Programming\<close>

lemma flash_verify_results: "flash_verify E ds s = Some (r, s') \<Longrightarrow> r = 0 \<or> r = - EINVAL"
  by (induction ds arbitrary: s) (auto simp: bind_eq_Some_conv split: if_splits)

lemma flash_program_results:
  assumes "flash_program E a data count flash_id s = Some (r, s')"
  shows "r \<in> {0, - EINVAL, - ENOMEM, - ENODEV} \<and> (flash_sector_size flash_id \<noteq> None \<longrightarrow> r \<noteq> - ENODEV)"
  using assms flash_verify_results
  by (auto simp: flash_program_def Let_def bind_eq_Some_conv split: option.splits if_splits dest!: flash_verify_results)

lemma flash_program_verified:
  assumes run: "flash_program E a data count flash_id s = Some (0, s')" and "deselected (trace s)"
  shows "\<exists>L t. spi_state (trace s') = (L @ [t], [], None) \<and>
    map fst t = FLASH_READ # addr_bytes a @ replicate (nat count) 0xff \<and>
    map snd (drop 4 t) = bytes_at data 0 (nat count)"
proof -
  obtain sector where sector: "flash_sector_size flash_id = Some sector"
    using run by (auto simp: flash_program_def split: option.splits)
  define ptr where "ptr = env_call E (trace s) (Malloc (word_of_int (4 * FLASH_SIZE div sector)))"
  define s0 where "s0 = s\<lparr>trace := Call (Malloc (word_of_int (4 * FLASH_SIZE div sector))) ptr # trace s\<rparr>"
  have s0: "spi_state (trace s0) = spi_state (trace s)" by (simp add: s0_def)
  obtain s1 s2 s3 s4 where
    loop: "flash_page_loop E a data count sector (replicate (nat (4 * FLASH_SIZE div sector div 4)) False) 0 s0 = Some ((), s1)"
    and cmd: "spi_write8 E FLASH_READ (spi_select True s1) = Some ((), s2)" "spi_write_all E (addr_bytes a) s2 = Some ((), s3)"
    and verify: "flash_verify E (bytes_at data 0 (nat count)) s3 = Some (0, s4)"
    and s': "trace s' = Call (Free ptr) (env_call E (trace (spi_select False s4)) (Free ptr)) # trace (spi_select False s4)"
    using run by (auto simp: flash_program_def sector ptr_def [symmetric] s0_def [symmetric] Let_def
      bind_eq_Some_conv split: if_splits)
  have "deselected (trace s0)" using assms(2) s0 by (simp add: deselected_def)
  then obtain L p where L: "spi_state (trace s1) = (L, [], p)"
    by (rule deselectedE [OF page_loop_run [OF loop]])
  obtain e p where e: "spi_state (trace s3) = (L, e, p)" "sent e = FLASH_READ # addr_bytes a"
    using command_run [OF cmd L] by blast
  let ?t = "e @ map (Pair 0xff) (bytes_at data 0 (nat count))"
  obtain p where "spi_state (trace s4) = (L, ?t, p)" using flash_verify_run [OF verify e(1)] by blast
  from spi_state_select(2) [OF this] have "spi_state (trace s') = (L @ [?t], [], None)"
    using e(2) by (auto simp: s')
  moreover have "length e = 4"
    using arg_cong [OF e(2), of length] by (simp add: sent_def addr_bytes_def)
  moreover have "map fst ?t = FLASH_READ # addr_bytes a @ replicate (nat count) 0xff"
    using e(2) by (simp add: sent_def comp_def map_replicate_const bytes_at_def)
  ultimately show ?thesis by (intro exI [of _ L] exI [of _ ?t]) (simp add: comp_def)
qed

section \<open>The whole programming\<close>

lemma byte_less: "unat (b :: u8) < 256"
  using unsigned_less [of b] by simp

lemma id_number:
  "unat (push_bit 16 (ucast b2) + push_bit 8 (ucast b1) + ucast b0 :: u32) =
     65536 * unat (b2 :: u8) + 256 * unat (b1 :: u8) + unat (b0 :: u8)"
proof -
  have lt: "unat b2 < 256" "unat b1 < 256" "unat b0 < 256" by (rule byte_less)+
  have "push_bit 16 (ucast b2) + push_bit 8 (ucast b1) + ucast b0 =
      (of_nat (65536 * unat b2 + 256 * unat b1 + unat b0) :: u32)"
    by (simp add: push_bit_eq_mult mult.commute)
  then show ?thesis using lt by (simp add: unsigned_of_nat take_bit_nat_eq_self del: of_nat_add of_nat_mult)
qed

lemma three_digits:
  fixes a b c N :: nat
  assumes "a < 256" "b < 256" "c < 256"
  shows "65536 * a + 256 * b + c = N \<longleftrightarrow> a = N div 65536 \<and> b = N div 256 mod 256 \<and> c = N mod 256"
proof
  assume N: "65536 * a + 256 * b + c = N"
  have "N = c + (b + a * 256) * 256" using N by simp
  then have "N div 256 = b + a * 256" "N mod 256 = c"
    using assms by (simp_all only: div_mult_self1 mod_mult_self1) simp_all
  moreover have "(b + a * 256) div 256 = a" "(b + a * 256) mod 256 = b" using assms by simp_all
  ultimately show "a = N div 65536 \<and> b = N div 256 mod 256 \<and> c = N mod 256"
    using div_mult2_eq [of N 256 256] by simp
next
  assume digits: "a = N div 65536 \<and> b = N div 256 mod 256 \<and> c = N mod 256"
  have "N = 256 * (N div 256) + N mod 256" "N div 256 = 256 * (N div 256 div 256) + N div 256 mod 256"
    by simp_all
  moreover have "N div 256 div 256 = a" using digits div_mult2_eq [of N 256 256] by simp
  ultimately show "65536 * a + 256 * b + c = N" using digits by linarith
qed

lemma known_id:
  fixes b2 b1 b0 :: u8
  defines "val \<equiv> push_bit 16 (ucast b2) + push_bit 8 (ucast b1) + ucast b0 :: u32"
  shows "val = ID_M25P128 \<or> val = ID_MT25QL128 \<longleftrightarrow> b2 = 0x20 \<and> (b1 = 0x20 \<or> b1 = 0xBA) \<and> b0 = 0x18"
proof -
  have eq: "val = w \<longleftrightarrow> unat b2 = unat w div 65536 \<and> unat b1 = unat w div 256 mod 256 \<and> unat b0 = unat w mod 256" for w
  proof -
    have "unat val = 65536 * unat b2 + 256 * unat b1 + unat b0" unfolding val_def by (rule id_number)
    then show ?thesis
      using three_digits [OF byte_less byte_less byte_less, of b2 b1 b0 "unat w"] by (simp only: word_unat_eq_iff [of val w])
  qed
  show ?thesis unfolding ID_M25P128_def ID_MT25QL128_def eq word_unat_eq_iff [where 'a = 8] by auto
qed

lemma program_flash_cases:
  assumes "program_flash E answer buf size' boot s = Some (r, s')" and "spi_state (trace s) = (L, [], p)"
  obtains (silent) "r = - 1" "\<not> fst (run_state (spi_test_presence E) s)" "spi_state (trace s') = (L, [], None)"
    | (known) s1 v b2 b1 b0 flash_id where
      "spi_state (trace s1) = (L @ [[(FLASH_RDID, v), (0xff, b2), (0xff, b1), (0xff, b0)]], [], None)"
      "flash_id = push_bit 16 (ucast b2) + push_bit 8 (ucast b1) + ucast b0"
      "(if flash_id \<noteq> ID_M25P128 \<and> flash_id \<noteq> ID_MT25QL128 then Some (- ENODEV, s1)
        else if boot then if strncmp answer (cstr ''yes'') 3 \<noteq> 0 then Some (- 1, s1)
             else flash_program E 0 buf (sint (ucast size' :: u32)) flash_id s1
        else do {
          (ret, s) \<leftarrow> flash_program E BOOTLOADER_SDB_BASE (mem_of sdb_header (\<lambda>_. 0)) (int (length sdb_header)) flash_id s1;
          if ret = 0 then flash_program E BOOTLOADER_BITSTREAM_BASE buf (sint (ucast size' :: u32)) flash_id s
          else Some (ret, s) }) = Some (r, s')"
proof -
  obtain s0 where 0: "run_state (spi_test_presence E) s = (fst (run_state (spi_test_presence E) s), s0)"
    "spi_state (trace s0) = (L, [], None)"
    using spi_test_presence_run [OF assms(2), of E] by blast
  show thesis
  proof (cases "fst (run_state (spi_test_presence E) s)")
    case False
    with 0 have "run_state (spi_test_presence E) s = (False, s0)" by simp
    with assms(1) have "r = - 1" "s' = s0" by (simp_all add: program_flash_def)
    then show thesis using silent False 0(2) by simp
  next
    case True
    with 0 have present: "run_state (spi_test_presence E) s = (True, s0)" by simp
    then obtain flash_id s1 where id: "flash_read_id E s0 = Some (flash_id, s1)"
      using assms(1) by (auto simp: program_flash_def bind_eq_Some_conv)
    from read_id_run [OF id 0(2)] assms(1) show thesis
      by (auto intro!: known simp: program_flash_def present id Let_def)
  qed
qed

text \<open>The chip of the data sheet, and six bytes.\<close>

lemma m25p_start:
  defines "E \<equiv> m25p_env [0x20, 0x20, 0x18] 0x40000 (\<lambda>_. 0xff)"
  shows "fst (run_state (spi_test_presence E) new_process)" "spi_state (trace new_process) = ([], [], None)"
    "m25p_idle 0x40000 (\<lambda>_. 0xff) []" "\<And>h n. env_call E h (Malloc n) \<noteq> 0"
    "flash_device E (\<lambda>L. snd (m25p_state 0x40000 (\<lambda>_. 0xff) L)) (m25p_idle 0x40000 (\<lambda>_. 0xff)) 0x40000 0 [0x20, 0x20, 0x18]"
proof -
  show "fst (run_state (spi_test_presence E) new_process)"
    by (simp add: E_def spi_test_presence_def m25p_ready flip: far_reg_def)
  show "spi_state (trace new_process) = ([], [], None)" by (simp add: new_process_def)
  show "m25p_idle 0x40000 (\<lambda>_. 0xff) []" by (simp add: m25p_idle_def m25p_state_def)
  show "env_call E h (Malloc n) \<noteq> 0" for h n by (simp add: E_def m25p_env_def)
  show "flash_device E (\<lambda>L. snd (m25p_state 0x40000 (\<lambda>_. 0xff) L)) (m25p_idle 0x40000 (\<lambda>_. 0xff)) 0x40000 0 [0x20, 0x20, 0x18]"
    unfolding E_def by (rule m25p.flash_device_axioms)
qed

text \<open>
  C33.  On every device, whatever answers on the SPI bus: if programming returns 0, the last
  transaction was a read command at the address of the image, and the bytes received in it were
  the image, byte for byte.
\<close>
theorem program_flash_verified:
  assumes "program_flash E answer buf size' boot s = Some (0, s')" and "spi_state (trace s) = (L, [], p)"
    and "n = nat (sint (ucast size' :: u32))" and "base = (if boot then 0 else BOOTLOADER_BITSTREAM_BASE)"
  shows "\<exists>L t. spi_state (trace s') = (L @ [t], [], None) \<and>
    map fst t = FLASH_READ # addr_bytes base @ replicate n 0xff \<and> map snd (drop 4 t) = bytes_at buf 0 n"
  using assms(1,2)
proof (cases rule: program_flash_cases)
  case (known s1 v b2 b1 b0 flash_id)
  have s1: "deselected (trace s1)" using known(1) by (rule deselectedI)
  show ?thesis
  proof (cases boot)
    case True
    then have "flash_program E 0 buf (sint (ucast size' :: u32)) flash_id s1 = Some (0, s')"
      using known(3) by (auto split: if_splits)
    from flash_program_verified [OF this s1] show ?thesis using assms(3,4) True by simp
  next
    case False
    then obtain s2 where
      2: "flash_program E BOOTLOADER_SDB_BASE (mem_of sdb_header (\<lambda>_. 0)) (int (length sdb_header)) flash_id s1 = Some (0, s2)"
      and 3: "flash_program E BOOTLOADER_BITSTREAM_BASE buf (sint (ucast size' :: u32)) flash_id s2 = Some (0, s')"
      using known(3) by (auto simp: bind_eq_Some_conv split: if_splits)
    have "deselected (trace s2)" using flash_program_verified [OF 2 s1] by auto
    from flash_program_verified [OF 3 this] show ?thesis using assms(3,4) False by simp
  qed
qed simp

theorem program_flash_verified_witness:
  "\<exists>s' L t. program_flash (m25p_env [0x20, 0x20, 0x18] 0x40000 (\<lambda>_. 0xff)) [] (mem_of [1, 2, 3, 4, 5, 6] (\<lambda>_. 0)) 6
     False new_process = Some (0, s') \<and> spi_state (trace s') = (L @ [t], [], None) \<and> map snd (drop 4 t) = [1, 2, 3, 4, 5, 6]"
proof -
  let ?buf = "mem_of [1, 2, 3, 4, 5, 6] (\<lambda>_. 0)"
  obtain s' where run: "program_flash (m25p_env [0x20, 0x20, 0x18] 0x40000 (\<lambda>_. 0xff)) [] ?buf 6 False new_process = Some (0, s')"
    using program_flash_done [OF m25p_start(5) _ m25p_start(1-4), of 6 "[]" ?buf] by auto
  have n: "nat (sint (ucast (6 :: u64) :: u32)) = 6" by simp
  have "bytes_at ?buf 0 6 = [1, 2, 3, 4, 5, 6]" by (simp add: bytes_at_def mem_of_def upt_rec)
  with program_flash_verified [OF run m25p_start(2) n [symmetric] refl] run show ?thesis by auto
qed

lemma known_chip_results:
  assumes "flash_id = ID_M25P128 \<or> flash_id = ID_MT25QL128"
    and "(if flash_id \<noteq> ID_M25P128 \<and> flash_id \<noteq> ID_MT25QL128 then Some (- ENODEV, s1)
      else if boot then if strncmp answer (cstr ''yes'') 3 \<noteq> 0 then Some (- 1, s1)
           else flash_program E 0 buf count flash_id s1
      else do {
        (ret, s) \<leftarrow> flash_program E BOOTLOADER_SDB_BASE hdr n flash_id s1;
        if ret = 0 then flash_program E BOOTLOADER_BITSTREAM_BASE buf count flash_id s
        else Some (ret, s) }) = Some (r, s')"
  shows "boot \<and> \<not> strncmp answer (cstr ''yes'') 3 = 0 \<and> r = - 1 \<and> s' = s1 \<or>
    (boot \<longrightarrow> strncmp answer (cstr ''yes'') 3 = 0) \<and> r \<in> {0, - EINVAL, - ENOMEM}"
proof -
  have res: "r' \<in> {0, - EINVAL, - ENOMEM}" if "flash_program E a data count flash_id s = Some (r', s')"
    "flash_id = ID_M25P128 \<or> flash_id = ID_MT25QL128" for a data count and s s' :: "(ucall, 'z) machine_scheme" and r'
    using flash_program_results [OF that(1)] that(2) by (auto simp: flash_sector_size_def split: if_splits)
  have known_chip: "\<not> (flash_id \<noteq> ID_M25P128 \<and> flash_id \<noteq> ID_MT25QL128)" using assms(1) by blast
  show ?thesis
  proof (cases boot)
    case True
    note run = assms(2) [unfolded if_not_P [OF known_chip] if_P [OF True]]
    show ?thesis
    proof (cases "strncmp answer (cstr ''yes'') 3 \<noteq> 0")
      case refused: True
      from run [unfolded if_P [OF refused]] show ?thesis using True refused by simp
    next
      case False
      from res [OF run [unfolded if_not_P [OF False]] assms(1)] show ?thesis using False by simp
    qed
  next
    case False
    obtain ret s2 where
      first: "flash_program E BOOTLOADER_SDB_BASE hdr n flash_id s1 = Some (ret, s2)"
      and rest: "(if ret = 0 then flash_program E BOOTLOADER_BITSTREAM_BASE buf count flash_id s2
         else Some (ret, s2)) = Some (r, s')"
      using assms(2) [unfolded if_not_P [OF known_chip] if_not_P [OF False]] by (auto simp: bind_eq_Some_conv)
    from False rest res [OF first assms(1)] res [OF _ assms(1), of BOOTLOADER_BITSTREAM_BASE buf count s2 r s']
    show ?thesis by (cases "ret = 0") simp_all
  qed
qed



text \<open>
  C35.  Updating the bootloader on a chip that follows its data sheet, confirmed by the user: an
  image that fits into the partition SFPGA of the kernel driver is then what the partition starts
  with, the result is 0, and nothing outside the partition has changed.
\<close>
theorem program_flash_bootloader:
  assumes "flash_device E mem idle sector patience ident"
    and model: "(sector, ident) \<in> {(0x40000, [0x20, 0x20, 0x18]), (0x10000, [0x20, 0xBA, 0x18])}"
    and "fst (run_state (spi_test_presence E) s)"
    and "spi_state (trace s) = (L, [], p)" "idle L"
    and "\<And>h n. env_call E h (Malloc n) \<noteq> 0" and "strncmp answer (cstr ''yes'') 3 = 0"
    and part: "part_range (svec_flash_parts ! 0) = (b0, b1)" and fit: "b0 + unat size' \<le> b1"
  shows "\<exists>s' L'. program_flash E answer buf size' True s = Some (0, s') \<and>
     spi_state (trace s') = (L', [], None) \<and> idle L' \<and> (\<forall>k<unat size'. mem L' (b0 + k) = buf k) \<and>
     (\<forall>x. x < b0 \<or> b1 \<le> x \<longrightarrow> mem L' x = mem L x)"
proof -
  have b: "b0 = 0" "b1 = 0x100000" using part by (simp_all only: part_ranges prod.inject)
  define count where "count = sint (ucast size' :: u32)"
  have count: "count = int (unat size')"
    unfolding count_def by (rule count_of_size) (use fit b in simp)
  have al: "sector dvd 0" "sector dvd 0x100000" "0 < sector" using model by auto
  obtain s0 s1 L1 flash_id where 0: "run_state (spi_test_presence E) s = (True, s0)"
    and 1: "flash_read_id E s0 = Some (flash_id, s1)" "spi_state (trace s1) = (L1, [], None)" "idle L1" "mem L1 = mem L"
    and id: "flash_sector_size flash_id = Some (int sector)" "flash_id = ID_M25P128 \<or> flash_id = ID_MT25QL128"
    by (rule chip_identified [OF assms(1) model assms(3-5)])
  have end': "flash_end count \<le> 0x100000"
    by (rule flash_end_le) (use fit b in \<open>simp_all only: count of_nat_le_iff\<close>, simp)
  obtain s2 L2 where 2: "flash_program E 0 buf count flash_id s1 = Some (0, s2)"
    "spi_state (trace s2) = (L2, [], None)" "idle L2"
    "mem L2 = flashed 0 (flash_end count) (image_byte buf count) sector (mem L1)"
    using flash_program_run [OF flash_device.axioms(1) [OF assms(1)] id(1) 1(2,3), of 0 count buf] assms(6) end' by auto
  have "program_flash E answer buf size' True s = Some (0, s2)"
    using 1(1) 2(1) id(2) assms(7) unfolding count_def by (auto simp: program_flash_def 0)
  moreover have "mem L2 (b0 + k) = buf k" if "k < unat size'" for k
  proof -
    have k: "int k < count" using that by (simp only: count of_nat_less_iff)
    then have "k < flash_end count" using flash_end_covers [of count] by simp
    with k flashed_inside [of k _ 0] show ?thesis by (simp add: 2(4) image_byte_def b)
  qed
  moreover have "mem L2 x = mem L x" if "x < b0 \<or> b1 \<le> x" for x
    unfolding 2(4) 1(4) by (rule flashed_outside [OF al(1,2)]) (use al end' that b in auto)
  ultimately show ?thesis using 2(2,3) by blast
qed

theorem program_flash_bootloader_witness:
  "\<exists>s' L'. program_flash (m25p_env [0x20, 0x20, 0x18] 0x40000 (\<lambda>_. 0xff)) (cstr ''yes'') (mem_of [1, 2, 3, 4, 5, 6] (\<lambda>_. 0)) 6
     True new_process = Some (0, s') \<and> spi_state (trace s') = (L', [], None) \<and>
     snd (m25p_state 0x40000 (\<lambda>_. 0xff) L') 5 = 6"
proof -
  let ?buf = "mem_of [1, 2, 3, 4, 5, 6] (\<lambda>_. 0)"
  have "strncmp (cstr ''yes'') (cstr ''yes'') 3 = 0" by code_simp
  from program_flash_bootloader [OF m25p_start(5) _ m25p_start(1-4) this part_ranges(1), of 6 ?buf]
  obtain s' L' where "program_flash (m25p_env [0x20, 0x20, 0x18] 0x40000 (\<lambda>_. 0xff)) (cstr ''yes'') ?buf 6 True new_process = Some (0, s')"
    "spi_state (trace s') = (L', [], None)" "\<forall>k<6. snd (m25p_state 0x40000 (\<lambda>_. 0xff) L') (0 + k) = ?buf k" by auto
  moreover from this(3) have "snd (m25p_state 0x40000 (\<lambda>_. 0xff) L') 5 = 6" by (auto simp: mem_of_def dest!: spec [of _ 5])
  ultimately show ?thesis by blast
qed

end
