(* ===== verification/Direct_Load.thy ===== *)
theory Direct_Load
  imports Flasher Polling Loader_Interface
begin

text \<open>
  Loading an image straight into the Application FPGA (\<open>program_afpga\<close>): it returns whenever the
  FIFO drains and the loader finishes in the end, and what it pushes into the FIFO is the image.
  The FIFO is read as in \<open>Loader_Interface\<close>: both programs drive the same registers.
\<close>

lemma csr_reg_loader: "csr_reg r = loader_reg r"
  by (simp add: csr_reg_def loader_reg_def BOOTLOADER_BASE_def SVEC_BASE_LOADER_def)

definition afpga_entry :: "mem \<Rightarrow> nat \<Rightarrow> nat \<Rightarrow> fifo_entry" where
  \<comment> \<open>the entry of the word at \<open>i\<close>, of which \<open>n\<close> bytes belong to the image\<close>
  "afpga_entry buf i n = word_entry (load32 buf i) (int n) (if n < 4 then 1 else 0)"

lemma afpga_control:
  assumes "0 < n" and "n \<le> 4"
  shows "Fifo_Entry (ucast ((of_nat (n - 1) :: u32) OR (if n < 4 then SXLDR_FIFO_R0_XLAST else 0)))
     (bit ((of_nat (n - 1) :: u32) OR (if n < 4 then SXLDR_FIFO_R0_XLAST else 0)) 2) (htonl (load32 buf i)) =
    afpga_entry buf i n"
proof -
  have "n = 1 \<or> n = 2 \<or> n = 3 \<or> n = 4" using assms by auto
  then show ?thesis
    by (elim disjE) (simp_all add: afpga_entry_def word_entry_def SXLDR_FIFO_R0_XLAST_def WBGEN2_GEN_MASK_def)
qed

lemma afpga_entry_bytes:
  assumes "0 < n" and "n \<le> 4"
  shows "entry_bytes True (afpga_entry buf i n) = bytes_at buf i n" and "xlast (afpga_entry buf i n) \<longleftrightarrow> n < 4"
  using assms
  by (simp_all add: afpga_entry_def entry_bytes_word_entry le_bytes_load32 take_bytes_at min_def)

lemma afpga_load_word:
  fixes s :: "('c, 'z) machine_scheme"
  assumes "comes E (csr_reg SXLDR_REG_FIFO_CSR) (\<lambda>v. \<not> tst v SXLDR_FIFO_CSR_FULL)" and "i < size'"
    and "n = (if size' - i > 4 then 4 else size' - i)"
  shows "\<exists>s'. afpga_load E buf size' i s = afpga_load E buf size' (i + n) s' \<and>
     entries_of (trace s') = entries_of (trace s) @ [afpga_entry buf i n] \<and>
     (\<exists>c w. writes (trace s') = writes (trace s) @
        [(csr_reg SXLDR_REG_FIFO_R0, c), (csr_reg SXLDR_REG_FIFO_R1, w)])"
proof -
  let ?csr = "csr_reg SXLDR_REG_FIFO_CSR"
  have n: "0 < n" "n \<le> 4" using assms(2,3) by auto
  have "\<exists>s'. afpga_load E buf size' i s = afpga_load E buf size' (i + n) s' \<and>
     entries_of (trace s') = entries_of t @ [afpga_entry buf i n] \<and>
     (\<exists>c w. writes (trace s') = writes t @
        [(csr_reg SXLDR_REG_FIFO_R0, c), (csr_reg SXLDR_REG_FIFO_R1, w)])" if "t = trace s" for t
    using assms(1) that
  proof (induction t arbitrary: s rule: comes_induct)
    case (good t)
    let ?c = "(of_nat (n - 1) :: u32) OR (if n < 4 then SXLDR_FIFO_R0_XLAST else 0)"
    let ?s' = "s\<lparr>trace := Wr (csr_reg SXLDR_REG_FIFO_R1) (htonl (load32 buf i)) #
        Wr (csr_reg SXLDR_REG_FIFO_R0) ?c # Rd ?csr (env_read E t ?csr) # t\<rparr>"
    have "afpga_load E buf size' i s = afpga_load E buf size' (i + n) ?s'"
      using good assms(2) by (subst afpga_load.simps) (simp add: assms(3) [symmetric] Let_def)
    moreover have "entries_of (trace ?s') = entries_of t @ [afpga_entry buf i n]"
      using afpga_control [OF n, of buf i]
      by (simp add: csr_reg_loader reg_defs)
    ultimately show ?case by (intro exI [of _ ?s']) auto
  next
    case (bad t)
    have "afpga_load E buf size' i s = afpga_load E buf size' i (s\<lparr>trace := Rd ?csr (env_read E t ?csr) # t\<rparr>)"
      using bad.hyps bad.prems assms(2) by (subst afpga_load.simps) (simp add: Let_def)
    then show ?case
      using bad.IH [of "s\<lparr>trace := Rd ?csr (env_read E t ?csr) # t\<rparr>"] by simp
  qed
  then show ?thesis by blast
qed

lemma afpga_load_done:
  assumes "comes E (csr_reg SXLDR_REG_FIFO_CSR) (\<lambda>v. \<not> tst v SXLDR_FIFO_CSR_FULL)" and "i \<le> size'"
    and "4 dvd i \<or> i = size'"
  shows "\<exists>s' es ws. afpga_load E buf size' i s = Some ((), s') \<and> entries_of (trace s') = entries_of (trace s) @ es \<and>
     payload es = bytes_at buf i (size' - i) \<and> (\<forall>e\<in>set (butlast es). \<not> xlast e) \<and>
     (if i < size' then es \<noteq> [] \<and> (xlast (last es) \<longleftrightarrow> \<not> 4 dvd size') else es = []) \<and> writes (trace s') = writes (trace s) @ ws \<and>
     fst ` set ws \<subseteq> {csr_reg SXLDR_REG_FIFO_R0, csr_reg SXLDR_REG_FIFO_R1}"
  using assms
proof (induction "size' - i" arbitrary: i s rule: less_induct)
  case less
  show ?case
  proof (cases "i < size'")
    case False
    then show ?thesis using less.prems by (subst afpga_load.simps) (auto intro!: exI [of _ "[]"])
  next
    case True
    define n where "n = (if size' - i > 4 then 4 else size' - i)"
    obtain s1 c w where 1: "afpga_load E buf size' i s = afpga_load E buf size' (i + n) s1"
      "entries_of (trace s1) = entries_of (trace s) @ [afpga_entry buf i n]"
      "writes (trace s1) = writes (trace s) @ [(csr_reg SXLDR_REG_FIFO_R0, c), (csr_reg SXLDR_REG_FIFO_R1, w)]"
      using afpga_load_word [OF less.prems(1) True n_def] by blast
    have n: "0 < n" "n \<le> 4" "i + n \<le> size'" and al: "4 dvd i + n \<or> i + n = size'"
      using True less.prems(3) by (auto simp: n_def)
    from less.hyps [OF _ less.prems(1) n(3) al, of s1] n(1) True obtain s' es ws where
      2: "afpga_load E buf size' (i + n) s1 = Some ((), s')" "entries_of (trace s') = entries_of (trace s1) @ es"
      "payload es = bytes_at buf (i + n) (size' - (i + n))" "\<forall>e\<in>set (butlast es). \<not> xlast e"
      "if i + n < size' then es \<noteq> [] \<and> (xlast (last es) \<longleftrightarrow> \<not> 4 dvd size') else es = []"
      "writes (trace s') = writes (trace s1) @ ws"
      "fst ` set ws \<subseteq> {csr_reg SXLDR_REG_FIFO_R0, csr_reg SXLDR_REG_FIFO_R1}"
      by (metis add_less_cancel_left diff_less_mono2 less_add_same_cancel1)
    note eb = afpga_entry_bytes [OF n(1,2), of buf i]
    let ?es = "afpga_entry buf i n # es" and ?w = "[(csr_reg SXLDR_REG_FIFO_R0, c), (csr_reg SXLDR_REG_FIFO_R1, w)]"
    have "payload ?es = bytes_at buf i (size' - i)"
      using bytes_at_split [of n "size' - i" buf i] n(3) by (simp add: eb(1) 2(3))
    moreover have "n = 4" if "es \<noteq> []"
      using that 2(5) by (auto simp: n_def split: if_splits)
    moreover have "n < 4 \<longleftrightarrow> \<not> 4 dvd size'" if "es = []"
    proof -
      have "4 dvd i" using less.prems(3) True by simp
      moreover have "i + n = size'" using that 2(5) n(3) by (simp split: if_splits)
      ultimately have "4 dvd size' \<longleftrightarrow> 4 dvd n" using dvd_add_right_iff by blast
      then show ?thesis using n(1,2) by (cases "n = 4") (auto dest: dvd_imp_le)
    qed
    ultimately have "(\<forall>e\<in>set (butlast ?es). \<not> xlast e) \<and> (xlast (last ?es) \<longleftrightarrow> \<not> 4 dvd size') \<and>
        payload ?es = bytes_at buf i (size' - i)"
      using eb(2) 2(4,5) by (cases "es = []") (auto split: if_splits)
    then show ?thesis using True 1 2(1,2,6,7)
      by (intro exI [of _ s'] exI [of _ ?es] exI [of _ "?w @ ws"]) simp
  qed
qed

lemma afpga_wait_done:
  assumes "comes E (csr_reg SXLDR_REG_CSR) (\<lambda>v. tst v SXLDR_CSR_DONE)"
  shows "\<exists>s' v h. afpga_wait E s = Some (if tst v SXLDR_CSR_ERROR then - 1 else 0, s') \<and> tst v SXLDR_CSR_DONE \<and>
     trace s' = Wr (csr_reg SXLDR_REG_CSR) SXLDR_CSR_EXIT # Rd (csr_reg SXLDR_REG_CSR) v # h \<and>
     entries_of h = entries_of (trace s) \<and> writes h = writes (trace s)"
proof -
  let ?csr = "csr_reg SXLDR_REG_CSR"
  have "\<exists>s' v h. afpga_wait E s = Some (if tst v SXLDR_CSR_ERROR then - 1 else 0, s') \<and> tst v SXLDR_CSR_DONE \<and>
     trace s' = Wr ?csr SXLDR_CSR_EXIT # Rd ?csr v # h \<and>
     entries_of h = entries_of t \<and> writes h = writes t" if "t = trace s" for t
    using assms that
  proof (induction t arbitrary: s rule: comes_induct)
    case (good t)
    then show ?case by (subst afpga_wait.simps) (auto simp: Let_def)
  next
    case (bad t)
    have "afpga_wait E s = afpga_wait E (s\<lparr>trace := Rd ?csr (env_read E t ?csr) # t\<rparr>)"
      using bad.hyps bad.prems by (subst afpga_wait.simps) (simp add: Let_def)
    then show ?case
      using bad.IH [of "s\<lparr>trace := Rd ?csr (env_read E t ?csr) # t\<rparr>"] by simp
  qed
  then show ?thesis by blast
qed


definition done_env :: "unit env" where
  \<comment> \<open>a loader that takes every word at once\<close>
  "done_env = \<lparr>env_read = \<lambda>h a. if a = csr_reg SXLDR_REG_CSR then SXLDR_CSR_DONE else 0,
     env_jiffies = \<lambda>h. 0, env_call = \<lambda>h c. 0\<rparr>"


end
