(* ===== verification/Fw_Version.thy ===== *)
theory Fw_Version
  imports User_Api Fpga_Meta "HOL-Library.Char_ord"
begin

text \<open>
  The firmware version tool (\<open>tools/svec-firmware-version.c\<close>): it maps the memory window of a
  card through sysfs and prints the metadata of the base gateware, those of the application, and
  the build information.

  What it prints on the standard output is part of the state; messages on the standard error
  output are left out.  The mapped window is plain memory to the program, so looking at it is no
  event: a load yields the register at that moment, with its bytes in memory order.
\<close>

record fw_tool = "ucall process" +
  stdout :: string
  singleline :: bool
  verbose :: u32

definition put :: "string \<Rightarrow> ('z fw_tool_scheme, unit) state" where
  \<comment> \<open>\<open>fputs\<close>, \<open>fputc\<close> and \<open>fprintf\<close> on the standard output\<close>
  "put t = modify (\<lambda>s. s\<lparr>stdout := stdout s @ t\<rparr>)"

definition mapped32 :: "os \<Rightarrow> ucall event list \<Rightarrow> u32 \<Rightarrow> u32" where
  \<comment> \<open>\<open>*(uint32_t *)(window + a)\<close> on the little-endian host\<close>
  "mapped32 S h a = bswap32 (env_read (os_env S) h (BAR a))"

definition mapped_meta :: "os \<Rightarrow> ucall event list \<Rightarrow> u32 \<Rightarrow> svec_meta_id" where
  \<comment> \<open>the structure \<open>rom\<close> points to\<close>
  "mapped_meta S h off = meta_of_words (map (\<lambda>i. mapped32 S h (off + of_nat (4 * i))) [0..<svec_meta_id_words])"

section \<open>Metadata\<close>

definition bom_to_str :: "u32 \<Rightarrow> string" where
  "bom_to_str bom =
     (if bom AND SVEC_META_BOM_END_MASK = SVEC_META_BOM_BE then ''little-endian'' else ''wrong'')"

definition fmt_version :: "u32 \<Rightarrow> string" where
  \<comment> \<open>\<open>%u.%u.%u\<close> of the three parts of a version\<close>
  "fmt_version v = fmt_u (unat (SVEC_META_VERSION_MAJ v)) @ ''.'' @ fmt_u (unat (SVEC_META_VERSION_MIN v)) @
     ''.'' @ fmt_u (unat (SVEC_META_VERSION_PATCH v))"

definition fmt_words :: "u32 list \<Rightarrow> string" where
  \<comment> \<open>\<open>%08x%08x%08x%08x\<close>\<close>
  "fmt_words ws = fmt_08x (ws ! 0) @ fmt_08x (ws ! 1) @ fmt_08x (ws ! 2) @ fmt_08x (ws ! 3)"

definition print_meta_id_one :: "svec_meta_id \<Rightarrow> ('z fw_tool_scheme, unit) state" where
  "print_meta_id_one rom = do {
     put (''0x'' @ fmt_08x (meta_vendor rom) @ '',0x'' @ fmt_08x (meta_device rom) @ '','' @
       fmt_version (meta_version rom));
     v \<leftarrow> gets verbose;
     (if v > 0
      then put (fmt_08x (meta_cap rom) @ '','' @ fmt_08x (meta_bom rom) @ '','' @
             fmt_words (meta_src rom) @ '','' @ fmt_words (meta_uuid rom))
      else State_Monad.return ());
     put ''\<newline>'' }"

definition print_meta_vendor :: "u32 \<Rightarrow> string" where
  "print_meta_vendor vendor =
     (if vendor = SVEC_META_VENDOR_ID then ''CERN'' else ''unknown (0x'' @ fmt_08x vendor @ '')'')"

definition print_meta_device :: "u32 \<Rightarrow> string" where
  "print_meta_device device =
     (if device = SVEC_META_DEVICE_ID then ''svec-base'' else ''unknown (0x'' @ fmt_08x device @ '')'')"

definition capability :: "string list" where
  "capability = [''vic'', ''thermometer'', ''spi'', ''white-rabbit'', ''build-info'', ''dma-engine'']"

definition capability_name :: "nat \<Rightarrow> string" where
  "capability_name i = (if i < 6 then capability ! i else ''unknown BIT('' @ fmt_d (int i) @ '')'')"

fun capabilities_loop :: "u32 \<Rightarrow> nat list \<Rightarrow> string" where
  "capabilities_loop cap [] = []"
| "capabilities_loop cap (i # is) =
     (if tst cap (BIT i) then capability_name i @ '', '' else []) @ capabilities_loop cap is"

definition print_meta_capabilities :: "u32 \<Rightarrow> string" where
  "print_meta_capabilities cap =
     (let has_cap = (\<exists>i\<in>set [0..<6]. tst cap (BIT i))
      in capabilities_loop cap [0..<32] @ (if has_cap then [CHR 8, CHR 8] @ ''  '' else []))"

definition meta_id_text :: "u32 \<Rightarrow> svec_meta_id \<Rightarrow> string" where
  "meta_id_text v rom =
     ''\<newline>  vendor       : '' @ print_meta_vendor (bswap32 (meta_vendor rom)) @
     ''\<newline>  device       : '' @ print_meta_device (bswap32 (meta_device rom)) @
     ''\<newline>  version      : '' @ fmt_version (bswap32 (meta_version rom)) @
     ''\<newline>  capabilities : '' @ print_meta_capabilities (bswap32 (meta_cap rom)) @ ''\<newline>'' @
     (if v > 0
      then ''  byte-order   : '' @ bom_to_str (bswap32 (meta_bom rom)) @
         ''\<newline>  sources      : '' @ fmt_words (map bswap32 (meta_src rom)) @
         ''\<newline>  UUID         : '' @ fmt_words (map bswap32 (meta_uuid rom)) @ ''\<newline>''
      else [])"

definition print_meta_id :: "svec_meta_id \<Rightarrow> ('z fw_tool_scheme, unit) state" where
  "print_meta_id rom = do { v \<leftarrow> gets verbose; put (meta_id_text v rom) }"

definition print_meta_at :: "os \<Rightarrow> string \<Rightarrow> int \<Rightarrow> u64 \<Rightarrow> ('z fw_tool_scheme, int) state" where
  \<comment> \<open>the common part of the two functions below\<close>
  "print_meta_at S title fd offset = do {
     rom \<leftarrow> ucall S (Mmap (of_nat (4 * svec_meta_id_words)) fd offset);
     if rom = - 1 then State_Monad.return (- 1)
     else do {
       put title;
       meta \<leftarrow> gets (\<lambda>s. mapped_meta S (trace s) (ucast offset));
       one \<leftarrow> gets singleline;
       (if one then print_meta_id_one meta else print_meta_id meta);
       ucall_void S (Munmap rom (of_nat (4 * svec_meta_id_words)));
       State_Monad.return 0 } }"

definition print_base_meta_id :: "os \<Rightarrow> regmap \<Rightarrow> int \<Rightarrow> ('z fw_tool_scheme, int) state" where
  "print_base_meta_id S M fd = print_meta_at S ''base: '' fd (ucast (SVEC_BASE_REGS_METADATA M))"

definition app_meta_id_offset :: "os \<Rightarrow> regmap \<Rightarrow> int \<Rightarrow> ('z fw_tool_scheme, int) state" where
  "app_meta_id_offset S M fd = do {
     regs \<leftarrow> ucall S (Mmap 0x100 fd 0);
     if regs = - 1 then State_Monad.return (- 1)
     else do {
       offset \<leftarrow> gets (\<lambda>s. uint (mapped32 S (trace s) (SVEC_FPGA_CSR_APP_OFF M)));
       ucall_void S (Munmap regs 0x100);
       State_Monad.return offset } }"

definition print_app_meta_id :: "os \<Rightarrow> regmap \<Rightarrow> int \<Rightarrow> ('z fw_tool_scheme, int) state" where
  "print_app_meta_id S M fd = do {
     offset \<leftarrow> app_meta_id_offset S M fd;
     if offset < 0 then State_Monad.return (- 1)
     else if offset = 0 then State_Monad.return 0
     else print_meta_at S ''application: '' fd (word_of_int offset) }"

section \<open>Build information\<close>

definition BUILDINFO :: nat where "BUILDINFO = 0x200"
definition BUILDINFO_SIZE :: nat where "BUILDINFO_SIZE = 256"

fun build_chars :: "u8 list \<Rightarrow> string \<times> bool" where
  \<comment> \<open>the characters of a word, and whether the text ends in it\<close>
  "build_chars [] = ([], False)"
| "build_chars (c # cs) =
     (if c = 0 then ([], True)
      else case build_chars cs of (out, stop) \<Rightarrow>
        (char_of (unat c) # (if c = 10 then ''  '' else []) @ out, stop))"

function build_loop :: "os \<Rightarrow> ucall event list \<Rightarrow> nat \<Rightarrow> string" where
  "build_loop S h off =
     (if off < BUILDINFO + BUILDINFO_SIZE - 1
      then case build_chars (le_bytes (bswap32 (mapped32 S h (of_nat off)))) of (out, stop) \<Rightarrow>
        if stop then out else out @ build_loop S h (off + 4)
      else [])"
  by pat_completeness auto
termination
  by (relation "measure (\<lambda>(S, h, off). BUILDINFO + BUILDINFO_SIZE - off)") auto

declare build_loop.simps [simp del]

definition print_build_info :: "os \<Rightarrow> int \<Rightarrow> ('z fw_tool_scheme, int) state" where
  "print_build_info S fd = do {
     bld \<leftarrow> ucall S (Mmap (of_nat (BUILDINFO + BUILDINFO_SIZE)) fd 0);
     if bld = - 1 then State_Monad.return (- 1)
     else do {
       put ''build-info : \<newline>  '';
       text \<leftarrow> gets (\<lambda>s. build_loop S (trace s) BUILDINFO);
       put text;
       put ''\<newline>'';
       ucall_void S (Munmap bld (of_nat (BUILDINFO + BUILDINFO_SIZE)));
       State_Monad.return 0 } }"

section \<open>The program\<close>

record request =
  slot :: int
  want_base :: bool
  want_app :: bool
  want_buildinfo :: bool

fun scan_digits :: "int \<Rightarrow> string \<Rightarrow> int" where
  "scan_digits acc [] = acc"
| "scan_digits acc (c # cs) =
     (if CHR ''0'' \<le> c \<and> c \<le> CHR ''9'' then scan_digits (10 * acc + (of_char c - 48)) cs else acc)"

definition scan_d :: "string \<Rightarrow> int option" where
  \<comment> \<open>\<open>sscanf(t, "%d", ...)\<close> for a number that fits: None assigns nothing\<close>
  "scan_d t =
     (let t = dropWhile (\<lambda>c. c = CHR '' '' \<or> (CHR 9 \<le> c \<and> c \<le> CHR 13)) t;
          neg = (t \<noteq> [] \<and> hd t = CHR ''-'');
          t = (if t \<noteq> [] \<and> (hd t = CHR ''-'' \<or> hd t = CHR ''+'') then tl t else t)
      in if t = [] \<or> \<not> (CHR ''0'' \<le> hd t \<and> hd t \<le> CHR ''9'') then None
         else Some (if neg then - scan_digits 0 t else scan_digits 0 t))"

fun parse_options ::
  "string \<Rightarrow> (char \<times> string) list \<Rightarrow> request \<Rightarrow> ('z fw_tool_scheme, int + request) state" where
  \<comment> \<open>over what \<open>getopt\<close> returns, with \<open>optarg\<close>; \<open>Inl\<close>: the program exits with this code\<close>
  "parse_options version [] q = State_Monad.return (Inr q)"
| "parse_options version ((opt, optarg) # os) q =
     (if opt = CHR ''h'' \<or> opt = CHR ''?'' then State_Monad.return (Inl 0)
      else if opt = CHR ''V'' then do { put version; State_Monad.return (Inl 0) }
      else if opt = CHR ''s'' then parse_options version os
             (case scan_d optarg of None \<Rightarrow> q | Some n \<Rightarrow> q\<lparr>slot := n\<rparr>)
      else if opt = CHR ''a'' then parse_options version os (q\<lparr>want_app := True\<rparr>)
      else if opt = CHR ''b'' then parse_options version os (q\<lparr>want_base := True\<rparr>)
      else if opt = CHR ''v'' then do {
             modify (\<lambda>s. s\<lparr>verbose := verbose s + 1\<rparr>); parse_options version os q }
      else if opt = CHR ''1'' then do {
             modify (\<lambda>s. s\<lparr>singleline := True\<rparr>); parse_options version os q }
      else if opt = CHR ''B'' then parse_options version os (q\<lparr>want_buildinfo := True\<rparr>)
      else parse_options version os q)"

definition fmt_02d :: "int \<Rightarrow> string" where
  \<comment> \<open>\<open>%02d\<close>\<close>
  "fmt_02d i = (if 0 \<le> i \<and> i < 10 then ''0'' else []) @ fmt_d i"

definition resource_path :: "int \<Rightarrow> string" where
  "resource_path n = take 127 (''/sys/bus/vme/devices/slot.'' @ fmt_02d n @ ''/vme.'' @ fmt_d n @
     ''/resource'' @ fmt_u SVEC_FUNC_NR)"

definition print_sections :: "os \<Rightarrow> regmap \<Rightarrow> request \<Rightarrow> int \<Rightarrow> int \<Rightarrow> ('z fw_tool_scheme, int) state" where
  \<comment> \<open>what is asked for, with the device open; the last argument and the result: the variable \<open>err\<close>\<close>
  "print_sections S M q fd err = do {
     err \<leftarrow> (if want_base q then print_base_meta_id S M fd else State_Monad.return err);
     err \<leftarrow> (if want_app q then print_app_meta_id S M fd else State_Monad.return err);
     (if want_buildinfo q then print_build_info S fd else State_Monad.return err) }"

definition print_card :: "os \<Rightarrow> regmap \<Rightarrow> request \<Rightarrow> int \<Rightarrow> ('z fw_tool_scheme, int) state" where
  \<comment> \<open>from the test of the slot on; the exit code\<close>
  "print_card S M q err =
     (if slot q = 0 then State_Monad.return 1
      else do {
        fd \<leftarrow> ucall S (Open (resource_path (slot q)) O_RDONLY);
        if fd < 0 then State_Monad.return 1
        else do {
          err \<leftarrow> print_sections S M q fd err;
          ucall_void S (Close fd);
          State_Monad.return (if err \<noteq> 0 then 1 else 0) } })"

definition version_text :: "string \<Rightarrow> string \<Rightarrow> string" where
  \<comment> \<open>\<open>print_version\<close>: the name of the program and the version compiled in\<close>
  "version_text name git_version = name @ '' version git version: '' @ git_version @ ''\<newline>''"

definition fw_version_main ::
  "os \<Rightarrow> regmap \<Rightarrow> string \<Rightarrow> string \<Rightarrow> (char \<times> string) list \<Rightarrow> ('z fw_tool_scheme, int) state" where
  \<comment> \<open>the base name of the program, the version compiled in, the options; the exit code, with the
    handler registered by \<open>atexit\<close> run\<close>
  "fw_version_main S M argv0 git_version options = do {
     name \<leftarrow> ucall S (Strndup (take 64 argv0));
     if name = 0 then State_Monad.return 1
     else do {
       err \<leftarrow> ucall S Atexit;
       if err \<noteq> 0 then State_Monad.return 1
       else do {
         r \<leftarrow> parse_options (version_text (take 64 argv0) git_version) options
                \<lparr>slot = 0, want_base = False, want_app = False, want_buildinfo = False\<rparr>;
         code \<leftarrow> (case r of Inl code \<Rightarrow> State_Monad.return code | Inr q \<Rightarrow> print_card S M q err);
         ucall_void S (Free name);
         State_Monad.return code } } }"

end
