(* ===== verification/Printed_Text.thy ===== *)
theory Printed_Text
  imports Svec_Prelude
begin

text \<open>
  Reading printed text back: the conversions of \<open>printf\<close> are injective, use digits only, and a
  separator that does not occur in the parts makes their concatenation injective.
\<close>

lemma split_at:
  assumes "a @ c # x = b @ c # y" and "c \<notin> set a" and "c \<notin> set b"
  shows "a = b \<and> x = y"
proof -
  have "takeWhile (\<lambda>d. d \<noteq> c) (a @ c # x) = a" "takeWhile (\<lambda>d. d \<noteq> c) (b @ c # y) = b"
    using assms(2,3) by (auto simp: takeWhile_append intro!: takeWhile_eq_all_conv [THEN iffD2])
  then have "a = b" using assms(1) by simp
  then show ?thesis using assms(1) by simp
qed

definition hexdigits :: "char set" where
  "hexdigits = set ''0123456789abcdef''"

lemma no_hexdigit [simp]:
  "CHR ''\<newline>'' \<notin> hexdigits" "CHR ''.'' \<notin> hexdigits" "CHR '','' \<notin> hexdigits" "CHR '')'' \<notin> hexdigits"
  by (simp_all add: hexdigits_def)

lemma digit_char_set: "n < 16 \<Longrightarrow> digit_char n \<in> hexdigits"
proof -
  have "\<forall>k\<in>set [0..<16]. digit_char k \<in> hexdigits" unfolding hexdigits_def by code_simp
  then show "n < 16 \<Longrightarrow> ?thesis" by simp
qed

lemma digits_08x: "set (fmt_08x w) \<subseteq> hexdigits"
  unfolding fmt_08x_def set_map by (rule image_subsetI) (rule digit_char_set, rule nibble_less)

lemma digits_base:
  assumes "2 \<le> b" and "b \<le> 16"
  shows "set (fmt_base b n) \<subseteq> hexdigits"
  using assms
proof (induction b n rule: fmt_base.induct)
  case (1 b n)
  show ?case
  proof (cases "n < b")
    case True
    then show ?thesis using "1.prems" digit_char_set [of n] by (simp add: fmt_base.simps [of b n])
  next
    case False
    have "n mod b < 16" using "1.prems" mod_less_divisor [of b n] by linarith
    then show ?thesis
      using 1 False digit_char_set [of "n mod b"] by (simp add: fmt_base.simps [of b n])
  qed
qed

lemma digits_u: "set (fmt_u n) \<subseteq> hexdigits"
  by (simp add: fmt_u_def digits_base)

lemma bit_nibble: "bit (nibble k w) j \<longleftrightarrow> j < 4 \<and> bit w (4 * k + j)"
proof -
  have "nibble k w = take_bit 4 (unat (drop_bit (4 * k) w))"
    unfolding nibble_def take_bit_eq_mod by simp
  then show ?thesis by (auto simp: bit_simps dest: bit_imp_le_length)
qed

lemma fmt_08x_inject: "fmt_08x v = fmt_08x w \<longleftrightarrow> v = w"
proof
  assume "fmt_08x v = fmt_08x w"
  then have nib: "\<forall>k\<in>set [7, 6, 5, 4, 3, 2, 1, 0]. nibble k v = nibble k w" by (simp add: fmt_08x_def)
  show "v = w"
  proof (rule bit_word_eqI)
    fix n assume "n < LENGTH(32)"
    then have "n div 4 < 8" by (simp add: less_mult_imp_div_less)
    then have "n div 4 \<in> set [7, 6, 5, 4, 3, 2, 1, 0]" by simp presburger
    with nib have "nibble (n div 4) v = nibble (n div 4) w" by blast
    then have "bit (nibble (n div 4) v) (n mod 4) = bit (nibble (n div 4) w) (n mod 4)" by simp
    then show "bit v n = bit w n" by (simp add: bit_nibble)
  qed
qed simp

lemma fmt_base_nonempty [simp]: "fmt_base b n \<noteq> []" "[] \<noteq> fmt_base b n"
  by (simp_all add: fmt_base.simps [of b n])

lemma fmt_base_inject:
  assumes "2 \<le> b" and "b \<le> 16"
  shows "fmt_base b m = fmt_base b n \<longleftrightarrow> m = n"
proof (induction m arbitrary: n rule: less_induct)
  case (less m)
  have small: "n mod b < 16" "m mod b < 16"
    using assms mod_less_divisor [of b n] mod_less_divisor [of b m] by linarith+
  consider "m < b" "n < b" | "m < b" "b \<le> n" | "b \<le> m" "n < b" | "b \<le> m" "b \<le> n" by linarith
  then show ?case
  proof cases
    case 4
    have "m div b < m" using assms 4 by simp
    from less.IH [OF this, of "n div b"] have "fmt_base b m = fmt_base b n \<longleftrightarrow> m div b = n div b \<and> m mod b = n mod b"
      using 4 assms small by (simp add: fmt_base.simps [of b m] fmt_base.simps [of b n])
    then show ?thesis by (metis div_mult_mod_eq)
  qed (use assms in \<open>auto simp: fmt_base.simps [of b m] fmt_base.simps [of b n]\<close>)
qed

lemma fmt_u_inject: "fmt_u m = fmt_u n \<longleftrightarrow> m = n"
  by (simp add: fmt_u_def fmt_base_inject)

end
