(* ===== verification/Fw_Text.thy ===== *)
theory Fw_Text
  imports Fw_Version Printed_Text
begin

text \<open>
  The metadata as the firmware version tool prints them determine the metadata: nothing is lost
  or ambiguous in the text, save that of the byte order only one bit of information is shown.
\<close>

section \<open>The parts\<close>

lemma not_digit: "set t \<subseteq> hexdigits \<Longrightarrow> c \<notin> hexdigits \<Longrightarrow> c \<notin> set t"
  by blast

lemma fmt_plain [simp]:
  "CHR ''\<newline>'' \<notin> set (fmt_08x w)" "CHR '')'' \<notin> set (fmt_08x w)"
  "CHR ''\<newline>'' \<notin> set (fmt_u n)" "CHR ''.'' \<notin> set (fmt_u n)" "CHR '')'' \<notin> set (fmt_u n)"
  "CHR '','' \<notin> set (fmt_u n)"
  by (rule not_digit [OF digits_08x], simp)+ (rule not_digit [OF digits_u], simp)+

lemma fmt_words_plain [simp]: "CHR ''\<newline>'' \<notin> set (fmt_words ws)"
  by (simp add: fmt_words_def)

lemma fmt_version_plain [simp]: "CHR ''\<newline>'' \<notin> set (fmt_version v)"
  by (simp add: fmt_version_def)

lemma fmt_words_inject:
  assumes "length xs = 4" and "length ys = 4"
  shows "fmt_words xs = fmt_words ys \<longleftrightarrow> xs = ys"
proof -
  obtain a b c d where xs: "xs = [a, b, c, d]" using assms(1) by (auto simp: numeral_eq_Suc length_Suc_conv)
  obtain a' b' c' d' where ys: "ys = [a', b', c', d']" using assms(2) by (auto simp: numeral_eq_Suc length_Suc_conv)
  show ?thesis by (auto simp: xs ys fmt_words_def fmt_08x_inject)
qed

lemma version_parts:
  "v = w \<longleftrightarrow> SVEC_META_VERSION_MAJ v = SVEC_META_VERSION_MAJ w \<and>
     SVEC_META_VERSION_MIN v = SVEC_META_VERSION_MIN w \<and> SVEC_META_VERSION_PATCH v = SVEC_META_VERSION_PATCH w"
proof
  assume eq: "SVEC_META_VERSION_MAJ v = SVEC_META_VERSION_MAJ w \<and>
     SVEC_META_VERSION_MIN v = SVEC_META_VERSION_MIN w \<and> SVEC_META_VERSION_PATCH v = SVEC_META_VERSION_PATCH w"
  have m: "(0xFF :: u32) = mask 8" "(0xFFFF :: u32) = mask 16" by (simp_all add: mask_numeral)
  have b: "bit (SVEC_META_VERSION_MAJ u) k \<longleftrightarrow> k < 8 \<and> bit u (24 + k)"
    "bit (SVEC_META_VERSION_MIN u) k \<longleftrightarrow> k < 8 \<and> bit u (16 + k)"
    "bit (SVEC_META_VERSION_PATCH u) k \<longleftrightarrow> k < 16 \<and> bit u k" for u k
    unfolding SVEC_META_VERSION_MAJ_def SVEC_META_VERSION_MIN_def SVEC_META_VERSION_PATCH_def m
    by (auto simp: bit_and_iff bit_drop_bit_eq bit_mask_iff)
  show "v = w"
  proof (rule bit_word_eqI)
    fix n assume n: "n < LENGTH(32)"
    consider "n < 16" | "16 \<le> n" "n < 24" | "24 \<le> n" by linarith
    then show "bit v n = bit w n"
    proof cases
      case 1
      then show ?thesis using b(3) [of v n] b(3) [of w n] eq by simp
    next
      case 2
      then show ?thesis using b(2) [of v "n - 16"] b(2) [of w "n - 16"] eq by auto
    next
      case 3
      then show ?thesis using b(1) [of v "n - 24"] b(1) [of w "n - 24"] eq n by auto
    qed
  qed
qed simp

lemma fmt_version_inject: "fmt_version v = fmt_version w \<longleftrightarrow> v = w"
proof
  assume eq: "fmt_version v = fmt_version w"
  let ?a = "\<lambda>v. fmt_u (unat (SVEC_META_VERSION_MAJ v))" and ?b = "\<lambda>v. fmt_u (unat (SVEC_META_VERSION_MIN v))"
    and ?c = "\<lambda>v. fmt_u (unat (SVEC_META_VERSION_PATCH v))"
  have "?a v @ CHR ''.'' # ?b v @ CHR ''.'' # ?c v = ?a w @ CHR ''.'' # ?b w @ CHR ''.'' # ?c w"
    using eq by (simp add: fmt_version_def)
  then have "?a v = ?a w \<and> ?b v @ CHR ''.'' # ?c v = ?b w @ CHR ''.'' # ?c w"
    by (rule split_at) (rule fmt_plain)+
  moreover from this have "?b v = ?b w \<and> ?c v = ?c w"
    by (intro split_at [of _ "CHR ''.''"]) (simp, (rule fmt_plain)+)
  ultimately have "unat (SVEC_META_VERSION_MAJ v) = unat (SVEC_META_VERSION_MAJ w)"
    "unat (SVEC_META_VERSION_MIN v) = unat (SVEC_META_VERSION_MIN w)"
    "unat (SVEC_META_VERSION_PATCH v) = unat (SVEC_META_VERSION_PATCH w)" by (simp_all only: fmt_u_inject)
  then show "v = w" by (intro version_parts [THEN iffD2]) (simp only: word_unat_eq_iff)
qed simp

lemma print_meta_vendor_inject: "print_meta_vendor v = print_meta_vendor w \<longleftrightarrow> v = w"
  by (auto simp: print_meta_vendor_def fmt_08x_inject split: if_splits)

lemma print_meta_device_inject: "print_meta_device v = print_meta_device w \<longleftrightarrow> v = w"
  by (auto simp: print_meta_device_def fmt_08x_inject split: if_splits)

lemma vendor_device_plain [simp]:
  "CHR ''\<newline>'' \<notin> set (print_meta_vendor v)" "CHR ''\<newline>'' \<notin> set (print_meta_device v)"
  by (simp_all add: print_meta_vendor_def print_meta_device_def)

section \<open>The line of capabilities\<close>

lemma capability_names:
  "capability_name i \<in> set capability \<or> (6 \<le> i \<and> capability_name i = ''unknown BIT('' @ fmt_u i @ '')'')"
  by (auto simp: capability_name_def fmt_d_def capability_def nth_Cons' numeral_eq_Suc)

lemma capability_name_inject:
  assumes "i < 32" and "j < 32" and "capability_name i = capability_name j"
  shows "i = j"
proof -
  have "distinct (map capability_name [0..<32])" by code_simp
  then show ?thesis using assms by (auto simp: distinct_conv_nth)
qed

lemma capability_name_plain [simp]:
  "CHR '','' \<notin> set (capability_name i)" "CHR ''\<newline>'' \<notin> set (capability_name i)"
  using capability_names [of i] by (auto simp: capability_def)

definition line_end :: "string \<Rightarrow> bool" where
  \<comment> \<open>what may follow the names: nothing, or the two backspaces that take the last comma back\<close>
  "line_end t \<longleftrightarrow> t = [] \<or> t = [CHR 8, CHR 8] @ ''  ''"

lemma line_end_name: "line_end t \<Longrightarrow> capability_name i \<noteq> t"
  using capability_names [of i] by (auto simp: line_end_def capability_def)

lemma line_end_plain: "line_end t \<Longrightarrow> CHR '','' \<notin> set t \<and> CHR ''\<newline>'' \<notin> set t"
  by (auto simp: line_end_def)

lemma until_comma:
  assumes "CHR '','' \<notin> set t"
  shows "takeWhile (\<lambda>c. c \<noteq> CHR '','') (t @ CHR '','' # x) = t" "takeWhile (\<lambda>c. c \<noteq> CHR '','') t = t"
  using assms by (auto simp: takeWhile_append intro!: takeWhile_eq_all_conv [THEN iffD2])

lemma first_name:
  assumes "line_end t"
  shows "takeWhile (\<lambda>c. c \<noteq> CHR '','') (capabilities_loop d is @ t) \<in> capability_name ` set is \<union> {t}"
proof (induction "is")
  case Nil
  then show ?case using line_end_plain [OF assms] until_comma(2) [of t] by simp
next
  case (Cons i "is")
  then show ?case using until_comma(1) [of "capability_name i"] by (cases "tst d (BIT i)") auto
qed

lemma not_first:
  assumes "line_end t" and "i < 32" and "i \<notin> set is" and "set is \<subseteq> {..<32}"
  shows "capability_name i @ CHR '','' # x \<noteq> capabilities_loop d is @ t"
proof
  assume eq: "capability_name i @ CHR '','' # x = capabilities_loop d is @ t"
  have "capability_name i \<in> capability_name ` set is \<union> {t}"
    using first_name [OF assms(1), of d "is"] until_comma(1) [of "capability_name i" x]
    by (simp add: eq [symmetric])
  then show False using line_end_name [OF assms(1)] capability_name_inject [OF assms(2)] assms(3,4) by auto
qed

lemma capabilities_loop_inject:
  assumes "line_end t" and "line_end t'" and "distinct is" and "set is \<subseteq> {..<32}"
    and "capabilities_loop c is @ t = capabilities_loop d is @ t'"
  shows "(\<forall>i\<in>set is. bit c i \<longleftrightarrow> bit d i) \<and> t = t'"
  using assms
proof (induction "is")
  case (Cons i "is")
  have i: "i < 32" "i \<notin> set is" "set is \<subseteq> {..<32}" using Cons.prems(3,4) by auto
  note nf = not_first [OF Cons.prems(2) i, of _ d] not_first [OF Cons.prems(1) i, of _ c]
  have "bit c i \<longleftrightarrow> bit d i"
  proof (rule ccontr)
    assume "\<not> ?thesis"
    then consider "bit c i" "\<not> bit d i" | "\<not> bit c i" "bit d i" by blast
    then show False
    proof cases
      case 1
      then show False using Cons.prems(5) nf(1) by simp
    next
      case 2
      then show False using Cons.prems(5) [symmetric] nf(2) by simp
    qed
  qed
  then show ?case using Cons i by (cases "bit c i") auto
qed simp

lemma print_meta_capabilities_inject: "print_meta_capabilities c = print_meta_capabilities d \<longleftrightarrow> c = d"
proof
  assume eq: "print_meta_capabilities c = print_meta_capabilities d"
  define t where "t c = (if \<exists>i\<in>set [0..<6]. tst c (BIT i) then [CHR 8, CHR 8] @ ''  '' else [])" for c
  have "line_end (t c)" for c by (simp add: t_def line_end_def)
  moreover have "capabilities_loop c [0..<32] @ t c = capabilities_loop d [0..<32] @ t d"
    using eq by (simp add: print_meta_capabilities_def t_def Let_def)
  ultimately have "\<forall>i\<in>set [0..<32]. bit c i \<longleftrightarrow> bit d i"
    using capabilities_loop_inject [of "t c" "t d" "[0..<32]" c d] by (simp add: lessThan_atLeast0)
  then show "c = d" by (intro bit_word_eqI) auto
qed simp

lemma print_meta_capabilities_plain [simp]: "CHR ''\<newline>'' \<notin> set (print_meta_capabilities c)"
proof -
  have "CHR ''\<newline>'' \<notin> set (capabilities_loop c is)" for "is" by (induction "is") auto
  then show ?thesis by (simp add: print_meta_capabilities_def Let_def)
qed

section \<open>The whole text\<close>

definition verbose_lines :: "svec_meta_id \<Rightarrow> string" where
  "verbose_lines rom = ''  byte-order   : '' @ bom_to_str (bswap32 (meta_bom rom)) @
     CHR ''\<newline>'' # ''  sources      : '' @ fmt_words (map bswap32 (meta_src rom)) @
     CHR ''\<newline>'' # ''  UUID         : '' @ fmt_words (map bswap32 (meta_uuid rom)) @ CHR ''\<newline>'' # []"

lemma meta_id_text_lines:
  "meta_id_text v rom = ''\<newline>  vendor       : '' @ print_meta_vendor (bswap32 (meta_vendor rom)) @
     CHR ''\<newline>'' # ''  device       : '' @ print_meta_device (bswap32 (meta_device rom)) @
     CHR ''\<newline>'' # ''  version      : '' @ fmt_version (bswap32 (meta_version rom)) @
     CHR ''\<newline>'' # ''  capabilities : '' @ print_meta_capabilities (bswap32 (meta_cap rom)) @
     CHR ''\<newline>'' # (if v > 0 then verbose_lines rom else [])"
  by (simp add: meta_id_text_def verbose_lines_def)

lemma bom_to_str_plain [simp]: "CHR ''\<newline>'' \<notin> set (bom_to_str b)"
  by (simp add: bom_to_str_def)

lemma bom_to_str_inject:
  "bom_to_str a = bom_to_str b \<longleftrightarrow>
     (a AND SVEC_META_BOM_END_MASK = SVEC_META_BOM_BE \<longleftrightarrow> b AND SVEC_META_BOM_END_MASK = SVEC_META_BOM_BE)"
  by (simp add: bom_to_str_def)

lemma next_line:
  \<comment> \<open>one line of two equal texts: the same title, then the values\<close>
  assumes "title @ a @ CHR ''\<newline>'' # x = title @ b @ CHR ''\<newline>'' # y"
    and "CHR ''\<newline>'' \<notin> set a" and "CHR ''\<newline>'' \<notin> set b"
  shows "a = b" and "x = y"
  using split_at [of a "CHR ''\<newline>''" x b y] assms by simp_all

lemma verbose_lines_inject:
  assumes eq: "verbose_lines m = verbose_lines n"
    and len: "length (meta_src m) = 4" "length (meta_uuid m) = 4" "length (meta_src n) = 4" "length (meta_uuid n) = 4"
  shows "bom_to_str (bswap32 (meta_bom m)) = bom_to_str (bswap32 (meta_bom n)) \<and>
    meta_src m = meta_src n \<and> meta_uuid m = meta_uuid n"
proof -
  note 1 = next_line [OF eq [unfolded verbose_lines_def]]
  note 2 = next_line [OF 1(2)]
  note 3 = next_line [OF 2(2)]
  have inj: "map bswap32 xs = map bswap32 ys \<longleftrightarrow> xs = ys" for xs ys
    by (metis bswap32_bswap32 inj_map_eq_map inj_on_inverseI)
  have "fmt_words (map bswap32 (meta_src m)) = fmt_words (map bswap32 (meta_src n))"
    "fmt_words (map bswap32 (meta_uuid m)) = fmt_words (map bswap32 (meta_uuid n))"
    using 2(1) 3(1) by simp_all
  then show ?thesis using 1(1) len by (simp add: fmt_words_inject inj)
qed

text \<open>
  C38.  The metadata as the tool prints them on several lines determine the metadata: two texts are
  equal only if vendor, device, version and capability mask are, and in verbose mode also the
  source and vendor identifiers; of the byte order mark only whether its upper half is the
  big-endian mark is shown.
\<close>
theorem meta_id_text_determines:
  assumes eq: "meta_id_text v m = meta_id_text w n"
    and len: "length (meta_src m) = 4" "length (meta_uuid m) = 4" "length (meta_src n) = 4" "length (meta_uuid n) = 4"
  shows "meta_vendor m = meta_vendor n \<and> meta_device m = meta_device n \<and> meta_version m = meta_version n \<and>
    meta_cap m = meta_cap n \<and> (v > 0 \<longleftrightarrow> w > 0) \<and>
    (v > 0 \<longrightarrow> meta_src m = meta_src n \<and> meta_uuid m = meta_uuid n \<and>
       (bswap32 (meta_bom m) AND SVEC_META_BOM_END_MASK = SVEC_META_BOM_BE \<longleftrightarrow>
        bswap32 (meta_bom n) AND SVEC_META_BOM_END_MASK = SVEC_META_BOM_BE))"
proof -
  note 1 = next_line [OF eq [unfolded meta_id_text_lines]]
  note 2 = next_line [OF 1(2)]
  note 3 = next_line [OF 2(2)]
  note 4 = next_line [OF 3(2)]
  have "bswap32 a = bswap32 b \<longleftrightarrow> a = b" for a b by (metis bswap32_bswap32)
  then have parts: "meta_vendor m = meta_vendor n" "meta_device m = meta_device n" "meta_version m = meta_version n"
    "meta_cap m = meta_cap n"
    using 1(1) 2(1) 3(1) 4(1)
    by (simp_all add: print_meta_vendor_inject print_meta_device_inject fmt_version_inject print_meta_capabilities_inject)
  have rest: "(if v > 0 then verbose_lines m else []) = (if w > 0 then verbose_lines n else [])"
    using 4(2) by simp
  then have vw: "v > 0 \<longleftrightarrow> w > 0" by (auto simp: verbose_lines_def split: if_splits)
  have "v > 0 \<Longrightarrow> verbose_lines m = verbose_lines n" using rest vw by simp
  from verbose_lines_inject [OF this len] parts vw show ?thesis by (simp add: bom_to_str_inject)
qed

definition demo_meta :: "u32 \<Rightarrow> svec_meta_id" where
  \<comment> \<open>the metadata of the base gateware as the host loads them, with a byte order mark of choice\<close>
  "demo_meta bom = \<lparr>meta_vendor = bswap32 0x10dc, meta_device = bswap32 0x53564543, meta_version = bswap32 0x03000000,
     meta_bom = bswap32 bom, meta_src = [1, 2, 3, 4], meta_cap = bswap32 0x13, meta_uuid = [0, 0, 0, 0]\<rparr>"

theorem meta_id_text_determines_witness:
  "meta_id_text 1 (demo_meta 0xFFFE0000) = meta_id_text 1 (demo_meta 0xFFFE0001) \<and>
     meta_bom (demo_meta 0xFFFE0000) \<noteq> meta_bom (demo_meta 0xFFFE0001) \<and>
     meta_src (demo_meta 0xFFFE0000) = meta_src (demo_meta 0xFFFE0001)"
proof -
  have same: "meta_id_text 1 (demo_meta 0xFFFE0000) = meta_id_text 1 (demo_meta 0xFFFE0001)"
    by (simp add: meta_id_text_def demo_meta_def bom_to_str_def bswap32_bswap32 SVEC_META_BOM_END_MASK_def
        SVEC_META_BOM_BE_def)
  moreover have "meta_bom (demo_meta 0xFFFE0000) \<noteq> meta_bom (demo_meta 0xFFFE0001)"
    by (simp add: demo_meta_def bswap32_eq_iff bswap32_bswap32)
  moreover have "meta_src (demo_meta 0xFFFE0000) = meta_src (demo_meta 0xFFFE0001)"
    using meta_id_text_determines [OF same] by (simp add: demo_meta_def)
  ultimately show ?thesis by blast
qed

end
