(* ===== verification/Fw_Tool.thy ===== *)
theory Fw_Tool
  imports Fw_Text
begin

text \<open>
  The firmware version tool as a program: the build information it prints is the one the driver
  shows, where it looks for the metadata of the application, and what it holds when it exits.
\<close>

section \<open>A system to run it on\<close>

fun sysfs_call :: "(u64 \<Rightarrow> bool) \<Rightarrow> ucall event list \<Rightarrow> ucall \<Rightarrow> int" where
  \<comment> \<open>the predicate: lengths that cannot be mapped\<close>
  "sysfs_call bad h (Open p f) = 3"
| "sysfs_call bad h (Mmap n fd off) = (if bad n then - 1 else 0x7000)"
| "sysfs_call bad h (Strndup t) = 0x100"
| "sysfs_call bad h _ = 0"

definition sysfs :: "(u64 \<Rightarrow> bool) \<Rightarrow> (u32 \<Rightarrow> u32) \<Rightarrow> os" where
  \<comment> \<open>a system whose card holds these registers\<close>
  "sysfs bad rom = \<lparr>os_env = \<lparr>env_read = \<lambda>h a. (case a of BAR r \<Rightarrow> rom r | CR r \<Rightarrow> 0), env_jiffies = \<lambda>h. 0,
     env_call = sysfs_call bad\<rparr>, os_int = \<lambda>_ _. 0, os_mapping = \<lambda>_ d. d, os_pagesize = 0x1000\<rparr>"

definition new_tool :: fw_tool where
  "new_tool = \<lparr>trace = [], errno = 0, stdout = [], singleline = False, verbose = 0\<rparr>"

section \<open>Output and calls\<close>

lemma run_put [simp, run_simps]: "run_state (put t) s = ((), s\<lparr>stdout := stdout s @ t\<rparr>)"
  by (simp add: put_def)

definition shown :: "'z fw_tool_scheme \<Rightarrow> svec_meta_id \<Rightarrow> string" where
  \<comment> \<open>the text of a record in the mode the options chose\<close>
  "shown s rom =
     (if singleline s
      then ''0x'' @ fmt_08x (meta_vendor rom) @ '',0x'' @ fmt_08x (meta_device rom) @ '','' @
        fmt_version (meta_version rom) @
        (if verbose s > 0
         then fmt_08x (meta_cap rom) @ '','' @ fmt_08x (meta_bom rom) @ '','' @
           fmt_words (meta_src rom) @ '','' @ fmt_words (meta_uuid rom) else []) @ ''\<newline>''
      else meta_id_text (verbose s) rom)"

lemma run_print_meta:
  "run_state (if singleline s then print_meta_id_one rom else print_meta_id rom) s =
     ((), s\<lparr>stdout := stdout s @ shown s rom\<rparr>)"
  by (simp add: print_meta_id_one_def print_meta_id_def shown_def)

lemma print_meta_at_run:
  "run_state (print_meta_at S title fd offset) s =
     (let m = env_call (os_env S) (trace s) (Mmap 52 fd offset);
          h = Call (Mmap 52 fd offset) m # trace s
      in if m = - 1 then (- 1, s\<lparr>trace := h\<rparr>)
         else (0, s\<lparr>trace := Call (Munmap m 52) (env_call (os_env S) h (Munmap m 52)) # h,
                    stdout := stdout s @ title @ shown s (mapped_meta S h (ucast offset))\<rparr>))"
proof -
  have size: "(of_nat (4 * svec_meta_id_words) :: u64) = 52" by (simp add: svec_meta_id_words_def)
  show ?thesis
    unfolding print_meta_at_def size
    by (simp add: Let_def print_meta_id_one_def print_meta_id_def shown_def)
qed

lemma print_meta_at_balance:
  assumes "run_state (print_meta_at S title fd offset) s = (r, s')"
  shows "(r = 0 \<or> r = - 1) \<and> (\<forall>x. u_balance (trace s') x = u_balance (trace s) x)"
  using assms by (auto simp: print_meta_at_run Let_def split: if_splits)


section \<open>The build information\<close>

definition indented :: "u8 list \<Rightarrow> string" where
  \<comment> \<open>two spaces after every line break\<close>
  "indented bs = concat (map (\<lambda>c. char_of (unat c) # (if c = 10 then ''  '' else [])) bs)"

lemma build_chars_indented:
  "build_chars bs = (indented (fst (bld_info_word bs)), snd (bld_info_word bs))"
  by (induction bs) (auto simp: indented_def split: prod.splits)

lemma indented_append [simp]: "indented (bs @ cs) = indented bs @ indented cs" "indented [] = []"
  by (simp_all add: indented_def)

lemma build_loop_indented:
  assumes "\<And>h a. env_read E h (BAR a) = rom a" and "\<And>h a. env_read (os_env S) h (BAR a) = rom a"
  shows "build_loop S h off = indented (fst (run_state (bld_info_loop E off (BUILDINFO + BUILDINFO_SIZE - 1)) k))"
proof (induction "BUILDINFO + BUILDINFO_SIZE - off" arbitrary: off k rule: less_induct)
  case less
  let ?lim = "BUILDINFO + BUILDINFO_SIZE - 1" and ?w = "bld_info_word (le_bytes (rom (of_nat off)))"
  let ?k = "k\<lparr>trace := Rd (BAR (of_nat off)) (rom (of_nat off)) # trace k\<rparr>"
  show ?case
  proof (cases "off < ?lim")
    case True
    then have "BUILDINFO + BUILDINFO_SIZE - (off + 4) < BUILDINFO + BUILDINFO_SIZE - off" by simp
    note IH = less [OF this, of ?k]
    have "build_loop S h off = indented (fst ?w) @ (if snd ?w then [] else build_loop S h (off + 4))"
      using True by (subst build_loop.simps)
        (simp add: mapped32_def bswap32_bswap32 build_chars_indented assms(2) split: prod.split)
    moreover have "fst (run_state (bld_info_loop E off ?lim) k) =
        fst ?w @ (if snd ?w then [] else fst (run_state (bld_info_loop E (off + 4) ?lim) ?k))"
      using True by (subst bld_info_loop.simps) (simp add: assms(1) split: prod.split)
    ultimately show ?thesis using IH by simp
  next
    case False
    then show ?thesis by (simp add: build_loop.simps [of S h off] bld_info_loop.simps [of E off])
  qed
qed

text \<open>
  C37.  On a gateware whose build information does not change, the tool prints exactly the text
  the driver shows in debugfs, with two spaces after every line break, between its title and a
  final line break; and it unmaps what it mapped.
\<close>
theorem build_info_same_text:
  assumes rom: "\<And>h a. env_read E h (BAR a) = rom a" "\<And>h a. env_read (os_env S) h (BAR a) = rom a"
    and "tst (meta_cap (dev_meta k)) SVEC_META_CAP_BLD"
    and map: "m = env_call (os_env S) (trace s) (Mmap 0x300 fd 0)" "m \<noteq> - 1"
  shows "\<exists>s'. run_state (print_build_info S fd) s = (0, s') \<and>
    stdout s' = stdout s @ ''build-info : \<newline>  '' @
      indented (fst (run_state (svec_fpga_dbg_bld_info svec_base_regs E) k)) @ ''\<newline>'' \<and>
    (\<exists>v. calls (trace s') = calls (trace s) @ [(Mmap 0x300 fd 0, m), (Munmap m 0x300, v)])"
proof -
  have "run_state (svec_fpga_dbg_bld_info svec_base_regs E) k =
      run_state (bld_info_loop E BUILDINFO (BUILDINFO + BUILDINFO_SIZE - 1)) k"
    using assms(3) by (simp add: svec_fpga_dbg_bld_info_def svec_base_regs_def BUILDINFO_def BUILDINFO_SIZE_def)
  then show ?thesis using map build_loop_indented [OF rom, of _ BUILDINFO k]
    by (simp add: print_build_info_def BUILDINFO_def BUILDINFO_SIZE_def)
qed

lemma hello_chars: "char_of (104 :: nat) = CHR ''h''" "char_of (105 :: nat) = CHR ''i''"
    "char_of (10 :: nat) = CHR ''\<newline>''"
  by code_simp+

definition hello_rom :: "u32 \<Rightarrow> u32" where
  "hello_rom r = (if r = 0x200 then 0x000A6968 else 0)"

theorem build_info_same_text_witness:
  "\<exists>s'. run_state (print_build_info (sysfs (\<lambda>_. False) hello_rom) 3) new_tool = (0, s') \<and>
     stdout s' = ''build-info : \<newline>  hi\<newline>  \<newline>''"
proof -
  define S where "S = sysfs (\<lambda>_. False) hello_rom"
  define E :: "unit env" where "E = \<lparr>env_read = \<lambda>h a. (case a of BAR r \<Rightarrow> hello_rom r | CR r \<Rightarrow> 0), env_jiffies = \<lambda>h. 0,
     env_call = \<lambda>h c. 0\<rparr>"
  define k :: "unit svec_dev" where "k = fresh_dev []\<lparr>dev_meta := demo_meta 0\<lparr>meta_cap := SVEC_META_CAP_BLD\<rparr>\<rparr>"
  have k: "tst (meta_cap (dev_meta k)) SVEC_META_CAP_BLD"
    by (simp add: k_def SVEC_META_CAP_BLD_def bit_BIT)
  have content: "fst (run_state (svec_fpga_dbg_bld_info svec_base_regs E) k) = [0x68, 0x69, 0x0A]"
  proof -
    have read: "env_read E h (BAR a) = hello_rom a" for h a by (simp add: E_def)
    show ?thesis using k
      by (simp add: svec_fpga_dbg_bld_info_def svec_base_regs_def bld_info_loop.simps [of E "0x200"] read)
        (simp add: hello_rom_def le_bytes_def byte_of_def)
  qed
  obtain s' where "run_state (print_build_info S 3) new_tool = (0, s')"
    "stdout s' = stdout new_tool @ ''build-info : \<newline>  '' @
      indented (fst (run_state (svec_fpga_dbg_bld_info svec_base_regs E) k)) @ ''\<newline>''"
    using build_info_same_text [of E hello_rom S k "0x7000" new_tool 3] k
    by (auto simp: E_def S_def sysfs_def new_tool_def)
  then show ?thesis unfolding content by (simp add: S_def new_tool_def indented_def hello_chars)
qed

section \<open>The metadata of the application\<close>

lemma app_offset_run:
  "run_state (app_meta_id_offset S M fd) s =
     (let m = env_call (os_env S) (trace s) (Mmap 0x100 fd 0); h = Call (Mmap 0x100 fd 0) m # trace s
      in if m = - 1 then (- 1, s\<lparr>trace := h\<rparr>)
         else (uint (bswap32 (env_read (os_env S) h (BAR (SVEC_FPGA_CSR_APP_OFF M)))),
           s\<lparr>trace := Call (Munmap m 0x100) (env_call (os_env S) h (Munmap m 0x100)) # h\<rparr>))"
  by (simp add: app_meta_id_offset_def mapped32_def Let_def)

text \<open>
  C39.  Where the tool looks for the metadata of the application, with \<open>v\<close> the offset the register
  of the gateware holds: it maps the window at \<open>v\<close> with its bytes reversed, since it does not swap
  what it loads.  It fails exactly if a mapping fails, prints nothing if there is no application,
  and unmaps what it mapped.
\<close>
theorem print_app_meta_id_outcomes:
  assumes "run_state (print_app_meta_id S M fd) s = (r, s')"
    and "m = env_call (os_env S) (trace s) (Mmap 0x100 fd 0)"
    and "v = env_read (os_env S) (Call (Mmap 0x100 fd 0) m # trace s) (BAR (SVEC_FPGA_CSR_APP_OFF M))"
  shows "\<exists>u n w. let off = ucast (bswap32 v); start = [(Mmap 0x100 fd 0, m), (Munmap m 0x100, u)] in
     (m = - 1 \<and> r = - 1 \<and> stdout s' = stdout s \<and> calls (trace s') = calls (trace s) @ [(Mmap 0x100 fd 0, m)]) \<or>
     (m \<noteq> - 1 \<and> v = 0 \<and> r = 0 \<and> stdout s' = stdout s \<and> calls (trace s') = calls (trace s) @ start) \<or>
     (m \<noteq> - 1 \<and> v \<noteq> 0 \<and> n = - 1 \<and> r = - 1 \<and> stdout s' = stdout s \<and>
        calls (trace s') = calls (trace s) @ start @ [(Mmap 52 fd off, n)]) \<or>
     (m \<noteq> - 1 \<and> v \<noteq> 0 \<and> n \<noteq> - 1 \<and> r = 0 \<and>
        (\<exists>h. stdout s' = stdout s @ ''application: '' @ shown s (mapped_meta S h (bswap32 v))) \<and>
        calls (trace s') = calls (trace s) @ start @ [(Mmap 52 fd off, n), (Munmap n 52, w)])"
proof -
  have "bswap32 0 = 0" by (simp add: bswap32_def word_of_bytes_def byte_of_def)
  then have z: "bswap32 v = 0 \<longleftrightarrow> v = 0" using bswap32_eq_iff [of v 0] by simp
  have c: "ucast (ucast w :: u64) = w" for w :: u32 by (rule bit_word_eqI) (simp add: bit_simps)
  have o: "(word_of_int (uint w) :: u64) = ucast w" for w :: u32 by (rule ucast_eq [symmetric])
  show ?thesis
  proof (cases "m = - 1")
    case True
    then have "run_state (print_app_meta_id S M fd) s = (- 1, s\<lparr>trace := Call (Mmap 0x100 fd 0) m # trace s\<rparr>)"
      unfolding print_app_meta_id_def by (simp add: app_offset_run Let_def flip: assms(2))
    then show ?thesis using assms(1) True by (auto simp: Let_def)
  next
    case False
    define u where "u = env_call (os_env S) (Call (Mmap 0x100 fd 0) m # trace s) (Munmap m 0x100)"
    define h where "h = Call (Munmap m 0x100) u # Call (Mmap 0x100 fd 0) m # trace s"
    have run: "run_state (app_meta_id_offset S M fd) s = (uint (bswap32 v), s\<lparr>trace := h\<rparr>)"
      unfolding app_offset_run Let_def assms(2) [symmetric] assms(3) [symmetric] using False
      by (simp add: h_def u_def)
    have calls: "calls h = calls (trace s) @ [(Mmap 0x100 fd 0, m), (Munmap m 0x100, u)]" by (simp add: h_def)
    show ?thesis
    proof (cases "v = 0")
      case True
      then have "run_state (print_app_meta_id S M fd) s = (0, s\<lparr>trace := h\<rparr>)"
        using run z by (simp add: print_app_meta_id_def)
      then show ?thesis using assms(1) calls True False by (intro exI [of _ u]) (auto simp: Let_def)
    next
      case v: False
      then have "uint (bswap32 v) \<noteq> 0" using z by (simp add: unsigned_eq_0_iff)
      then have at: "run_state (print_meta_at S ''application: '' fd (ucast (bswap32 v))) (s\<lparr>trace := h\<rparr>) = (r, s')"
        using assms(1) run o by (simp add: print_app_meta_id_def)
      define n where "n = env_call (os_env S) h (Mmap 52 fd (ucast (bswap32 v)))"
      have sh: "shown (s\<lparr>trace := h\<rparr>) m = shown s m" for m by (simp add: shown_def)
      show ?thesis
      proof (cases "n = - 1")
        case True
        then have "r = - 1 \<and> s' = s\<lparr>trace := Call (Mmap 52 fd (ucast (bswap32 v))) n # h\<rparr>"
          using at by (auto simp: print_meta_at_run n_def [symmetric] Let_def)
        then show ?thesis using True False v calls by (intro exI [of _ u] exI [of _ n]) (auto simp: Let_def)
      next
        case n: False
        let ?h = "Call (Mmap 52 fd (ucast (bswap32 v))) n # h"
        have "r = 0 \<and> stdout s' = stdout s @ ''application: '' @ shown s (mapped_meta S ?h (bswap32 v)) \<and>
            (\<exists>w. trace s' = Call (Munmap n 52) w # ?h)"
          using at n by (auto simp: print_meta_at_run n_def [symmetric] Let_def c sh)
        then show ?thesis using n False v calls by (auto simp: Let_def)
      qed
    qed
  qed
qed

text \<open>The register holds the offset 0x400000 in the byte order of the bus; the tool maps 0x4000.\<close>

theorem print_app_meta_id_outcomes_witness:
  "\<exists>s'. run_state (print_app_meta_id (sysfs (\<lambda>n. n = 52) (\<lambda>r. 0x00400000)) svec_base_regs 3) new_tool = (- 1, s') \<and>
     stdout s' = [] \<and>
     calls (trace s') = [(Mmap 0x100 3 0, 0x7000), (Munmap 0x7000 0x100, 0), (Mmap 52 3 0x4000, - 1)]"
proof -
  let ?S = "sysfs (\<lambda>n. n = 52) (\<lambda>r. 0x00400000)"
  have call: "env_call (os_env ?S) h (Mmap n fd off) = (if n = 52 then - 1 else 0x7000)"
      "env_call (os_env ?S) h (Munmap a n) = 0" "env_read (os_env ?S) h (BAR b) = 0x00400000" for h n fd off a b
    by (simp_all add: sysfs_def)
  have swap: "bswap32 0x00400000 = 0x4000" by (simp add: bswap32_def word_of_bytes_def byte_of_def)
  have run: "\<exists>s'. run_state (print_app_meta_id ?S svec_base_regs 3) new_tool = (- 1, s') \<and>
     calls (trace s') = [(Mmap 0x100 3 0, 0x7000), (Munmap 0x7000 0x100, 0), (Mmap 52 3 0x4000, - 1)]"
    by (simp add: print_app_meta_id_def app_offset_run print_meta_at_run Let_def call swap new_tool_def)
  then obtain s' where s': "run_state (print_app_meta_id ?S svec_base_regs 3) new_tool = (- 1, s')"
    and calls: "calls (trace s') = [(Mmap 0x100 3 0, 0x7000), (Munmap 0x7000 0x100, 0), (Mmap 52 3 0x4000, - 1)]"
    by blast
  from print_app_meta_id_outcomes [OF s' refl refl] have "stdout s' = []"
    by (auto simp: Let_def call calls new_tool_def)
  then show ?thesis using s' calls by blast
qed

section \<open>The whole program\<close>

lemma print_app_balance:
  assumes "run_state (print_app_meta_id S M fd) s = (r, s')"
  shows "u_balance (trace s') x = u_balance (trace s) x"
proof -
  obtain off s1 where 1: "run_state (app_meta_id_offset S M fd) s = (off, s1)" by fastforce
  then have "u_balance (trace s1) x = u_balance (trace s) x"
    by (auto simp: app_offset_run Let_def split: if_splits)
  moreover have "u_balance (trace s') x = u_balance (trace s1) x"
    using assms 1 print_meta_at_balance by (fastforce simp: print_app_meta_id_def split: if_splits)
  ultimately show ?thesis by simp
qed

lemma print_build_balance:
  assumes "run_state (print_build_info S fd) s = (r, s')"
  shows "u_balance (trace s') x = u_balance (trace s) x"
  using assms by (auto simp: print_build_info_def Let_def split: if_splits)

lemma print_sections_balance:
  assumes "run_state (print_sections S M q fd err) s = (r, s')"
  shows "u_balance (trace s') x = u_balance (trace s) x"
proof -
  obtain e1 s1 where 1: "run_state (if want_base q then print_base_meta_id S M fd else State_Monad.return err) s = (e1, s1)"
    by fastforce
  obtain e2 s2 where 2: "run_state (if want_app q then print_app_meta_id S M fd else State_Monad.return e1) s1 = (e2, s2)"
    by fastforce
  have 3: "run_state (if want_buildinfo q then print_build_info S fd else State_Monad.return e2) s2 = (r, s')"
    using assms 1 2 by (simp add: print_sections_def)
  have "u_balance (trace s1) x = u_balance (trace s) x"
    using 1 print_meta_at_balance [of S "''base: ''" fd _ s e1 s1]
    by (auto simp: print_base_meta_id_def split: if_splits)
  moreover have "u_balance (trace s2) x = u_balance (trace s1) x"
    using 2 print_app_balance [of S M fd s1 e2 s2] by (auto split: if_splits)
  moreover have "u_balance (trace s') x = u_balance (trace s2) x"
    using 3 print_build_balance [of S fd s2 r s'] by (auto split: if_splits)
  ultimately show ?thesis by simp
qed

lemma print_card_balance:
  assumes "run_state (print_card S M q err) s = (r, s')"
  shows "(r = 0 \<or> r = 1) \<and> u_balance (trace s') x = u_balance (trace s) x"
proof -
  define fd where "fd = env_call (os_env S) (trace s) (Open (resource_path (slot q)) O_RDONLY)"
  show ?thesis
  proof (cases "slot q = 0 \<or> fd < 0")
    case True
    then show ?thesis using assms by (cases "slot q = 0") (auto simp: print_card_def fd_def)
  next
    case False
    define s3 where "s3 = s\<lparr>trace := Call (Open (resource_path (slot q)) O_RDONLY) fd # trace s\<rparr>"
    obtain e s4 where sec: "run_state (print_sections S M q fd err) s3 = (e, s4)" by fastforce
    have "r = (if e \<noteq> 0 then 1 else 0)" "\<exists>v. trace s' = Call (Close fd) v # trace s4"
      using assms False sec by (auto simp: print_card_def s3_def fd_def)
    moreover have "u_balance (trace s4) x = u_balance (trace s3) x" by (rule print_sections_balance [OF sec])
    ultimately show ?thesis using False by (auto simp: s3_def)
  qed
qed

lemma parse_options_quiet:
  \<comment> \<open>parsing the options makes no call, and exits with status 0 only\<close>
  "trace (snd (run_state (parse_options version options q) s)) = trace s \<and>
     fst (run_state (parse_options version options q) s) \<in> insert (Inl 0) (range Inr)"
proof (induction options arbitrary: q s)
  case (Cons x os)
  obtain opt optarg where x: "x = (opt, optarg)" by (cases x)
  show ?case unfolding x parse_options.simps using Cons.IH by (simp split: option.split)
qed simp

lemma hello_card:
  "\<exists>s'. run_state (print_card (sysfs (\<lambda>n. n = 52) hello_rom) svec_base_regs
        \<lparr>slot = 8, want_base = True, want_app = False, want_buildinfo = True\<rparr> 0) s = (0, s') \<and>
      stdout s' = stdout s @ ''build-info : \<newline>  hi\<newline>  \<newline>''" for s :: fw_tool
proof -
  let ?S = "sysfs (\<lambda>n. n = 52) hello_rom"
  define s2 where "s2 = s\<lparr>trace := Call (Open (resource_path 8) O_RDONLY) 3 # trace s\<rparr>"
  have read: "env_read (os_env ?S) h (BAR a) = hello_rom a" for h a by (simp add: sysfs_def)
  have loop: "build_loop ?S h BUILDINFO = ''hi\<newline>  ''" for h
    using read
    by (simp add: build_loop.simps [of ?S h BUILDINFO] BUILDINFO_SIZE_def mapped32_def bswap32_bswap32)
      (simp add: BUILDINFO_def hello_rom_def le_bytes_def byte_of_def hello_chars)
  have meta: "run_state (print_base_meta_id ?S M fd) s =
      (- 1, s\<lparr>trace := Call (Mmap 52 fd (ucast (SVEC_BASE_REGS_METADATA M))) (- 1) # trace s\<rparr>)" for M fd and s :: fw_tool
    by (simp add: print_base_meta_id_def print_meta_at_run Let_def sysfs_def)
  have info: "\<exists>s'. run_state (print_build_info ?S fd) s = (0, s') \<and>
      stdout s' = stdout s @ ''build-info : \<newline>  hi\<newline>  \<newline>''" for fd and s :: fw_tool
    by (simp add: print_build_info_def loop) (simp add: sysfs_def BUILDINFO_def BUILDINFO_SIZE_def)
  let ?b = "Call (Mmap 52 3 (ucast (SVEC_BASE_REGS_METADATA svec_base_regs))) (- 1)"
  have "\<exists>s'. run_state (print_sections ?S svec_base_regs
        \<lparr>slot = 8, want_base = True, want_app = False, want_buildinfo = True\<rparr> 3 0) s2 = (0, s') \<and>
      stdout s' = stdout s2 @ ''build-info : \<newline>  hi\<newline>  \<newline>''"
    using info [of 3 "s2\<lparr>trace := ?b # trace s2\<rparr>"] by (simp add: print_sections_def meta)
  moreover have "stdout s2 = stdout s" by (simp add: s2_def)
  moreover have "env_call (os_env ?S) h (Open p f) = 3" for h p f by (simp add: sysfs_def)
  ultimately show ?thesis by (auto simp: print_card_def s2_def)
qed

text \<open>
  C40.  Whatever the options, the gateware and the system do: if the exit handler can be registered,
  the tool exits with status 0 or 1 and has given back everything it took.
\<close>
theorem fw_version_main_balanced:
  assumes "run_state (fw_version_main S M argv0 git_version options) s = (r, s')"
    and "\<And>h. env_call (os_env S) h Atexit = 0"
  shows "(r = 0 \<or> r = 1) \<and> (\<forall>x. u_balance (trace s') x = u_balance (trace s) x)"
proof -
  define name where "name = env_call (os_env S) (trace s) (Strndup (take 64 argv0))"
  define s1 where "s1 = s\<lparr>trace := Call Atexit 0 # Call (Strndup (take 64 argv0)) name # trace s\<rparr>"
  define q where "q = \<lparr>slot = 0, want_base = False, want_app = False, want_buildinfo = False\<rparr>"
  define version where "version = version_text (take 64 argv0) git_version"
  obtain p s2 where p: "run_state (parse_options version options q) s1 = (p, s2)" by fastforce
  have t2: "trace s2 = trace s1" using parse_options_quiet [of version options q s1] p by simp
  have code: "c = 0" if "p = Inl c" for c
    using parse_options_quiet [of version options q s1] p that by auto
  show ?thesis
  proof (cases "name = 0")
    case True
    then show ?thesis using assms(1) by (auto simp: fw_version_main_def name_def)
  next
    case False
    obtain c s3 where c: "run_state (case p of Inl code \<Rightarrow> State_Monad.return code | Inr q \<Rightarrow> print_card S M q 0) s2 = (c, s3)"
      by fastforce
    have end': "r = c" "\<exists>v. trace s' = Call (Free name) v # trace s3"
      using assms p c False
      by (auto simp: fw_version_main_def name_def [symmetric] s1_def [symmetric] q_def [symmetric] version_def [symmetric])
    have "(c = 0 \<or> c = 1) \<and> u_balance (trace s3) x = u_balance (trace s2) x" for x
    proof (cases p)
      case (Inl a)
      then show ?thesis using c code by auto
    next
      case (Inr q')
      then show ?thesis using c print_card_balance [of S M q' 0 s2 c s3 x] by simp
    qed
    then show ?thesis using end' t2 False by (auto simp: s1_def)
  qed
qed

text \<open>
  The metadata cannot be mapped and nothing of them is printed, but the build information can, and
  the status is 0.
\<close>

theorem fw_version_main_balanced_witness:
  "\<exists>s'. run_state (fw_version_main (sysfs (\<lambda>n. n = 52) hello_rom) svec_base_regs ''svec-firmware-version'' ''v1''
       [(CHR ''s'', ''8''), (CHR ''b'', []), (CHR ''B'', [])]) new_tool = (0, s') \<and>
     stdout s' = ''build-info : \<newline>  hi\<newline>  \<newline>'' \<and> (\<forall>x. u_balance (trace s') x = 0)"
proof -
  let ?S = "sysfs (\<lambda>n. n = 52) hello_rom"
  have slot: "scan_d ''8'' = Some 8" by (simp add: scan_d_def)
  define s1 where "s1 = new_tool\<lparr>trace := [Call Atexit 0, Call (Strndup ''svec-firmware-version'') 0x100]\<rparr>"
  have call: "env_call (os_env ?S) h (Strndup t) = 0x100" "env_call (os_env ?S) h Atexit = 0" for h t
    by (simp_all add: sysfs_def)
  obtain s' where run: "run_state (fw_version_main ?S svec_base_regs ''svec-firmware-version'' ''v1''
       [(CHR ''s'', ''8''), (CHR ''b'', []), (CHR ''B'', [])]) new_tool = (0, s')"
    and out: "stdout s' = ''build-info : \<newline>  hi\<newline>  \<newline>''"
    using hello_card [of s1]
    by (auto intro!: that simp: fw_version_main_def slot call s1_def new_tool_def)
  have "env_call (os_env ?S) h Atexit = 0" for h by (simp add: sysfs_def)
  from fw_version_main_balanced [OF run this] have "\<forall>x. u_balance (trace s') x = 0"
    by (simp add: new_tool_def)
  then show ?thesis using run out by blast
qed

end
