(* ===== verification/Spec2Isabelle.thy ===== *)
theory Spec2Isabelle
  imports Loader_Outcomes Fpga_Parts Core_Load Vmebus_Window Vmebus_Requests Flash_Verify Direct_Load Fw_Tool
begin

text \<open>
  Verification library of the software of the SVEC, a VME carrier for two FMC mezzanines with two
  FPGAs: the System FPGA, which holds a bootloader, and the Application FPGA, which the host loads
  through it.

  \<^bold>\<open>The program.\<close>  \<open>software/kernel\<close> is the Linux driver: \<open>svec-core.c\<close> probes a card, feeds
  bitstreams to the bootloader as the operations of an FPGA manager, and \<open>svec-core-fpga.c\<close> starts
  what a loaded gateware announces in its metadata.  \<open>software/tools\<close> are user programs:
  \<open>svec-flasher.c\<close> writes bitstreams to the flash memory of the card or straight to the FPGA through
  the library \<open>libvmebus.c\<close>, and \<open>svec-firmware-version.c\<close> prints the metadata of a gateware.
  Driver and flasher drive the same bootloader (\<open>hdl/rtl/bootloader\<close>), driver and version tool read
  the same registers of the base gateware (\<open>hdl/rtl/svec_base_wr.vhd\<close>).

  \<^bold>\<open>How code is modelled.\<close>  A C function is a definition of its name.  A stateful one is a
  computation of the state monad over a record that extends \<open>machine\<close> by the variables it uses;
  its first parameter is the environment, an arbitrary function from everything that happened so
  far (the trace of register accesses, calls, sleeps and clock readings) to the next answer.  A
  theorem about all environments holds for every device and every kernel.  Error codes are
  negative integers as in the code; labels of the error paths are definitions of their own.
  Machine integers are words of their width.  A function that polls without a bound is a
  \<open>partial_function\<close> into options, \<open>None\<close> meaning that it never returns; \<open>None\<close> also stands for the
  null pointer access of \<open>svec_fpga_devices_init\<close> and for an access outside the flasher's sector
  map.  Bounded loops are structural or have a measure; no fuel is used, and the one bound of the code,
  10000 retries on a full FIFO, is the code's own.

  \<^bold>\<open>Foundations.\<close>  \<open>Svec_Prelude\<close> (words, bytes, byte order, conversions of \<open>printf\<close>; the
  collections \<open>run_simps\<close>, \<open>byte_simps\<close>, \<open>reg_defs\<close>), \<open>Machine\<close> (traces, environments, accounts of
  resources), \<open>C_String\<close> (string functions on byte lists), \<open>Polling\<close> (when an unbounded polling loop returns),
  \<open>Printed_Text\<close> (printed numbers can be read back).

  \<^bold>\<open>Loading a bitstream\<close> (\<open>svec-core.c\<close>, the FPGA manager).  \<open>Xloader_Regs\<close> holds both register
  headers, \<open>Svec_Header\<close> the structures of \<open>svec.h\<close>, \<open>Svec_Loader\<close> the operations
  \<open>svec_fpga_write_init\<close>, \<open>svec_fpga_write\<close>, \<open>svec_fpga_write_complete\<close> and all they call.  The locale
  \<open>loader_fifo\<close> in \<open>Loader_Interface\<close> is the contract of the device: a word and a size pushed when
  the status shows room enter the FIFO.  Its lemmas say what the operations push.  It is
  interpreted on the bare protocol (\<open>proto\<close>) and in \<open>Bootloader_Hw\<close> on the bootloader (\<open>hw\<close>): trigger
  detector, register bank, FIFO and serial loader, one definition per process of the VHDL.
  \<open>Loader_Session\<close> puts the operations together: a session transfers the bitstream on every
  device, and against the bootloader the bytes on the configuration wire are the bitstream for
  every schedule of the loader.  \<open>Loader_Outcomes\<close> has single operations on every branch and the
  end of the wait for DONE.

  \<^bold>\<open>A running gateware\<close> (\<open>svec-core-fpga.c\<close>).  \<open>Kernel_Api\<close> lists the calls of the kernel and the
  register map, \<open>Fpga_Tables\<close> holds the tables that other drivers and the user see (debugfs,
  sysfs, partitions, data of the I2C and SPI controllers), \<open>Fpga_Meta\<close> models metadata, version test and build information, \<open>Fpga_Attr\<close> the
  attributes, \<open>Fpga_Init\<close> interrupt controller, devices, carrier, application, \<open>svec_fpga_init\<close> and
  \<open>svec_fpga_exit\<close>.  \<open>Base_Gateware\<close> gives the registers of the base gateware as an environment and
  shows what the driver reads from it; the locale \<open>rw_register\<close> of \<open>Fpga_Attr\<close>, a register that
  keeps the bits written to it, is interpreted on its reset register.  \<open>Fpga_Lifecycle\<close> accounts for
  every resource the kernel hands out, part by part and over whole executions; \<open>Fpga_Parts\<close> has
  functional properties of the parts.

  \<^bold>\<open>The life of a card\<close> (\<open>svec-core.c\<close>, \<open>svec-compat.c\<close>).  \<open>Core_Probe\<close> models probing, removing,
  loading by name on each kind of kernel (\<open>linux\<close>) and the registration of the module.
  \<open>Core_Lifecycle\<close> has the step relation \<open>svec_step\<close> of a card (probe, load, remove, in any order the
  kernel allows) and the invariant of its reachable states; \<open>Core_Load\<close> the order of the calls.

  \<^bold>\<open>The tools.\<close>  \<open>User_Api\<close> lists system calls and the descriptors of \<open>vmebus.h\<close>; \<open>Vmebus_Lib\<close> is
  \<open>libvmebus.c\<close>, \<open>Vmebus_Window\<close> its contract; \<open>Vmebus_Requests\<close> has the request numbers of the
  driver and its enumerations as numbers.  \<open>Flasher\<close> is \<open>svec-flasher.c\<close>.  The locales
  \<open>flash_chip\<close> and \<open>flash_device\<close> of \<open>Flash_Chip\<close> state what the data sheet of the flash memory
  promises, over the bytes exchanged on the SPI bus; they are interpreted on a chip that follows it
  (\<open>m25p\<close>).  \<open>Flash_Image\<close>, \<open>Flash_Driver\<close> and \<open>Flash_Program\<close> show that programming leaves the image
  in the chip, \<open>Flash_Main\<close> the same of the whole program, with the partitions of the kernel
  driver, \<open>Flash_Verify\<close> what a success and a refusal mean on any device, and the update of the
  bootloader, \<open>Direct_Load\<close> that the direct load delivers the image and returns.  \<open>Fw_Version\<close> is
  \<open>svec-firmware-version.c\<close>; \<open>Fw_Text\<close> shows that its text determines the metadata, \<open>Fw_Tool\<close> that
  it shows what the driver shows and gives back what it takes.

  \<^bold>\<open>Bounds in the theorems.\<close>  The flasher's theorems cover files of up to 15 MiB: behind that the
  image leaves the 16 MiB of the chip, and the code accesses memory behind its sector map.  The
  termination of the wait for DONE assumes a tick counter that advances while the driver sleeps,
  with ticks of at least 900 microseconds, one polling period.  Addresses of mappings need a page
  size that is a power of two.

  \<^bold>\<open>Not modelled.\<close>  Diagnostic output and the texts of the standard error output; file operations
  and device types, which only name callbacks, and callbacks with an empty body; the kernel half of
  \<open>vmebus.h\<close>, its read-modify-write cycle and constants that neither library nor tools use.  Of the gateware:
  clocks, pins, the boot from flash memory, DDR, White Rabbit, simulation and board support.  The
  kernel, the C library, the VME bus driver and the flash memory are not part of the repository
  and are parameters throughout.  Memory is not an address space: a pointer the kernel hands out is an
  identity, and two threads do not run the driver at once (the mutex of the card is recorded, not
  contended).
\<close>

end
